(* ===== verification/Prelude.thy ===== *)
theory Prelude
  imports Main "HOL-Library.Multiset" "HOL-Library.Monad_Syntax"
begin

section \<open>Prelude: panics, slices, flag maps and shared facts\<close>

text \<open>
  What every component of the model shares.

  A Go computation that can panic returns \<open>'a go\<close>, which is an option: \<open>None\<close> is the
  panic (an index out of range, a failed type assertion), \<open>Some v\<close> a normal return.
  \<open>do\<close> notation threads it. Slicing \<open>xs[:c]\<close> and indexing \<open>xs[i]\<close> are the two operations
  of the source that panic on their own.

  A Go \<open>map[string]string\<close> is a HOL map; reading an absent key gives the empty string,
  which is \<open>mget\<close>.
\<close>

type_synonym 'a go = "'a option"

named_theorems go_simps \<open>evaluation of the Go primitives\<close>

subsection \<open>Maps of strings\<close>

type_synonym flags = "string \<rightharpoonup> string"

definition mget :: "flags \<Rightarrow> string \<Rightarrow> string" where
  "mget m k = (case m k of None \<Rightarrow> [] | Some v \<Rightarrow> v)"

lemma mget_empty [simp]: "mget Map.empty k = []"
  by (simp add: mget_def)

lemma mget_upd [simp]: "mget (m(k \<mapsto> v)) j = (if j = k then v else mget m j)"
  by (simp add: mget_def)

lemma mget_upd_None [simp]: "mget (m(k := None)) j = (if j = k then [] else mget m j)"
  by (simp add: mget_def)

subsection \<open>Slices\<close>

text \<open>
  \<open>xs[:c]\<close>. Go allows \<open>c\<close> up to the capacity; every use in the source has \<open>c\<close> at most the
  length, which \<open>GetResourceCount_le\<close> proves, so the difference never shows.
\<close>

definition slice_to :: "'a list \<Rightarrow> int \<Rightarrow> 'a list go" where
  "slice_to xs c = (if 0 \<le> c \<and> c \<le> int (length xs) then Some (take (nat c) xs) else None)"

definition index_at :: "'a list \<Rightarrow> int \<Rightarrow> 'a go" where
  "index_at xs i = (if 0 \<le> i \<and> i < int (length xs) then Some (xs ! nat i) else None)"

lemma slice_to_0 [simp]: "slice_to xs 0 = Some []"
  by (simp add: slice_to_def)

lemma slice_to_neg [simp]: "c < 0 \<Longrightarrow> slice_to xs c = None"
  by (simp add: slice_to_def)

lemma slice_to_ok: "0 \<le> c \<Longrightarrow> c \<le> int (length xs) \<Longrightarrow> slice_to xs c = Some (take (nat c) xs)"
  by (simp add: slice_to_def)

lemma slice_to_SomeD:
  "slice_to xs c = Some ys \<Longrightarrow> 0 \<le> c \<and> c \<le> int (length xs) \<and> ys = take (nat c) xs"
  by (simp add: slice_to_def split: if_splits)

lemma index_at_ok: "i < length xs \<Longrightarrow> index_at xs (int i) = Some (xs ! i)"
  by (simp add: index_at_def)

lemma index_at_oob: "i < 0 \<or> int (length xs) \<le> i \<Longrightarrow> index_at xs i = None"
  by (auto simp: index_at_def)

subsection \<open>Loops that thread a world and may panic\<close>

text \<open>
  A \<open>for\<close> loop whose body calls out: each element yields a value, the world is threaded,
  and a panic in the body ends the loop. \<open>mapM_w\<close> is that loop.
\<close>

fun mapM_w :: "('a \<Rightarrow> 'w \<Rightarrow> ('b \<times> 'w) go) \<Rightarrow> 'a list \<Rightarrow> 'w \<Rightarrow> ('b list \<times> 'w) go" where
  "mapM_w f [] w = Some ([], w)"
| "mapM_w f (x # xs) w =
     do { (y, w1) \<leftarrow> f x w; (ys, w2) \<leftarrow> mapM_w f xs w1; Some (y # ys, w2) }"

lemma mapM_w_length: "mapM_w f xs w = Some (ys, w') \<Longrightarrow> length ys = length xs"
  by (induction xs arbitrary: w ys w') (auto split: Option.bind_splits)

lemma mapM_w_all:
  assumes "mapM_w f xs w = Some (ys, w')"
    and "\<And>x u y u'. x \<in> set xs \<Longrightarrow> f x u = Some (y, u') \<Longrightarrow> P x y"
  shows "list_all2 P xs ys"
  using assms by (induction xs arbitrary: w ys w') (fastforce split: Option.bind_splits)+

lemma mapM_w_inv:
  assumes "mapM_w f xs w = Some (ys, w')" "P w"
    and step: "\<And>x u y u'. x \<in> set xs \<Longrightarrow> P u \<Longrightarrow> f x u = Some (y, u') \<Longrightarrow> P u'"
  shows "P w'"
  using assms
proof (induction xs arbitrary: w ys)
  case Nil
  then show ?case by simp
next
  case (Cons x xs)
  from Cons.prems(1) obtain y u zs where f: "f x w = Some (y, u)" and r: "mapM_w f xs u = Some (zs, w')"
    by (auto split: Option.bind_splits)
  have "P u" using Cons.prems(2,3) f by (meson list.set_intros(1))
  then show ?case using Cons.IH [OF r] Cons.prems(3) by (meson list.set_intros(2))
qed

lemma mapM_w_total:
  assumes "\<And>x u. x \<in> set xs \<Longrightarrow> f x u \<noteq> None"
  shows "mapM_w f xs w \<noteq> None"
  using assms
proof (induction xs arbitrary: w)
  case Nil
  then show ?case by simp
next
  case (Cons x xs)
  then obtain y u where "f x w = Some (y, u)" by fastforce
  moreover have "mapM_w f xs u \<noteq> None" using Cons by simp
  ultimately show ?case by auto
qed

subsection \<open>Maps from a key to a growing list\<close>

text \<open>
  The source builds \<open>map[string][]T\<close> values by appending to the list of a key. The model keeps
  the entries in the order of first insertion; a Go map has no order, so a loop over it goes
  through the keys in the order an argument \<open>ord\<close> of the model picks.
\<close>

fun multi_add :: "'k \<Rightarrow> 'v \<Rightarrow> ('k \<times> 'v list) list \<Rightarrow> ('k \<times> 'v list) list" where
  "multi_add k v [] = [(k, [v])]"
| "multi_add k v ((k', vs) # m) =
     (if k = k' then (k', vs @ [v]) # m else (k', vs) # multi_add k v m)"

definition multi_map :: "('k \<times> 'v) list \<Rightarrow> ('k \<times> 'v list) list" where
  "multi_map kvs = foldl (\<lambda>m (k, v). multi_add k v m) [] kvs"

definition values_of :: "'k \<Rightarrow> ('k \<times> 'v) list \<Rightarrow> 'v list" where
  "values_of k kvs = map snd (filter (\<lambda>(k', v). k' = k) kvs)"

lemma multi_add_keys: "fst ` set (multi_add k v m) = insert k (fst ` set m)"
  by (induction k v m rule: multi_add.induct) auto

lemma multi_add_distinct: "distinct (map fst m) \<Longrightarrow> distinct (map fst (multi_add k v m))"
proof (induction k v m rule: multi_add.induct)
  case (2 k v k' vs m)
  then show ?case using multi_add_keys [of k v m] by auto
qed simp

lemma map_of_multi_add:
  "map_of (multi_add k v m) j =
     (if j = k then Some ((case map_of m k of None \<Rightarrow> [] | Some vs \<Rightarrow> vs) @ [v]) else map_of m j)"
  by (induction k v m rule: multi_add.induct) auto

lemma multi_map_snoc: "multi_map (kvs @ [(k, v)]) = multi_add k v (multi_map kvs)"
  by (simp add: multi_map_def)

lemma multi_map_Nil [simp]: "multi_map [] = []"
  by (simp add: multi_map_def)

lemma values_of_snoc: "values_of k (kvs @ [(j, v)]) = values_of k kvs @ (if j = k then [v] else [])"
  by (simp add: values_of_def)

lemma multi_map_distinct: "distinct (map fst (multi_map kvs))"
  by (induction kvs rule: rev_induct) (auto simp: multi_map_snoc multi_add_distinct)

lemma multi_map_keys: "fst ` set (multi_map kvs) = fst ` set kvs"
proof (induction kvs rule: rev_induct)
  case (snoc x kvs)
  then show ?case by (cases x) (simp only: multi_map_snoc multi_add_keys, simp)
qed simp

lemma map_of_multi_map:
  "map_of (multi_map kvs) k = (if k \<in> fst ` set kvs then Some (values_of k kvs) else None)"
proof (induction kvs rule: rev_induct)
  case Nil
  then show ?case by simp
next
  case (snoc x kvs)
  obtain j v where x: "x = (j, v)" by (cases x)
  have "values_of k kvs = []" if "k \<notin> fst ` set kvs"
    using that by (force simp: values_of_def filter_empty_conv)
  with snoc show ?case
    by (auto simp: x multi_map_snoc map_of_multi_add values_of_snoc)
qed

lemma mem_values_of: "v \<in> set (values_of k kvs) \<longleftrightarrow> (k, v) \<in> set kvs"
  by (force simp: values_of_def)

lemma filter_concat_groups:
  assumes "distinct ks" and "\<And>k x. k \<in> set ks \<Longrightarrow> x \<in> set (g k) \<Longrightarrow> f x = k"
  shows "filter (\<lambda>x. f x = v) (concat (map g ks)) = (if v \<in> set ks then g v else [])"
  using assms
proof (induction ks)
  case Nil
  then show ?case by simp
next
  case (Cons k ks)
  have "filter (\<lambda>x. f x = v) (g k) = (if k = v then g k else [])"
    using Cons.prems(2) [of k] by (auto simp: filter_id_conv filter_empty_conv)
  with Cons show ?case by auto
qed

subsection \<open>Multisets of lists\<close>

lemma mset_take_subset: "mset (take n xs) \<subseteq># mset xs"
  by (metis append_take_drop_id mset_append mset_subset_eq_add_left)

lemma mset_swap_nth:
  "i < length xs \<Longrightarrow> j < length xs \<Longrightarrow> mset (xs[i := xs ! j, j := xs ! i]) = mset xs"
  by (rule mset_swap)

lemma distinct_sub_mset:
  assumes "mset ys \<subseteq># mset xs" and "distinct xs"
  shows "distinct ys"
proof -
  have le: "count (mset ys) a \<le> 1" for a
    using assms(2) [unfolded distinct_count_atmost_1, rule_format, of a]
      mset_subset_eq_count [OF assms(1), of a]
    by (metis One_nat_def le_SucI le_zero_eq order.trans order_refl)
  have "count (mset ys) a = (if a \<in> set ys then 1 else 0)" for a
    using le [of a] count_greater_zero_iff [of "mset ys" a]
    by (auto simp del: count_greater_zero_iff)
  then show ?thesis by (simp add: distinct_count_atmost_1)
qed

end
