(* ===== verification/GoStrings.thy ===== *)
theory GoStrings
  imports Prelude
begin

section \<open>The string operations of the Go standard library\<close>

text \<open>
  \<open>strings.Split\<close>, \<open>SplitN\<close>, \<open>Join\<close>, \<open>TrimSpace\<close>, \<open>HasPrefix\<close>, \<open>HasSuffix\<close>, \<open>TrimPrefix\<close>,
  \<open>ReplaceAll\<close>, \<open>strconv.Atoi\<close> and the decimal verb \<open>%d\<close>, as the program uses them. A Go
  string is a sequence of bytes, so a HOL \<open>string\<close> models it byte for byte. Separators are
  single bytes, which is all the source uses.
\<close>

subsection \<open>Split and Join\<close>

fun go_split :: "char \<Rightarrow> string \<Rightarrow> string list" where
  "go_split c [] = [[]]"
| "go_split c (x # xs) =
     (if x = c then [] # go_split c xs
      else (case go_split c xs of [] \<Rightarrow> [[x]] | y # ys \<Rightarrow> (x # y) # ys))"

fun go_join :: "string \<Rightarrow> string list \<Rightarrow> string" where
  "go_join sep [] = []"
| "go_join sep [x] = x"
| "go_join sep (x # y # ys) = x @ sep @ go_join sep (y # ys)"

text \<open>\<open>SplitN(s, c, n)\<close> for \<open>n > 0\<close>: at most \<open>n\<close> pieces, the last one unsplit.\<close>

fun go_splitN :: "nat \<Rightarrow> char \<Rightarrow> string \<Rightarrow> string list" where
  "go_splitN 0 c s = []"
| "go_splitN (Suc 0) c s = [s]"
| "go_splitN (Suc (Suc n)) c s =
     (case dropWhile (\<lambda>x. x \<noteq> c) s of
        [] \<Rightarrow> [s]
      | _ # rest \<Rightarrow> takeWhile (\<lambda>x. x \<noteq> c) s # go_splitN (Suc n) c rest)"

lemma go_split_nonempty [simp]: "go_split c s \<noteq> []"
  by (induction s) (auto split: list.splits)

lemma go_split_no_sep [simp]: "c \<notin> set s \<Longrightarrow> go_split c s = [s]"
  by (induction s) auto

lemma go_split_parts: "x \<in> set (go_split c s) \<Longrightarrow> c \<notin> set x"
  by (induction s arbitrary: x) (auto split: list.splits if_splits)

lemma go_split_append:
  "go_split c (s @ c # t) = go_split c s @ go_split c t"
proof (induction s)
  case Nil
  then show ?case by simp
next
  case (Cons x s)
  then show ?case
    by (cases "go_split c s") auto
qed

lemma go_split_append_part:
  "c \<notin> set s \<Longrightarrow> go_split c (s @ c # t) = s # go_split c t"
  by (simp add: go_split_append)

lemma go_join_split: "go_join [c] (go_split c s) = s"
proof (induction s)
  case Nil
  then show ?case by simp
next
  case (Cons x s)
  obtain y ys where "go_split c s = y # ys"
    by (cases "go_split c s") auto
  with Cons show ?case by (cases ys) auto
qed

lemma go_split_join:
  "xs \<noteq> [] \<Longrightarrow> (\<forall>x\<in>set xs. c \<notin> set x) \<Longrightarrow> go_split c (go_join [c] xs) = xs"
proof (induction xs)
  case Nil
  then show ?case by simp
next
  case (Cons x xs)
  then show ?case
    by (cases xs) (auto simp: go_split_append_part)
qed

lemma go_split_single: "go_split c s = [x] \<longleftrightarrow> c \<notin> set s \<and> x = s"
proof
  assume "go_split c s = [x]"
  then show "c \<notin> set s \<and> x = s"
    using go_join_split [of c s] go_split_parts [of x c s] by simp
next
  assume "c \<notin> set s \<and> x = s"
  then show "go_split c s = [x]" by simp
qed

lemma length_go_split_gt1: "1 < length (go_split c s) \<longleftrightarrow> c \<in> set s"
proof (cases "go_split c s")
  case Nil
  then show ?thesis by simp
next
  case (Cons y ys)
  have "ys = [] \<longleftrightarrow> c \<notin> set s"
  proof
    assume "ys = []"
    with Cons have "go_split c s = [y]" by simp
    then show "c \<notin> set s" by (rule go_split_single [THEN iffD1, THEN conjunct1])
  next
    assume "c \<notin> set s"
    with Cons show "ys = []" by simp
  qed
  with Cons show ?thesis by simp
qed

lemma go_splitN_part:
  "c \<notin> set a \<Longrightarrow> go_splitN (Suc (Suc n)) c (a @ c # t) = a # go_splitN (Suc n) c t"
  by (simp add: dropWhile_append takeWhile_append)

lemma go_splitN_last:
  "c \<notin> set a \<Longrightarrow> go_splitN (Suc n) c a = [a]"
proof -
  assume "c \<notin> set a"
  then have "dropWhile (\<lambda>x. x \<noteq> c) a = []" by (induction a) auto
  then show ?thesis by (cases n) (simp_all del: dropWhile_eq_Nil_conv)
qed

lemma length_go_splitN_le: "length (go_splitN n c s) \<le> n"
  by (induction n c s rule: go_splitN.induct) (auto split: list.splits)

subsection \<open>Prefixes and suffixes\<close>

definition has_prefix :: "string \<Rightarrow> string \<Rightarrow> bool" where
  "has_prefix s p = (take (length p) s = p)"

definition has_suffix :: "string \<Rightarrow> string \<Rightarrow> bool" where
  "has_suffix s p = has_prefix (rev s) (rev p)"

definition trim_prefix :: "string \<Rightarrow> string \<Rightarrow> string" where
  "trim_prefix s p = (if has_prefix s p then drop (length p) s else s)"

lemma has_prefix_Nil [simp]: "has_prefix s []"
  by (simp add: has_prefix_def)

lemma has_prefix_append [simp]: "has_prefix (p @ s) p"
  by (simp add: has_prefix_def)

lemma has_prefix_iff: "has_prefix s p \<longleftrightarrow> (\<exists>t. s = p @ t)"
  by (metis append_take_drop_id has_prefix_append has_prefix_def)

lemma trim_prefix_append [simp]: "trim_prefix (p @ s) p = s"
  by (simp add: trim_prefix_def)

lemma has_prefix_length: "has_prefix s p \<Longrightarrow> length p \<le> length s"
  by (auto simp: has_prefix_iff)

subsection \<open>ReplaceAll\<close>

text \<open>\<open>strings.ReplaceAll(s, old, new)\<close> for a non-empty \<open>old\<close>: leftmost, non-overlapping.\<close>

function replace_all :: "string \<Rightarrow> string \<Rightarrow> string \<Rightarrow> string" where
  "replace_all old new [] = []"
| "replace_all old new (x # xs) =
     (if old \<noteq> [] \<and> has_prefix (x # xs) old
      then new @ replace_all old new (drop (length old) (x # xs))
      else x # replace_all old new xs)"
  by pat_completeness auto
termination
  by (relation "measure (\<lambda>(old, new, s). length s)") auto

declare replace_all.simps(2) [simp del]

lemma replace_all_cons_no:
  "\<not> has_prefix (x # xs) old \<Longrightarrow> replace_all old new (x # xs) = x # replace_all old new xs"
  by (simp add: replace_all.simps)

lemma replace_all_prefix:
  "old \<noteq> [] \<Longrightarrow> replace_all old new (old @ s) = new @ replace_all old new s"
  by (cases old) (simp_all add: replace_all.simps has_prefix_def)

text \<open>A string without the first character of \<open>old\<close> is left alone.\<close>

lemma replace_all_id: "c \<notin> set s \<Longrightarrow> replace_all (c # old) new s = s"
  by (induction s) (auto simp: replace_all.simps has_prefix_def)

subsection \<open>TrimSpace\<close>

text \<open>
  The byte sequences of the code points \<open>unicode.IsSpace\<close> accepts, in UTF-8.
\<close>

definition space_seqs :: "string list" where
  "space_seqs = map (map char_of)
     ([[9], [10], [11], [12], [13], [32], [194, 133], [194, 160], [225, 154, 128],
       [226, 128, 168], [226, 128, 169], [226, 128, 175], [226, 129, 159], [227, 128, 128]]
      @ map (\<lambda>n. [226, 128, 128 + n]) [0..<11] :: nat list list)"

function trim_left :: "string list \<Rightarrow> string \<Rightarrow> string" where
  "trim_left seqs s =
     (case find (\<lambda>q. q \<noteq> [] \<and> has_prefix s q) seqs of
        None \<Rightarrow> s
      | Some q \<Rightarrow> trim_left seqs (drop (length q) s))"
  by pat_completeness auto
termination
proof (relation "measure (\<lambda>(seqs, s). length s)", simp, clarsimp)
  fix seqs s q
  assume "find (\<lambda>q. q \<noteq> [] \<and> has_prefix s q) seqs = Some q"
  then have "q \<noteq> []" and "has_prefix s q"
    by (auto simp: find_Some_iff)
  then show "length s - length q < length s"
    using has_prefix_length [of s q] by (cases q) auto
qed

declare trim_left.simps [simp del]

definition trim_space :: "string \<Rightarrow> string" where
  "trim_space s =
     rev (trim_left (map rev space_seqs) (rev (trim_left space_seqs s)))"

lemma trim_left_Nil [simp]: "trim_left seqs [] = []"
proof -
  have "find (\<lambda>q. q \<noteq> [] \<and> has_prefix [] q) seqs = None"
    by (auto simp: find_None_iff has_prefix_def)
  then show ?thesis by (subst trim_left.simps) simp
qed

lemma trim_space_Nil [simp]: "trim_space [] = []"
  by (simp add: trim_space_def)

subsection \<open>Integers in strings\<close>

text \<open>
  \<open>strconv.Atoi\<close> on a 64-bit platform: an optional sign, at least one decimal digit and
  nothing else, and a value in the range of \<open>int64\<close>. The two errors it returns keep the
  offending string.
\<close>

datatype num_error = ErrSyntax string | ErrRange string

definition is_digit :: "char \<Rightarrow> bool" where
  "is_digit c = (of_char c \<ge> (48 :: nat) \<and> of_char c \<le> (57 :: nat))"

definition digits_val :: "string \<Rightarrow> int" where
  "digits_val ds = foldl (\<lambda>acc c. 10 * acc + (of_char c - 48)) 0 ds"

definition atoi :: "string \<Rightarrow> num_error + int" where
  "atoi s =
     (let neg = has_prefix s ''-'';
          ds = (if has_prefix s ''-'' \<or> has_prefix s ''+'' then tl s else s)
      in if ds = [] \<or> \<not> list_all is_digit ds then Inl (ErrSyntax s)
         else let n = (if neg then - digits_val ds else digits_val ds)
              in if - (2 ^ 63) \<le> n \<and> n < 2 ^ 63 then Inr n else Inl (ErrRange s))"

lemma atoi_range: "atoi s = Inr n \<Longrightarrow> - (2 ^ 63) \<le> n \<and> n < 2 ^ 63"
  by (auto simp: atoi_def Let_def split: if_splits)

lemma atoi_Nil [simp]: "atoi [] = Inl (ErrSyntax [])"
  by (simp add: atoi_def has_prefix_def)

text \<open>The decimal verb.\<close>

function show_nat :: "nat \<Rightarrow> string" where
  "show_nat n = (if n < 10 then [char_of (48 + n)] else show_nat (n div 10) @ [char_of (48 + n mod 10)])"
  by pat_completeness auto
termination
  by (relation "measure id") auto

declare show_nat.simps [simp del]

definition show_int :: "int \<Rightarrow> string" where
  "show_int n = (if n < 0 then ''-'' @ show_nat (nat (- n)) else show_nat (nat n))"

lemma foldl_digits_append:
  "digits_val (ds @ [c]) = 10 * digits_val ds + (of_char c - 48)"
  by (simp add: digits_val_def)

lemma of_char_digit: "d < 10 \<Longrightarrow> of_char (char_of (48 + d) :: char) = (48 + d :: nat)"
  by (simp add: of_char_of)

lemma of_char_digit_int: "d < 10 \<Longrightarrow> (of_char (char_of (48 + d :: nat) :: char) :: int) = 48 + int d"
  by (metis of_char_digit of_nat_add of_nat_numeral of_nat_of_char)

lemma show_nat_digits: "list_all is_digit (show_nat n) \<and> show_nat n \<noteq> [] \<and> digits_val (show_nat n) = int n"
proof (induction n rule: show_nat.induct)
  case (1 n)
  show ?case
  proof (cases "n < 10")
    case True
    then show ?thesis
      by (subst (1 2 3) show_nat.simps)
        (simp add: is_digit_def of_char_digit digits_val_def of_char_digit_int)
  next
    case False
    have m: "n mod 10 < 10" by simp
    from False have "show_nat n = show_nat (n div 10) @ [char_of (48 + n mod 10)]"
      by (subst show_nat.simps) simp
    then show ?thesis
      using 1 False of_char_digit [OF m] of_char_digit_int [OF m]
      by (simp add: is_digit_def foldl_digits_append) presburger
  qed
qed

lemma is_digit_sign: "is_digit c \<Longrightarrow> c \<noteq> CHR ''-'' \<and> c \<noteq> CHR ''+''"
  by (auto simp: is_digit_def)

lemma show_nat_no_sign: "\<not> has_prefix (show_nat n) ''-''" "\<not> has_prefix (show_nat n) ''+''"
  using show_nat_digits [of n] is_digit_sign
  by (cases "show_nat n"; auto simp: has_prefix_def)+

text \<open>Reading back what \<open>%d\<close> printed gives the number.\<close>

lemma atoi_show_int:
  assumes "- (2 ^ 63) \<le> n" and "n < 2 ^ 63"
  shows "atoi (show_int n) = Inr n"
proof (cases "n < 0")
  case True
  with assms show ?thesis
    using show_nat_digits [of "nat (- n)"]
    by (simp add: atoi_def show_int_def has_prefix_def Let_def)
next
  case False
  with assms show ?thesis
    using show_nat_digits [of "nat n"] show_nat_no_sign [of "nat n"]
    by (simp add: atoi_def show_int_def Let_def)
qed

end
