(* ===== verification/Types.thy ===== *)
theory Types
  imports GoStrings "HOL-Library.Word"
begin

section \<open>The data of the operator\<close>

text \<open>
  The custom resource and its statuses (pkg/apis/chaosblade/v1alpha1/types.go), the context
  values, and the types of the \<open>spec\<close> package the code exchanges: \<open>Response\<close>, \<open>ExpModel\<close> and
  the response codes it names. A slice that the code compares with \<open>nil\<close> is an option of a list
  (\<open>None\<close> is \<open>nil\<close>, \<open>Some []\<close> the empty slice); the other slices are lists.

  The \<open>spec\<close> package is not part of the repository. Its functions are the fields of the record
  \<open>spec_lib\<close>, an argument of every definition that calls one, and \<open>spec_contract\<close> names what the
  code relies on. \<open>sample_spec\<close> is a library that satisfies the contract; it serves the witnesses.
\<close>

subsection \<open>pkg/apis/chaosblade/v1alpha1/types.go\<close>

datatype ClusterPhase =
    PhaseInitial | PhaseInitialized | PhaseRunning | PhaseUpdating
  | PhaseDestroying | PhaseDestroyed | PhaseError | PhaseOther string

record FlagSpec =
  fs_Name :: string
  fs_Value :: "string list"

record ExperimentSpec =
  xs_Scope :: string
  xs_Target :: string
  xs_Action :: string
  xs_Desc :: string
  xs_Matchers :: "FlagSpec list"

record ResourceStatus =
  rs_Id :: string
  rs_State :: string
  rs_Code :: int
  rs_Error :: string
  rs_Success :: bool
  rs_Kind :: string
  rs_Identifier :: string

definition no_status :: ResourceStatus where
  "no_status = \<lparr>rs_Id = [], rs_State = [], rs_Code = 0, rs_Error = [], rs_Success = False,
     rs_Kind = [], rs_Identifier = []\<rparr>"

record ExperimentStatus =
  es_Scope :: string
  es_Target :: string
  es_Action :: string
  es_Success :: bool
  es_State :: string
  es_Error :: string
  es_ResStatuses :: "ResourceStatus list option"

definition no_exp_status :: ExperimentStatus where
  "no_exp_status = \<lparr>es_Scope = [], es_Target = [], es_Action = [], es_Success = False,
     es_State = [], es_Error = [], es_ResStatuses = None\<rparr>"

record ChaosBlade =
  cb_Name :: string
  cb_ResourceVersion :: string
  cb_Finalizers :: "string list"
  cb_DeletionTimestamp :: "int option"
  cb_Annotations :: "flags option"
  cb_Experiments :: "ExperimentSpec list"
  cb_Phase :: ClusterPhase
  cb_ExpStatuses :: "ExperimentStatus list option"

definition SuccessState :: string where "SuccessState = ''Success''"
definition ErrorState :: string where "ErrorState = ''Error''"
definition DestroyedState :: string where "DestroyedState = ''Destroyed''"

lemmas state_defs = SuccessState_def ErrorState_def DestroyedState_def

definition PodKind :: string where "PodKind = ''pod''"

definition CreateFailResourceStatus :: "ResourceStatus \<Rightarrow> string \<Rightarrow> int \<Rightarrow> ResourceStatus" where
  "CreateFailResourceStatus rs err code =
     rs\<lparr>rs_State := ErrorState, rs_Error := err, rs_Success := False, rs_Code := code\<rparr>"

definition CreateSuccessResourceStatus :: "ResourceStatus \<Rightarrow> ResourceStatus" where
  "CreateSuccessResourceStatus rs = rs\<lparr>rs_State := SuccessState, rs_Success := True\<rparr>"

definition CreateFailExperimentStatus :: "string \<Rightarrow> ResourceStatus list option \<Rightarrow> ExperimentStatus" where
  "CreateFailExperimentStatus err rss =
     no_exp_status\<lparr>es_Success := False, es_State := ErrorState, es_Error := err, es_ResStatuses := rss\<rparr>"

definition CreateSuccessExperimentStatus :: "ResourceStatus list option \<Rightarrow> ExperimentStatus" where
  "CreateSuccessExperimentStatus rss =
     no_exp_status\<lparr>es_Success := True, es_State := SuccessState, es_ResStatuses := rss\<rparr>"

definition CreateDestroyedExperimentStatus :: "ResourceStatus list option \<Rightarrow> ExperimentStatus" where
  "CreateDestroyedExperimentStatus rss =
     no_exp_status\<lparr>es_Success := True, es_State := DestroyedState, es_ResStatuses := rss\<rparr>"

definition CreateFailResStatuses :: "int \<Rightarrow> string \<Rightarrow> string \<Rightarrow> ResourceStatus list" where
  "CreateFailResStatuses code err uid =
     [no_status\<lparr>rs_Error := err, rs_Code := code, rs_Id := uid, rs_Success := False\<rparr>]"

lemma CreateFailResourceStatus_sel [simp]:
  "rs_Success (CreateFailResourceStatus rs e c) = False"
  "rs_State (CreateFailResourceStatus rs e c) = ErrorState"
  "rs_Error (CreateFailResourceStatus rs e c) = e"
  "rs_Code (CreateFailResourceStatus rs e c) = c"
  "rs_Id (CreateFailResourceStatus rs e c) = rs_Id rs"
  "rs_Kind (CreateFailResourceStatus rs e c) = rs_Kind rs"
  "rs_Identifier (CreateFailResourceStatus rs e c) = rs_Identifier rs"
  by (simp_all add: CreateFailResourceStatus_def)

lemma CreateSuccessResourceStatus_sel [simp]:
  "rs_Success (CreateSuccessResourceStatus rs) = True"
  "rs_State (CreateSuccessResourceStatus rs) = SuccessState"
  "rs_Error (CreateSuccessResourceStatus rs) = rs_Error rs"
  "rs_Code (CreateSuccessResourceStatus rs) = rs_Code rs"
  "rs_Id (CreateSuccessResourceStatus rs) = rs_Id rs"
  "rs_Kind (CreateSuccessResourceStatus rs) = rs_Kind rs"
  "rs_Identifier (CreateSuccessResourceStatus rs) = rs_Identifier rs"
  by (simp_all add: CreateSuccessResourceStatus_def)

lemma exp_status_sel [simp]:
  "es_Success (CreateFailExperimentStatus e r) = False"
  "es_State (CreateFailExperimentStatus e r) = ErrorState"
  "es_Error (CreateFailExperimentStatus e r) = e"
  "es_ResStatuses (CreateFailExperimentStatus e r) = r"
  "es_Success (CreateSuccessExperimentStatus r) = True"
  "es_State (CreateSuccessExperimentStatus r) = SuccessState"
  "es_ResStatuses (CreateSuccessExperimentStatus r) = r"
  "es_Success (CreateDestroyedExperimentStatus r) = True"
  "es_State (CreateDestroyedExperimentStatus r) = DestroyedState"
  "es_ResStatuses (CreateDestroyedExperimentStatus r) = r"
  by (simp_all add: CreateFailExperimentStatus_def CreateSuccessExperimentStatus_def
      CreateDestroyedExperimentStatus_def)

subsection \<open>Errors\<close>

text \<open>
  An \<open>error\<close> value: one made by \<open>errors.New\<close> or \<open>fmt.Errorf\<close> (its text), a \<open>strconv\<close> error, or an
  error of the Kubernetes client, with the answer of \<open>apierrors.IsNotFound\<close> and its text.
\<close>

datatype GoErr = ErrNew string | ErrNum num_error | ErrApi bool string

definition IsNotFound :: "GoErr \<Rightarrow> bool" where
  "IsNotFound e = (case e of ErrApi nf _ \<Rightarrow> nf | _ \<Rightarrow> False)"

subsection \<open>pkg/hookfs/server.go: the injected fault\<close>

record InjectMessage =
  im_Methods :: "string list"
  im_Path :: string
  im_Delay :: "32 word"
  im_Percent :: "32 word"
  im_Random :: bool
  im_Errno :: "32 word"

subsection \<open>exec/model/context.go: the container metadata\<close>

record ContainerObjectMeta =
  cm_Id :: string
  cm_ContainerRuntime :: string
  cm_ContainerId :: string
  cm_ContainerName :: string
  cm_PodName :: string
  cm_NodeName :: string
  cm_Namespace :: string

definition no_meta :: ContainerObjectMeta where
  "no_meta = \<lparr>cm_Id = [], cm_ContainerRuntime = [], cm_ContainerId = [], cm_ContainerName = [],
     cm_PodName = [], cm_NodeName = [], cm_Namespace = []\<rparr>"

subsection \<open>Values of the spec package\<close>

datatype CodeType =
    ParameterLess | ParameterIllegal | ParameterInvalid | ParameterInvalidNSNotOne
  | ParameterInvalidK8sPodQuery | ParameterInvalidK8sNodeQuery | ParameterInvalidBladePathError
  | K8sExecFailed | HandlerExecNotFound | GetIdentifierFailed | ContainerInContextNotFound
  | PodNotReady | ChaosfsClientFailed | ChaosfsInjectFailed | ChaosfsRecoverFailed
  | DeployChaosBladeFailed

text \<open>The \<open>interface{}\<close> values the code passes as response flags and as response results.\<close>

datatype FlagArg = FStr string | FErr GoErr | FInt int | FStatus ExperimentStatus | FMsg InjectMessage

datatype ResVal = RNil | RExp ExperimentStatus | RStr string | RMap "string \<rightharpoonup> string"

record Response =
  rp_Code :: int
  rp_Success :: bool
  rp_Err :: string
  rp_Result :: ResVal

record ExpModel =
  em_Target :: string
  em_Scope :: string
  em_ActionName :: string
  em_ActionFlags :: flags
  em_ActionPrograms :: "string list"
  em_ActionProcessHang :: bool

text \<open>The values a \<open>context.Context\<close> carries, by key; the last one is a value of another package.\<close>

datatype CtxVal = CtxStr string | CtxList "ContainerObjectMeta list" | CtxForeign string

type_synonym Ctx = "string \<rightharpoonup> CtxVal"

record spec_lib =
  sp_Success :: Response
  sp_FailWithFlags :: "CodeType \<Rightarrow> FlagArg list \<Rightarrow> Response"
  sp_FailWithResult :: "CodeType \<Rightarrow> ResVal \<Rightarrow> FlagArg list \<Rightarrow> Response"
  sp_ReturnResultIgnoreCode :: "ResVal \<Rightarrow> Response"
  sp_ReturnSuccess :: "ResVal \<Rightarrow> Response"
  sp_Sprintf :: "CodeType \<Rightarrow> FlagArg list \<Rightarrow> string"
  sp_Msg :: "CodeType \<Rightarrow> string"
  sp_Code :: "CodeType \<Rightarrow> int"
  sp_Decode :: "string \<Rightarrow> Response \<Rightarrow> Response"
  sp_ErrText :: "GoErr \<Rightarrow> string"
  sp_ConvertMatchers :: "ExpModel \<Rightarrow> string list \<Rightarrow> string"
  sp_IsDestroy :: "Ctx \<Rightarrow> bool"
  sp_SetDestroyFlag :: "Ctx \<Rightarrow> string \<Rightarrow> Ctx"

definition ContainerObjectMetaListKey :: string where
  "ContainerObjectMetaListKey = ''ContainerObjectMetaListKey''"

definition ExperimentIdKey :: string where
  "ExperimentIdKey = ''ExperimentIdKey''"

text \<open>
  What the code relies on: the success and failure constructors set \<open>Success\<close>, a response made with
  a result carries that result and one made without carries none; the destroy flag of a context is
  set by \<open>SetDestroyFlag\<close> only, survives the two values this program stores, and does not disturb
  them; the empty context has no destroy flag.
\<close>

definition spec_contract :: "spec_lib \<Rightarrow> bool" where
  "spec_contract S \<longleftrightarrow>
     rp_Success (sp_Success S) \<and> rp_Result (sp_Success S) = RNil \<and>
     (\<forall>c fl. \<not> rp_Success (sp_FailWithFlags S c fl) \<and> rp_Result (sp_FailWithFlags S c fl) = RNil) \<and>
     (\<forall>c r fl. \<not> rp_Success (sp_FailWithResult S c r fl) \<and> rp_Result (sp_FailWithResult S c r fl) = r) \<and>
     (\<forall>r. rp_Result (sp_ReturnResultIgnoreCode S r) = r) \<and>
     (\<forall>r. rp_Success (sp_ReturnSuccess S r) \<and> rp_Result (sp_ReturnSuccess S r) = r) \<and>
     \<not> sp_IsDestroy S Map.empty \<and>
     (\<forall>c u. sp_IsDestroy S (sp_SetDestroyFlag S c u)) \<and>
     (\<forall>c k v. k = ContainerObjectMetaListKey \<or> k = ExperimentIdKey \<longrightarrow>
        sp_IsDestroy S (c(k \<mapsto> v)) = sp_IsDestroy S c) \<and>
     (\<forall>c u k. k = ContainerObjectMetaListKey \<or> k = ExperimentIdKey \<longrightarrow>
        sp_SetDestroyFlag S c u k = c k)"

lemma spec_contractD:
  assumes "spec_contract S"
  shows "rp_Success (sp_Success S)" "rp_Result (sp_Success S) = RNil"
    "\<not> rp_Success (sp_FailWithFlags S c fl)" "rp_Result (sp_FailWithFlags S c fl) = RNil"
    "\<not> rp_Success (sp_FailWithResult S c r fl)" "rp_Result (sp_FailWithResult S c r fl) = r"
    "rp_Result (sp_ReturnResultIgnoreCode S r) = r"
    "rp_Success (sp_ReturnSuccess S r)" "rp_Result (sp_ReturnSuccess S r) = r"
  using assms by (simp_all add: spec_contract_def)

lemma spec_contract_destroy:
  assumes "spec_contract S"
  shows "\<not> sp_IsDestroy S Map.empty" "sp_IsDestroy S (sp_SetDestroyFlag S x u)"
    "sp_IsDestroy S (x(ContainerObjectMetaListKey \<mapsto> v)) = sp_IsDestroy S x"
    "sp_IsDestroy S (x(ExperimentIdKey \<mapsto> v)) = sp_IsDestroy S x"
    "sp_SetDestroyFlag S x u ContainerObjectMetaListKey = x ContainerObjectMetaListKey"
    "sp_SetDestroyFlag S x u ExperimentIdKey = x ExperimentIdKey"
  using assms by (simp_all add: spec_contract_def)

definition destroy_key :: string where "destroy_key = ''DestroyKey''"

definition sample_spec :: spec_lib where
  "sample_spec =
     \<lparr>sp_Success = \<lparr>rp_Code = 200, rp_Success = True, rp_Err = [], rp_Result = RNil\<rparr>,
      sp_FailWithFlags = (\<lambda>c fl. \<lparr>rp_Code = 500, rp_Success = False, rp_Err = ''failed'', rp_Result = RNil\<rparr>),
      sp_FailWithResult = (\<lambda>c r fl. \<lparr>rp_Code = 500, rp_Success = False, rp_Err = ''failed'', rp_Result = r\<rparr>),
      sp_ReturnResultIgnoreCode = (\<lambda>r. \<lparr>rp_Code = 0, rp_Success = False, rp_Err = [], rp_Result = r\<rparr>),
      sp_ReturnSuccess = (\<lambda>r. \<lparr>rp_Code = 200, rp_Success = True, rp_Err = [], rp_Result = r\<rparr>),
      sp_Sprintf = (\<lambda>c fl. ''failed''),
      sp_Msg = (\<lambda>c. ''failed''),
      sp_Code = (\<lambda>c. 500),
      sp_Decode = (\<lambda>s d. if has_prefix s ''ok:'' then
           \<lparr>rp_Code = 200, rp_Success = True, rp_Err = [], rp_Result = RStr (drop 3 s)\<rparr> else d),
      sp_ErrText = (\<lambda>e. case e of ErrNew s \<Rightarrow> s | ErrNum _ \<Rightarrow> ''number'' | ErrApi _ s \<Rightarrow> s),
      sp_ConvertMatchers = (\<lambda>m ex. []),
      sp_IsDestroy = (\<lambda>c. c destroy_key \<noteq> None),
      sp_SetDestroyFlag = (\<lambda>c u. c(destroy_key \<mapsto> CtxForeign u))\<rparr>"

lemma sample_spec_contract: "spec_contract sample_spec"
  by (simp add: spec_contract_def sample_spec_def destroy_key_def ContainerObjectMetaListKey_def
      ExperimentIdKey_def)

subsection \<open>Context accessors (exec/model/context.go)\<close>

text \<open>A stored value of another type makes the type assertion panic.\<close>

definition GetExperimentIdFromContext :: "Ctx \<Rightarrow> string go" where
  "GetExperimentIdFromContext c =
     (case c ExperimentIdKey of
        None \<Rightarrow> Some ''UnknownId''
      | Some (CtxStr s) \<Rightarrow> Some s
      | Some _ \<Rightarrow> None)"

definition SetExperimentIdToContext :: "Ctx \<Rightarrow> string \<Rightarrow> Ctx" where
  "SetExperimentIdToContext c u = c(ExperimentIdKey \<mapsto> CtxStr u)"

definition GetContainerObjectMetaListFromContext :: "Ctx \<Rightarrow> (GoErr + ContainerObjectMeta list) go" where
  "GetContainerObjectMetaListFromContext c =
     (case c ContainerObjectMetaListKey of
        None \<Rightarrow> Some (Inl (ErrNew ''less container object meta in context''))
      | Some (CtxList l) \<Rightarrow> Some (Inr l)
      | Some _ \<Rightarrow> None)"

definition SetContainerObjectMetaListToContext :: "Ctx \<Rightarrow> ContainerObjectMeta list \<Rightarrow> Ctx" where
  "SetContainerObjectMetaListToContext c l = c(ContainerObjectMetaListKey \<mapsto> CtxList l)"

lemma keys_differ [simp]:
  "ExperimentIdKey \<noteq> ContainerObjectMetaListKey" "ContainerObjectMetaListKey \<noteq> ExperimentIdKey"
  by (simp_all add: ExperimentIdKey_def ContainerObjectMetaListKey_def)

lemma get_set_meta_list [simp]:
  "GetContainerObjectMetaListFromContext (SetContainerObjectMetaListToContext c l) = Some (Inr l)"
  by (simp add: GetContainerObjectMetaListFromContext_def SetContainerObjectMetaListToContext_def)

lemma get_set_experiment_id [simp]:
  "GetExperimentIdFromContext (SetExperimentIdToContext c u) = Some u"
  "GetExperimentIdFromContext (SetContainerObjectMetaListToContext c l) = GetExperimentIdFromContext c"
  by (simp_all add: GetExperimentIdFromContext_def SetExperimentIdToContext_def
      SetContainerObjectMetaListToContext_def)

lemma destroy_set_meta_list:
  "spec_contract S \<Longrightarrow>
   sp_IsDestroy S (SetContainerObjectMetaListToContext c l) = sp_IsDestroy S c"
  by (simp add: SetContainerObjectMetaListToContext_def spec_contract_destroy)

end
