(* ===== verification/GoFloat.thy ===== *)
theory GoFloat
  imports Prelude Complex_Main
begin

section \<open>Go's float64 arithmetic, as far as the program uses it\<close>

text \<open>
  A \<open>float64\<close> is the rational number it denotes; \<open>fl x\<close> is the double nearest to \<open>x\<close>, ties to the
  even significand, with 53 bits of precision. Every value the program forms is zero or lies
  between \<open>2 ^ -30\<close> and \<open>2 ^ 130\<close> in magnitude, so neither overflow nor subnormal numbers arise and
  the exponent needs no bound. \<open>go_round\<close> is \<open>math.Round\<close>, half away from zero. Converting a
  float that does not fit into \<open>int64\<close> is left to the implementation by the language, so \<open>to_int64\<close>
  takes that conversion as an argument.
\<close>

fun ilog2 :: "nat \<Rightarrow> nat" where
  "ilog2 n = (if n < 2 then 0 else Suc (ilog2 (n div 2)))"

declare ilog2.simps [simp del]

definition rexp :: "rat \<Rightarrow> int" where
  "rexp x =
     (if 1 \<le> x then int (ilog2 (nat \<lfloor>x\<rfloor>))
      else if \<lceil>1 / x\<rceil> \<le> 1 then 0 else - int (Suc (ilog2 (nat \<lceil>1 / x\<rceil> - 1))))"

text \<open>Round to the nearest integer, ties to even.\<close>

definition rne :: "rat \<Rightarrow> int" where
  "rne x =
     (let f = \<lfloor>x\<rfloor>; r = x - of_int f
      in if r < 1 / 2 then f else if 1 / 2 < r then f + 1 else if even f then f else f + 1)"

definition ulp :: "rat \<Rightarrow> rat" where
  "ulp x = 2 powi (rexp x - 52)"

definition flp :: "rat \<Rightarrow> rat" where
  "flp x = of_int (rne (x / ulp x)) * ulp x"

definition fl :: "rat \<Rightarrow> rat" where
  "fl x = (if x = 0 then 0 else if x < 0 then - flp (- x) else flp x)"

definition go_round :: "rat \<Rightarrow> int" where
  "go_round x = (if x < 0 then - \<lfloor>- x + 1 / 2\<rfloor> else \<lfloor>x + 1 / 2\<rfloor>)"

definition to_int64 :: "(int \<Rightarrow> int) \<Rightarrow> int \<Rightarrow> int" where
  "to_int64 oor n = (if - (2 ^ 63) \<le> n \<and> n < 2 ^ 63 then n else oor n)"

subsection \<open>The binary exponent\<close>

lemma ilog2_bounds: "0 < n \<Longrightarrow> 2 ^ ilog2 n \<le> n \<and> n < 2 ^ Suc (ilog2 n)"
proof (induction n rule: ilog2.induct)
  case (1 n)
  show ?case
  proof (cases "n < 2")
    case True
    with 1 show ?thesis by (simp add: ilog2.simps)
  next
    case False
    then have "0 < n div 2" by simp
    with 1 False have IH: "2 ^ ilog2 (n div 2) \<le> n div 2" "n div 2 < 2 ^ Suc (ilog2 (n div 2))"
      by auto
    have e: "ilog2 n = Suc (ilog2 (n div 2))" using False by (simp add: ilog2.simps)
    from IH show ?thesis unfolding e power_Suc by linarith
  qed
qed

lemma rat_pow_le: "2 ^ k \<le> n \<Longrightarrow> (2 :: rat) ^ k \<le> of_nat n"
  using of_nat_mono [of "2 ^ k" n, where 'a = rat] by simp

lemma rat_le_pow: "n \<le> 2 ^ k \<Longrightarrow> (of_nat n :: rat) \<le> 2 ^ k"
  using of_nat_mono [of n "2 ^ k", where 'a = rat] by simp

lemma rexp_bounds:
  assumes "0 < x"
  shows "2 powi rexp x \<le> x \<and> x < 2 powi (rexp x + 1)"
proof (cases "1 \<le> x")
  case True
  let ?n = "nat \<lfloor>x\<rfloor>"
  have fx: "1 \<le> \<lfloor>x\<rfloor>" using True by (simp add: le_floor_iff)
  then have n: "0 < ?n" "of_nat ?n = (of_int \<lfloor>x\<rfloor> :: rat)" by simp_all
  have b: "2 ^ ilog2 ?n \<le> ?n" "?n + 1 \<le> 2 ^ Suc (ilog2 ?n)"
    using ilog2_bounds [OF n(1)] by (simp_all only: Suc_eq_plus1 [symmetric] Suc_le_eq)
  have lo: "(2 :: rat) ^ ilog2 ?n \<le> of_nat ?n"
    by (rule rat_pow_le [OF b(1)])
  have hi': "(of_nat ?n + 1 :: rat) \<le> 2 ^ Suc (ilog2 ?n)"
    using rat_le_pow [OF b(2)] by (simp only: of_nat_add of_nat_1)
  have "2 ^ ilog2 ?n \<le> x" using lo n(2) of_int_floor_le [of x] by linarith
  moreover have "x < 2 ^ Suc (ilog2 ?n)" using hi' n(2) floor_correct [of x] by linarith
  moreover have e: "rexp x = int (ilog2 ?n)" using True by (simp add: rexp_def)
  moreover have "rexp x + 1 = int (Suc (ilog2 ?n))" using e by simp
  ultimately show ?thesis by (metis power_int_of_nat)
next
  case False
  let ?c = "nat \<lceil>1 / x\<rceil>"
  have inv: "1 < 1 / x" using assms False by simp
  then have c: "2 \<le> \<lceil>1 / x\<rceil>" by (simp add: le_ceiling_iff)
  then have pos: "0 < ?c - 1" by simp
  let ?k = "ilog2 (?c - 1)"
  have e: "rexp x = - int (Suc ?k)" using False c by (simp add: rexp_def)
  have "2 ^ ?k \<le> ?c - 1" and "?c - 1 < 2 ^ Suc ?k"
    using ilog2_bounds [OF pos] by auto
  then have b: "2 ^ ?k \<le> ?c - 1" "?c \<le> 2 ^ Suc ?k" using pos by linarith+
  have "1 \<le> ?c" using c by linarith
  then have "(of_nat (?c - 1) :: rat) = of_nat ?c - 1" by (simp only: of_nat_diff of_nat_1)
  with rat_pow_le [OF b(1)] have lo: "(2 ^ ?k + 1 :: rat) \<le> of_nat ?c" by linarith
  have hi: "(of_nat ?c :: rat) \<le> 2 ^ Suc ?k" by (rule rat_le_pow [OF b(2)])
  have cc: "(of_nat ?c :: rat) = of_int \<lceil>1 / x\<rceil>" using c by simp
  have "2 ^ ?k < 1 / x" using lo cc ceiling_correct [of "1 / x"] by linarith
  moreover have "1 / x \<le> 2 ^ Suc ?k" using hi cc ceiling_correct [of "1 / x"] by linarith
  ultimately have "x < 1 / 2 ^ ?k" and "1 / 2 ^ Suc ?k \<le> x"
    using assms by (simp_all add: field_simps)
  moreover have "2 powi rexp x = 1 / (2 :: rat) ^ Suc ?k"
    unfolding e by (simp only: power_int_minus power_int_of_nat inverse_eq_divide)
  moreover have "2 powi (rexp x + 1) = 1 / (2 :: rat) ^ ?k"
  proof -
    have "rexp x + 1 = - int ?k" unfolding e by simp
    then show ?thesis by (simp only: power_int_minus power_int_of_nat inverse_eq_divide)
  qed
  ultimately show ?thesis by simp
qed

lemma powi_2_pos [simp]: "(0 :: rat) < 2 powi k"
  by (simp add: zero_less_power_int)

lemma rexp_mono: "0 < x \<Longrightarrow> x \<le> y \<Longrightarrow> rexp x \<le> rexp y"
proof (rule ccontr)
  assume "0 < x" "x \<le> y" "\<not> rexp x \<le> rexp y"
  then have "rexp y + 1 \<le> rexp x" by simp
  then have "(2 :: rat) powi (rexp y + 1) \<le> 2 powi rexp x"
    by (intro power_int_increasing) auto
  with rexp_bounds [of x] rexp_bounds [of y] \<open>0 < x\<close> \<open>x \<le> y\<close> show False by simp
qed

lemma ulp_pos [simp]: "0 < ulp x"
  by (simp add: ulp_def)

lemma powi_52: "(2 :: rat) powi (k - 52) * 2 ^ 52 = 2 powi k"
proof -
  have "(2 :: rat) powi k = 2 powi ((k - 52) + 52)" by simp
  also have "\<dots> = 2 powi (k - 52) * 2 powi 52" by (rule power_int_add) simp
  finally show ?thesis by (simp add: power_int_numeral)
qed

lemma powi_52_num: "(2 :: rat) powi (k - 52) * 4503599627370496 = 2 powi k"
  using powi_52 [of k] by simp

lemma scaled_bounds:
  assumes "0 < x"
  shows "2 ^ 52 \<le> x / ulp x" "x / ulp x < 2 ^ 53"
proof -
  have "ulp x * 2 ^ 52 \<le> x" using rexp_bounds [OF assms] by (simp add: ulp_def powi_52_num)
  then show "2 ^ 52 \<le> x / ulp x" by (simp add: le_divide_eq mult.commute)
  have "ulp x * 2 ^ 52 * 2 = 2 powi (rexp x + 1)"
    by (simp add: ulp_def powi_52_num power_int_add)
  then have "x < ulp x * 2 ^ 53" using rexp_bounds [OF assms] by simp
  then show "x / ulp x < 2 ^ 53" by (simp add: divide_less_eq mult.commute)
qed

subsection \<open>Rounding\<close>

lemma rne_of_int [simp]: "rne (of_int n) = n"
  by (simp add: rne_def)

lemma rne_error: "\<bar>of_int (rne x) - x\<bar> \<le> 1 / 2"
  using floor_correct [of x] by (auto simp: rne_def Let_def abs_le_iff)

lemma rne_mono: "x \<le> y \<Longrightarrow> rne x \<le> rne y"
proof -
  assume xy: "x \<le> y"
  then have f: "\<lfloor>x\<rfloor> \<le> \<lfloor>y\<rfloor>" by (rule floor_mono)
  show ?thesis
  proof (cases "\<lfloor>x\<rfloor> = \<lfloor>y\<rfloor>")
    case True
    with xy show ?thesis by (auto simp: rne_def Let_def)
  next
    case False
    with f have "rne x \<le> \<lfloor>x\<rfloor> + 1" "\<lfloor>x\<rfloor> + 1 \<le> \<lfloor>y\<rfloor>" "\<lfloor>y\<rfloor> \<le> rne y"
      by (auto simp: rne_def Let_def)
    then show ?thesis by linarith
  qed
qed

lemma flp_bounds:
  assumes "0 < x"
  shows "2 powi rexp x \<le> flp x" "flp x \<le> 2 powi (rexp x + 1)"
proof -
  have "rne (of_int (2 ^ 52)) \<le> rne (x / ulp x)"
    using scaled_bounds(1) [OF assms] by (intro rne_mono) simp
  then have "(2 :: rat) ^ 52 \<le> of_int (rne (x / ulp x))"
    by (simp only: rne_of_int) (metis of_int_le_iff of_int_numeral of_int_power)
  then have "2 ^ 52 * ulp x \<le> flp x"
    unfolding flp_def by (intro mult_right_mono) (auto simp: less_imp_le)
  then show "2 powi rexp x \<le> flp x" by (simp add: ulp_def powi_52_num mult.commute)
  have "rne (x / ulp x) \<le> rne (of_int (2 ^ 53))"
    using scaled_bounds(2) [OF assms] by (intro rne_mono) simp
  then have "of_int (rne (x / ulp x)) \<le> (2 :: rat) ^ 53"
    by (simp only: rne_of_int) (metis of_int_le_iff of_int_numeral of_int_power)
  then have "flp x \<le> 2 ^ 53 * ulp x"
    unfolding flp_def by (intro mult_right_mono) (auto simp: less_imp_le)
  also have "\<dots> = ulp x * 2 ^ 52 * 2" by simp
  also have "\<dots> = 2 powi (rexp x + 1)" by (simp add: ulp_def powi_52_num power_int_add)
  finally show "flp x \<le> 2 powi (rexp x + 1)" .
qed

lemma flp_mono: "0 < x \<Longrightarrow> x \<le> y \<Longrightarrow> flp x \<le> flp y"
proof -
  assume x: "0 < x" and xy: "x \<le> y"
  show ?thesis
  proof (cases "rexp x = rexp y")
    case True
    then have u: "ulp x = ulp y" by (simp add: ulp_def)
    with xy have "rne (x / ulp y) \<le> rne (y / ulp y)"
      by (intro rne_mono divide_right_mono) (auto simp: less_imp_le)
    then show ?thesis
      unfolding flp_def u by (intro mult_right_mono) (auto simp: less_imp_le)
  next
    case False
    with rexp_mono [OF x xy] have "rexp x + 1 \<le> rexp y" by simp
    then have "(2 :: rat) powi (rexp x + 1) \<le> 2 powi rexp y"
      by (intro power_int_increasing) auto
    with flp_bounds(2) [OF x] flp_bounds(1) [of y] x xy show ?thesis by linarith
  qed
qed

lemma flp_pos: "0 < x \<Longrightarrow> 0 < flp x"
  using flp_bounds(1) [of x] powi_2_pos [of "rexp x"] by linarith

lemma fl_0 [simp]: "fl 0 = 0"
  by (simp add: fl_def)

lemma fl_pos: "0 < x \<Longrightarrow> 0 < fl x"
  by (simp add: fl_def flp_pos)

lemma fl_nonneg: "0 \<le> x \<Longrightarrow> 0 \<le> fl x"
  by (cases "x = 0") (auto simp: fl_def flp_pos less_imp_le)

lemma fl_mono: "0 \<le> x \<Longrightarrow> x \<le> y \<Longrightarrow> fl x \<le> fl y"
  by (cases "x = 0") (auto simp: fl_def flp_mono flp_pos less_imp_le)

text \<open>Integers below \<open>2 ^ 53\<close> are exact.\<close>

lemma fl_of_nat:
  assumes "n < 2 ^ 53"
  shows "fl (of_nat n) = of_nat n"
proof (cases "n = 0")
  case True
  then show ?thesis by simp
next
  case False
  let ?x = "of_nat n :: rat"
  have x: "0 < ?x" and ge1: "1 \<le> ?x" using False by simp_all
  have e: "rexp ?x = int (ilog2 n)" using ge1 by (simp add: rexp_def)
  have "2 ^ ilog2 n \<le> n" using ilog2_bounds [of n] False by simp
  with assms have "(2 :: nat) ^ ilog2 n < 2 ^ 53" by linarith
  then have "ilog2 n < 53" by (rule power_less_imp_less_exp [rotated]) simp
  then have k: "ilog2 n \<le> 52" by simp
  then have "rexp ?x - 52 = - int (52 - ilog2 n)" using e by simp
  then have u: "ulp ?x = 1 / 2 ^ (52 - ilog2 n)"
    unfolding ulp_def by (simp only: power_int_minus power_int_of_nat inverse_eq_divide)
  then have "?x / ulp ?x = of_int (int n * 2 ^ (52 - ilog2 n))" by simp
  then have "flp ?x = of_int (int n * 2 ^ (52 - ilog2 n)) * ulp ?x"
    unfolding flp_def by (simp only: rne_of_int)
  with u x show ?thesis by (simp add: fl_def)
qed

text \<open>The relative error of one rounding is at most \<open>2 ^ -53\<close>.\<close>

lemma fl_error:
  assumes "0 \<le> x"
  shows "\<bar>fl x - x\<bar> \<le> x / 2 ^ 53"
proof (cases "x = 0")
  case True
  then show ?thesis by simp
next
  case False
  with assms have x: "0 < x" by simp
  have "fl x - x = (of_int (rne (x / ulp x)) - x / ulp x) * ulp x"
    using x by (simp add: fl_def flp_def left_diff_distrib)
      (metis less_numeral_extra(3) nonzero_eq_divide_eq ulp_pos)
  then have "\<bar>fl x - x\<bar> = \<bar>of_int (rne (x / ulp x)) - x / ulp x\<bar> * ulp x"
    by (simp add: abs_mult less_imp_le)
  also have "\<dots> \<le> 1 / 2 * ulp x"
    using rne_error [of "x / ulp x"] by (intro mult_right_mono) (auto simp: less_imp_le)
  also have "ulp x \<le> x / 2 ^ 52"
    using scaled_bounds(1) [OF x] by (simp add: field_simps)
  finally show ?thesis by simp
qed

lemma fl_le: "0 \<le> x \<Longrightarrow> fl x \<le> x * (1 + 1 / 2 ^ 53)"
proof -
  assume "0 \<le> x"
  then have "fl x - x \<le> x / 2 ^ 53" using fl_error [of x] abs_ge_self [of "fl x - x"] by linarith
  then show ?thesis unfolding distrib_left by simp
qed

subsection \<open>Rounding to an integer\<close>

lemma floor_half_error: "\<bar>of_int \<lfloor>x + 1 / 2\<rfloor> - x\<bar> \<le> 1 / 2" for x :: rat
proof -
  have "of_int \<lfloor>x + 1 / 2\<rfloor> \<le> x + 1 / 2" and "x + 1 / 2 < of_int \<lfloor>x + 1 / 2\<rfloor> + 1"
    by (rule of_int_floor_le, rule floor_correct [THEN conjunct2, simplified])
  then show ?thesis unfolding abs_le_iff by linarith
qed

lemma go_round_error: "\<bar>of_int (go_round x) - x\<bar> \<le> 1 / 2"
  using floor_half_error [of x] floor_half_error [of "- x"]
  by (simp add: go_round_def abs_minus_commute add.commute)

lemma go_round_nonneg: "0 \<le> x \<Longrightarrow> 0 \<le> go_round x"
  by (simp add: go_round_def)

lemma go_round_le: "0 \<le> x \<Longrightarrow> x \<le> of_int n \<Longrightarrow> go_round x \<le> n"
proof -
  assume "0 \<le> x" "x \<le> of_int n"
  then have "x + 1 / 2 < of_int (n + 1)" by simp
  then have "\<lfloor>x + 1 / 2\<rfloor> < n + 1" by (simp only: floor_less_iff)
  with \<open>0 \<le> x\<close> show ?thesis by (simp add: go_round_def)
qed

lemma go_round_of_int [simp]: "go_round (of_int n) = n"
proof -
  have "\<lfloor>of_int n + 1 / 2 :: rat\<rfloor> = n" for n :: int
    by (simp add: floor_eq_iff)
  from this [of n] this [of "- n"] show ?thesis by (simp add: go_round_def)
qed

end
