(* ===== verification/Reconcile.thy ===== *)
theory Reconcile
  imports Types GoFloat
begin

section \<open>The reconciler (pkg/controller/chaosblade)\<close>

text \<open>
  \<open>Reconcile\<close>, \<open>finalizeChaosBlade\<close>, \<open>periodicallyCleanUpBlade\<close> (controller.go) and the event
  predicates (predicate.go). The Kubernetes client is the record \<open>api\<close> over a world \<open>'w\<close>; a write
  returns the error, the object as the call leaves it (controller-runtime decodes the server's
  answer into its argument), and the new world. \<open>executor\<close> is the interface
  \<open>model.ExpController\<close> that \<open>r.Executor\<close> holds. The JSON codec of the spec, from the standard
  library, is the pair of arguments \<open>unm\<close> and \<open>msh\<close>.
\<close>

record 'w api =
  ap_Get :: "string \<Rightarrow> 'w \<Rightarrow> (GoErr + ChaosBlade) \<times> 'w"
  ap_Update :: "ChaosBlade \<Rightarrow> 'w \<Rightarrow> (GoErr option \<times> ChaosBlade) \<times> 'w"
  ap_StatusUpdate :: "ChaosBlade \<Rightarrow> 'w \<Rightarrow> (GoErr option \<times> ChaosBlade) \<times> 'w"
  ap_List :: "'w \<Rightarrow> (GoErr option \<times> ChaosBlade list) \<times> 'w"
  ap_ClearFinalizers :: "string \<Rightarrow> 'w \<Rightarrow> GoErr option \<times> 'w"

record 'w executor =
  ex_Create :: "string \<Rightarrow> ExperimentSpec \<Rightarrow> 'w \<Rightarrow> (ExperimentStatus \<times> 'w) go"
  ex_Destroy :: "string \<Rightarrow> ExperimentSpec \<Rightarrow> ExperimentStatus \<Rightarrow> 'w \<Rightarrow> (ExperimentStatus \<times> 'w) go"

definition chaosbladeFinalizer :: string where
  "chaosbladeFinalizer = ''finalizer.chaosblade.io''"

subsection \<open>The finalizer list\<close>

fun contains :: "string list \<Rightarrow> string \<Rightarrow> bool" where
  "contains [] s = False"
| "contains (v # vs) s = (if v = s then True else contains vs s)"

text \<open>
  \<open>remove\<close> shortens the slice in place while it ranges over it: the range expression is evaluated
  once, so the loop runs over the original length, and reads the backing array that
  \<open>append(list[:i], list[i+1:]...)\<close> has shifted meanwhile. The state is the array and the current
  length; \<open>list[i+1:]\<close> panics when \<open>i + 1\<close> is beyond that length.
\<close>

definition remove_step :: "string \<Rightarrow> nat \<Rightarrow> string list \<times> nat \<Rightarrow> (string list \<times> nat) go" where
  "remove_step s i = (\<lambda>(arr, k).
     if arr ! i = s then
       (if i + 1 \<le> k then Some (take i arr @ drop (i + 1) (take k arr) @ drop (k - 1) arr, k - 1)
        else None)
     else Some (arr, k))"

fun remove_loop :: "string \<Rightarrow> nat list \<Rightarrow> string list \<times> nat \<Rightarrow> (string list \<times> nat) go" where
  "remove_loop s [] st = Some st"
| "remove_loop s (i # js) st = do { st' \<leftarrow> remove_step s i st; remove_loop s js st' }"

definition remove :: "string list \<Rightarrow> string \<Rightarrow> string list go" where
  "remove l s = do { (arr, k) \<leftarrow> remove_loop s [0..<length l] (l, length l); Some (take k arr) }"

subsection \<open>finalizeChaosBlade and Reconcile\<close>

definition destroy_step ::
  "'w executor \<Rightarrow> string \<Rightarrow> ExperimentSpec \<times> ExperimentStatus \<Rightarrow> 'w \<Rightarrow> (ExperimentStatus \<times> 'w) go" where
  "destroy_step E n = (\<lambda>(x, st). ex_Destroy E n x st)"

definition finalizeChaosBlade ::
  "'w api \<Rightarrow> 'w executor \<Rightarrow> ChaosBlade \<Rightarrow> 'w \<Rightarrow> (GoErr option \<times> 'w) go" where
  "finalizeChaosBlade A E cb w =
     do { (sts, phase, w1) \<leftarrow>
            (case cb_ExpStatuses cb of
               None \<Rightarrow> Some (None, PhaseDestroyed, w)
             | Some old \<Rightarrow>
                 if length (cb_Experiments cb) = length old then
                   do { (new, w1) \<leftarrow> mapM_w (destroy_step E (cb_Name cb)) (zip (cb_Experiments cb) old) w;
                        Some (Some new,
                          if \<forall>s \<in> set new. es_Success s then PhaseDestroyed else PhaseDestroying, w1) }
                 else Some (Some old, PhaseDestroyed, w));
          let ((err, cb'), w2) =
            ap_StatusUpdate A (cb\<lparr>cb_ExpStatuses := sts, cb_Phase := phase\<rparr>) w1;
          Some (case err of
                  Some e \<Rightarrow> (Some (ErrNew ''update chaosblade status failed in finalize phase''), w2)
                | None \<Rightarrow>
                    if cb_Phase cb' = PhaseDestroying
                    then (Some (ErrNew ''failed to destory, please see the experiment status''), w2)
                    else (None, w2)) }"

text \<open>The loop of the Updating branch; an index beyond the old experiments panics.\<close>

fun destroy_old ::
  "'w executor \<Rightarrow> string \<Rightarrow> ExperimentSpec list \<Rightarrow> nat \<Rightarrow> ExperimentStatus list \<Rightarrow> 'w \<Rightarrow>
     (ExperimentStatus list \<times> 'w) go" where
  "destroy_old E n olds idx [] w = Some ([], w)"
| "destroy_old E n olds idx (st # sts) w =
     do { x \<leftarrow> index_at olds (int idx);
          (st', w1) \<leftarrow> ex_Destroy E n x st w;
          (rest, w2) \<leftarrow> destroy_old E n olds (Suc idx) sts w1;
          Some (st' # rest, w2) }"

definition preSpec :: "ChaosBlade \<Rightarrow> string" where
  "preSpec cb = (case cb_Annotations cb of None \<Rightarrow> [] | Some m \<Rightarrow> mget m ''preSpec'')"

definition reconcile_create ::
  "'w api \<Rightarrow> 'w executor \<Rightarrow> ChaosBlade \<Rightarrow> 'w \<Rightarrow> 'w go" where
  "reconcile_create A E cb w =
     do { (sts, w1) \<leftarrow> mapM_w (ex_Create E (cb_Name cb)) (cb_Experiments cb) w;
          let phase = (if \<exists>s \<in> set sts. es_Success s then PhaseRunning else PhaseError);
          Some (snd (ap_StatusUpdate A (cb\<lparr>cb_ExpStatuses := Some sts, cb_Phase := phase\<rparr>) w1)) }"

definition reconcile_update ::
  "'w api \<Rightarrow> 'w executor \<Rightarrow> (string \<Rightarrow> GoErr + ExperimentSpec list) \<Rightarrow> ChaosBlade \<Rightarrow> 'w \<Rightarrow> 'w go" where
  "reconcile_update A E unm cb w =
     (if preSpec cb = [] then Some w
      else case unm (preSpec cb) of
        Inl _ \<Rightarrow> Some w
      | Inr olds \<Rightarrow>
          (let ((err, cb1), w1) = ap_Update A cb w in
           do { (sts, phase, w2) \<leftarrow>
                  (case cb_ExpStatuses cb1 of
                     None \<Rightarrow> Some (None, PhaseUpdating, w1)
                   | Some old \<Rightarrow>
                       do { (new, w2) \<leftarrow> destroy_old E (cb_Name cb1) olds 0 old w1;
                            Some (Some new,
                              if \<forall>s \<in> set new. es_Success s then PhaseUpdating else PhaseDestroying,
                              w2) });
                Some (snd (ap_StatusUpdate A (cb1\<lparr>cb_ExpStatuses := sts, cb_Phase := phase\<rparr>) w2)) }))"

definition reconcile_initial :: "'w api \<Rightarrow> ChaosBlade \<Rightarrow> 'w \<Rightarrow> 'w" where
  "reconcile_initial A cb w =
     (if contains (cb_Finalizers cb) chaosbladeFinalizer
      then snd (ap_StatusUpdate A (cb\<lparr>cb_Phase := PhaseInitialized, cb_ExpStatuses := Some []\<rparr>) w)
      else snd (ap_Update A (cb\<lparr>cb_Finalizers := cb_Finalizers cb @ [chaosbladeFinalizer]\<rparr>) w))"

definition reconcile_destroyed :: "'w api \<Rightarrow> ChaosBlade \<Rightarrow> 'w \<Rightarrow> 'w go" where
  "reconcile_destroyed A cb w =
     do { fs \<leftarrow> remove (cb_Finalizers cb) chaosbladeFinalizer;
          Some (snd (ap_Update A (cb\<lparr>cb_Finalizers := fs\<rparr>) w)) }"

text \<open>
  \<open>Reconcile\<close>. It answers \<open>(reconcile.Result{}, nil)\<close> on every path, so the result is the world;
  \<open>None\<close> is a panic.
\<close>

definition reconcile_object ::
  "'w api \<Rightarrow> 'w executor \<Rightarrow> (string \<Rightarrow> GoErr + ExperimentSpec list) \<Rightarrow> ChaosBlade \<Rightarrow> 'w \<Rightarrow> 'w go" where
  "reconcile_object A E unm cb w =
     (if cb_Experiments cb = [] then Some w
      else if cb_Phase cb = PhaseDestroyed then reconcile_destroyed A cb w
      else if cb_Phase cb = PhaseDestroying \<or> cb_DeletionTimestamp cb \<noteq> None then
        do { (err, w') \<leftarrow> finalizeChaosBlade A E cb w; Some w' }
      else if cb_Phase cb = PhaseInitial then Some (reconcile_initial A cb w)
      else if cb_Phase cb = PhaseInitialized \<or> cb_Phase cb = PhaseUpdating then
        reconcile_create A E cb w
      else if cb_Phase cb = PhaseRunning \<or> cb_Phase cb = PhaseError then
        reconcile_update A E unm cb w
      else Some w)"

definition Reconcile ::
  "'w api \<Rightarrow> 'w executor \<Rightarrow> (string \<Rightarrow> GoErr + ExperimentSpec list) \<Rightarrow> string \<Rightarrow> 'w \<Rightarrow> 'w go" where
  "Reconcile A E unm n w =
     (case ap_Get A n w of
        (Inl _, w1) \<Rightarrow> Some w1
      | (Inr cb, w1) \<Rightarrow> reconcile_object A E unm cb w1)"

subsection \<open>periodicallyCleanUpBlade\<close>

text \<open>
  Times and durations are nanoseconds. \<open>time.Time.Sub\<close> saturates at the bounds of \<open>int64\<close>;
  \<open>Duration.Seconds\<close> adds the whole seconds and the rest, both as \<open>float64\<close>.
\<close>

definition sub_time :: "int \<Rightarrow> int \<Rightarrow> int" where
  "sub_time t u = max (- (2 ^ 63)) (min (2 ^ 63 - 1) (t - u))"

definition duration_seconds :: "int \<Rightarrow> rat" where
  "duration_seconds d =
     (let secs = (\<lambda>e. fl (of_int (e div 1000000000) + fl (of_int (e mod 1000000000) / 1000000000)))
      in if d < 0 then - secs (- d) else secs d)"

definition overdue :: "int \<Rightarrow> int \<Rightarrow> ChaosBlade \<Rightarrow> bool" where
  "overdue now interval cb =
     (case cb_DeletionTimestamp cb of
        None \<Rightarrow> False
      | Some t \<Rightarrow> cb_Phase cb = PhaseDestroying \<and>
          duration_seconds (sub_time now t) > duration_seconds interval)"

text \<open>\<open>now\<close> reads the clock, once for each item. A failing \<open>List\<close> is logged only.\<close>

fun cleanup_items ::
  "'w api \<Rightarrow> ('w \<Rightarrow> int) \<Rightarrow> int \<Rightarrow> ChaosBlade list \<Rightarrow> 'w \<Rightarrow> 'w" where
  "cleanup_items A now interval [] w = w"
| "cleanup_items A now interval (cb # cbs) w =
     cleanup_items A now interval cbs
       (if overdue (now w) interval cb then snd (ap_ClearFinalizers A (cb_Name cb) w) else w)"

definition periodicallyCleanUpBlade :: "'w api \<Rightarrow> ('w \<Rightarrow> int) \<Rightarrow> int \<Rightarrow> 'w \<Rightarrow> 'w" where
  "periodicallyCleanUpBlade A now interval w =
     (let ((err, items), w1) = ap_List A w in cleanup_items A now interval items w1)"

definition DefaultRemoveBladeInterval :: string where
  "DefaultRemoveBladeInterval = ''72h''"

text \<open>
  The interval the clean-up runs with: the configured one, or the default when it does not parse;
  \<open>None\<close> is the fatal exit. \<open>time.ParseDuration\<close> is the argument \<open>parse\<close>.
\<close>

definition cleanup_interval :: "(string \<Rightarrow> GoErr + int) \<Rightarrow> string \<Rightarrow> (int \<times> string) go" where
  "cleanup_interval parse RemoveBladeInterval =
     (case parse RemoveBladeInterval of
        Inr d \<Rightarrow> Some (d, RemoveBladeInterval)
      | Inl _ \<Rightarrow>
          (case parse DefaultRemoveBladeInterval of
             Inr d \<Rightarrow> Some (d, DefaultRemoveBladeInterval)
           | Inl _ \<Rightarrow> None))"

text \<open>The period of the ticker: whole seconds, by a truncating conversion; \<open>NewTicker\<close> panics when it
  is not positive.\<close>

definition ticker_period :: "(int \<Rightarrow> int) \<Rightarrow> int \<Rightarrow> int go" where
  "ticker_period oor d =
     (let s = duration_seconds d;
          n = 1000000000 * to_int64 oor (if s < 0 then \<lceil>s\<rceil> else \<lfloor>s\<rfloor>)
      in if 0 < n then Some n else None)"

subsection \<open>The event predicates (predicate.go)\<close>

text \<open>
  A nil object is \<open>None\<close>. The update predicate also writes: it replaces all annotations of the new
  object, which is the cached one, by the old spec. It returns its answer and that object.
  \<open>reflect.DeepEqual\<close> on specs and statuses is equality, the nil slice being distinguished from the
  empty one where the field is an option; matcher slices are compared as lists.
\<close>

definition pred_Create :: "ChaosBlade option \<Rightarrow> bool" where
  "pred_Create ob =
     (case ob of
        None \<Rightarrow> False
      | Some cb \<Rightarrow> if cb_DeletionTimestamp cb \<noteq> None then False else cb_Phase cb = PhaseInitial)"

definition pred_Delete :: "ChaosBlade option \<Rightarrow> bool" where
  "pred_Delete ob =
     (case ob of None \<Rightarrow> False | Some cb \<Rightarrow> contains (cb_Finalizers cb) chaosbladeFinalizer)"

definition pred_Update ::
  "(ExperimentSpec list \<Rightarrow> GoErr + string) \<Rightarrow> ChaosBlade option \<Rightarrow> ChaosBlade option \<Rightarrow>
     bool \<times> ChaosBlade option" where
  "pred_Update msh oldOb newOb =
     (case (oldOb, newOb) of
        (Some old, Some new) \<Rightarrow>
          if cb_Experiments new \<noteq> cb_Experiments old then
            (case msh (cb_Experiments old) of
               Inl _ \<Rightarrow> (False, newOb)
             | Inr s \<Rightarrow> (True, Some (new\<lparr>cb_Annotations := Some [''preSpec'' \<mapsto> s]\<rparr>)))
          else if cb_Phase new = PhaseInitial then (True, newOb)
          else if cb_DeletionTimestamp old = None \<and> cb_DeletionTimestamp new \<noteq> None then (True, newOb)
          else if cb_Phase new = PhaseRunning \<or> cb_Phase new = PhaseError
               \<or> cb_Phase new = PhaseDestroying then (False, newOb)
          else if cb_Phase new \<noteq> cb_Phase old then (True, newOb)
          else if cb_ExpStatuses new \<noteq> cb_ExpStatuses old then (True, newOb)
          else if cb_DeletionTimestamp new \<noteq> None then
            (contains (cb_Finalizers new) chaosbladeFinalizer, newOb)
          else (False, newOb)
      | _ \<Rightarrow> (False, newOb))"

definition pred_Generic :: "ChaosBlade option \<Rightarrow> bool" where
  "pred_Generic ob = False"

subsection \<open>Facts about the finalizer list\<close>

lemma contains_iff [simp]: "contains l s \<longleftrightarrow> s \<in> set l"
  by (induction l s rule: contains.induct) auto

lemma remove_loop_append:
  "remove_loop s (js @ ks) st = do { st' \<leftarrow> remove_loop s js st; remove_loop s ks st' }"
  by (induction s js st rule: remove_loop.induct) (auto split: Option.bind_splits)

lemma remove_loop_skip:
  "(\<And>j. j \<in> set js \<Longrightarrow> arr ! j \<noteq> s) \<Longrightarrow> remove_loop s js (arr, k) = Some (arr, k)"
  by (induction js) (auto simp: remove_step_def)

lemma remove_absent: "s \<notin> set l \<Longrightarrow> remove l s = Some l"
  by (subst remove_def, subst remove_loop_skip) (auto simp: in_set_conv_nth)

lemma remove_once:
  assumes "s \<notin> set xs" "s \<notin> set ys"
  shows "remove (xs @ s # ys) s = Some (xs @ ys)"
proof -
  let ?l = "xs @ s # ys" and ?i = "length xs"
  let ?arr = "xs @ ys @ [last (s # ys)]"
  have split: "[0..<length ?l] = [0..<?i] @ ?i # [Suc ?i..<length ?l]"
    using upt_add_eq_append [of 0 ?i "Suc (length ys)"]
    by (simp add: upt_conv_Cons del: upt_Suc)
  have before: "remove_loop s [0..<?i] (?l, length ?l) = Some (?l, length ?l)"
    using assms(1) by (intro remove_loop_skip) (auto simp: nth_append)
  have at: "remove_step s ?i (?l, length ?l) = Some (?arr, ?i + length ys)"
    by (simp add: remove_step_def) (cases ys rule: rev_cases; simp)
  have after: "remove_loop s [Suc ?i..<length ?l] (?arr, ?i + length ys) = Some (?arr, ?i + length ys)"
  proof (rule remove_loop_skip)
    fix j assume "j \<in> set [Suc ?i..<length ?l]"
    then have j: "?i < j" "j \<le> ?i + length ys" "ys \<noteq> []" by auto
    then have "?arr ! j = (if j < ?i + length ys then ys ! (j - ?i) else last ys)"
      by (auto simp: nth_append)
    with j assms(2) show "?arr ! j \<noteq> s"
      by (metis add_diff_inverse_nat last_in_set less_imp_le_nat linorder_not_less
          nat_add_left_cancel_less nth_mem)
  qed
  show ?thesis
    by (simp only: remove_def split remove_loop_append remove_loop.simps before at after
        Option.bind.simps prod.case) simp
qed

lemma remove_distinct: "distinct l \<Longrightarrow> remove l s = Some (removeAll s l)"
proof (cases "s \<in> set l")
  case True
  assume "distinct l"
  moreover obtain xs ys where "l = xs @ s # ys" using True by (meson split_list)
  ultimately show ?thesis by (simp add: remove_once removeAll_id)
next
  case False
  then show ?thesis by (simp add: remove_absent removeAll_id)
qed

text \<open>
  What a controller relies on from its finalizer list: a test, an insertion and a removal that
  agree with one another on lists without repetitions.
\<close>

locale finalizer_set =
  fixes mem :: "'l \<Rightarrow> 'f \<Rightarrow> bool" and ins :: "'l \<Rightarrow> 'f \<Rightarrow> 'l"
    and del :: "'l \<Rightarrow> 'f \<Rightarrow> 'l go" and ok :: "'l \<Rightarrow> bool"
  assumes mem_ins: "mem (ins l f) g \<longleftrightarrow> g = f \<or> mem l g"
    and ok_ins: "ok l \<Longrightarrow> \<not> mem l f \<Longrightarrow> ok (ins l f)"
    and del_ok: "ok l \<Longrightarrow> \<exists>l'. del l f = Some l' \<and> ok l' \<and> (\<forall>g. mem l' g \<longleftrightarrow> g \<noteq> f \<and> mem l g)"
begin

lemma del_ins:
  assumes "ok l" "\<not> mem l f"
  obtains l' where "del (ins l f) f = Some l'" "ok l'" "\<And>g. mem l' g \<longleftrightarrow> mem l g"
proof -
  from del_ok [OF ok_ins [OF assms], of f] obtain l' where
    "del (ins l f) f = Some l'" "ok l'" "\<forall>g. mem l' g \<longleftrightarrow> g \<noteq> f \<and> mem (ins l f) g" by blast
  moreover from this(3) assms(2) have "mem l' g \<longleftrightarrow> mem l g" for g by (auto simp: mem_ins)
  ultimately show thesis using that by blast
qed

lemma others_kept: "ok l \<Longrightarrow> del l f = Some l' \<Longrightarrow> g \<noteq> f \<Longrightarrow> mem l' g \<longleftrightarrow> mem l g"
  using del_ok [of l f] by auto

lemma gone: "ok l \<Longrightarrow> del l f = Some l' \<Longrightarrow> \<not> mem l' f"
  using del_ok [of l f] by auto

end

interpretation fin: finalizer_set contains "\<lambda>l f. l @ [f]" remove distinct
  by unfold_locales (auto simp: remove_distinct distinct_removeAll)

subsection \<open>The duration arithmetic of the clean-up\<close>

lemma duration_seconds_mono: "0 \<le> d \<Longrightarrow> d \<le> e \<Longrightarrow> duration_seconds d \<le> duration_seconds e"
proof -
  assume de: "0 \<le> d" "d \<le> e"
  let ?G = "1000000000 :: int"
  let ?fr = "\<lambda>x. fl (of_int (x mod ?G) / 1000000000)"
  have fr0: "0 \<le> ?fr x" for x by (simp add: fl_nonneg)
  have fl1: "fl 1 = 1" using fl_of_nat [of 1] by simp
  have fr1: "?fr x \<le> 1" for x
    using fl_mono [of "of_int (x mod ?G) / 1000000000" 1] pos_mod_bound [of ?G x]
    by (simp add: fl1 del: pos_mod_bound)
  have "of_int (d div ?G) + ?fr d \<le> of_int (e div ?G) + ?fr e"
  proof (cases "d div ?G = e div ?G")
    case True
    then have "d mod ?G \<le> e mod ?G"
      using de(2) by (metis add_le_cancel_left mult_div_mod_eq)
    then have "?fr d \<le> ?fr e" by (intro fl_mono) (simp_all add: divide_right_mono)
    with True show ?thesis by simp
  next
    case False
    then have "d div ?G + 1 \<le> e div ?G" using de(2) zdiv_mono1 [of d e ?G] by linarith
    then have "(of_int (d div ?G) :: rat) + 1 \<le> of_int (e div ?G)"
      by (metis of_int_1 of_int_add of_int_le_iff)
    with fr0 [of e] fr1 [of d] show ?thesis by linarith
  qed
  then have "fl (of_int (d div ?G) + ?fr d) \<le> fl (of_int (e div ?G) + ?fr e)"
    using de fr0 [of d] by (intro fl_mono) (simp_all add: pos_imp_zdiv_nonneg_iff)
  with de show ?thesis by (simp add: duration_seconds_def Let_def)
qed

lemma duration_seconds_nonneg: "0 \<le> d \<Longrightarrow> 0 \<le> duration_seconds d"
  using duration_seconds_mono [of 0 d] by (simp add: duration_seconds_def)

lemma duration_seconds_nonpos: "d < 0 \<Longrightarrow> duration_seconds d \<le> 0"
  using duration_seconds_nonneg [of "- d"] by (simp add: duration_seconds_def Let_def)

lemma overdue_elapsed:
  assumes "overdue now interval cb" "0 \<le> interval"
  shows "cb_Phase cb = PhaseDestroying"
    and "\<exists>t. cb_DeletionTimestamp cb = Some t \<and> interval < now - t"
proof -
  from assms(1) obtain t where t: "cb_DeletionTimestamp cb = Some t" "cb_Phase cb = PhaseDestroying"
    and gt: "duration_seconds interval < duration_seconds (sub_time now t)"
    by (auto simp: overdue_def split: option.splits)
  then show "cb_Phase cb = PhaseDestroying" by simp
  have "interval < sub_time now t"
  proof (rule ccontr)
    assume "\<not> ?thesis"
    then have "duration_seconds (sub_time now t) \<le> duration_seconds interval"
      using duration_seconds_mono [of "sub_time now t" interval] assms(2)
        duration_seconds_nonpos [of "sub_time now t"] duration_seconds_nonneg [of interval]
      by (cases "sub_time now t < 0") auto
    with gt show False by simp
  qed
  with assms(2) have "interval < now - t" by (auto simp: sub_time_def)
  with t show "\<exists>t. cb_DeletionTimestamp cb = Some t \<and> interval < now - t" by blast
qed

lemma ticker_period_subsecond:
  assumes "0 \<le> d" "d < 1000000000"
  shows "ticker_period oor d = None"
proof -
  let ?x = "of_int d / 1000000000 :: rat"
  have d: "d \<le> 999999999" using assms by simp
  have x: "0 \<le> ?x" "?x \<le> 999999999 / 1000000000"
    using assms(1) d by (simp_all add: divide_right_mono)
  have f: "0 \<le> fl y" "fl y \<le> y * (1 + 1 / 2 ^ 53)" if "0 \<le> y" for y
    using fl_le [OF that] fl_nonneg [OF that] by auto
  have y: "0 \<le> fl ?x" "fl ?x \<le> 999999999 / 1000000000 * (1 + 1 / 2 ^ 53)"
    using f [OF x(1)] x(2) mult_right_mono [OF x(2), of "1 + 1 / 2 ^ 53"] by auto
  have z: "0 \<le> fl (fl ?x)" "fl (fl ?x) < 1"
    using f [OF y(1)] mult_right_mono [OF y(2), of "1 + 1 / 2 ^ 53"] by (simp_all add: field_simps)
  have "duration_seconds d = fl (fl ?x)"
    using assms by (simp add: duration_seconds_def Let_def)
  moreover have "\<lfloor>fl (fl ?x)\<rfloor> = 0" using z by (simp add: floor_eq_iff)
  ultimately show ?thesis using z by (simp add: ticker_period_def Let_def to_int64_def)
qed

lemma destroy_old_zip:
  "idx + length sts \<le> length olds \<Longrightarrow>
   destroy_old E n olds idx sts w = mapM_w (destroy_step E n) (zip (drop idx olds) sts) w"
proof (induction E n olds idx sts w rule: destroy_old.induct)
  case (2 E n olds idx st sts w)
  then have d: "drop idx olds = olds ! idx # drop (Suc idx) olds"
    by (simp add: Cons_nth_drop_Suc)
  show ?case
    using 2 by (simp only: d zip_Cons_Cons mapM_w.simps destroy_old.simps index_at_ok)
      (auto simp: destroy_step_def index_at_ok split: Option.bind_splits prod.splits)
qed simp

lemma destroy_old_short:
  assumes "\<And>x st u. ex_Destroy E n x st u \<noteq> None"
  shows "length olds < idx + length sts \<Longrightarrow> idx \<le> length olds \<Longrightarrow> destroy_old E n olds idx sts w = None"
proof (induction E n olds idx sts w rule: destroy_old.induct)
  case (2 E n olds idx st sts w)
  then show ?case
    by (cases "idx < length olds")
      (auto simp: index_at_ok index_at_oob split: Option.bind_splits)
qed simp

lemma reconcile_object_finalize:
  "cb_Experiments cb \<noteq> [] \<Longrightarrow> cb_Phase cb \<noteq> PhaseDestroyed \<Longrightarrow>
   cb_Phase cb = PhaseDestroying \<or> cb_DeletionTimestamp cb \<noteq> None \<Longrightarrow>
   reconcile_object A E unm cb w = map_option snd (finalizeChaosBlade A E cb w)"
  by (auto simp: reconcile_object_def split: Option.bind_splits)

lemma finalize_same_length:
  assumes "cb_ExpStatuses cb = Some old" "length (cb_Experiments cb) = length old"
    and "mapM_w (destroy_step E (cb_Name cb)) (zip (cb_Experiments cb) old) w = Some (new, w1)"
  shows "map_option snd (finalizeChaosBlade A E cb w) =
    Some (snd (ap_StatusUpdate A
      (cb\<lparr>cb_ExpStatuses := Some new,
          cb_Phase := if \<forall>s \<in> set new. es_Success s then PhaseDestroyed else PhaseDestroying\<rparr>) w1))"
  using assms by (simp add: finalizeChaosBlade_def split_beta Let_def split: option.splits)

lemma finalize_other_length:
  assumes "cb_ExpStatuses cb = Some old" "length (cb_Experiments cb) \<noteq> length old"
  shows "map_option snd (finalizeChaosBlade A E cb w) =
    Some (snd (ap_StatusUpdate A (cb\<lparr>cb_Phase := PhaseDestroyed\<rparr>) w))"
  using assms by (simp add: finalizeChaosBlade_def split_beta Let_def split: option.splits)
    (metis ChaosBlade.surjective ChaosBlade.update_convs(8))

lemma finalize_nil:
  assumes "cb_ExpStatuses cb = None"
  shows "map_option snd (finalizeChaosBlade A E cb w) =
    Some (snd (ap_StatusUpdate A (cb\<lparr>cb_Phase := PhaseDestroyed\<rparr>) w))"
  using assms by (simp add: finalizeChaosBlade_def split_beta Let_def split: option.splits)
    (metis ChaosBlade.surjective ChaosBlade.update_convs(8))

subsection \<open>A client and an executor for the witnesses\<close>

text \<open>
  An API server that holds one object: writes of the main resource keep the stored status, writes
  of the status keep the rest, and an object that awaits deletion goes when its finalizers are gone.
\<close>

definition one_store :: "ChaosBlade \<Rightarrow> ChaosBlade option" where
  "one_store c = (if cb_DeletionTimestamp c \<noteq> None \<and> cb_Finalizers c = [] then None else Some c)"

definition one_api :: "ChaosBlade option api" where
  "one_api =
     \<lparr>ap_Get = (\<lambda>n w. (case w of
          Some c \<Rightarrow> if cb_Name c = n then Inr c else Inl (ErrApi True ''not found'')
        | None \<Rightarrow> Inl (ErrApi True ''not found''), w)),
      ap_Update = (\<lambda>cb w. case w of
          Some c \<Rightarrow> (let c' = cb\<lparr>cb_Phase := cb_Phase c, cb_ExpStatuses := cb_ExpStatuses c,
                       cb_DeletionTimestamp := cb_DeletionTimestamp c\<rparr>
                     in ((None, c'), one_store c'))
        | None \<Rightarrow> ((Some (ErrApi True ''not found''), cb), w)),
      ap_StatusUpdate = (\<lambda>cb w. case w of
          Some c \<Rightarrow> (let c' = c\<lparr>cb_Phase := cb_Phase cb, cb_ExpStatuses := cb_ExpStatuses cb\<rparr>
                     in ((None, c'), Some c'))
        | None \<Rightarrow> ((Some (ErrApi True ''not found''), cb), w)),
      ap_List = (\<lambda>w. ((None, case w of Some c \<Rightarrow> [c] | None \<Rightarrow> []), w)),
      ap_ClearFinalizers = (\<lambda>n w. case w of
          Some c \<Rightarrow> if cb_Name c = n then (None, one_store (c\<lparr>cb_Finalizers := []\<rparr>))
                    else (Some (ErrApi True ''not found''), w)
        | None \<Rightarrow> (Some (ErrApi True ''not found''), w))\<rparr>"

definition flat_executor :: "bool \<Rightarrow> 'w executor" where
  "flat_executor b =
     \<lparr>ex_Create = (\<lambda>n x w. Some (CreateSuccessExperimentStatus (Some []), w)),
      ex_Destroy = (\<lambda>n x st w. Some (if b then CreateDestroyedExperimentStatus (Some [])
         else CreateFailExperimentStatus ''failed'' (Some []), w))\<rparr>"

definition spec_a :: ExperimentSpec where
  "spec_a = \<lparr>xs_Scope = ''pod'', xs_Target = ''pod'', xs_Action = ''delete'', xs_Desc = [], xs_Matchers = []\<rparr>"

definition spec_b :: ExperimentSpec where
  "spec_b = spec_a\<lparr>xs_Scope := ''node'', xs_Target := ''cpu'', xs_Action := ''fullload''\<rparr>"

definition blade_a :: ChaosBlade where
  "blade_a = \<lparr>cb_Name = ''a'', cb_ResourceVersion = ''1'', cb_Finalizers = [chaosbladeFinalizer], cb_DeletionTimestamp = None,
     cb_Annotations = None, cb_Experiments = [spec_a, spec_b], cb_Phase = PhaseRunning,
     cb_ExpStatuses = Some [CreateSuccessExperimentStatus (Some []), CreateSuccessExperimentStatus (Some [])]\<rparr>"

text \<open>A codec of specs for the witnesses: the number of experiments in unary and back.\<close>

definition unary_msh :: "ExperimentSpec list \<Rightarrow> GoErr + string" where
  "unary_msh xs = Inr (CHR ''['' # replicate (length xs) (CHR ''x''))"

definition unary_unm :: "ExperimentSpec list \<Rightarrow> string \<Rightarrow> GoErr + ExperimentSpec list" where
  "unary_unm xs s = (if s = CHR ''['' # replicate (length xs) (CHR ''x'') then Inr xs
     else Inl (ErrNew ''json''))"

lemmas sample_defs = one_api_def one_store_def flat_executor_def spec_a_def spec_b_def blade_a_def
  unary_msh_def unary_unm_def

subsection \<open>Properties\<close>

text \<open>A clean-up interval below one second stops the clean-up goroutine by a panic: the ticker
  period is truncated to whole seconds, and a ticker of period zero is refused.\<close>

theorem subsecond_interval_panics:
  assumes "parse RemoveBladeInterval = Inr d" "0 \<le> d" "d < 1000000000"
  shows "do { (d, i) \<leftarrow> cleanup_interval parse RemoveBladeInterval; ticker_period oor d } = None"
  using assms by (simp add: cleanup_interval_def ticker_period_subsecond)

lemma subsecond_interval_panics_witness:
  "do { (d, i) \<leftarrow> cleanup_interval (\<lambda>_. Inr 500000000) ''500ms''; ticker_period (\<lambda>_. 0) d } = None"
  by (rule subsecond_interval_panics [where d = 500000000]) simp_all

text \<open>C36. When a blade is deleted while the number of its stored experiment statuses differs from
  the number of its experiments (the status update after the creation failed, or the spec was
  changed in between), the reconciler destroys nothing: its only effect is to store the phase
  Destroyed, after which the finalizer goes.\<close>

theorem finalize_skips_destroy:
  assumes "ap_Get A n w = (Inr cb, w1)"
    and "cb_Experiments cb \<noteq> []" "cb_Phase cb \<noteq> PhaseDestroyed" "cb_DeletionTimestamp cb \<noteq> None"
    and "cb_ExpStatuses cb = Some old" "length (cb_Experiments cb) \<noteq> length old"
  shows "Reconcile A E unm n w =
    Some (snd (ap_StatusUpdate A (cb\<lparr>cb_Phase := PhaseDestroyed\<rparr>) w1))"
  using assms by (simp add: Reconcile_def reconcile_object_finalize finalize_other_length)

lemma finalize_skips_destroy_witness:
  "Reconcile one_api (flat_executor False) (unary_unm []) ''a''
     (Some (blade_a\<lparr>cb_Phase := PhaseInitialized, cb_DeletionTimestamp := Some 0, cb_ExpStatuses := Some []\<rparr>)) =
   Some (Some (blade_a\<lparr>cb_Phase := PhaseDestroyed, cb_DeletionTimestamp := Some 0, cb_ExpStatuses := Some []\<rparr>))"
  by (subst finalize_skips_destroy) (auto simp: sample_defs Let_def)

text \<open>A destroy that failed is not tried again. A blade left in phase Destroying is filtered out
  by the update predicate (unless this very update changes the spec or requests the deletion) and
  by the create predicate, so neither a resync nor a restart of the operator queues it, although
  the interface comment of \<open>Reconcile\<close> has failing requests requeued.\<close>

theorem destroying_not_retried:
  assumes "cb_Phase new = PhaseDestroying" "cb_Experiments new = cb_Experiments old"
    and "cb_DeletionTimestamp old \<noteq> None \<or> cb_DeletionTimestamp new = None"
  shows "pred_Update msh (Some old) (Some new) = (False, Some new) \<and>
    \<not> pred_Create (Some new) \<and> \<not> pred_Generic (Some new)"
  using assms by (auto simp: pred_Update_def pred_Create_def pred_Generic_def)

lemma destroying_not_retried_witness:
  "\<not> fst (pred_Update unary_msh (Some blade_a) (Some (blade_a\<lparr>cb_Phase := PhaseDestroying\<rparr>)))"
  using destroying_not_retried [of "blade_a\<lparr>cb_Phase := PhaseDestroying\<rparr>" blade_a unary_msh]
  by (simp add: sample_defs)

lemma pred_Update_spec:
  assumes "cb_Experiments new \<noteq> cb_Experiments old"
    and "pred_Update msh (Some old) (Some new) = (True, Some new')"
  obtains s where "msh (cb_Experiments old) = Inr s"
    "new' = new\<lparr>cb_Annotations := Some [''preSpec'' \<mapsto> s]\<rparr>"
  using assms by (auto simp: pred_Update_def split: sum.splits)

lemma preSpec_annotated [simp]:
  "preSpec (c\<lparr>cb_Annotations := Some [''preSpec'' \<mapsto> s]\<rparr>) = s"
  by (simp add: preSpec_def)

text \<open>C26. Editing the spec of a running blade destroys the experiments of the old spec, each with the
  status that was stored for it and in their order, before anything else happens to it: the update
  predicate hands the old spec over in the annotation and the reconciler reads it back, given a
  codec that reads what it wrote. The blade then waits in Updating, or in Destroying when one of
  them could not be destroyed.\<close>

theorem spec_edit_destroys_old:
  assumes codec: "\<And>xs s. msh xs = Inr s \<Longrightarrow> s \<noteq> [] \<and> unm s = Inr xs"
    and edit: "cb_Experiments new \<noteq> cb_Experiments old"
    and event: "pred_Update msh (Some old) (Some new) = (True, Some new')"
    and read: "ap_Get A n w = (Inr new', w1)"
    and phase: "cb_Phase new = PhaseRunning \<or> cb_Phase new = PhaseError"
      "cb_DeletionTimestamp new = None" "cb_Experiments new \<noteq> []"
    and put: "ap_Update A new' w1 = ((err, cb1), w2)"
    and sts: "cb_ExpStatuses cb1 = Some sts" "length sts = length (cb_Experiments old)"
  shows "Reconcile A E unm n w =
    do { (res, w3) \<leftarrow> mapM_w (destroy_step E (cb_Name cb1)) (zip (cb_Experiments old) sts) w2;
         Some (snd (ap_StatusUpdate A (cb1\<lparr>cb_ExpStatuses := Some res,
           cb_Phase := if \<forall>s \<in> set res. es_Success s then PhaseUpdating else PhaseDestroying\<rparr>) w3)) }"
proof -
  from pred_Update_spec [OF edit event] obtain s where s: "msh (cb_Experiments old) = Inr s"
    and new': "new' = new\<lparr>cb_Annotations := Some [''preSpec'' \<mapsto> s]\<rparr>" .
  have "s \<noteq> []" "unm s = Inr (cb_Experiments old)" using codec [OF s] by auto
  then have "reconcile_update A E unm new' w1 =
    do { (res, w3) \<leftarrow> mapM_w (destroy_step E (cb_Name cb1)) (zip (cb_Experiments old) sts) w2;
         Some (snd (ap_StatusUpdate A (cb1\<lparr>cb_ExpStatuses := Some res,
           cb_Phase := if \<forall>s \<in> set res. es_Success s then PhaseUpdating else PhaseDestroying\<rparr>) w3)) }"
    using put sts by (simp add: reconcile_update_def new' destroy_old_zip Let_def split_beta)
      (auto split: Option.bind_splits)
  moreover have "Reconcile A E unm n w = reconcile_update A E unm new' w1"
    using read phase by (auto simp: Reconcile_def reconcile_object_def new')
  ultimately show ?thesis by simp
qed

lemma spec_edit_destroys_old_witness:
  "Reconcile one_api (flat_executor True) (unary_unm [spec_a, spec_b]) ''a''
     (Some (blade_a\<lparr>cb_Experiments := [spec_b], cb_Annotations := Some [''preSpec'' \<mapsto> ''[xx'']\<rparr>)) =
   Some (Some (blade_a\<lparr>cb_Experiments := [spec_b], cb_Annotations := Some [''preSpec'' \<mapsto> ''[xx''],
     cb_Phase := PhaseUpdating,
     cb_ExpStatuses := Some [CreateDestroyedExperimentStatus (Some []), CreateDestroyedExperimentStatus (Some [])]\<rparr>))"
  by (subst spec_edit_destroys_old
      [where msh = "\<lambda>xs. if xs = [spec_a, spec_b] then unary_msh xs else Inl (ErrNew ''json'')"
         and old = blade_a and new = "blade_a\<lparr>cb_Experiments := [spec_b]\<rparr>"])
    (auto simp: sample_defs destroy_step_def pred_Update_def Let_def split: if_splits)

text \<open>C40. Two edits of the spec in quick succession can crash the reconciler. The second event
  overwrites the spec that the first one had handed over; when the spec in between had fewer
  experiments than were started, the loop that destroys by the stored statuses indexes beyond it.\<close>

theorem quick_edits_panic:
  assumes codec: "\<And>xs s. msh xs = Inr s \<Longrightarrow> s \<noteq> [] \<and> unm s = Inr xs"
    and edit: "cb_Experiments second \<noteq> cb_Experiments first"
    and event: "pred_Update msh (Some first) (Some second) = (True, Some second')"
    and read: "ap_Get A n w = (Inr second', w1)"
    and phase: "cb_Phase second = PhaseRunning" "cb_DeletionTimestamp second = None"
      "cb_Experiments second \<noteq> []"
    and put: "ap_Update A second' w1 = ((err, cb1), w2)"
    and sts: "cb_ExpStatuses cb1 = Some sts" "length (cb_Experiments first) < length sts"
    and destroys: "\<And>x st u. ex_Destroy E (cb_Name cb1) x st u \<noteq> None"
  shows "Reconcile A E unm n w = None"
proof -
  from pred_Update_spec [OF edit event] obtain s where s: "msh (cb_Experiments first) = Inr s"
    and second': "second' = second\<lparr>cb_Annotations := Some [''preSpec'' \<mapsto> s]\<rparr>" .
  have "destroy_old E (cb_Name cb1) (cb_Experiments first) 0 sts w2 = None"
    using destroys sts(2) by (intro destroy_old_short) auto
  then have "reconcile_update A E unm second' w1 = None"
    using codec [OF s] put sts by (simp add: reconcile_update_def second')
  then show ?thesis using read phase by (simp add: Reconcile_def reconcile_object_def second')
qed

lemma quick_edits_panic_witness:
  "Reconcile one_api (flat_executor True) (unary_unm [spec_a]) ''a''
     (Some (blade_a\<lparr>cb_Experiments := [spec_b], cb_Annotations := Some [''preSpec'' \<mapsto> ''[x'']\<rparr>)) = None"
  by (rule quick_edits_panic
      [where msh = "\<lambda>xs. if xs = [spec_a] then unary_msh xs else Inl (ErrNew ''json'')"
         and first = "blade_a\<lparr>cb_Experiments := [spec_a]\<rparr>" and second = "blade_a\<lparr>cb_Experiments := [spec_b]\<rparr>"])
    (auto simp: sample_defs pred_Update_def Let_def split: if_splits)

end
