(* ===== verification/Histories.thy ===== *)
theory Histories
  imports Reconcile
begin

section \<open>Histories of a stored blade\<close>

text \<open>
  An abstract machine for one \<open>ChaosBlade\<close> object: \<open>operator_move\<close> lists the writes the reconciler may
  do to the stored object, \<open>user_move\<close> what users and other controllers may do. The API server is an
  object with a history, on which others act between any two calls of the operator: what they may do
  is a relation \<open>M\<close> of its own, the rely of the reconciler. The locale at the end shows that the
  reconciler of theory \<open>Reconcile\<close> keeps every set of histories that is closed under \<open>M\<close> and under
  its own moves; reads may be stale, and a write that names an outdated resource version is refused,
  as the API server documents.
\<close>

type_synonym blade_history = "ChaosBlade option list"

type_synonym rely = "blade_history \<Rightarrow> ChaosBlade option \<Rightarrow> bool"

subsection \<open>The moves\<close>

definition armed :: "ChaosBlade \<Rightarrow> bool" where
  "armed c \<longleftrightarrow> chaosbladeFinalizer \<in> set (cb_Finalizers c)"

definition live :: "ClusterPhase \<Rightarrow> bool" where
  "live p \<longleftrightarrow> p \<in> {PhaseInitialized, PhaseRunning, PhaseUpdating, PhaseDestroying, PhaseError}"

text \<open>
  What a user or another controller may do to the object: create it (the server drops the status),
  edit everything but the status, request its deletion. It is assumed that nobody but the operator
  takes the operator's finalizer; the server drops an object only when it has none left.
\<close>

inductive user_move :: "ChaosBlade option \<Rightarrow> ChaosBlade option \<Rightarrow> bool" where
  create: "cb_Phase c = PhaseInitial \<Longrightarrow> cb_ExpStatuses c = None \<Longrightarrow> user_move None (Some c)"
| edit: "cb_Phase c' = cb_Phase c \<Longrightarrow> cb_ExpStatuses c' = cb_ExpStatuses c \<Longrightarrow>
    (armed c \<Longrightarrow> armed c') \<Longrightarrow>
    (cb_DeletionTimestamp c \<noteq> None \<Longrightarrow> cb_DeletionTimestamp c' = cb_DeletionTimestamp c) \<Longrightarrow>
    user_move (Some c) (Some c')"
| vanish: "\<not> armed c \<Longrightarrow> user_move (Some c) None"

text \<open>The object after a write of the operator: gone when it awaits deletion without finalizers.\<close>

definition stored :: "ChaosBlade \<Rightarrow> ChaosBlade option" where
  "stored c = one_store c"

definition status_of :: "ChaosBlade \<Rightarrow> ClusterPhase \<times> ExperimentStatus list option" where
  "status_of c = (cb_Phase c, cb_ExpStatuses c)"

text \<open>
  Where the moves depend on what the executor said: \<open>D c x s st\<close> is that it answered \<open>st\<close> when it was asked,
  for the state \<open>c\<close>, to destroy the experiment \<open>x\<close> with the status \<open>s\<close>.
\<close>

type_synonym answers = "ChaosBlade \<Rightarrow> ExperimentSpec \<Rightarrow> ExperimentStatus \<Rightarrow> ExperimentStatus \<Rightarrow> bool"

text \<open>\<open>same_main c c'\<close>: only the status, the annotations or the resource version differ.\<close>

definition same_main :: "ChaosBlade \<Rightarrow> ChaosBlade \<Rightarrow> bool" where
  "same_main c c' \<longleftrightarrow> cb_Name c' = cb_Name c \<and> cb_Finalizers c' = cb_Finalizers c
     \<and> cb_DeletionTimestamp c' = cb_DeletionTimestamp c \<and> cb_Experiments c' = cb_Experiments c"

definition all_ok :: "ExperimentStatus list \<Rightarrow> bool" where
  "all_ok sts \<longleftrightarrow> (\<forall>s \<in> set sts. es_Success s)"

inductive operator_move :: "answers \<Rightarrow> ChaosBlade \<Rightarrow> ChaosBlade \<Rightarrow> bool" for D where
  arm: "cb_Phase c = PhaseInitial \<Longrightarrow> \<not> armed c \<Longrightarrow> cb_DeletionTimestamp c = None \<Longrightarrow>
    cb_Finalizers c' = cb_Finalizers c @ [chaosbladeFinalizer] \<Longrightarrow>
    cb_Experiments c' = cb_Experiments c \<Longrightarrow> cb_DeletionTimestamp c' = None \<Longrightarrow>
    status_of c' = status_of c \<Longrightarrow> operator_move D c c'"
| initialize: "cb_Phase c = PhaseInitial \<Longrightarrow> armed c \<Longrightarrow> cb_DeletionTimestamp c = None \<Longrightarrow>
    same_main c c' \<Longrightarrow> status_of c' = (PhaseInitialized, Some []) \<Longrightarrow> operator_move D c c'"
| start: "cb_Phase c = PhaseInitialized \<or> cb_Phase c = PhaseUpdating \<Longrightarrow>
    cb_DeletionTimestamp c = None \<Longrightarrow> same_main c c' \<Longrightarrow> length sts = length (cb_Experiments c) \<Longrightarrow>
    status_of c' = (if \<exists>s \<in> set sts. es_Success s then PhaseRunning else PhaseError, Some sts) \<Longrightarrow>
    operator_move D c c'"
| annotate: "cb_Phase c = PhaseRunning \<or> cb_Phase c = PhaseError \<Longrightarrow>
    cb_DeletionTimestamp c = None \<Longrightarrow> same_main c c' \<Longrightarrow> status_of c' = status_of c \<Longrightarrow>
    operator_move D c c'"
| tear_down: "cb_Phase c = PhaseRunning \<or> cb_Phase c = PhaseError \<Longrightarrow>
    cb_DeletionTimestamp c = None \<Longrightarrow> same_main c c' \<Longrightarrow>
    cb_ExpStatuses c = Some old \<Longrightarrow> length sts = length old \<Longrightarrow>
    status_of c' = (if all_ok sts then PhaseUpdating else PhaseDestroying, Some sts) \<Longrightarrow>
    operator_move D c c'"
| tear_down_nil: "cb_Phase c = PhaseRunning \<or> cb_Phase c = PhaseError \<Longrightarrow>
    cb_DeletionTimestamp c = None \<Longrightarrow> same_main c c' \<Longrightarrow>
    cb_ExpStatuses c = None \<Longrightarrow> status_of c' = (PhaseUpdating, None) \<Longrightarrow> operator_move D c c'"
| finalize: "cb_Phase c = PhaseDestroying \<or> cb_DeletionTimestamp c \<noteq> None \<Longrightarrow>
    cb_Phase c \<noteq> PhaseDestroyed \<Longrightarrow> same_main c c' \<Longrightarrow>
    cb_ExpStatuses c = Some old \<Longrightarrow> length (cb_Experiments c) = length old \<Longrightarrow>
    list_all2 (\<lambda>(x, s). D c x s) (zip (cb_Experiments c) old) sts \<Longrightarrow>
    status_of c' = (if all_ok sts then PhaseDestroyed else PhaseDestroying, Some sts) \<Longrightarrow>
    operator_move D c c'"
| give_up: "cb_Phase c = PhaseDestroying \<or> cb_DeletionTimestamp c \<noteq> None \<Longrightarrow>
    cb_Phase c \<noteq> PhaseDestroyed \<Longrightarrow> same_main c c' \<Longrightarrow>
    (\<And>old. cb_ExpStatuses c = Some old \<Longrightarrow> length (cb_Experiments c) \<noteq> length old) \<Longrightarrow>
    status_of c' = (PhaseDestroyed, cb_ExpStatuses c) \<Longrightarrow> operator_move D c c'"
| release: "cb_Phase c = PhaseDestroyed \<Longrightarrow> status_of c' = status_of c \<Longrightarrow>
    cb_DeletionTimestamp c' = cb_DeletionTimestamp c \<Longrightarrow> cb_Experiments c' = cb_Experiments c \<Longrightarrow>
    remove (cb_Finalizers c) chaosbladeFinalizer = Some (cb_Finalizers c') \<Longrightarrow> operator_move D c c'"

subsection \<open>Histories\<close>

text \<open>A history has the newest state of the object first.\<close>

text \<open>\<open>grows M h h'\<close>: \<open>h'\<close> continues \<open>h\<close> by steps of \<open>M\<close>, which may look at the whole history.\<close>

inductive grows :: "rely \<Rightarrow> blade_history \<Rightarrow> blade_history \<Rightarrow> bool"
  for M where
  grows_same [intro]: "grows M h h"
| grows_step: "grows M h h' \<Longrightarrow> M h' o2 \<Longrightarrow> grows M h (o2 # h')"

fun user_step :: "blade_history \<Rightarrow> ChaosBlade option \<Rightarrow> bool" where
  "user_step [] o2 = False"
| "user_step (o1 # h) o2 = user_move o1 o2"

abbreviation users :: "blade_history \<Rightarrow> blade_history \<Rightarrow> bool" where
  "users \<equiv> grows user_step"

lemma users_step: "users h (o1 # h') \<Longrightarrow> user_move o1 o2 \<Longrightarrow> users h (o2 # o1 # h')"
  by (rule grows_step) simp_all

lemma grows_trans: "grows M h2 h3 \<Longrightarrow> grows M h1 h2 \<Longrightarrow> grows M h1 h3"
  by (induction rule: grows.induct) (auto intro: grows_step)

lemma grows_set: "grows M h h' \<Longrightarrow> set h \<subseteq> set h'"
  by (induction rule: grows.induct) auto

subsection \<open>The contracts\<close>

text \<open>
  What the reconciler needs of the API server about the object \<open>n\<close>. \<open>hist\<close> is the history of the
  object, \<open>ok\<close> the worlds in play. A resource version names one state; a read returns a state the
  object has or had, possibly with the annotations the update predicate wrote into the cache; a
  write that succeeds replaced a state with the version of its argument (optimistic concurrency),
  the main resource keeping status and deletion timestamp, the status resource everything else;
  a write that fails leaves its argument alone.
\<close>

definition read_of :: "ChaosBlade \<Rightarrow> ChaosBlade \<Rightarrow> bool" where
  "read_of c cb \<longleftrightarrow> cb = c\<lparr>cb_Annotations := cb_Annotations cb\<rparr>"

definition main_write :: "ChaosBlade \<Rightarrow> ChaosBlade \<Rightarrow> string \<Rightarrow> ChaosBlade" where
  "main_write c cb v = cb\<lparr>cb_ResourceVersion := v, cb_Phase := cb_Phase c,
     cb_ExpStatuses := cb_ExpStatuses c, cb_DeletionTimestamp := cb_DeletionTimestamp c\<rparr>"

definition status_write :: "ChaosBlade \<Rightarrow> ChaosBlade \<Rightarrow> string \<Rightarrow> ChaosBlade" where
  "status_write c cb v = c\<lparr>cb_ResourceVersion := v, cb_Phase := cb_Phase cb,
     cb_ExpStatuses := cb_ExpStatuses cb\<rparr>"

definition write_ok ::
  "rely \<Rightarrow> ('w \<Rightarrow> ChaosBlade option list) \<Rightarrow> (ChaosBlade \<Rightarrow> ChaosBlade \<Rightarrow> string \<Rightarrow> ChaosBlade) \<Rightarrow>
     ChaosBlade \<Rightarrow> 'w \<Rightarrow> GoErr option \<times> ChaosBlade \<Rightarrow> 'w \<Rightarrow> bool" where
  "write_ok M hist f cb w = (\<lambda>(err, cb') w'.
     if err = None then
       \<exists>c h v. grows M (hist w) (Some c # h) \<and> cb_ResourceVersion c = cb_ResourceVersion cb \<and>
         cb' = f c cb v \<and> grows M (stored cb' # Some c # h) (hist w')
     else cb' = cb \<and> grows M (hist w) (hist w'))"

definition versions_ok :: "('w \<Rightarrow> bool) \<Rightarrow> ('w \<Rightarrow> ChaosBlade option list) \<Rightarrow> bool" where
  "versions_ok ok hist \<longleftrightarrow>
     (\<forall>w c d. ok w \<longrightarrow> Some c \<in> set (hist w) \<longrightarrow> Some d \<in> set (hist w) \<longrightarrow>
        cb_ResourceVersion c = cb_ResourceVersion d \<longrightarrow> c = d)"

definition get_ok ::
  "rely \<Rightarrow> (string \<Rightarrow> 'w \<Rightarrow> (GoErr + ChaosBlade) \<times> 'w) \<Rightarrow> string \<Rightarrow> ('w \<Rightarrow> bool) \<Rightarrow>
     ('w \<Rightarrow> ChaosBlade option list) \<Rightarrow> bool" where
  "get_ok M g n ok hist \<longleftrightarrow>
     (\<forall>w r w'. ok w \<longrightarrow> g n w = (r, w') \<longrightarrow> ok w' \<and> grows M (hist w) (hist w') \<and>
        (\<forall>cb. r = Inr cb \<longrightarrow> cb_Name cb = n \<and> (\<exists>c. Some c \<in> set (hist w') \<and> read_of c cb)))"

definition put_ok ::
  "rely \<Rightarrow> (ChaosBlade \<Rightarrow> 'w \<Rightarrow> (GoErr option \<times> ChaosBlade) \<times> 'w) \<Rightarrow>
     (ChaosBlade \<Rightarrow> ChaosBlade \<Rightarrow> string \<Rightarrow> ChaosBlade) \<Rightarrow> string \<Rightarrow> ('w \<Rightarrow> bool) \<Rightarrow>
     ('w \<Rightarrow> ChaosBlade option list) \<Rightarrow> bool" where
  "put_ok M p f n ok hist \<longleftrightarrow>
     (\<forall>w cb r w'. ok w \<longrightarrow> cb_Name cb = n \<longrightarrow> p cb w = (r, w') \<longrightarrow> ok w' \<and> write_ok M hist f cb w r w')"

definition server_rely ::
  "rely \<Rightarrow> 'w api \<Rightarrow> string \<Rightarrow> ('w \<Rightarrow> bool) \<Rightarrow> ('w \<Rightarrow> ChaosBlade option list) \<Rightarrow> bool" where
  "server_rely M A n ok hist \<longleftrightarrow> versions_ok ok hist \<and> get_ok M (ap_Get A) n ok hist \<and>
     put_ok M (ap_Update A) main_write n ok hist \<and> put_ok M (ap_StatusUpdate A) status_write n ok hist"

text \<open>The executor does not write the blade object; users may act while it runs.\<close>

definition executor_rely ::
  "rely \<Rightarrow> 'w executor \<Rightarrow> ('w \<Rightarrow> bool) \<Rightarrow> ('w \<Rightarrow> ChaosBlade option list) \<Rightarrow> bool" where
  "executor_rely M E ok hist \<longleftrightarrow>
     (\<forall>n x w st w'. ok w \<longrightarrow> ex_Create E n x w = Some (st, w') \<longrightarrow> ok w' \<and> grows M (hist w) (hist w')) \<and>
     (\<forall>n x s w st w'. ok w \<longrightarrow> ex_Destroy E n x s w = Some (st, w') \<longrightarrow> ok w' \<and> grows M (hist w) (hist w'))"

text \<open>The contracts for a blade on which only users act.\<close>

abbreviation server_contract ::
  "'w api \<Rightarrow> string \<Rightarrow> ('w \<Rightarrow> bool) \<Rightarrow> ('w \<Rightarrow> ChaosBlade option list) \<Rightarrow> bool" where
  "server_contract \<equiv> server_rely user_step"

abbreviation executor_contract ::
  "'w executor \<Rightarrow> ('w \<Rightarrow> bool) \<Rightarrow> ('w \<Rightarrow> ChaosBlade option list) \<Rightarrow> bool" where
  "executor_contract \<equiv> executor_rely user_step"

lemma versions_okD:
  "versions_ok ok hist \<Longrightarrow> ok w \<Longrightarrow> Some c \<in> set (hist w) \<Longrightarrow> Some d \<in> set (hist w) \<Longrightarrow>
   cb_ResourceVersion c = cb_ResourceVersion d \<Longrightarrow> c = d"
  unfolding versions_ok_def by blast

lemma get_okD:
  "get_ok M g n ok hist \<Longrightarrow> ok w \<Longrightarrow> g n w = (r, w') \<Longrightarrow>
   ok w' \<and> grows M (hist w) (hist w') \<and>
   (\<forall>cb. r = Inr cb \<longrightarrow> cb_Name cb = n \<and> (\<exists>c. Some c \<in> set (hist w') \<and> read_of c cb))"
  unfolding get_ok_def by blast

lemma put_okD:
  "put_ok M p f n ok hist \<Longrightarrow> ok w \<Longrightarrow> cb_Name cb = n \<Longrightarrow> p cb w = (r, w') \<Longrightarrow>
   ok w' \<and> write_ok M hist f cb w r w'"
  unfolding put_ok_def by blast

lemma executor_keeps:
  assumes "executor_rely M E ok hist" "ok w"
  shows "ex_Create E n x w = Some (st, w') \<Longrightarrow> ok w' \<and> grows M (hist w) (hist w')"
    and "ex_Destroy E n x s w = Some (st, w') \<Longrightarrow> ok w' \<and> grows M (hist w) (hist w')"
  using assms unfolding executor_rely_def by blast+

text \<open>\<open>calm\<close>: the world is in play and only users have acted since \<open>w\<close>.\<close>

definition calm :: "rely \<Rightarrow> ('w \<Rightarrow> bool) \<Rightarrow> ('w \<Rightarrow> ChaosBlade option list) \<Rightarrow> 'w \<Rightarrow> 'w \<Rightarrow> bool" where
  "calm M ok hist w w' \<longleftrightarrow> ok w' \<and> grows M (hist w) (hist w')"

lemma calm_refl: "ok w \<Longrightarrow> calm M ok hist w w"
  by (auto simp: calm_def)

lemma calm_trans: "calm M ok hist w1 w2 \<Longrightarrow> ok w3 \<Longrightarrow> grows M (hist w2) (hist w3) \<Longrightarrow> calm M ok hist w1 w3"
  by (auto simp: calm_def intro: grows_trans)

lemma calm_ok: "calm M ok hist w w' \<Longrightarrow> ok w'"
  by (simp add: calm_def)

lemma calm_seen: "calm M ok hist w w' \<Longrightarrow> x \<in> set (hist w) \<Longrightarrow> x \<in> set (hist w')"
  by (auto simp: calm_def dest: grows_set)

lemma calm_destroy:
  assumes "executor_rely M E ok hist" "calm M ok hist w u" "ex_Destroy E n x s u = Some (st, u')"
  shows "calm M ok hist w u'"
  using executor_keeps(2) [OF assms(1) _ assms(3)] assms(2) calm_trans [OF assms(2)]
  by (simp add: calm_ok [OF assms(2)])

lemma calm_create:
  assumes "executor_rely M E ok hist" "calm M ok hist w u" "ex_Create E n x u = Some (st, u')"
  shows "calm M ok hist w u'"
  using executor_keeps(1) [OF assms(1) _ assms(3)] assms(2) calm_trans [OF assms(2)]
  by (simp add: calm_ok [OF assms(2)])

lemma calm_destroys:
  assumes "executor_rely M E ok hist" "calm M ok hist v w"
    "mapM_w (destroy_step E n) xs w = Some (ys, w')"
  shows "calm M ok hist v w'"
  by (rule mapM_w_inv [where P = "calm M ok hist v", OF assms(3,2)])
    (auto simp: destroy_step_def intro: calm_destroy [OF assms(1)])

lemma calm_creates:
  assumes "executor_rely M E ok hist" "calm M ok hist v w"
    "mapM_w (ex_Create E n) xs w = Some (ys, w')"
  shows "calm M ok hist v w'"
  by (rule mapM_w_inv [where P = "calm M ok hist v", OF assms(3,2)])
    (auto intro: calm_create [OF assms(1)])

lemma calm_destroy_old:
  assumes "executor_rely M E ok hist"
  shows "calm M ok hist v w \<Longrightarrow> destroy_old E n olds idx sts w = Some (ys, w') \<Longrightarrow>
    calm M ok hist v w' \<and> length ys = length sts"
proof (induction sts arbitrary: idx w ys)
  case Nil
  then show ?case by simp
next
  case (Cons st sts)
  from Cons.prems(2) obtain x st' w1 zs where "index_at olds (int idx) = Some x"
    "ex_Destroy E n x st w = Some (st', w1)" and r: "destroy_old E n olds (Suc idx) sts w1 = Some (zs, w')"
    and ys: "ys = st' # zs" by (auto split: Option.bind_splits)
  then have "calm M ok hist v w1" using calm_destroy [OF assms Cons.prems(1)] by blast
  with Cons.IH [OF _ r] ys show ?case by simp
qed

subsection \<open>What is read and written\<close>

lemma read_ofD:
  assumes "read_of c cb"
  shows "cb_Name cb = cb_Name c" "cb_ResourceVersion cb = cb_ResourceVersion c"
    "cb_Finalizers cb = cb_Finalizers c" "cb_DeletionTimestamp cb = cb_DeletionTimestamp c"
    "cb_Experiments cb = cb_Experiments c" "cb_Phase cb = cb_Phase c"
    "cb_ExpStatuses cb = cb_ExpStatuses c"
  using assms unfolding read_of_def by (metis ChaosBlade.select_convs ChaosBlade.surjective
      ChaosBlade.update_convs(5))+

lemma status_write_sel [simp]:
  "same_main c (status_write c cb v)"
  "status_of (status_write c cb v) = (cb_Phase cb, cb_ExpStatuses cb)"
  by (simp_all add: status_write_def same_main_def status_of_def)

lemma main_write_sel [simp]:
  "cb_Finalizers (main_write c cb v) = cb_Finalizers cb"
  "cb_Experiments (main_write c cb v) = cb_Experiments cb"
  "cb_DeletionTimestamp (main_write c cb v) = cb_DeletionTimestamp c"
  "cb_Name (main_write c cb v) = cb_Name cb"
  "status_of (main_write c cb v) = status_of c"
  by (simp_all add: main_write_def status_of_def)

definition good :: "(blade_history \<Rightarrow> bool) \<Rightarrow> ('w \<Rightarrow> bool) \<Rightarrow> ('w \<Rightarrow> ChaosBlade option list) \<Rightarrow> 'w \<Rightarrow> bool" where
  "good L ok hist w \<longleftrightarrow> ok w \<and> L (hist w)"

subsection \<open>Histories that are kept\<close>

text \<open>
  \<open>L\<close> is a set of histories that the environment keeps. A component keeps it as well when each of its
  writes does.
\<close>

locale guarded_history =
  fixes M :: rely and L :: "blade_history \<Rightarrow> bool"
  assumes env_step: "L h \<Longrightarrow> M h ob \<Longrightarrow> L (ob # h)"
begin

lemma grows_keeps: "grows M h h' \<Longrightarrow> L h \<Longrightarrow> L h'"
  by (induction rule: grows.induct) (auto intro: env_step)

text \<open>One write: the state it replaced is the one its argument was read from.\<close>

lemma write_keeps:
  assumes S: "versions_ok ok hist" and w': "ok w'" and W: "write_ok M hist f cb w (err, cb') w'"
    and L: "L (hist w)" and c: "Some c \<in> set (hist w)"
    and v: "cb_ResourceVersion cb = cb_ResourceVersion c"
    and K: "\<And>v h. L (Some c # h) \<Longrightarrow> L (stored (f c cb v) # Some c # h)"
  shows "L (hist w') \<and> set (hist w) \<subseteq> set (hist w') \<and>
    (if err = None then (\<exists>v. cb' = f c cb v) \<and> stored cb' \<in> set (hist w') else cb' = cb)"
proof (cases "err = None")
  case False
  with W L show ?thesis by (auto simp: write_ok_def dest: grows_keeps grows_set)
next
  case True
  with W obtain d h u where d: "grows M (hist w) (Some d # h)"
    "cb_ResourceVersion d = cb_ResourceVersion cb" "cb' = f d cb u"
    "grows M (stored cb' # Some d # h) (hist w')" by (auto simp: write_ok_def)
  have sub: "set (hist w) \<subseteq> set (Some d # h)" using grows_set [OF d(1)] .
  have sub': "set (stored cb' # Some d # h) \<subseteq> set (hist w')" using grows_set [OF d(4)] .
  have "d = c"
    by (rule versions_okD [OF S w']) (use sub sub' c d(2) v in auto)
  then have "L (stored cb' # Some d # h)"
    using grows_keeps [OF d(1) L] K [of h u] d(3) by simp
  then have "L (hist w')" by (rule grows_keeps [OF d(4)])
  with sub sub' d(3) \<open>d = c\<close> True show ?thesis by auto
qed

lemma put_keeps:
  assumes "versions_ok ok hist" "put_ok M p f n ok hist" "ok w" "cb_Name cb = n"
    and "p cb w = ((err, cb'), w')" "L (hist w)" "Some c \<in> set (hist w)"
    and "cb_ResourceVersion cb = cb_ResourceVersion c" "\<And>v h. L (Some c # h) \<Longrightarrow> L (stored (f c cb v) # Some c # h)"
  shows "ok w' \<and> L (hist w') \<and> set (hist w) \<subseteq> set (hist w') \<and>
    (if err = None then (\<exists>v. cb' = f c cb v) \<and> stored cb' \<in> set (hist w') else cb' = cb)"
proof -
  from put_okD [OF assms(2-5)] have "ok w'" "write_ok M hist f cb w (err, cb') w'" by auto
  with write_keeps [of ok hist w' f cb w err cb' c] assms(1,6-9) show ?thesis by simp
qed

lemma calm_keeps: "calm M ok hist w w' \<Longrightarrow> L (hist w) \<Longrightarrow> L (hist w')"
  by (auto simp: calm_def dest: grows_keeps)

lemma good_calm: "good L ok hist w \<Longrightarrow> calm M ok hist w w' \<Longrightarrow> good L ok hist w'"
  by (auto simp: good_def calm_ok intro: calm_keeps)

end

text \<open>
  What the executor is asked while state \<open>c\<close> is in the history. \<open>D\<close> holds at least of these answers.
\<close>

definition asked_destroy ::
  "'w executor \<Rightarrow> string \<Rightarrow> ('w \<Rightarrow> bool) \<Rightarrow> ('w \<Rightarrow> ChaosBlade option list) \<Rightarrow> answers" where
  "asked_destroy E n ok hist c x s st \<longleftrightarrow>
     (\<exists>u u'. ok u \<and> Some c \<in> set (hist u) \<and> ex_Destroy E n x s u = Some (st, u'))"

definition answered ::
  "answers \<Rightarrow> 'w executor \<Rightarrow> string \<Rightarrow> ('w \<Rightarrow> bool) \<Rightarrow> ('w \<Rightarrow> ChaosBlade option list) \<Rightarrow> bool" where
  "answered D E n ok hist \<longleftrightarrow> (\<forall>c x s st. asked_destroy E n ok hist c x s st \<longrightarrow> D c x s st)"

lemma answered_asked: "answered (asked_destroy E n ok hist) E n ok hist"
  by (simp add: answered_def)

definition any_answer :: answers where "any_answer c x s st \<longleftrightarrow> True"

lemma answered_any: "answered any_answer E n ok hist"
  by (simp add: answered_def any_answer_def)

lemma destroys_answered:
  assumes "executor_rely M E ok hist" "ok w" "Some c \<in> set (hist w)" "answered D E n ok hist"
    and "mapM_w (destroy_step E n) xs w = Some (sts, w')"
  shows "list_all2 (\<lambda>(x, s). D c x s) xs sts"
  using assms(2,3,5)
proof (induction xs arbitrary: w sts)
  case Nil
  then show ?case by simp
next
  case (Cons y xs)
  obtain x s where y: "y = (x, s)" by (cases y)
  from Cons.prems(3) y obtain st u sts' where d: "ex_Destroy E n x s w = Some (st, u)"
    and r: "mapM_w (destroy_step E n) xs u = Some (sts', w')" "sts = st # sts'"
    by (auto simp: destroy_step_def split: Option.bind_splits)
  have "D c x s st" using assms(4) Cons.prems(1,2) d unfolding answered_def asked_destroy_def by blast
  moreover have k: "calm M ok hist w u"
    by (rule calm_destroy [OF assms(1) _ d]) (rule calm_refl, rule Cons.prems(1))
  have "list_all2 (\<lambda>(x, s). D c x s) xs sts'"
    by (rule Cons.IH [OF calm_ok [OF k] calm_seen [OF k] r(1)]) (rule Cons.prems(2))
  ultimately show ?case using r y by simp
qed

text \<open>The reconciler keeps what is closed under its own moves, too.\<close>

locale operated_history = guarded_history +
  fixes D :: answers
  assumes own_step: "L (Some c # h) \<Longrightarrow> operator_move D c c' \<Longrightarrow> L (stored c' # Some c # h)"
begin

lemma put_refines:
  assumes "versions_ok ok hist" "put_ok M p f n ok hist" "ok w" "cb_Name cb = n"
    and "p cb w = ((err, cb'), w')" "L (hist w)" "Some c \<in> set (hist w)"
    and "cb_ResourceVersion cb = cb_ResourceVersion c" "\<And>v. operator_move D c (f c cb v)"
  shows "ok w' \<and> L (hist w') \<and> set (hist w) \<subseteq> set (hist w') \<and>
    (if err = None then (\<exists>v. cb' = f c cb v) \<and> stored cb' \<in> set (hist w') else cb' = cb)"
  by (rule put_keeps [OF assms(1-8)]) (rule own_step [OF _ assms(9)])

text \<open>A status write after calm: the object read from state \<open>c\<close> goes back with another status.\<close>

lemma status_put:
  assumes "server_rely M A n ok hist" "good L ok hist w" "cb_Name cb = n"
    and "Some c \<in> set (hist w)" "cb_ResourceVersion cb = cb_ResourceVersion c"
    and "\<And>v. operator_move D c (status_write c cb v)"
  shows "good L ok hist (snd (ap_StatusUpdate A cb w))"
  using put_refines [of ok hist "ap_StatusUpdate A" status_write n w cb _ _ _ c] assms
  by (metis good_def prod.collapse server_rely_def)

lemma main_put:
  assumes "server_rely M A n ok hist" "good L ok hist w" "cb_Name cb = n"
    and "Some c \<in> set (hist w)" "cb_ResourceVersion cb = cb_ResourceVersion c"
    and "\<And>v. operator_move D c (main_write c cb v)"
    and "ap_Update A cb w = ((err, cb'), w')"
  shows "good L ok hist w' \<and> set (hist w) \<subseteq> set (hist w') \<and>
    (if err = None then (\<exists>v. cb' = main_write c cb v) \<and> stored cb' \<in> set (hist w') else cb' = cb)"
  using put_refines [of ok hist "ap_Update A" main_write n w cb err cb' w' c] assms
  by (simp add: good_def server_rely_def)

lemma main_put_snd:
  assumes "server_rely M A n ok hist" "good L ok hist w" "cb_Name cb = n"
    and "Some c \<in> set (hist w)" "cb_ResourceVersion cb = cb_ResourceVersion c"
    and "\<And>v. operator_move D c (main_write c cb v)"
  shows "good L ok hist (snd (ap_Update A cb w))"
proof -
  obtain err cb' w' where u: "ap_Update A cb w = ((err, cb'), w')" by (metis prod.collapse)
  with main_put [OF assms u] show ?thesis by simp
qed

lemma initial_refines:
  assumes S: "server_rely M A n ok hist" "good L ok hist w" "cb_Name cb = n"
    and c: "Some c \<in> set (hist w)" "read_of c cb"
    and p: "cb_Phase cb = PhaseInitial" "cb_DeletionTimestamp cb = None"
  shows "good L ok hist (reconcile_initial A cb w)"
proof (cases "armed c")
  case True
  then show ?thesis
    using c p S unfolding reconcile_initial_def
    by (auto simp: armed_def read_ofD [OF c(2)] intro!: status_put [OF S(1,2) _ c(1)] operator_move.initialize)
next
  case False
  let ?cb = "cb\<lparr>cb_Finalizers := cb_Finalizers cb @ [chaosbladeFinalizer]\<rparr>"
  have "operator_move D c (main_write c ?cb v)" for v
    using c p False by (intro operator_move.arm) (auto simp: read_ofD [OF c(2)])
  then have "good L ok hist (snd (ap_Update A ?cb w))"
    using S(3) by (intro main_put_snd [OF S(1,2) _ c(1)]) (simp_all add: read_ofD(2) [OF c(2)])
  with False show ?thesis by (simp add: reconcile_initial_def armed_def read_ofD [OF c(2)])
qed

lemma destroyed_refines:
  assumes S: "server_rely M A n ok hist" "good L ok hist w" "cb_Name cb = n"
    and c: "Some c \<in> set (hist w)" "read_of c cb"
    and p: "cb_Phase cb = PhaseDestroyed" and r: "reconcile_destroyed A cb w = Some w'"
  shows "good L ok hist w'"
proof -
  from r obtain fs where fs: "remove (cb_Finalizers cb) chaosbladeFinalizer = Some fs"
    and w': "w' = snd (ap_Update A (cb\<lparr>cb_Finalizers := fs\<rparr>) w)"
    by (auto simp: reconcile_destroyed_def split: Option.bind_splits)
  have "operator_move D c (main_write c (cb\<lparr>cb_Finalizers := fs\<rparr>) v)" for v
    using p fs by (intro operator_move.release) (auto simp: read_ofD [OF c(2)])
  then show ?thesis unfolding w'
    using S(3) by (intro main_put_snd [OF S(1,2) _ c(1)]) (simp_all add: read_ofD(2) [OF c(2)])
qed

lemma create_refines:
  assumes S: "server_rely M A n ok hist" "executor_rely M E ok hist"
    and w: "good L ok hist w" "cb_Name cb = n"
    and c: "Some c \<in> set (hist w)" "read_of c cb"
    and p: "cb_Phase cb = PhaseInitialized \<or> cb_Phase cb = PhaseUpdating" "cb_DeletionTimestamp cb = None"
    and r: "reconcile_create A E cb w = Some w'"
  shows "good L ok hist w'"
proof -
  from r obtain sts w1 where m: "mapM_w (ex_Create E (cb_Name cb)) (cb_Experiments cb) w = Some (sts, w1)"
    and w': "w' = snd (ap_StatusUpdate A (cb\<lparr>cb_ExpStatuses := Some sts,
        cb_Phase := if \<exists>s \<in> set sts. es_Success s then PhaseRunning else PhaseError\<rparr>) w1)"
    by (auto simp: reconcile_create_def Let_def split: Option.bind_splits)
  have k: "calm M ok hist w w1"
    using calm_creates [OF S(2) calm_refl m] w(1) by (simp add: good_def)
  show ?thesis unfolding w'
    by (rule status_put [OF S(1) good_calm [OF w(1) k] _ calm_seen [OF k c(1)]])
      (use p w(2) mapM_w_length [OF m] in
        \<open>auto simp: read_ofD [OF c(2)] intro!: operator_move.start\<close>)
qed

lemma finalize_refines:
  assumes S: "server_rely M A n ok hist" "executor_rely M E ok hist" and X: "answered D E n ok hist"
    and w: "good L ok hist w" "cb_Name cb = n"
    and c: "Some c \<in> set (hist w)" "read_of c cb"
    and p: "cb_Phase cb = PhaseDestroying \<or> cb_DeletionTimestamp cb \<noteq> None" "cb_Phase cb \<noteq> PhaseDestroyed"
    and r: "map_option snd (finalizeChaosBlade A E cb w) = Some w'"
  shows "good L ok hist w'"
proof (cases "\<exists>old. cb_ExpStatuses cb = Some old \<and> length (cb_Experiments cb) = length old")
  case True
  then obtain old where old: "cb_ExpStatuses cb = Some old" "length (cb_Experiments cb) = length old"
    by blast
  then obtain new w1 where m: "mapM_w (destroy_step E (cb_Name cb)) (zip (cb_Experiments cb) old) w = Some (new, w1)"
    using r by (auto simp: finalizeChaosBlade_def split: Option.bind_splits)
  have k: "calm M ok hist w w1"
    using calm_destroys [OF S(2) calm_refl m] w(1) by (simp add: good_def)
  have c1: "cb_Experiments c = cb_Experiments cb" by (simp add: read_ofD [OF c(2)])
  have "list_all2 (\<lambda>(x, s). D c x s) (zip (cb_Experiments c) old) new"
    unfolding c1 using m w by (intro destroys_answered [OF S(2) _ c(1) X]) (simp_all add: good_def)
  moreover have "w' = snd (ap_StatusUpdate A (cb\<lparr>cb_ExpStatuses := Some new,
      cb_Phase := if \<forall>s \<in> set new. es_Success s then PhaseDestroyed else PhaseDestroying\<rparr>) w1)"
    using r finalize_same_length [OF old m] by simp
  ultimately show ?thesis
    using p w(2) old
    by (auto simp: read_ofD [OF c(2)] all_ok_def
        intro!: status_put [OF S(1) good_calm [OF w(1) k] _ calm_seen [OF k c(1)]] operator_move.finalize)
next
  case False
  then have "map_option snd (finalizeChaosBlade A E cb w) =
      Some (snd (ap_StatusUpdate A (cb\<lparr>cb_Phase := PhaseDestroyed\<rparr>) w))"
    using finalize_other_length finalize_nil by (metis not_None_eq)
  with r have "w' = snd (ap_StatusUpdate A (cb\<lparr>cb_Phase := PhaseDestroyed\<rparr>) w)" by simp
  with False p w(2) show ?thesis
    by (auto simp: read_ofD [OF c(2)] intro!: status_put [OF S(1) w(1) _ c(1)] operator_move.give_up)
qed

lemma tear_down_refines:
  assumes S: "server_rely M A n ok hist" "executor_rely M E ok hist"
    and w: "good L ok hist w" "cb_Name cb = n"
    and c: "Some c \<in> set (hist w)" "read_of c cb"
    and p: "cb_Phase cb = PhaseRunning \<or> cb_Phase cb = PhaseError" "cb_DeletionTimestamp cb = None"
    and r: "(case cb_ExpStatuses cb of
         None \<Rightarrow> Some (None, PhaseUpdating, w)
       | Some old \<Rightarrow> do { (new, w2) \<leftarrow> destroy_old E (cb_Name cb) olds 0 old w;
           Some (Some new,
             if \<forall>s \<in> set new. es_Success s then PhaseUpdating else PhaseDestroying, w2) }) =
       Some (sts, phase, w2)"
  shows "good L ok hist (snd (ap_StatusUpdate A (cb\<lparr>cb_ExpStatuses := sts, cb_Phase := phase\<rparr>) w2))"
proof (cases "cb_ExpStatuses cb")
  case None
  with r have "sts = None" "phase = PhaseUpdating" "w2 = w" by auto
  then show ?thesis
    using p w(2) None
    by (auto simp: read_ofD [OF c(2)] intro!: status_put [OF S(1) w(1) _ c(1)] operator_move.tear_down_nil)
next
  case (Some old)
  with r obtain new where d: "destroy_old E (cb_Name cb) olds 0 old w = Some (new, w2)"
    and new: "sts = Some new"
      "phase = (if \<forall>s \<in> set new. es_Success s then PhaseUpdating else PhaseDestroying)"
    by (auto split: Option.bind_splits)
  have k: "calm M ok hist w w2" "length new = length old"
    using calm_destroy_old [OF S(2) calm_refl d] w(1) by (auto simp: good_def)
  show ?thesis unfolding new
    by (rule status_put [OF S(1) good_calm [OF w(1) k(1)] _ calm_seen [OF k(1) c(1)]])
      (use p w(2) Some k(2) in
        \<open>auto simp: read_ofD [OF c(2)] all_ok_def intro!: operator_move.tear_down\<close>)
qed

lemma update_refines:
  assumes S: "server_rely M A n ok hist" "executor_rely M E ok hist"
    and w: "good L ok hist w" "cb_Name cb = n"
    and c: "Some c \<in> set (hist w)" "read_of c cb"
    and p: "cb_Phase cb = PhaseRunning \<or> cb_Phase cb = PhaseError" "cb_DeletionTimestamp cb = None"
    and r: "reconcile_update A E unm cb w = Some w'"
  shows "good L ok hist w'"
proof (cases "preSpec cb = [] \<or> (\<exists>e. unm (preSpec cb) = Inl e)")
  case True
  with r w(1) show ?thesis by (auto simp: reconcile_update_def split: if_splits)
next
  case False
  then obtain olds where olds: "preSpec cb \<noteq> []" "unm (preSpec cb) = Inr olds" by (meson sum.exhaust)
  obtain err cb1 w1 where u: "ap_Update A cb w = ((err, cb1), w1)" by (metis prod.collapse)
  have m: "operator_move D c (main_write c cb v)" for v
    using p by (intro operator_move.annotate) (auto simp: read_ofD [OF c(2)] same_main_def)
  from main_put [OF S(1) w c(1) read_ofD(2) [OF c(2)] m u]
  have g: "good L ok hist w1" "set (hist w) \<subseteq> set (hist w1)"
    and r1: "if err = None then (\<exists>v. cb1 = main_write c cb v) \<and> stored cb1 \<in> set (hist w1) else cb1 = cb"
    by auto
  have "\<exists>c1. Some c1 \<in> set (hist w1) \<and> read_of c1 cb1 \<and> cb_Name cb1 = n
      \<and> (cb_Phase cb1 = PhaseRunning \<or> cb_Phase cb1 = PhaseError) \<and> cb_DeletionTimestamp cb1 = None"
  proof (cases "err = None")
    case True
    with r1 obtain v where v: "cb1 = main_write c cb v" "stored cb1 \<in> set (hist w1)" by auto
    then have "stored cb1 = Some cb1"
      using p(2) by (simp add: stored_def one_store_def read_ofD [OF c(2)])
    then show ?thesis using v p w(2)
      by (intro exI [of _ cb1]) (simp add: read_of_def main_write_def read_ofD [OF c(2)])
  next
    case False
    with r1 g(2) c p w(2) show ?thesis by auto
  qed
  then obtain c1 where c1: "Some c1 \<in> set (hist w1)" "read_of c1 cb1" "cb_Name cb1 = n"
    "cb_Phase cb1 = PhaseRunning \<or> cb_Phase cb1 = PhaseError" "cb_DeletionTimestamp cb1 = None" by blast
  from r olds u obtain sts phase w2 where t: "(case cb_ExpStatuses cb1 of
         None \<Rightarrow> Some (None, PhaseUpdating, w1)
       | Some old \<Rightarrow> do { (new, w2) \<leftarrow> destroy_old E (cb_Name cb1) olds 0 old w1;
           Some (Some new,
             if \<forall>s \<in> set new. es_Success s then PhaseUpdating else PhaseDestroying, w2) }) =
       Some (sts, phase, w2)"
    and w': "w' = snd (ap_StatusUpdate A (cb1\<lparr>cb_ExpStatuses := sts, cb_Phase := phase\<rparr>) w2)"
    by (simp add: reconcile_update_def bind_eq_Some_conv split_beta) blast
  show ?thesis unfolding w' by (rule tear_down_refines [OF S g(1) c1(3,1,2,4,5) t])
qed

lemma object_refines:
  assumes S: "server_rely M A n ok hist" "executor_rely M E ok hist" and X: "answered D E n ok hist"
    and w: "good L ok hist w" "cb_Name cb = n"
    and c: "Some c \<in> set (hist w)" "read_of c cb"
    and r: "reconcile_object A E unm cb w = Some w'"
  shows "good L ok hist w'"
proof (cases "cb_Experiments cb = []")
  case True
  with r w(1) show ?thesis by (simp add: reconcile_object_def)
next
  case False
  consider (d) "cb_Phase cb = PhaseDestroyed"
    | (f) "cb_Phase cb \<noteq> PhaseDestroyed" "cb_Phase cb = PhaseDestroying \<or> cb_DeletionTimestamp cb \<noteq> None"
    | (i) "cb_Phase cb = PhaseInitial" "cb_DeletionTimestamp cb = None"
    | (s) "cb_Phase cb = PhaseInitialized \<or> cb_Phase cb = PhaseUpdating" "cb_DeletionTimestamp cb = None"
    | (u) "cb_Phase cb = PhaseRunning \<or> cb_Phase cb = PhaseError" "cb_DeletionTimestamp cb = None"
    | (n) "w' = w"
    using r False by (cases "cb_Phase cb") (auto simp: reconcile_object_def split: if_splits)
  then show ?thesis
  proof cases
    case d
    with r False have "reconcile_destroyed A cb w = Some w'" by (simp add: reconcile_object_def)
    then show ?thesis using destroyed_refines [OF S(1) w c d] by simp
  next
    case f
    with r False have "map_option snd (finalizeChaosBlade A E cb w) = Some w'"
      using reconcile_object_finalize [OF False f, of A E unm w] by (simp only:)
    then show ?thesis using finalize_refines [OF S X w c f(2,1)] by simp
  next
    case i
    with r False have "w' = reconcile_initial A cb w" by (simp add: reconcile_object_def)
    then show ?thesis using initial_refines [OF S(1) w c i] by simp
  next
    case s
    with r False have "reconcile_create A E cb w = Some w'" by (auto simp: reconcile_object_def)
    then show ?thesis using create_refines [OF S w c s] by simp
  next
    case u
    with r False have "reconcile_update A E unm cb w = Some w'" by (auto simp: reconcile_object_def)
    then show ?thesis using update_refines [OF S w c u] by simp
  next
    case n
    with w(1) show ?thesis by simp
  qed
qed

lemma Reconcile_refines:
  assumes S: "server_rely M A n ok hist" "executor_rely M E ok hist" "good L ok hist w"
    and X: "answered D E n ok hist" and r: "Reconcile A E unm n w = Some w'"
  shows "good L ok hist w'"
proof -
  obtain g w1 where g: "ap_Get A n w = (g, w1)" by (metis prod.collapse)
  have k: "calm M ok hist w w1"
    and obj: "\<And>cb. g = Inr cb \<Longrightarrow> cb_Name cb = n \<and> (\<exists>c. Some c \<in> set (hist w1) \<and> read_of c cb)"
    using get_okD [of M "ap_Get A" n ok hist w g w1] S(1,3) g
    by (auto simp: server_rely_def good_def calm_def)
  note w1 = good_calm [OF S(3) k]
  show ?thesis
  proof (cases g)
    case (Inl e)
    with r g w1 show ?thesis by (simp add: Reconcile_def)
  next
    case (Inr cb)
    with obj obtain c where c: "cb_Name cb = n" "Some c \<in> set (hist w1)" "read_of c cb" by blast
    with r g Inr show ?thesis using object_refines [OF S(1,2) X w1 c] by (simp add: Reconcile_def)
  qed
qed

end

end
