(* ===== verification/Lifecycle.thy ===== *)
theory Lifecycle
  imports Histories
begin

section \<open>The life of a blade\<close>

text \<open>
  The histories in which only users and the reconciler act. The refinement theorem says that the
  reconciler, against every API server that obeys \<open>server_contract\<close> and every executor, adds to the
  stored history only moves of the abstract machine. The watcher of a timeout and the clean-up are
  added in theory \<open>System\<close>.
\<close>

inductive lifecycle :: "answers \<Rightarrow> ChaosBlade option list \<Rightarrow> bool" for D where
  empty: "lifecycle D [None]"
| user: "lifecycle D (o1 # h) \<Longrightarrow> user_move o1 o2 \<Longrightarrow> lifecycle D (o2 # o1 # h)"
| operator: "lifecycle D (Some c # h) \<Longrightarrow> operator_move D c c' \<Longrightarrow> lifecycle D (stored c' # Some c # h)"

lemma lifecycle_step: "lifecycle D h \<Longrightarrow> user_step h o2 \<Longrightarrow> lifecycle D (o2 # h)"
  by (cases h) (auto intro: lifecycle.user)

interpretation life: operated_history user_step "lifecycle D" D
  by unfold_locales (auto intro: lifecycle_step lifecycle.operator)

subsection \<open>Reachable worlds\<close>

text \<open>From a world where the object does not exist yet, users act and the reconciler runs.\<close>

inductive reach ::
  "'w api \<Rightarrow> 'w executor \<Rightarrow> (string \<Rightarrow> GoErr + ExperimentSpec list) \<Rightarrow> string \<Rightarrow> ('w \<Rightarrow> bool) \<Rightarrow>
     ('w \<Rightarrow> ChaosBlade option list) \<Rightarrow> 'w \<Rightarrow> bool"
  for A E unm n ok hist where
  begins: "ok w \<Longrightarrow> hist w = [None] \<Longrightarrow> reach A E unm n ok hist w"
| acts: "reach A E unm n ok hist w \<Longrightarrow> ok w' \<Longrightarrow> users (hist w) (hist w') \<Longrightarrow> reach A E unm n ok hist w'"
| reconciles: "reach A E unm n ok hist w \<Longrightarrow> Reconcile A E unm n w = Some w' \<Longrightarrow>
    reach A E unm n ok hist w'"

lemma reach_good:
  assumes "server_contract A n ok hist" "executor_contract E ok hist" "reach A E unm n ok hist w"
  shows "good (lifecycle (asked_destroy E n ok hist)) ok hist w"
  using assms(3)
proof induction
  case (begins w)
  then show ?case by (simp add: good_def lifecycle.empty)
next
  case (acts w w')
  then show ?case by (auto simp: good_def intro: life.grows_keeps)
next
  case (reconciles w w')
  then show ?case using life.Reconcile_refines [OF assms(1,2) _ answered_asked] by blast
qed

subsection \<open>Invariants of the abstract machine\<close>

definition blade_inv :: "ChaosBlade \<Rightarrow> bool" where
  "blade_inv c \<longleftrightarrow> (cb_Phase c = PhaseInitial \<longrightarrow> cb_ExpStatuses c = None) \<and>
     (live (cb_Phase c) \<longrightarrow> armed c) \<and>
     (live (cb_Phase c) \<or> cb_Phase c = PhaseInitial \<or> cb_Phase c = PhaseDestroyed)"

lemma blade_inv_user: "user_move o1 o2 \<Longrightarrow> pred_option blade_inv o1 \<Longrightarrow> pred_option blade_inv o2"
proof (induction rule: user_move.induct)
  case (create c)
  then show ?case by (simp add: blade_inv_def live_def)
next
  case (edit c' c)
  then show ?case by (simp add: blade_inv_def)
qed simp

lemma same_main_armed: "same_main c c' \<Longrightarrow> armed c' = armed c"
  by (simp add: same_main_def armed_def)

lemma live_simps [simp]:
  "live PhaseInitialized" "live PhaseRunning" "live PhaseUpdating" "live PhaseDestroying"
  "live PhaseError" "\<not> live PhaseInitial" "\<not> live PhaseDestroyed"
  by (simp_all add: live_def)

lemma blade_inv_iff:
  "status_of c = (p, sts) \<Longrightarrow> blade_inv c \<longleftrightarrow> (p = PhaseInitial \<longrightarrow> sts = None) \<and>
     (live p \<longrightarrow> armed c) \<and> (live p \<or> p = PhaseInitial \<or> p = PhaseDestroyed)"
  by (simp add: blade_inv_def status_of_def)

lemma blade_inv_operator: "operator_move D c c' \<Longrightarrow> blade_inv c \<Longrightarrow> blade_inv c'"
proof (induction rule: operator_move.induct)
  case (arm c c')
  then show ?case by (simp add: blade_inv_def status_of_def)
next
  case (initialize c c')
  then show ?case by (simp add: blade_inv_iff same_main_armed)
next
  case (start c c' sts)
  then have "armed c'" by (auto simp: blade_inv_def same_main_armed)
  with start show ?case by (simp add: blade_inv_iff)
next
  case (annotate c c')
  then show ?case by (simp add: blade_inv_def status_of_def same_main_armed)
next
  case (tear_down c c' old sts)
  then have "armed c'" by (auto simp: blade_inv_def same_main_armed)
  with tear_down show ?case by (simp add: blade_inv_iff)
next
  case (tear_down_nil c c')
  then have "armed c'" by (auto simp: blade_inv_def same_main_armed)
  with tear_down_nil show ?case by (simp add: blade_inv_iff)
next
  case (finalize c c' old sts)
  then have "armed c'" by (auto simp: blade_inv_def same_main_armed)
  with finalize show ?case by (simp add: blade_inv_iff)
next
  case (give_up c c')
  then show ?case by (simp add: blade_inv_iff)
next
  case (release c c')
  then show ?case by (simp add: blade_inv_def status_of_def)
qed

lemma lifecycle_inv: "lifecycle D h \<Longrightarrow> \<forall>c. Some c \<in> set h \<longrightarrow> blade_inv c"
proof (induction rule: lifecycle.induct)
  case (user o1 h o2)
  then show ?case using blade_inv_user [OF user.hyps(2)]
    by (cases o1; cases o2) auto
next
  case (operator c h c')
  then have "blade_inv c'" using blade_inv_operator by (meson list.set_intros(1))
  with operator.IH show ?case by (auto simp: stored_def one_store_def)
qed simp

text \<open>The object can only go from the phases in which nothing runs.\<close>

lemma gone_step:
  assumes "operator_move D c c'" "stored c' = None"
  shows "\<not> armed c \<or> cb_Phase c = PhaseDestroyed"
  using assms(1)
  by (cases rule: operator_move.cases)
    (use assms(2) in \<open>auto simp: stored_def one_store_def armed_def same_main_def split: if_splits\<close>)

inductive_cases lifecycle_Cons: "lifecycle D (o2 # o1 # h)"
inductive_cases user_vanish: "user_move (Some c) None"
inductive_cases user_edit: "user_move (Some c) (Some c')"

lemma lifecycle_tl: "lifecycle D (xs @ h) \<Longrightarrow> h \<noteq> [] \<Longrightarrow> lifecycle D h"
proof (induction xs)
  case (Cons x xs)
  then have "lifecycle D (xs @ h)" by (cases "xs @ h") (auto elim: lifecycle.cases)
  with Cons show ?case by simp
qed simp

lemma lifecycle_gone:
  assumes "lifecycle D (None # Some c # h)"
  shows "cb_Phase c = PhaseInitial \<or> cb_Phase c = PhaseDestroyed"
proof -
  have "lifecycle D (Some c # h)" using lifecycle_tl [of _ "[None]"] assms by simp
  then have inv: "blade_inv c" using lifecycle_inv by (meson list.set_intros(1))
  from assms have "\<not> armed c \<or> cb_Phase c = PhaseDestroyed"
    by (rule lifecycle_Cons) (auto elim!: user_vanish dest!: gone_step [OF _ sym])
  with inv show ?thesis by (auto simp: blade_inv_def)
qed

lemma lifecycle_destroyed:
  assumes "lifecycle D (Some c' # Some c # h)" "cb_Phase c' = PhaseDestroyed" "cb_Phase c \<noteq> PhaseDestroyed"
  shows "(\<exists>old sts. cb_ExpStatuses c = Some old \<and> cb_ExpStatuses c' = Some sts \<and> all_ok sts \<and>
      list_all2 (\<lambda>(x, s). D c x s) (zip (cb_Experiments c) old) sts) \<or>
    (\<forall>old. cb_ExpStatuses c = Some old \<longrightarrow> length (cb_Experiments c) \<noteq> length old)"
  using assms(1)
proof (rule lifecycle_Cons)
  assume "user_move (Some c) (Some c')"
  with assms(2,3) show ?thesis by (auto elim!: user_edit)
next
  fix d d' assume d: "Some c' = stored d'" "Some c = Some d" "operator_move D d d'"
  then have "d' = c'" by (simp add: stored_def one_store_def split: if_splits)
  with d have "operator_move D c c'" by simp
  then show ?thesis
    by (cases rule: operator_move.cases) (use assms(2,3) in \<open>auto simp: status_of_def split: if_splits\<close>)
qed

subsection \<open>A server for the witnesses\<close>

text \<open>
  The world is the history itself; the version of a state counts the states before it. A write
  with an outdated version is a conflict.
\<close>

definition log_version :: "ChaosBlade option list \<Rightarrow> string" where
  "log_version h = replicate (length h) (CHR ''x'')"

definition log_write ::
  "(ChaosBlade \<Rightarrow> ChaosBlade \<Rightarrow> string \<Rightarrow> ChaosBlade) \<Rightarrow> ChaosBlade \<Rightarrow> ChaosBlade option list \<Rightarrow>
     (GoErr option \<times> ChaosBlade) \<times> ChaosBlade option list" where
  "log_write f cb h =
     (case h of
        Some c # _ \<Rightarrow>
          if cb_ResourceVersion c = cb_ResourceVersion cb
          then ((None, f c cb (log_version h)), stored (f c cb (log_version h)) # h)
          else ((Some (ErrApi False ''conflict''), cb), h)
      | _ \<Rightarrow> ((Some (ErrApi True ''not found''), cb), h))"

definition log_api :: "ChaosBlade option list api" where
  "log_api =
     \<lparr>ap_Get = (\<lambda>n h. (case h of
          Some c # _ \<Rightarrow> if cb_Name c = n then Inr c else Inl (ErrApi True ''not found'')
        | _ \<Rightarrow> Inl (ErrApi True ''not found''), h)),
      ap_Update = log_write main_write,
      ap_StatusUpdate = log_write status_write,
      ap_List = (\<lambda>h. ((None, []), h)),
      ap_ClearFinalizers = (\<lambda>n h. (None, h))\<rparr>"

fun log_ok :: "string \<Rightarrow> ChaosBlade option list \<Rightarrow> bool" where
  "log_ok n [] = True"
| "log_ok n (ob # h) = (log_ok n h \<and>
     (case ob of None \<Rightarrow> True | Some c \<Rightarrow> cb_ResourceVersion c = log_version h \<and> cb_Name c = n))"

lemma log_ok_older: "log_ok n h \<Longrightarrow> Some c \<in> set h \<Longrightarrow> length (cb_ResourceVersion c) < length h"
  by (induction n h rule: log_ok.induct) (auto simp: log_version_def split: option.splits)

lemma log_ok_unique:
  "log_ok n h \<Longrightarrow> Some c \<in> set h \<Longrightarrow> Some d \<in> set h \<Longrightarrow> cb_ResourceVersion c = cb_ResourceVersion d \<Longrightarrow> c = d"
proof (induction n h rule: log_ok.induct)
  case (2 n ob h)
  have "length (cb_ResourceVersion x) \<noteq> length h" if "Some x \<in> set h" for x
    using log_ok_older [of n h x] that 2(2) by simp
  with 2 show ?case by (auto simp: log_version_def) (metis length_replicate)+
qed simp

lemma log_write_ok:
  assumes "\<And>c cb v. cb_ResourceVersion (f c cb v) = v"
    and "\<And>c cb v. cb_Name c = n \<Longrightarrow> cb_Name cb = n \<Longrightarrow> cb_Name (f c cb v) = n"
  shows "put_ok M (log_write f) f n (log_ok n) id"
  unfolding put_ok_def
proof (intro allI impI)
  fix h :: "ChaosBlade option list" and cb r h'
  assume h: "log_ok n h" "cb_Name cb = n" "log_write f cb h = (r, h')"
  show "log_ok n h' \<and> write_ok M id f cb h r h'"
  proof (cases "\<exists>c h0. h = Some c # h0 \<and> cb_ResourceVersion c = cb_ResourceVersion cb")
    case True
    then obtain c h0 where c: "h = Some c # h0" "cb_ResourceVersion c = cb_ResourceVersion cb" by blast
    let ?nw = "f c cb (log_version h)"
    from h(3) c have r: "r = (None, ?nw)" "h' = stored ?nw # h" by (auto simp: log_write_def)
    have "log_ok n h'"
      using h(1,2) c by (simp add: r stored_def one_store_def assms)
    moreover have "write_ok M id f cb h r h'"
      using c by (auto simp: write_ok_def r intro!: exI)
    ultimately show ?thesis by simp
  next
    case False
    with h have "h' = h \<and> (\<exists>e. r = (Some e, cb))"
      by (cases h) (auto simp: log_write_def split: option.splits if_splits)
    with h(1) show ?thesis by (auto simp: write_ok_def)
  qed
qed

lemma log_api_rely: "server_rely M log_api n (log_ok n) id"
  unfolding server_rely_def
proof (intro conjI)
  show "versions_ok (log_ok n) id"
    unfolding versions_ok_def using log_ok_unique by (metis id_apply)
  show "get_ok M (ap_Get log_api) n (log_ok n) id"
    by (auto simp: get_ok_def log_api_def read_of_def split: list.splits option.splits if_splits)
  show "put_ok M (ap_Update log_api) main_write n (log_ok n) id"
    unfolding log_api_def by simp (rule log_write_ok; simp add: main_write_def)
  show "put_ok M (ap_StatusUpdate log_api) status_write n (log_ok n) id"
    unfolding log_api_def by simp (rule log_write_ok; simp add: status_write_def)
qed

lemmas log_api_contract = log_api_rely [of user_step]

lemma flat_executor_rely: "executor_rely M (flat_executor b) ok hist"
  by (auto simp: executor_rely_def flat_executor_def)

lemmas flat_executor_contract = flat_executor_rely [of user_step]

definition blade_b :: ChaosBlade where
  "blade_b = \<lparr>cb_Name = ''b'', cb_ResourceVersion = ''x'', cb_Finalizers = [], cb_DeletionTimestamp = None,
     cb_Annotations = None, cb_Experiments = [spec_a], cb_Phase = PhaseInitial, cb_ExpStatuses = None\<rparr>"

definition blade_b_armed :: ChaosBlade where
  "blade_b_armed = blade_b\<lparr>cb_ResourceVersion := ''xx'', cb_Finalizers := [chaosbladeFinalizer]\<rparr>"

definition blade_b_ready :: ChaosBlade where
  "blade_b_ready = blade_b_armed\<lparr>cb_ResourceVersion := ''xxx'', cb_Phase := PhaseInitialized,
     cb_ExpStatuses := Some []\<rparr>"

definition blade_b_runs :: ChaosBlade where
  "blade_b_runs = blade_b_ready\<lparr>cb_ResourceVersion := ''xxxx'', cb_Phase := PhaseRunning,
     cb_ExpStatuses := Some [CreateSuccessExperimentStatus (Some [])]\<rparr>"

lemmas blade_b_defs = blade_b_def blade_b_armed_def blade_b_ready_def blade_b_runs_def

lemma blade_b_ready_reached:
  "reach log_api (flat_executor b) unm ''b'' (log_ok ''b'') id
    [Some blade_b_ready, Some blade_b_armed, Some blade_b, None]"
proof -
  let ?r = "reach log_api (flat_executor b) unm ''b'' (log_ok ''b'') id"
  have "?r [None]" by (rule reach.begins) simp_all
  then have 1: "?r [Some blade_b, None]"
    by (rule reach.acts)
      (auto simp: blade_b_def log_version_def intro!: users_step [OF grows_same] user_move.create)
  have "Reconcile log_api (flat_executor b) unm ''b'' [Some blade_b, None] =
      Some [Some blade_b_armed, Some blade_b, None]"
    by (simp add: Reconcile_def log_api_def blade_b_defs reconcile_object_def reconcile_initial_def
        spec_a_def log_write_def main_write_def stored_def one_store_def log_version_def)
  from reach.reconciles [OF 1 this] have 2: "?r [Some blade_b_armed, Some blade_b, None]" .
  have "Reconcile log_api (flat_executor b) unm ''b'' [Some blade_b_armed, Some blade_b, None] =
      Some [Some blade_b_ready, Some blade_b_armed, Some blade_b, None]"
    by (simp add: Reconcile_def log_api_def blade_b_defs reconcile_object_def reconcile_initial_def
        spec_a_def log_write_def status_write_def stored_def one_store_def log_version_def)
  from reach.reconciles [OF 2 this] show ?thesis .
qed

lemma blade_b_reached:
  "reach log_api (flat_executor b) unm ''b'' (log_ok ''b'') id
    [Some blade_b_runs, Some blade_b_ready, Some blade_b_armed, Some blade_b, None]"
proof -
  have "Reconcile log_api (flat_executor b) unm ''b'' [Some blade_b_ready, Some blade_b_armed, Some blade_b, None] =
      Some [Some blade_b_runs, Some blade_b_ready, Some blade_b_armed, Some blade_b, None]"
    by (simp add: Reconcile_def log_api_def blade_b_defs reconcile_object_def reconcile_create_def
        flat_executor_def spec_a_def log_write_def status_write_def stored_def one_store_def
        log_version_def)
  from reach.reconciles [OF blade_b_ready_reached this] show ?thesis .
qed

subsection \<open>Properties\<close>

text \<open>C1. The reconciler refines the abstract life cycle: against any API server with optimistic
  concurrency and any executor that leaves the blade object alone, with stale reads and with users
  acting between any two calls, every state stored for the object follows from the one before it by
  a move of the abstract machine.\<close>

theorem reconcile_refines_lifecycle:
  assumes "server_contract A n ok hist" "executor_contract E ok hist" "reach A E unm n ok hist w"
  shows "lifecycle (asked_destroy E n ok hist) (hist w)"
  using reach_good [OF assms] by (simp add: good_def)

lemma reconcile_refines_lifecycle_witness:
  "lifecycle (asked_destroy (flat_executor True) ''b'' (log_ok ''b'') id)
    [Some blade_b_runs, Some blade_b_ready, Some blade_b_armed, Some blade_b, None]"
  using reconcile_refines_lifecycle
    [OF log_api_contract flat_executor_contract blade_b_reached [where b = True]]
  by simp

text \<open>C4. As long as only users and the reconciler write to a blade, experiments run under the finalizer only: in
  every world reached in this way, each state ever stored for the blade in one of the phases Initialized,
  Running, Updating, Error and Destroying carries the operator's finalizer, so the API server cannot drop the
  object before the operator lets it go; and when the object is gone, the state before was Initial or Destroyed.
  (What is left of it with the watchers and the clean-up is in theory \<open>System\<close>.)\<close>

theorem experiments_guarded:
  assumes "server_contract A n ok hist" "executor_contract E ok hist" "reach A E unm n ok hist w"
  shows "(\<forall>c. Some c \<in> set (hist w) \<longrightarrow> live (cb_Phase c) \<longrightarrow>
             contains (cb_Finalizers c) chaosbladeFinalizer) \<and>
    (\<forall>xs c h. hist w = xs @ None # Some c # h \<longrightarrow>
       cb_Phase c = PhaseInitial \<or> cb_Phase c = PhaseDestroyed)"
proof -
  have L: "lifecycle (asked_destroy E n ok hist) (hist w)" using reach_good [OF assms] by (simp add: good_def)
  have gone: "cb_Phase c = PhaseInitial \<or> cb_Phase c = PhaseDestroyed"
    if "hist w = xs @ None # Some c # h" for xs c h
    using lifecycle_gone [OF lifecycle_tl [of _ xs "None # Some c # h"]] L that by simp
  have "\<forall>c. Some c \<in> set (hist w) \<longrightarrow> blade_inv c" by (rule lifecycle_inv [OF L])
  then have "\<forall>c. Some c \<in> set (hist w) \<longrightarrow> live (cb_Phase c) \<longrightarrow>
      contains (cb_Finalizers c) chaosbladeFinalizer"
    by (simp add: blade_inv_def armed_def)
  with gone show ?thesis by blast
qed

lemma experiments_guarded_witness:
  "contains (cb_Finalizers blade_b_runs) chaosbladeFinalizer"
  using experiments_guarded
    [OF log_api_contract flat_executor_contract blade_b_reached [where b = True]]
  by (auto simp: blade_b_defs)

text \<open>C7. As long as only users and the reconciler write to a blade, Destroyed means destroyed: when a stored state
  first has the phase Destroyed and the statuses of the state before match its experiments, the executor was
  asked, with that state stored, to destroy each experiment with its old status, the new statuses are its
  answers, in order, and all of them report success. (A watcher marks a blade Destroyed without any destroy,
  when the tools confirm that its experiments are over; see theory \<open>Watcher\<close>.)\<close>

theorem destroyed_means_destroyed:
  assumes "server_contract A n ok hist" "executor_contract E ok hist" "reach A E unm n ok hist w"
    and "hist w = xs @ Some c' # Some c # h"
    and "cb_Phase c' = PhaseDestroyed" "cb_Phase c \<noteq> PhaseDestroyed"
    and "cb_ExpStatuses c = Some old" "length old = length (cb_Experiments c)"
  shows "\<exists>sts. cb_ExpStatuses c' = Some sts \<and> length sts = length (cb_Experiments c) \<and>
    (\<forall>i < length sts. es_Success (sts ! i) \<and>
       (\<exists>u u'. ok u \<and> Some c \<in> set (hist u) \<and>
          ex_Destroy E n (cb_Experiments c ! i) (old ! i) u = Some (sts ! i, u')))"
proof -
  have "lifecycle (asked_destroy E n ok hist) (hist w)" using reach_good [OF assms(1-3)] by (simp add: good_def)
  then have "lifecycle (asked_destroy E n ok hist) (Some c' # Some c # h)"
    using assms(4) lifecycle_tl [of _ xs "Some c' # Some c # h"] by simp
  from lifecycle_destroyed [OF this assms(5,6)] assms(7,8) obtain sts where
    sts: "cb_ExpStatuses c' = Some sts" "all_ok sts"
      "list_all2 (\<lambda>(x, s). asked_destroy E n ok hist c x s) (zip (cb_Experiments c) old) sts" by auto
  then have "length sts = length (cb_Experiments c)" using assms(8) by (auto dest: list_all2_lengthD)
  with sts assms(8) show ?thesis
    by (auto simp: all_ok_def list_all2_conv_all_nth asked_destroy_def)
qed

definition blade_b_deleted :: ChaosBlade where
  "blade_b_deleted = blade_b_runs\<lparr>cb_ResourceVersion := ''xxxxx'', cb_DeletionTimestamp := Some 0\<rparr>"

definition blade_b_destroyed :: ChaosBlade where
  "blade_b_destroyed = blade_b_deleted\<lparr>cb_ResourceVersion := ''xxxxxx'', cb_Phase := PhaseDestroyed,
     cb_ExpStatuses := Some [CreateDestroyedExperimentStatus (Some [])]\<rparr>"

lemma blade_b_destroyed_reached:
  "reach log_api (flat_executor True) unm ''b'' (log_ok ''b'') id
    [Some blade_b_destroyed, Some blade_b_deleted, Some blade_b_runs, Some blade_b_ready,
     Some blade_b_armed, Some blade_b, None]"
proof -
  let ?h = "[Some blade_b_runs, Some blade_b_ready, Some blade_b_armed, Some blade_b, None]"
  let ?r = "reach log_api (flat_executor True) unm ''b'' (log_ok ''b'') id"
  have "users ?h (Some blade_b_deleted # ?h)"
    by (rule users_step [OF grows_same], rule user_move.edit)
      (auto simp: blade_b_deleted_def blade_b_defs armed_def)
  then have "?r (Some blade_b_deleted # ?h)"
    by (intro reach.acts [OF blade_b_reached])
      (simp_all add: blade_b_deleted_def blade_b_defs log_version_def)
  moreover have "Reconcile log_api (flat_executor True) unm ''b'' (Some blade_b_deleted # ?h) =
      Some (Some blade_b_destroyed # Some blade_b_deleted # ?h)"
    by (simp add: Reconcile_def log_api_def blade_b_defs reconcile_object_def finalizeChaosBlade_def
        blade_b_deleted_def blade_b_destroyed_def destroy_step_def flat_executor_def spec_a_def
        log_write_def status_write_def stored_def one_store_def log_version_def)
  ultimately show ?thesis by (rule reach.reconciles)
qed

lemma destroyed_means_destroyed_witness:
  "\<exists>sts. cb_ExpStatuses blade_b_destroyed = Some sts \<and> length sts = 1 \<and> es_Success (sts ! 0) \<and>
    (\<exists>u u'. Some blade_b_deleted \<in> set u \<and>
       ex_Destroy (flat_executor True) ''b'' spec_a (CreateSuccessExperimentStatus (Some [])) u = Some (sts ! 0, u'))"
  using destroyed_means_destroyed
      [OF log_api_contract flat_executor_contract blade_b_destroyed_reached, where xs = "[]"
        and old = "[CreateSuccessExperimentStatus (Some [])]"]
  by (simp add: blade_b_destroyed_def blade_b_deleted_def blade_b_defs) blast

text \<open>The executor whose \<open>Create\<close> panics: a run that agrees with it never called \<open>Create\<close>.\<close>

definition no_create :: "'w executor \<Rightarrow> 'w executor" where
  "no_create E = E\<lparr>ex_Create := \<lambda>n x w. None\<rparr>"

lemma no_create_destroy [simp]: "ex_Destroy (no_create E) = ex_Destroy E"
  by (simp add: no_create_def)

lemma destroy_step_no_create [simp]: "destroy_step (no_create E) = destroy_step E"
  by (simp add: destroy_step_def fun_eq_iff)

lemma destroy_old_no_create [simp]: "destroy_old (no_create E) n olds idx sts w = destroy_old E n olds idx sts w"
  by (induction sts arbitrary: idx w) simp_all

lemma finalize_no_create [simp]: "finalizeChaosBlade A (no_create E) cb w = finalizeChaosBlade A E cb w"
  unfolding finalizeChaosBlade_def destroy_step_no_create by (rule HOL.refl)

lemma update_no_create [simp]: "reconcile_update A (no_create E) unm cb w = reconcile_update A E unm cb w"
  unfolding reconcile_update_def destroy_old_no_create by (rule HOL.refl)




subsection \<open>A deletion completes\<close>

text \<open>
  An undisturbed server: one object, served as it is stored, no user acting; and an executor whose
  destroys succeed.
\<close>

definition quiet_server :: "'w api \<Rightarrow> ('w \<Rightarrow> ChaosBlade option) \<Rightarrow> bool" where
  "quiet_server A obj \<longleftrightarrow>
     (\<forall>w c. obj w = Some c \<longrightarrow> (\<exists>w1. ap_Get A (cb_Name c) w = (Inr c, w1) \<and> obj w1 = Some c)) \<and>
     (\<forall>w c cb. obj w = Some c \<longrightarrow> cb_ResourceVersion cb = cb_ResourceVersion c \<longrightarrow>
        (\<exists>cb' w1 v. ap_Update A cb w = ((None, cb'), w1) \<and> obj w1 = stored (main_write c cb v))) \<and>
     (\<forall>w c cb. obj w = Some c \<longrightarrow> cb_ResourceVersion cb = cb_ResourceVersion c \<longrightarrow>
        (\<exists>cb' w1 v. ap_StatusUpdate A cb w = ((None, cb'), w1) \<and> obj w1 = Some (status_write c cb v)))"

definition destroys_succeed :: "'w executor \<Rightarrow> ('w \<Rightarrow> ChaosBlade option) \<Rightarrow> bool" where
  "destroys_succeed E obj \<longleftrightarrow>
     (\<forall>n x st w. \<exists>st' w1. ex_Destroy E n x st w = Some (st', w1) \<and> es_Success st' \<and> obj w1 = obj w)"

lemma destroys_succeed_all:
  assumes "destroys_succeed E obj"
  shows "\<exists>new w1. mapM_w (destroy_step E n) xs w = Some (new, w1) \<and> (\<forall>s \<in> set new. es_Success s) \<and> obj w1 = obj w"
proof (induction xs arbitrary: w)
  case Nil
  then show ?case by simp
next
  case (Cons x xs)
  obtain y z where x: "x = (y, z)" by (cases x)
  obtain st u where "ex_Destroy E n y z w = Some (st, u)" "es_Success st" "obj u = obj w"
    using assms unfolding destroys_succeed_def by blast
  moreover obtain new w1 where "mapM_w (destroy_step E n) xs u = Some (new, w1)"
    "\<forall>s \<in> set new. es_Success s" "obj w1 = obj u" using Cons by blast
  ultimately show ?case by (simp add: x destroy_step_def)
qed

lemma quiet_status:
  assumes "quiet_server A obj" "obj w = Some c"
  shows "\<exists>v. obj (snd (ap_StatusUpdate A (c\<lparr>cb_ExpStatuses := sts, cb_Phase := p\<rparr>) w)) =
    Some (c\<lparr>cb_ResourceVersion := v, cb_ExpStatuses := sts, cb_Phase := p\<rparr>)"
proof -
  let ?cb = "c\<lparr>cb_ExpStatuses := sts, cb_Phase := p\<rparr>"
  have "cb_ResourceVersion ?cb = cb_ResourceVersion c" by simp
  with assms obtain cb' w1 v where u: "ap_StatusUpdate A ?cb w = ((None, cb'), w1)"
    "obj w1 = Some (status_write c ?cb v)" unfolding quiet_server_def by blast
  have "status_write c ?cb v = c\<lparr>cb_ResourceVersion := v, cb_ExpStatuses := sts, cb_Phase := p\<rparr>"
    by (simp add: status_write_def)
  with u show ?thesis by auto
qed

lemma quiet_finalize:
  assumes "quiet_server A obj" "destroys_succeed E obj" "obj w = Some c"
  shows "\<exists>w1 v sts. map_option snd (finalizeChaosBlade A E c w) = Some w1 \<and>
    obj w1 = Some (c\<lparr>cb_ResourceVersion := v, cb_ExpStatuses := sts, cb_Phase := PhaseDestroyed\<rparr>)"
proof (cases "\<exists>old. cb_ExpStatuses c = Some old \<and> length (cb_Experiments c) = length old")
  case True
  then obtain old where old: "cb_ExpStatuses c = Some old" "length (cb_Experiments c) = length old" by blast
  obtain new w1 where m: "mapM_w (destroy_step E (cb_Name c)) (zip (cb_Experiments c) old) w = Some (new, w1)"
    and ok: "\<forall>s \<in> set new. es_Success s" and w1: "obj w1 = Some c"
    using destroys_succeed_all [OF assms(2), of "cb_Name c" "zip (cb_Experiments c) old" w] assms(3) by auto
  have "map_option snd (finalizeChaosBlade A E c w) = Some (snd (ap_StatusUpdate A
      (c\<lparr>cb_ExpStatuses := Some new, cb_Phase := PhaseDestroyed\<rparr>) w1))"
    using finalize_same_length [OF old m, of A] ok by simp
  with quiet_status [OF assms(1) w1, of PhaseDestroyed "Some new"] show ?thesis by blast
next
  case False
  then have "map_option snd (finalizeChaosBlade A E c w) =
      Some (snd (ap_StatusUpdate A (c\<lparr>cb_Phase := PhaseDestroyed\<rparr>) w))"
    using finalize_other_length finalize_nil by (metis not_None_eq)
  moreover have "c\<lparr>cb_ExpStatuses := cb_ExpStatuses c, cb_Phase := PhaseDestroyed\<rparr> = c\<lparr>cb_Phase := PhaseDestroyed\<rparr>"
    by (metis ChaosBlade.surjective ChaosBlade.update_convs(8))
  ultimately show ?thesis
    using quiet_status [OF assms(1,3), of PhaseDestroyed "cb_ExpStatuses c"] by metis
qed

text \<open>C10. A deletion completes: once a blade with experiments is marked for deletion, if the server
  answers, users are quiet and the destroys succeed, then one reconciliation brings it to Destroyed,
  the update predicate lets that event through, and the next reconciliation takes the finalizer, so
  that the object is gone unless somebody else's finalizer still holds it.\<close>

theorem deletion_completes:
  assumes "quiet_server A obj" "destroys_succeed E obj" "obj w = Some c"
    and "cb_Experiments c \<noteq> []" "cb_DeletionTimestamp c \<noteq> None" "cb_Phase c \<noteq> PhaseDestroyed"
    and "distinct (cb_Finalizers c)"
  shows "\<exists>w1 w2. Reconcile A E unm (cb_Name c) w = Some w1 \<and>
    fst (pred_Update msh (Some c) (obj w1)) \<and>
    Reconcile A E unm (cb_Name c) w1 = Some w2 \<and>
    (if set (cb_Finalizers c) \<subseteq> {chaosbladeFinalizer} then obj w2 = None
     else \<exists>c'. obj w2 = Some c' \<and> cb_Finalizers c' = removeAll chaosbladeFinalizer (cb_Finalizers c))"
proof -
  obtain u where u: "ap_Get A (cb_Name c) w = (Inr c, u)" "obj u = Some c"
    using assms(1,3) unfolding quiet_server_def by blast
  obtain w1 v sts where f: "map_option snd (finalizeChaosBlade A E c u) = Some w1"
    and w1: "obj w1 = Some (c\<lparr>cb_ResourceVersion := v, cb_ExpStatuses := sts, cb_Phase := PhaseDestroyed\<rparr>)"
    using quiet_finalize [OF assms(1,2) u(2)] by blast
  let ?d = "c\<lparr>cb_ResourceVersion := v, cb_ExpStatuses := sts, cb_Phase := PhaseDestroyed\<rparr>"
  have r1: "Reconcile A E unm (cb_Name c) w = Some w1"
    using u(1) f reconcile_object_finalize [OF assms(4,6) disjI2 [OF assms(5)], of A E unm u]
    by (simp add: Reconcile_def)
  have p: "fst (pred_Update msh (Some c) (obj w1))"
    using assms(6) by (simp add: w1 pred_Update_def)
  obtain u1 where u1: "ap_Get A (cb_Name ?d) w1 = (Inr ?d, u1)" "obj u1 = Some ?d"
    using assms(1) w1 unfolding quiet_server_def by blast
  let ?e = "?d\<lparr>cb_Finalizers := removeAll chaosbladeFinalizer (cb_Finalizers c)\<rparr>"
  have "cb_ResourceVersion ?e = cb_ResourceVersion ?d" by simp
  then obtain e w2 v2 where w2: "ap_Update A ?e u1 = ((None, e), w2)" "obj w2 = stored (main_write ?d ?e v2)"
    using assms(1) u1(2) unfolding quiet_server_def by blast
  have r2: "Reconcile A E unm (cb_Name c) w1 = Some w2"
    using u1(1) w2(1) assms(4,7)
    by (simp add: Reconcile_def reconcile_object_def reconcile_destroyed_def remove_distinct)
  have "removeAll chaosbladeFinalizer (cb_Finalizers c) = [] \<longleftrightarrow> set (cb_Finalizers c) \<subseteq> {chaosbladeFinalizer}"
    by (metis Diff_eq_empty_iff set_empty set_removeAll)
  with w2(2) assms(5) have "if set (cb_Finalizers c) \<subseteq> {chaosbladeFinalizer} then obj w2 = None
     else \<exists>c'. obj w2 = Some c' \<and> cb_Finalizers c' = removeAll chaosbladeFinalizer (cb_Finalizers c)"
    by (auto simp: stored_def one_store_def main_write_def)
  with r1 p r2 show ?thesis by blast
qed

lemma one_api_quiet: "quiet_server one_api id"
  unfolding quiet_server_def
proof (intro conjI allI impI)
  fix w :: "ChaosBlade option" and c cb :: ChaosBlade
  assume w: "id w = Some c"
  then show "\<exists>w1. ap_Get one_api (cb_Name c) w = (Inr c, w1) \<and> id w1 = Some c"
    by (simp add: one_api_def)
  assume v: "cb_ResourceVersion cb = cb_ResourceVersion c"
  have "main_write c cb (cb_ResourceVersion cb) = cb\<lparr>cb_Phase := cb_Phase c, cb_ExpStatuses := cb_ExpStatuses c,
      cb_DeletionTimestamp := cb_DeletionTimestamp c\<rparr>"
    by (simp add: main_write_def)
  with w v show "\<exists>cb' w1 v. ap_Update one_api cb w = ((None, cb'), w1) \<and> id w1 = stored (main_write c cb v)"
    by (simp add: one_api_def Let_def stored_def) metis
  have "status_write c cb (cb_ResourceVersion c) = c\<lparr>cb_Phase := cb_Phase cb, cb_ExpStatuses := cb_ExpStatuses cb\<rparr>"
    by (simp add: status_write_def)
  with w v show "\<exists>cb' w1 v. ap_StatusUpdate one_api cb w = ((None, cb'), w1) \<and> id w1 = Some (status_write c cb v)"
    by (simp add: one_api_def Let_def) metis
qed

lemma flat_destroys_succeed: "destroys_succeed (flat_executor True) obj"
  by (simp add: destroys_succeed_def flat_executor_def)

lemma deletion_completes_witness:
  "\<exists>w1 w2. Reconcile one_api (flat_executor True) (unary_unm []) ''a''
      (Some (blade_a\<lparr>cb_DeletionTimestamp := Some 0\<rparr>)) = Some w1 \<and>
    Reconcile one_api (flat_executor True) (unary_unm []) ''a'' w1 = Some w2 \<and> w2 = None"
  using deletion_completes [OF one_api_quiet flat_destroys_succeed,
      of "Some (blade_a\<lparr>cb_DeletionTimestamp := Some 0\<rparr>)" "blade_a\<lparr>cb_DeletionTimestamp := Some 0\<rparr>"
        "unary_unm []" unary_msh]
  by (simp add: blade_a_def spec_a_def spec_b_def) blast

end
