(* ===== verification/Cleanup.thy ===== *)
theory Cleanup
  imports Lifecycle
begin

section \<open>The periodic clean-up (startPeriodicallyCleanUpBlade of controller.go)\<close>

text \<open>
  A goroutine of the manager takes the finalizers of blades that are stuck in phase Destroying: once at the
  start, then at every tick. The single pass is in theory Reconcile; here is the loop around it.
\<close>

text \<open>
  The run up to the \<open>n\<close>-th tick. \<open>CleanupFatal\<close> is the fatal exit for intervals that do not parse,
  \<open>CleanupPanicked\<close> the panic of \<open>NewTicker\<close>, after the first pass. \<open>elapse p\<close> is what the world does in a
  period.
\<close>

datatype cleanup_run = CleanupFatal | CleanupPanicked | CleanupTicking

fun cleanup_ticks :: "'w api \<Rightarrow> ('w \<Rightarrow> int) \<Rightarrow> int \<Rightarrow> ('w \<Rightarrow> 'w) \<Rightarrow> nat \<Rightarrow> 'w \<Rightarrow> 'w" where
  "cleanup_ticks A now duration elapse 0 w = w"
| "cleanup_ticks A now duration elapse (Suc n) w =
     cleanup_ticks A now duration elapse n (periodicallyCleanUpBlade A now duration (elapse w))"

definition startPeriodicallyCleanUpBlade ::
  "'w api \<Rightarrow> ('w \<Rightarrow> int) \<Rightarrow> (int \<Rightarrow> int) \<Rightarrow> (string \<Rightarrow> GoErr + int) \<Rightarrow> (int \<Rightarrow> 'w \<Rightarrow> 'w) \<Rightarrow> string \<Rightarrow> nat \<Rightarrow> 'w \<Rightarrow>
     cleanup_run \<times> 'w" where
  "startPeriodicallyCleanUpBlade A now oor parse elapse RemoveBladeInterval n w =
     (case cleanup_interval parse RemoveBladeInterval of
        None \<Rightarrow> (CleanupFatal, w)
      | Some (duration, interval) \<Rightarrow>
          let w1 = periodicallyCleanUpBlade A now duration w
          in (case ticker_period oor duration of
                None \<Rightarrow> (CleanupPanicked, w1)
              | Some period \<Rightarrow> (CleanupTicking, cleanup_ticks A now duration (elapse period) n w1)))"

subsection \<open>Facts\<close>

text \<open>The rounded seconds of durations that are a second apart differ, over the whole range of \<open>int64\<close>.\<close>

lemma duration_seconds_gap:
  assumes "0 \<le> d" "d + 1000000000 \<le> e" "e < 2 ^ 63"
  shows "duration_seconds d < duration_seconds e"
proof -
  let ?G = "1000000000 :: int"
  let ?f = "fl (of_int (d mod ?G) / 1000000000)"
  let ?x = "of_int (d div ?G) + ?f"
  have "fl 1 = 1" using fl_of_nat [of 1] by simp
  then have f: "0 \<le> ?f" "?f \<le> 1"
    using fl_mono [of "of_int (d mod ?G) / 1000000000" 1] pos_mod_bound [of ?G d]
    by (simp_all add: fl_nonneg del: pos_mod_bound)
  have "d div ?G \<le> 9223372036" "0 \<le> d div ?G" using assms by simp_all
  then have "of_int (d div ?G) \<le> (9223372036 :: rat)" "0 \<le> (of_int (d div ?G) :: rat)"
    by (simp_all add: of_int_le_iff [where 'a = rat, of _ 9223372036, simplified])
  with f have x: "0 \<le> ?x" "?x \<le> 9223372037" by linarith+
  have "(d + ?G) div ?G = d div ?G + 1" "(d + ?G) mod ?G = d mod ?G" by simp_all
  then have e0: "duration_seconds (d + ?G) = fl (?x + 1)"
    using assms(1) by (simp add: duration_seconds_def Let_def add_ac)
  have d0: "duration_seconds d = fl ?x" using assms(1) by (simp add: duration_seconds_def Let_def)
  have "fl ?x - ?x \<le> ?x / 2 ^ 53" "?x + 1 - fl (?x + 1) \<le> (?x + 1) / 2 ^ 53"
    using fl_error [of ?x] fl_error [of "?x + 1"] x by linarith+
  then have "fl ?x < fl (?x + 1)" using x(2) by (simp add: field_simps)
  with d0 e0 duration_seconds_mono [of "d + ?G" e] assms show ?thesis by simp
qed

lemma overdue_late:
  assumes "cb_Phase cb = PhaseDestroying" "cb_DeletionTimestamp cb = Some t"
    and "0 \<le> d" "d + 1000000000 < 2 ^ 63" "t + d + 1000000000 \<le> now"
  shows "overdue now d cb"
proof -
  have "duration_seconds d < duration_seconds (sub_time now t)"
    using assms(3-5) by (intro duration_seconds_gap) (auto simp: sub_time_def)
  with assms(1,2) show ?thesis by (simp add: overdue_def)
qed

text \<open>
  A server that shows a blade in its lists and clears finalizers by name, with a clock that does not go back;
  \<open>obj\<close> is the stored blade. A deleted blade without finalizers is gone.
\<close>

definition clears_by_name :: "'w api \<Rightarrow> ('w \<Rightarrow> ChaosBlade option) \<Rightarrow> ('w \<Rightarrow> int) \<Rightarrow> bool" where
  "clears_by_name A obj now \<longleftrightarrow>
     (\<forall>w n. now w \<le> now (snd (ap_ClearFinalizers A n w)) \<and>
        (case obj w of
           None \<Rightarrow> obj (snd (ap_ClearFinalizers A n w)) = None
         | Some c \<Rightarrow>
             if n = cb_Name c
             then \<exists>v. obj (snd (ap_ClearFinalizers A n w)) = stored (c\<lparr>cb_ResourceVersion := v, cb_Finalizers := []\<rparr>)
             else obj (snd (ap_ClearFinalizers A n w)) = Some c))"

definition shows_and_clears :: "'w api \<Rightarrow> ('w \<Rightarrow> ChaosBlade option) \<Rightarrow> ('w \<Rightarrow> int) \<Rightarrow> bool" where
  "shows_and_clears A obj now \<longleftrightarrow>
     (\<forall>w. obj (snd (ap_List A w)) = obj w \<and> now w \<le> now (snd (ap_List A w)) \<and>
        (\<forall>c. obj w = Some c \<longrightarrow> c \<in> set (snd (fst (ap_List A w))))) \<and>
     clears_by_name A obj now"

lemma clear_finalizers:
  assumes "shows_and_clears A obj now"
  shows "now w \<le> now (snd (ap_ClearFinalizers A n w))"
    "obj w = None \<Longrightarrow> obj (snd (ap_ClearFinalizers A n w)) = None"
    "obj w = Some c \<Longrightarrow> cb_DeletionTimestamp c \<noteq> None \<Longrightarrow>
       obj (snd (ap_ClearFinalizers A n w)) = (if n = cb_Name c then None else Some c)"
proof -
  have clear: "now w \<le> now (snd (ap_ClearFinalizers A n w)) \<and>
     (case obj w of
        None \<Rightarrow> obj (snd (ap_ClearFinalizers A n w)) = None
      | Some c \<Rightarrow>
          if n = cb_Name c
          then \<exists>v. obj (snd (ap_ClearFinalizers A n w)) = stored (c\<lparr>cb_ResourceVersion := v, cb_Finalizers := []\<rparr>)
          else obj (snd (ap_ClearFinalizers A n w)) = Some c)"
    using assms unfolding shows_and_clears_def clears_by_name_def by blast
  then show "now w \<le> now (snd (ap_ClearFinalizers A n w))" by blast
  show "obj (snd (ap_ClearFinalizers A n w)) = None" if "obj w = None" using clear that by simp
  show "obj (snd (ap_ClearFinalizers A n w)) = (if n = cb_Name c then None else Some c)"
    if "obj w = Some c" "cb_DeletionTimestamp c \<noteq> None"
    using clear that by (auto simp: stored_def one_store_def)
qed

lemma items_gone:
  assumes "shows_and_clears A obj now"
  shows "obj w = None \<Longrightarrow> obj (cleanup_items A now d items w) = None"
  by (induction items arbitrary: w) (simp_all add: clear_finalizers(2) [OF assms])

lemma items_clock:
  assumes "shows_and_clears A obj now"
  shows "now w \<le> now (cleanup_items A now d items w)"
proof (induction items arbitrary: w)
  case Nil
  then show ?case by simp
next
  case (Cons c items)
  then show ?case using clear_finalizers(1) [OF assms] order_trans by (auto, blast)
qed

lemma items_stuck:
  assumes A: "shows_and_clears A obj now" and c: "cb_DeletionTimestamp c \<noteq> None"
  shows "obj w = Some c \<Longrightarrow> obj (cleanup_items A now d items w) \<in> {None, Some c}"
proof (induction items arbitrary: w)
  case Nil
  then show ?case by simp
next
  case (Cons b items)
  let ?w = "if overdue (now w) d b then snd (ap_ClearFinalizers A (cb_Name b) w) else w"
  have "obj ?w = None \<or> obj ?w = Some c" using clear_finalizers(3) [OF A Cons.prems c] Cons.prems by auto
  with Cons.IH [of ?w] items_gone [OF A, of ?w d items] show ?case by auto
qed

lemma items_released:
  assumes A: "shows_and_clears A obj now"
    and c: "cb_Phase c = PhaseDestroying" "cb_DeletionTimestamp c = Some t"
    and d: "0 \<le> d" "d + 1000000000 < 2 ^ 63"
  shows "obj w = Some c \<Longrightarrow> c \<in> set items \<Longrightarrow> t + d + 1000000000 \<le> now w \<Longrightarrow>
    obj (cleanup_items A now d items w) = None"
proof (induction items arbitrary: w)
  case Nil
  then show ?case by simp
next
  case (Cons b items)
  let ?w = "if overdue (now w) d b then snd (ap_ClearFinalizers A (cb_Name b) w) else w"
  have late: "overdue (now w) d c" by (rule overdue_late [OF c d Cons.prems(3)])
  have clock: "now w \<le> now ?w" using clear_finalizers(1) [OF A] by simp
  show ?case
  proof (cases "obj ?w = None")
    case True
    then show ?thesis using items_gone [OF A] by simp
  next
    case False
    with clear_finalizers(3) [OF A Cons.prems(1)] c(2) Cons.prems(1) have o: "obj ?w = Some c" by (auto split: if_splits)
    with late clear_finalizers(3) [OF A Cons.prems(1)] c(2) have "b \<noteq> c" by auto
    with Cons.prems(2,3) clock have "obj (cleanup_items A now d items ?w) = None"
      by (intro Cons.IH [OF o]) auto
    then show ?thesis by simp
  qed
qed

text \<open>A blade that is not deleted, of a name that the list shows as overdue, loses its finalizers.\<close>

lemma clear_live:
  assumes "clears_by_name A obj now" "obj w = Some c" "cb_DeletionTimestamp c = None"
  shows "now w \<le> now (snd (ap_ClearFinalizers A n w))"
    and "n \<noteq> cb_Name c \<Longrightarrow> obj (snd (ap_ClearFinalizers A n w)) = Some c"
    and "n = cb_Name c \<Longrightarrow> \<exists>v. obj (snd (ap_ClearFinalizers A n w)) = Some (c\<lparr>cb_ResourceVersion := v, cb_Finalizers := []\<rparr>)"
proof -
  have clear: "now w \<le> now (snd (ap_ClearFinalizers A n w)) \<and>
     (if n = cb_Name c
      then \<exists>v. obj (snd (ap_ClearFinalizers A n w)) = stored (c\<lparr>cb_ResourceVersion := v, cb_Finalizers := []\<rparr>)
      else obj (snd (ap_ClearFinalizers A n w)) = Some c)"
    using assms(1) [unfolded clears_by_name_def, THEN spec, THEN spec, of w n] assms(2) by (simp split: if_splits)
  then show "now w \<le> now (snd (ap_ClearFinalizers A n w))" by blast
  show "obj (snd (ap_ClearFinalizers A n w)) = Some c" if "n \<noteq> cb_Name c" using clear that by simp
  show "\<exists>v. obj (snd (ap_ClearFinalizers A n w)) = Some (c\<lparr>cb_ResourceVersion := v, cb_Finalizers := []\<rparr>)"
    if "n = cb_Name c" using clear that assms(3) by (simp add: stored_def one_store_def)
qed

lemma items_freed:
  assumes A: "clears_by_name A obj now"
    and d: "cb_Phase b = PhaseDestroying" "cb_DeletionTimestamp b = Some t" "0 \<le> d" "d + 1000000000 < 2 ^ 63"
  shows "obj w = Some c \<Longrightarrow> cb_DeletionTimestamp c = None \<Longrightarrow> cb_Name b = cb_Name c \<Longrightarrow>
    b \<in> set items \<or> cb_Finalizers c = [] \<Longrightarrow> t + d + 1000000000 \<le> now w \<Longrightarrow>
    \<exists>v. obj (cleanup_items A now d items w) = Some (c\<lparr>cb_ResourceVersion := v, cb_Finalizers := []\<rparr>)"
proof (induction items arbitrary: w c)
  case Nil
  then have "c = c\<lparr>cb_ResourceVersion := cb_ResourceVersion c, cb_Finalizers := []\<rparr>" by simp
  with Nil show ?case by (intro exI [of _ "cb_ResourceVersion c"]) simp
next
  case (Cons x items)
  let ?w = "if overdue (now w) d x then snd (ap_ClearFinalizers A (cb_Name x) w) else w"
  have clock: "now w \<le> now ?w" using clear_live(1) [OF A Cons.prems(1,2)] by simp
  show ?case
  proof (cases "overdue (now w) d x \<and> cb_Name x = cb_Name c")
    case True
    with clear_live(3) [OF A Cons.prems(1,2)] obtain v where
      "obj ?w = Some (c\<lparr>cb_ResourceVersion := v, cb_Finalizers := []\<rparr>)" by auto
    from Cons.IH [OF this] Cons.prems clock show ?thesis by simp
  next
    case False
    then have o: "obj ?w = Some c" using clear_live(2) [OF A Cons.prems(1,2)] Cons.prems(1) by auto
    have "x \<noteq> b" using False overdue_late [OF d Cons.prems(5)] Cons.prems(3) by auto
    then have "b \<in> set items \<or> cb_Finalizers c = []" using Cons.prems(4) by auto
    from Cons.IH [OF o Cons.prems(2,3) this] Cons.prems(5) clock show ?thesis by simp
  qed
qed

lemma pass_stuck:
  assumes A: "shows_and_clears A obj now" and w: "obj w = Some c"
    and c: "cb_Phase c = PhaseDestroying" "cb_DeletionTimestamp c = Some t"
    and d: "0 \<le> d" "d + 1000000000 < 2 ^ 63"
  shows "obj (periodicallyCleanUpBlade A now d w) \<in> {None, Some c}"
    "now w \<le> now (periodicallyCleanUpBlade A now d w)"
    "t + d + 1000000000 \<le> now w \<Longrightarrow> obj (periodicallyCleanUpBlade A now d w) = None"
proof -
  obtain e items w1 where l: "ap_List A w = ((e, items), w1)" by (cases "ap_List A w") auto
  with A w have w1: "obj w1 = Some c" "now w \<le> now w1" "c \<in> set items"
    unfolding shows_and_clears_def by (metis snd_conv, metis snd_conv, metis fst_conv snd_conv)
  show "obj (periodicallyCleanUpBlade A now d w) \<in> {None, Some c}"
    using items_stuck [OF A _ w1(1), of d items] c(2) l by (simp add: periodicallyCleanUpBlade_def)
  show "now w \<le> now (periodicallyCleanUpBlade A now d w)"
    using order_trans [OF w1(2) items_clock [OF A, of w1 d items]] l by (simp add: periodicallyCleanUpBlade_def)
  show "obj (periodicallyCleanUpBlade A now d w) = None" if "t + d + 1000000000 \<le> now w"
    using items_released [OF A c d w1(1,3)] w1(2) that l by (simp add: periodicallyCleanUpBlade_def)
qed

lemma pass_gone:
  assumes A: "shows_and_clears A obj now" and w: "obj w = None"
  shows "obj (periodicallyCleanUpBlade A now d w) = None"
proof -
  obtain e items w1 where l: "ap_List A w = ((e, items), w1)" by (cases "ap_List A w") auto
  with A w have "obj w1 = None" unfolding shows_and_clears_def by (metis snd_conv)
  then show ?thesis using items_gone [OF A] l by (simp add: periodicallyCleanUpBlade_def)
qed

lemma ticks_gone:
  assumes "shows_and_clears A obj now" "\<And>u. obj (elapse u) = obj u"
  shows "obj w = None \<Longrightarrow> obj (cleanup_ticks A now d elapse n w) = None"
  by (induction n arbitrary: w) (simp_all add: pass_gone [OF assms(1)] assms(2))

lemma ticks_released:
  assumes A: "shows_and_clears A obj now" and e: "\<And>u. obj (elapse u) = obj u" "\<And>u. now u + p \<le> now (elapse u)"
    and c: "cb_Phase c = PhaseDestroying" "cb_DeletionTimestamp c = Some t"
    and d: "0 \<le> d" "d + 1000000000 < 2 ^ 63"
  shows "obj w = Some c \<Longrightarrow> t + d + 1000000000 \<le> now w + int (Suc n) * p \<Longrightarrow>
    obj (cleanup_ticks A now d elapse (Suc n) w) = None"
proof (induction n arbitrary: w)
  case 0
  then have "t + d + 1000000000 \<le> now (elapse w)" using e(2) [of w] by simp
  with 0 pass_stuck(3) [OF A _ c d, of "elapse w"] e(1) show ?case by simp
next
  case (Suc n)
  let ?w = "periodicallyCleanUpBlade A now d (elapse w)"
  have o: "obj (elapse w) = Some c" using Suc.prems(1) e(1) by simp
  note pass = pass_stuck [OF A o c d]
  show ?case
  proof (cases "obj ?w = None")
    case True
    then show ?thesis using ticks_gone [OF A e(1), of ?w d "Suc n"] by simp
  next
    case False
    with pass(1) have s: "obj ?w = Some c" by simp
    have "now w + p \<le> now ?w" using e(2) [of w] pass(2) by linarith
    with Suc.prems(2) have "t + d + 1000000000 \<le> now ?w + int (Suc n) * p" by (simp add: algebra_simps)
    from Suc.IH [OF s this] show ?thesis by simp
  qed
qed

subsection \<open>Properties\<close>

text \<open>C12. A blade that is stuck is released: a deleted blade in phase Destroying, which the reconciler does not
  try again, is gone after the first tick that comes a second or more after the interval, or after the first
  pass when it comes so late; whatever else the server holds. The second is for the rounding of the seconds.\<close>

theorem stuck_blade_released:
  assumes "shows_and_clears A obj now" "\<And>u. obj (elapse p u) = obj u" "\<And>u. now u + p \<le> now (elapse p u)"
    and "obj w = Some c" "cb_Phase c = PhaseDestroying" "cb_DeletionTimestamp c = Some t"
    and "cleanup_interval parse s = Some (d, i)" "0 \<le> d" "d + 1000000000 < 2 ^ 63" "ticker_period oor d = Some p"
    and "t + d + 1000000000 \<le> now w + int n * p"
  shows "\<exists>w'. startPeriodicallyCleanUpBlade A now oor parse elapse s n w = (CleanupTicking, w') \<and> obj w' = None"
proof -
  let ?w = "periodicallyCleanUpBlade A now d w"
  note pass = pass_stuck [OF assms(1,4-6,8,9)]
  have "obj (cleanup_ticks A now d (elapse p) n ?w) = None"
  proof (cases "obj ?w = None")
    case True
    then show ?thesis by (rule ticks_gone [OF assms(1,2)])
  next
    case False
    with pass(1,3) have s: "obj ?w = Some c" "\<not> t + d + 1000000000 \<le> now w" by auto
    with assms(11) obtain k where n: "n = Suc k" by (cases n) auto
    have "t + d + 1000000000 \<le> now ?w + int (Suc k) * p" using assms(11) pass(2) unfolding n by linarith
    from ticks_released [OF assms(1-3,5,6,8,9) s(1) this] show ?thesis unfolding n .
  qed
  then show ?thesis using assms(7,10) by (simp add: startPeriodicallyCleanUpBlade_def Let_def)
qed

text \<open>The other side. What is kept by requests for other names is kept by the pass, when no item of the name is
  late at the end of it: the clock only goes forward, so none was late when its turn came.\<close>

lemma items_not_early:
  assumes "0 \<le> d" "\<And>m u. now u \<le> now (snd (ap_ClearFinalizers A m u))"
    and "\<And>m u. m \<noteq> n \<Longrightarrow> Q u \<Longrightarrow> Q (snd (ap_ClearFinalizers A m u))"
  shows "Q w \<Longrightarrow> (\<And>b t. b \<in> set items \<Longrightarrow> cb_Name b = n \<Longrightarrow> cb_Phase b = PhaseDestroying \<Longrightarrow>
      cb_DeletionTimestamp b = Some t \<Longrightarrow> now (cleanup_items A now d items w) \<le> t + d) \<Longrightarrow>
    Q (cleanup_items A now d items w) \<and> now w \<le> now (cleanup_items A now d items w)"
proof (induction items arbitrary: w)
  case Nil
  then show ?case by simp
next
  case (Cons x items)
  let ?w = "if overdue (now w) d x then snd (ap_ClearFinalizers A (cb_Name x) w) else w"
  let ?z = "cleanup_items A now d items ?w"
  have clock: "now u \<le> now (cleanup_items A now d bs u)" for u bs
  proof (induction bs arbitrary: u)
    case (Cons y bs)
    then show ?case using assms(2) order_trans by (auto, blast)
  qed simp
  have "now w \<le> now ?w" using assms(2) by simp
  then have late: "now w \<le> now ?z" using clock [of ?w items] by linarith
  have "\<not> (overdue (now w) d x \<and> cb_Name x = n)"
  proof
    assume o: "overdue (now w) d x \<and> cb_Name x = n"
    with overdue_elapsed assms(1) obtain t where
      "cb_Phase x = PhaseDestroying" "cb_DeletionTimestamp x = Some t" "d < now w - t" by blast
    with Cons.prems(2) [of x t] o late show False by simp
  qed
  then have "Q ?w" using Cons.prems(1) assms(3) by auto
  moreover have "now ?z \<le> t + d" if "b \<in> set items" "cb_Name b = n" "cb_Phase b = PhaseDestroying"
    "cb_DeletionTimestamp b = Some t" for b t
    using Cons.prems(2) [of b t] that by simp
  ultimately have "Q ?z" using Cons.IH [of ?w] by blast
  with late show ?case by simp
qed

text \<open>C33. The clean-up asks the server to free a name only for a listed blade of that name that is overdue:
  in a pass whose list shows no blade of the name that is in phase Destroying and was deleted longer than the
  interval before the end of the pass, everything that requests for other names keep is kept, however many
  others the pass frees and however long it takes. (The blade the request then hits need not be the one
  listed: \<open>cleanup_frees_recreated\<close>.) The comparison of the code is one of rounded floating-point seconds.\<close>

theorem cleanup_not_early:
  assumes "0 \<le> interval" "ap_List A w = ((e, items), w1)" "Q w1"
    and "\<And>m u. now u \<le> now (snd (ap_ClearFinalizers A m u))"
    and "\<And>m u. m \<noteq> n \<Longrightarrow> Q u \<Longrightarrow> Q (snd (ap_ClearFinalizers A m u))"
    and "\<And>b t. b \<in> set items \<Longrightarrow> cb_Name b = n \<Longrightarrow> cb_Phase b = PhaseDestroying \<Longrightarrow>
      cb_DeletionTimestamp b = Some t \<Longrightarrow> now (periodicallyCleanUpBlade A now interval w) \<le> t + interval"
  shows "Q (periodicallyCleanUpBlade A now interval w)"
proof -
  have p: "periodicallyCleanUpBlade A now interval w = cleanup_items A now interval items w1"
    by (simp add: periodicallyCleanUpBlade_def assms(2))
  show ?thesis
    unfolding p using items_not_early [where A = A and now = now and n = n and Q = Q and w = w1 and items = items,
        OF assms(1,4,5,3)] assms(6) unfolding p by blast
qed

subsection \<open>Witnesses\<close>

text \<open>A server with one blade and a clock; the blade was deleted at time zero and waits for an hour.\<close>

definition clock_api :: "(ChaosBlade option \<times> int) api" where
  "clock_api =
     \<lparr>ap_Get = (\<lambda>n w. (Inl (ErrApi True ''not found''), w)), ap_Update = (\<lambda>cb w. ((None, cb), w)),
      ap_StatusUpdate = (\<lambda>cb w. ((None, cb), w)), ap_List = (\<lambda>w. ((None, case fst w of None \<Rightarrow> [] | Some c \<Rightarrow> [c]), w)),
      ap_ClearFinalizers = (\<lambda>n w. (None, (case fst w of
         Some c \<Rightarrow> if n = cb_Name c then stored (c\<lparr>cb_Finalizers := []\<rparr>) else Some c | None \<Rightarrow> None, snd w)))\<rparr>"

lemma clock_api_shows: "shows_and_clears clock_api fst snd"
proof -
  have "\<exists>v. stored (c\<lparr>cb_Finalizers := []\<rparr>) = stored (c\<lparr>cb_ResourceVersion := v, cb_Finalizers := []\<rparr>)" for c
    by (intro exI [of _ "cb_ResourceVersion c"]) simp
  then show ?thesis by (simp add: shows_and_clears_def clears_by_name_def clock_api_def split: option.splits)
qed

lemma hour_ticker: "ticker_period oor 3600000000000 = Some 3600000000000"
proof -
  have "fl 3600 = 3600" using fl_of_nat [of 3600] by simp
  then show ?thesis by (simp add: ticker_period_def duration_seconds_def fl_0 to_int64_def)
qed

lemma stuck_blade_released_witness:
  "\<exists>w'. startPeriodicallyCleanUpBlade clock_api snd id (\<lambda>s. Inr 3600000000000) (\<lambda>p (b, t). (b, t + p)) ''1h'' 2
     (Some (blade_a\<lparr>cb_Phase := PhaseDestroying, cb_DeletionTimestamp := Some 0\<rparr>), 0) = (CleanupTicking, w') \<and>
   fst w' = None"
  by (rule stuck_blade_released [OF clock_api_shows, where p = 3600000000000 and d = 3600000000000 and t = 0
        and c = "blade_a\<lparr>cb_Phase := PhaseDestroying, cb_DeletionTimestamp := Some 0\<rparr>"])
    (simp_all add: split_beta cleanup_interval_def hour_ticker)

text \<open>A server with a list of blades, on which a request takes ten seconds. Of two blades in phase Destroying one
  has waited for more than the five minutes; it is freed and the other stays.\<close>

definition shelf_api :: "(ChaosBlade list \<times> int) api" where
  "shelf_api =
     \<lparr>ap_Get = (\<lambda>n w. (Inl (ErrApi True ''not found''), w)), ap_Update = (\<lambda>cb w. ((None, cb), w)),
      ap_StatusUpdate = (\<lambda>cb w. ((None, cb), w)), ap_List = (\<lambda>w. ((None, fst w), w)),
      ap_ClearFinalizers = (\<lambda>n w. (None, (filter (\<lambda>c. cb_Name c \<noteq> n) (fst w), snd w + 10000000000)))\<rparr>"

definition waiting :: "string \<Rightarrow> int \<Rightarrow> ChaosBlade" where
  "waiting n t = blade_a\<lparr>cb_Name := n, cb_Phase := PhaseDestroying, cb_DeletionTimestamp := Some t\<rparr>"

lemma cleanup_not_early_witness:
  "fst (periodicallyCleanUpBlade shelf_api snd 300000000000
     ([waiting ''old'' 0, waiting ''new'' 100000000000], 320000000000)) = [waiting ''new'' 100000000000]"
proof -
  let ?w = "([waiting ''old'' 0, waiting ''new'' 100000000000], 320000000000 :: int)"
  let ?u = "([waiting ''new'' 100000000000], 330000000000 :: int)"
  have "overdue 320000000000 300000000000 (waiting ''old'' 0)"
    by (rule overdue_late [where t = 0]) (simp_all add: waiting_def)
  then have u: "periodicallyCleanUpBlade shelf_api snd 300000000000 ?w =
      cleanup_items shelf_api snd 300000000000 [waiting ''new'' 100000000000] ?u"
    by (simp add: periodicallyCleanUpBlade_def shelf_api_def waiting_def)
  then have late: "snd (periodicallyCleanUpBlade shelf_api snd 300000000000 ?w) \<le> 340000000000"
    by (simp add: shelf_api_def)
  have "waiting ''new'' 100000000000 \<in> set (fst (periodicallyCleanUpBlade shelf_api snd 300000000000 ?w))"
    by (rule cleanup_not_early [where n = "''new''" and e = None and items = "fst ?w" and ?w1.0 = ?w and
        Q = "\<lambda>w. waiting ''new'' 100000000000 \<in> set (fst w)"])
      (use late in \<open>auto simp: shelf_api_def waiting_def\<close>)
  then show ?thesis unfolding u by (simp add: shelf_api_def split: if_splits)
qed

end
