(* ===== verification/Flags.thy ===== *)
theory Flags
  imports Types
begin

section \<open>Flags and model specs (exec/model/model.go, parts of controller.go)\<close>

text \<open>
  The names of the flags an experiment can carry, the flag sets of the resource scopes, the
  conversion of an experiment spec into an experiment model, and the registry of experiment models
  with its lookup of an action by name or alias.
\<close>

definition ResourceCountFlag :: string where "ResourceCountFlag = ''evict-count''"
definition ResourcePercentFlag :: string where "ResourcePercentFlag = ''evict-percent''"
definition ResourceNamesFlag :: string where "ResourceNamesFlag = ''names''"
definition ResourceNamespaceFlag :: string where "ResourceNamespaceFlag = ''namespace''"
definition ResourceLabelsFlag :: string where "ResourceLabelsFlag = ''labels''"
definition ResourceGroupKeyFlag :: string where "ResourceGroupKeyFlag = ''evict-group''"
definition ContainerIdsFlag :: string where "ContainerIdsFlag = ''container-ids''"
definition ContainerNamesFlag :: string where "ContainerNamesFlag = ''container-names''"
definition ContainerIndexFlag :: string where "ContainerIndexFlag = ''container-index''"
definition ChaosBladePathFlag :: string where "ChaosBladePathFlag = ''chaosblade-path''"
definition ChaosBladeDownloadUrlFlag :: string where
  "ChaosBladeDownloadUrlFlag = ''chaosblade-download-url''"
definition DownloadMode :: string where "DownloadMode = ''download''"
definition CopyMode :: string where "CopyMode = ''copy''"
definition ChaosBladeDeployModeFlag :: string where
  "ChaosBladeDeployModeFlag = ''chaosblade-deploy-mode''"
definition IsDockerNetworkFlag :: string where "IsDockerNetworkFlag = ''is-docker-network''"
definition UseSidecarContainerNetworkFlag :: string where
  "UseSidecarContainerNetworkFlag = ''use-sidecar-container-network''"

lemmas flag_defs =
  ResourceCountFlag_def ResourcePercentFlag_def ResourceNamesFlag_def ResourceNamespaceFlag_def
  ResourceLabelsFlag_def ResourceGroupKeyFlag_def ContainerIdsFlag_def ContainerNamesFlag_def
  ContainerIndexFlag_def ChaosBladePathFlag_def ChaosBladeDownloadUrlFlag_def
  ChaosBladeDeployModeFlag_def IsDockerNetworkFlag_def UseSidecarContainerNetworkFlag_def

text \<open>The name of the override flag belongs to chaosblade-exec-cri; it is the argument \<open>override_flag\<close>.\<close>

definition GetResourceCoverageFlags :: "string list" where
  "GetResourceCoverageFlags = [ResourceCountFlag, ResourcePercentFlag]"

definition GetNetworkFlags :: "string list" where
  "GetNetworkFlags = [IsDockerNetworkFlag, UseSidecarContainerNetworkFlag]"

definition GetContainerFlags :: "string list" where
  "GetContainerFlags = [ContainerIdsFlag, ContainerNamesFlag, ContainerIndexFlag]"

definition GetResourceCommonFlags :: "string list" where
  "GetResourceCommonFlags =
     [ResourceNamesFlag, ResourceNamespaceFlag, ResourceLabelsFlag, ResourceGroupKeyFlag]"

definition GetChaosBladeFlags :: "string \<Rightarrow> string list" where
  "GetChaosBladeFlags override_flag =
     [ChaosBladePathFlag, override_flag, ChaosBladeDeployModeFlag, ChaosBladeDownloadUrlFlag]"

definition GetResourceFlagNames :: "string \<Rightarrow> string list" where
  "GetResourceFlagNames override_flag =
     [ResourceCountFlag, ResourcePercentFlag, ResourceNamesFlag, ResourceNamespaceFlag,
      ResourceLabelsFlag, ContainerIdsFlag, ContainerNamesFlag, ContainerIndexFlag,
      ChaosBladePathFlag, override_flag, ChaosBladeDeployModeFlag, ChaosBladeDownloadUrlFlag,
      IsDockerNetworkFlag, UseSidecarContainerNetworkFlag]"

text \<open>The flags each scope adds to its experiment models (exec/{node,pod,container}).\<close>

definition node_getResourceFlags :: "string list" where
  "node_getResourceFlags = GetResourceCoverageFlags @ [ResourceNamesFlag, ResourceLabelsFlag]"

definition pod_getResourceFlags :: "string \<Rightarrow> string list" where
  "pod_getResourceFlags ov =
     (GetResourceCoverageFlags @ GetResourceCommonFlags) @ GetChaosBladeFlags ov"

definition container_getResourceFlags :: "string \<Rightarrow> string list" where
  "container_getResourceFlags ov =
     (((GetResourceCoverageFlags @ GetResourceCommonFlags) @ GetContainerFlags)
       @ GetChaosBladeFlags ov) @ GetNetworkFlags"

subsection \<open>From an experiment spec to an experiment model\<close>

definition ExtractExpModelFromExperimentSpec :: "ExperimentSpec \<Rightarrow> ExpModel" where
  "ExtractExpModelFromExperimentSpec x =
     \<lparr>em_Target = xs_Target x, em_Scope = xs_Scope x, em_ActionName = xs_Action x,
      em_ActionFlags =
        foldl (\<lambda>m f. m(fs_Name f \<mapsto> go_join '','' (fs_Value f))) Map.empty (xs_Matchers x),
      em_ActionPrograms = [], em_ActionProcessHang = False\<rparr>"

text \<open>The last matcher of a name wins.\<close>

lemma foldl_flags:
  "foldl (\<lambda>m f. m(fs_Name f \<mapsto> g f)) m0 fs k =
     (case find (\<lambda>f. fs_Name f = k) (rev fs) of None \<Rightarrow> m0 k | Some f \<Rightarrow> Some (g f))"
proof (induction fs rule: rev_induct)
  case Nil
  then show ?case by simp
next
  case (snoc f fs)
  then show ?case by auto
qed

lemma Extract_sel [simp]:
  "em_Target (ExtractExpModelFromExperimentSpec x) = xs_Target x"
  "em_Scope (ExtractExpModelFromExperimentSpec x) = xs_Scope x"
  "em_ActionName (ExtractExpModelFromExperimentSpec x) = xs_Action x"
  "em_ActionProcessHang (ExtractExpModelFromExperimentSpec x) = False"
  by (simp_all add: ExtractExpModelFromExperimentSpec_def)

subsection \<open>The model registry\<close>

text \<open>
  An action as the registry sees it: its name, aliases, the names of its matchers and flags, the
  programs it needs, and its executor, which is a value of the type \<open>'e\<close>. A command spec has a name,
  the names of its flags and, unless \<open>Actions()\<close> is \<open>nil\<close>, a list of actions.
\<close>

record 'e Action =
  ac_Name :: string
  ac_Aliases :: "string list"
  ac_Matchers :: "string list"
  ac_Flags :: "string list"
  ac_Programs :: "string list"
  ac_Executor :: 'e

record 'e CommandSpec =
  cs_Name :: string
  cs_Flags :: "string list"
  cs_Actions :: "'e Action list option"

type_synonym 'e Registry = "string \<rightharpoonup> 'e CommandSpec"

definition RegisterExpModels :: "'e Registry \<Rightarrow> 'e CommandSpec list \<Rightarrow> 'e Registry" where
  "RegisterExpModels r ms = foldl (\<lambda>m c. m(cs_Name c \<mapsto> c)) r ms"

fun find_action :: "string \<Rightarrow> 'e Action list \<Rightarrow> 'e Action option" where
  "find_action n [] = None"
| "find_action n (a # as) =
     (if ac_Name a = n \<or> n \<in> set (ac_Aliases a) then Some a else find_action n as)"

definition GetExpActionModelSpec :: "'e Registry \<Rightarrow> string \<Rightarrow> string \<Rightarrow> 'e Action option" where
  "GetExpActionModelSpec r target actionName =
     (case r target of
        None \<Rightarrow> None
      | Some c \<Rightarrow> (case cs_Actions c of None \<Rightarrow> None | Some as \<Rightarrow> find_action actionName as))"

lemma find_action_Some:
  "find_action n as = Some a \<Longrightarrow> a \<in> set as \<and> (ac_Name a = n \<or> n \<in> set (ac_Aliases a))"
  by (induction as) (auto split: if_splits)

lemma find_action_None:
  "find_action n as = None \<longleftrightarrow> (\<forall>a\<in>set as. ac_Name a \<noteq> n \<and> n \<notin> set (ac_Aliases a))"
  by (induction as) auto

lemma RegisterExpModels_lookup:
  "RegisterExpModels r ms t =
     (case find (\<lambda>c. cs_Name c = t) (rev ms) of None \<Rightarrow> r t | Some c \<Rightarrow> Some c)"
proof (induction ms rule: rev_induct)
  case Nil
  then show ?case by (simp add: RegisterExpModels_def)
next
  case (snoc c ms)
  then show ?case by (auto simp: RegisterExpModels_def)
qed

lemma RegisterExpModels_names:
  "distinct (map cs_Name ms) \<Longrightarrow> c \<in> set ms \<Longrightarrow> RegisterExpModels r ms (cs_Name c) = Some c"
proof (induction ms rule: rev_induct)
  case Nil
  then show ?case by simp
next
  case (snoc d ms)
  show ?case
  proof (cases "c = d")
    case True
    then show ?thesis by (simp add: RegisterExpModels_def)
  next
    case False
    with snoc.prems have c: "c \<in> set ms" by auto
    from snoc.prems(1) have "cs_Name d \<notin> cs_Name ` set ms" and "distinct (map cs_Name ms)"
      by simp_all
    with c have "cs_Name c \<noteq> cs_Name d" and "RegisterExpModels r ms (cs_Name c) = Some c"
      using snoc.IH by (metis image_eqI, simp)
    then show ?thesis by (simp add: RegisterExpModels_def)
  qed
qed

end
