(* ===== verification/ResourceCount.thy ===== *)
theory ResourceCount
  imports Flags GoFloat
begin

section \<open>How many resources an experiment affects (exec/model/controller.go)\<close>

text \<open>
  \<open>GetResourceCount\<close> computes how many of the matched resources are used from the flags
  \<open>evict-count\<close> and \<open>evict-percent\<close>. The argument \<open>oor\<close> is the conversion of a float outside the
  range of \<open>int64\<close>, which Go leaves to the implementation.
\<close>

definition percent_count :: "(int \<Rightarrow> int) \<Rightarrow> int \<Rightarrow> int \<Rightarrow> int" where
  "percent_count oor percent n =
     to_int64 oor (go_round (fl (fl (fl (of_int percent) / 100) * fl (of_int n))))"

definition positive_flag :: "spec_lib \<Rightarrow> string \<Rightarrow> int \<Rightarrow> flags \<Rightarrow> Response + int" where
  "positive_flag S name dflt m =
     (let v = mget m name
      in if v = [] then Inr dflt
         else case atoi v of
           Inl e \<Rightarrow> Inl (sp_FailWithFlags S ParameterIllegal [FStr name, FStr v, FErr (ErrNum e)])
         | Inr n \<Rightarrow>
             if n = 0 then Inl (sp_FailWithFlags S ParameterIllegal
               [FStr name, FStr v, FStr ''it must be a positive integer''])
             else Inr n)"

definition GetResourceCount :: "(int \<Rightarrow> int) \<Rightarrow> spec_lib \<Rightarrow> int \<Rightarrow> flags \<Rightarrow> int \<times> Response" where
  "GetResourceCount oor S resourceCount m =
     (if resourceCount = 0 then (0, sp_Success S)
      else case positive_flag S ResourceCountFlag 2147483647 m of
        Inl r \<Rightarrow> (0, r)
      | Inr cnt \<Rightarrow>
          (case positive_flag S ResourcePercentFlag 100 m of
             Inl r \<Rightarrow> (0, r)
           | Inr percent \<Rightarrow>
               let pc = percent_count oor percent resourceCount;
                   c = (if cnt > pc then pc else cnt)
               in if c > resourceCount then (resourceCount, sp_Success S) else (c, sp_Success S)))"

subsection \<open>Bounds\<close>

lemma positive_flag_fail:
  "spec_contract S \<Longrightarrow> positive_flag S name d m = Inl r \<Longrightarrow> \<not> rp_Success r"
  by (auto simp: positive_flag_def Let_def spec_contract_def split: if_splits sum.splits)

lemma GetResourceCount_le: "0 \<le> n \<Longrightarrow> fst (GetResourceCount oor S n m) \<le> n"
  by (auto simp: GetResourceCount_def Let_def split: sum.splits)

lemma GetResourceCount_fail:
  assumes "spec_contract S" "GetResourceCount oor S n m = (c, r)" "\<not> rp_Success r"
  shows "c = 0"
  using assms spec_contractD(1) [OF assms(1)]
  by (auto simp: GetResourceCount_def Let_def split: if_splits sum.splits)

lemma percent_product_bounds:
  assumes "1 \<le> p" "p \<le> 100" "0 \<le> n" "n < 2 ^ 53"
  defines "q \<equiv> fl (fl (of_int p) / 100)"
  shows "0 < q" "q \<le> 1" "0 \<le> q * of_int n" "q * of_int n \<le> of_int n"
    "fl (of_int p) = of_int p" "fl (of_int n) = of_int n"
proof -
  have exact: "fl (of_int k) = of_int k" if "0 \<le> k" "k < 2 ^ 53" for k
  proof -
    have "nat k < 2 ^ 53" using that by (simp add: nat_less_iff)
    from fl_of_nat [OF this] that show ?thesis by (simp add: of_nat_nat)
  qed
  show p: "fl (of_int p) = of_int p" using assms by (intro exact) auto
  show "fl (of_int n) = of_int n" using assms by (intro exact) auto
  show q: "0 < q" unfolding q_def p using assms by (intro fl_pos) simp
  have "fl (of_int p / 100) \<le> fl 1" using assms by (intro fl_mono) auto
  also have "fl 1 = 1" using fl_of_nat [of 1] by simp
  finally show le1: "q \<le> 1" by (simp add: q_def p)
  show "0 \<le> q * of_int n" using q assms by (intro mult_nonneg_nonneg) auto
  show "q * of_int n \<le> of_int n" using le1 q assms by (intro mult_left_le_one_le) auto
qed

lemma percent_count_range:
  assumes "1 \<le> p" "p \<le> 100" "0 \<le> n" "n < 2 ^ 53"
  shows "0 \<le> percent_count oor p n \<and> percent_count oor p n \<le> n"
proof -
  note b = percent_product_bounds [OF assms]
  let ?x = "fl (fl (of_int p / 100) * of_int n)"
  have x0: "0 \<le> ?x" using b(3) unfolding b(5) by (rule fl_nonneg)
  have "?x \<le> fl (of_int n)" using b(3,4) unfolding b(5) by (rule fl_mono)
  then have x1: "?x \<le> of_int n" by (simp only: b(6))
  have "0 \<le> go_round ?x" "go_round ?x \<le> n"
    using x0 x1 by (auto intro: go_round_nonneg go_round_le)
  with assms show ?thesis unfolding percent_count_def b(5,6) by (simp add: to_int64_def)
qed

text \<open>The whole population is selected by 100 percent.\<close>

lemma percent_count_100:
  assumes "0 \<le> n" "n < 2 ^ 53"
  shows "percent_count oor 100 n = n"
proof -
  have "fl 1 = (1 :: rat)" using fl_of_nat [of 1] by simp
  moreover have "fl (of_int 100) = (100 :: rat)" using fl_of_nat [of 100] by simp
  moreover have e: "fl (of_int n) = of_int n"
    using percent_product_bounds(6) [of 100 n] assms by simp
  ultimately show ?thesis
    using assms by (simp add: percent_count_def to_int64_def)
qed

text \<open>
  For up to \<open>2 ^ 40\<close> resources the float product is so close to \<open>p * n / 100\<close> that the rounded
  count is a nearest integer to it.
\<close>

lemma percent_count_nearest:
  assumes "1 \<le> p" "p \<le> 100" "0 \<le> n" "n \<le> 2 ^ 40"
  shows "\<bar>100 * percent_count oor p n - p * n\<bar> \<le> 50"
proof -
  have n53: "n < 2 ^ 53" using assms(4) by simp
  note b = percent_product_bounds [OF assms(1-3) n53]
  let ?p = "of_int p :: rat" and ?n = "of_int n :: rat"
  let ?q = "fl (?p / 100)"
  let ?x = "fl (?q * ?n)"
  have n40: "?n \<le> 2 ^ 40" using assms(4) by (metis of_int_le_iff of_int_numeral of_int_power)
  have n0: "0 \<le> ?n" using assms(3) by simp
  have "\<bar>?q - ?p / 100\<bar> \<le> ?p / 100 / 2 ^ 53" using assms by (intro fl_error) simp
  also have "\<dots> \<le> 1 / 2 ^ 53" using assms by (simp add: divide_right_mono)
  finally have q: "\<bar>?q - ?p / 100\<bar> \<le> 1 / 2 ^ 53" .
  have "\<bar>?q * ?n - ?p / 100 * ?n\<bar> = \<bar>?q - ?p / 100\<bar> * ?n"
    using n0 by (simp only: left_diff_distrib [symmetric] abs_mult abs_of_nonneg)
  also have "\<dots> \<le> 1 / 2 ^ 53 * 2 ^ 40" using q n40 n0 by (intro mult_mono) auto
  finally have e1: "\<bar>?q * ?n - ?p / 100 * ?n\<bar> \<le> 1 / 8192" by simp
  have "\<bar>?x - ?q * ?n\<bar> \<le> ?q * ?n / 2 ^ 53" using b(3) unfolding b(5) by (rule fl_error)
  also have "\<dots> \<le> 2 ^ 40 / 2 ^ 53"
    using b(4) n40 unfolding b(5) by (intro divide_right_mono) auto
  finally have e2: "\<bar>?x - ?q * ?n\<bar> \<le> 1 / 8192" by simp
  have e3: "\<bar>of_int (go_round ?x) - ?x\<bar> \<le> 1 / 2" by (rule go_round_error)
  have "\<bar>of_int (go_round ?x) - ?p / 100 * ?n\<bar> \<le> 1 / 2 + 1 / 4096"
    using e1 e2 e3 unfolding abs_le_iff by linarith
  then have "\<bar>of_int (100 * go_round ?x - p * n)\<bar> < (51 :: rat)"
    unfolding abs_le_iff abs_less_iff of_int_diff of_int_mult of_int_numeral by linarith
  then have "\<bar>100 * go_round ?x - p * n\<bar> < 51"
    by (metis of_int_abs of_int_less_iff of_int_numeral)
  moreover have "percent_count oor p n = go_round ?x"
  proof -
    have "0 \<le> ?x" "?x \<le> of_int n"
      using b(3,4,6) unfolding b(5) by (auto intro: fl_nonneg dest: fl_mono)
    then have "0 \<le> go_round ?x" "go_round ?x \<le> n" by (auto intro: go_round_nonneg go_round_le)
    with n53 show ?thesis unfolding percent_count_def b(5,6) by (simp add: to_int64_def)
  qed
  ultimately show ?thesis by simp
qed

lemma positive_flag_default:
  "mget m name = [] \<Longrightarrow> positive_flag S name d m = Inr d"
  by (simp add: positive_flag_def)

lemma positive_flag_value:
  "mget m name = v \<Longrightarrow> v \<noteq> [] \<Longrightarrow> atoi v = Inr k \<Longrightarrow> k \<noteq> 0 \<Longrightarrow>
   positive_flag S name d m = Inr k"
  by (simp add: positive_flag_def)

lemma GetResourceCount_eval:
  assumes "n \<noteq> 0"
    and "positive_flag S ResourceCountFlag 2147483647 m = Inr c"
    and "positive_flag S ResourcePercentFlag 100 m = Inr p"
  shows "GetResourceCount oor S n m = (min (min c (percent_count oor p n)) n, sp_Success S)"
  using assms by (auto simp: GetResourceCount_def Let_def min_def)

subsection \<open>Properties\<close>

text \<open>C31. With a percentage \<open>p\<close> from 1 to 100 and no count, \<open>GetResourceCount\<close> succeeds and returns
  a number between 0 and \<open>n\<close> that is a nearest integer to \<open>p * n / 100\<close>, although the code computes
  it with two rounded \<open>float64\<close> operations, for every number \<open>n\<close> of resources up to 2147483647.\<close>

theorem percent_is_nearest:
  assumes "positive_flag S ResourcePercentFlag 100 m = Inr p" "1 \<le> p" "p \<le> 100"
    and "mget m ResourceCountFlag = []" "0 \<le> n" "n \<le> 2147483647"
  shows "\<exists>c. GetResourceCount oor S n m = (c, sp_Success S)
     \<and> 0 \<le> c \<and> c \<le> n \<and> \<bar>100 * c - p * n\<bar> \<le> 50"
proof (cases "n = 0")
  case True
  then show ?thesis by (simp add: GetResourceCount_def)
next
  case False
  have r: "0 \<le> percent_count oor p n" "percent_count oor p n \<le> n"
    using percent_count_range [of p n oor] assms by auto
  have near: "\<bar>100 * percent_count oor p n - p * n\<bar> \<le> 50"
    using percent_count_nearest [of p n oor] assms by simp
  from assms(4) have "positive_flag S ResourceCountFlag 2147483647 m = Inr 2147483647"
    by (rule positive_flag_default)
  from GetResourceCount_eval [OF False this assms(1), of oor]
  have "GetResourceCount oor S n m = (percent_count oor p n, sp_Success S)"
    using r assms(6) by simp
  with near r show ?thesis by simp
qed

lemma percent_is_nearest_witness:
  "\<exists>c. GetResourceCount id sample_spec 10 [ResourcePercentFlag \<mapsto> ''55''] = (c, sp_Success sample_spec)
     \<and> 0 \<le> c \<and> c \<le> 10 \<and> \<bar>100 * c - 55 * 10\<bar> \<le> 50"
  by (rule percent_is_nearest)
    (simp_all add: positive_flag_def flag_defs atoi_def has_prefix_def is_digit_def digits_val_def)

text \<open>A count and a percentage together select the smaller of the two numbers, and never more
  than there are resources.\<close>

theorem count_and_percent:
  assumes "positive_flag S ResourceCountFlag 2147483647 m = Inr c"
    and "positive_flag S ResourcePercentFlag 100 m = Inr p" "n \<noteq> 0"
  shows "GetResourceCount oor S n m = (min (min c (percent_count oor p n)) n, sp_Success S)"
  using assms(3,1,2) by (rule GetResourceCount_eval)

lemma count_and_percent_witness:
  "GetResourceCount id sample_spec 10 [ResourceCountFlag \<mapsto> ''5'', ResourcePercentFlag \<mapsto> ''100'']
     = (5, sp_Success sample_spec)"
proof -
  have "GetResourceCount id sample_spec 10 [ResourceCountFlag \<mapsto> ''5'', ResourcePercentFlag \<mapsto> ''100'']
     = (min (min 5 (percent_count id 100 10)) 10, sp_Success sample_spec)"
    by (rule count_and_percent)
      (simp_all add: positive_flag_def flag_defs atoi_def has_prefix_def is_digit_def digits_val_def)
  then show ?thesis by (simp add: percent_count_100)
qed

text \<open>A count or percentage that is not a number, or is zero, is refused with a failed response
  and the count 0; \<open>evict-count\<close> is checked first.\<close>

theorem bad_count_refused:
  assumes "spec_contract S" "n \<noteq> 0" "mget m ResourceCountFlag = v" "v \<noteq> []"
    and "atoi v = Inr 0 \<or> (\<exists>e. atoi v = Inl e)"
  shows "\<exists>r. GetResourceCount oor S n m = (0, r) \<and> \<not> rp_Success r"
  using assms by (auto simp: GetResourceCount_def positive_flag_def spec_contractD)

lemma bad_count_refused_witness:
  "\<exists>r. GetResourceCount id sample_spec 3 [ResourceCountFlag \<mapsto> ''x''] = (0, r) \<and> \<not> rp_Success r"
  by (rule bad_count_refused [of _ _ _ "''x''"])
    (simp_all add: sample_spec_contract flag_defs atoi_def has_prefix_def is_digit_def)

end
