(* ===== verification/K8s.thy ===== *)
theory K8s
  imports Types
begin

section \<open>The Kubernetes objects and the client the operator calls\<close>

text \<open>
  The fields of pods, nodes and containers the program reads or writes, and the client as a record
  of functions over an arbitrary world \<open>'w\<close>: the API server, the kubelets and everything else
  outside the program. Each call returns the world after it. The client is not part of the
  repository, so it is an argument of every definition that calls it.
\<close>

record VolumeMount =
  vm_Name :: string
  vm_MountPath :: string
  vm_MountPropagation :: "string option"

record Container =
  ct_Name :: string
  ct_Image :: string
  ct_ImagePullPolicy :: string
  ct_Command :: "string list"
  ct_Args :: "string list"
  ct_Requests :: "(string \<times> string) list"
  ct_Limits :: "(string \<times> string) list"
  ct_Ports :: "(string \<times> int) list"
  ct_Privileged :: "bool option"
  ct_RunAsUser :: "int option"
  ct_VolumeMounts :: "VolumeMount list"

record ContainerStatus =
  st_Name :: string
  st_ContainerID :: string
  st_Running :: bool

record Pod =
  pd_Name :: string
  pd_Namespace :: string
  pd_Labels :: "flags option"
  pd_Annotations :: "flags option"
  pd_DeletionTimestamp :: "int option"
  pd_NodeName :: string
  pd_Containers :: "Container list"
  pd_Conditions :: "(string \<times> string) list"
  pd_ContainerStatuses :: "ContainerStatus list option"
  pd_PodIP :: string

definition no_pod :: Pod where
  "no_pod = \<lparr>pd_Name = [], pd_Namespace = [], pd_Labels = None, pd_Annotations = None,
     pd_DeletionTimestamp = None, pd_NodeName = [], pd_Containers = [], pd_Conditions = [],
     pd_ContainerStatuses = None, pd_PodIP = []\<rparr>"

definition no_container :: Container where
  "no_container = \<lparr>ct_Name = [], ct_Image = [], ct_ImagePullPolicy = [], ct_Command = [], ct_Args = [],
     ct_Requests = [], ct_Limits = [], ct_Ports = [], ct_Privileged = None, ct_RunAsUser = None,
     ct_VolumeMounts = []\<rparr>"

record Node =
  nd_Name :: string
  nd_Labels :: "flags option"

text \<open>Reading a label of a nil map gives the empty string.\<close>

definition label_of :: "flags option \<Rightarrow> string \<Rightarrow> string" where
  "label_of ls k = (case ls of None \<Rightarrow> [] | Some m \<Rightarrow> mget m k)"

text \<open>
  A label requirement \<open>key in values\<close> is what it was made from. Whether the labels library accepts
  it, and which label sets it matches, are arguments (\<open>label_lib\<close>); \<open>label_contract\<close> is the
  documented meaning of the \<open>In\<close> operator.
\<close>

type_synonym Requirement = "string \<times> string list"

record label_lib =
  lb_Valid :: "string \<Rightarrow> string list \<Rightarrow> bool"
  lb_Matches :: "Requirement \<Rightarrow> flags \<Rightarrow> bool"

definition label_contract :: "label_lib \<Rightarrow> bool" where
  "label_contract L \<longleftrightarrow>
     (\<forall>k vs m. lb_Valid L k vs \<longrightarrow>
        lb_Matches L (k, vs) m = (case m k of None \<Rightarrow> False | Some v \<Rightarrow> v \<in> set vs))"

definition sample_labels :: label_lib where
  "sample_labels =
     \<lparr>lb_Valid = (\<lambda>k vs. k \<noteq> []),
      lb_Matches = (\<lambda>(k, vs) m. case m k of None \<Rightarrow> False | Some v \<Rightarrow> v \<in> set vs)\<rparr>"

lemma sample_labels_contract: "label_contract sample_labels"
  by (simp add: label_contract_def sample_labels_def)

datatype Selector = SelReqs "Requirement list" | SelSet "(string \<times> string) list"

text \<open>
  What \<open>pods/exec\<close> is asked for, and what the stream delivers: stdout, stderr, and an error. When
  there is an input, it is the tar stream of a source path under a destination path.
\<close>

record ExecRequest =
  er_PodName :: string
  er_PodNamespace :: string
  er_ContainerName :: string
  er_Command :: "string list"
  er_Stdin :: "(string \<times> string) option"

record StreamResult =
  sr_Out :: string
  sr_Err :: string
  sr_Error :: "string option"

record 'w kube =
  k_GetPod :: "string \<Rightarrow> string \<Rightarrow> 'w \<Rightarrow> (GoErr + Pod) \<times> 'w"
  k_GetNode :: "string \<Rightarrow> 'w \<Rightarrow> (GoErr + Node) \<times> 'w"
  k_ListPods :: "string \<Rightarrow> Selector \<Rightarrow> 'w \<Rightarrow> (GoErr + Pod list) \<times> 'w"
  k_ListNodes :: "Selector \<Rightarrow> 'w \<Rightarrow> (GoErr + Node list) \<times> 'w"
  k_UpdatePod :: "Pod \<Rightarrow> 'w \<Rightarrow> GoErr option \<times> 'w"
  k_DeletePod :: "string \<Rightarrow> string \<Rightarrow> 'w \<Rightarrow> GoErr option \<times> 'w"
  k_Stream :: "ExecRequest \<Rightarrow> 'w \<Rightarrow> StreamResult \<times> 'w"

end
