(* ===== verification/Selection.thy ===== *)
theory Selection
  imports ResourceCount K8s
begin

section \<open>Selecting the target resources (exec/model/filter.go, filter_pod.go, exec/node/filter.go)\<close>

text \<open>
  An experiment names its targets by name list, by labels, and by a count or a percentage,
  optionally per group of a label. The definitions follow the three filter files. Their extra
  arguments are what the source leaves open: \<open>ord\<close> is the order in which a loop over a Go map
  visits the keys, \<open>raw\<close> the source of randomness (\<open>rand.Intn(n)\<close> is \<open>raw k mod n\<close>), \<open>oor\<close> the
  float conversion of \<open>GetResourceCount\<close>.
\<close>

definition DefaultNamespace :: string where "DefaultNamespace = ''default''"

subsection \<open>Labels\<close>

fun label_pairs :: "string list \<Rightarrow> (string \<times> string) list" where
  "label_pairs [] = []"
| "label_pairs (l # ls) =
     (case go_splitN 2 CHR ''='' l of
        [k, v] \<Rightarrow> (k, v) # label_pairs ls
      | _ \<Rightarrow> label_pairs ls)"

definition ParseLabels :: "label_lib \<Rightarrow> (string list \<Rightarrow> string list) \<Rightarrow> string \<Rightarrow> Requirement list" where
  "ParseLabels L ord labels =
     (let labelArr = go_split CHR '','' labels
      in if labels = [] then []
         else let labelsMap = multi_map (label_pairs labelArr)
              in filter (\<lambda>(k, vs). lb_Valid L k vs)
                   (map (\<lambda>k. (k, the (map_of labelsMap k))) (ord (map fst labelsMap))))"

definition MapContains :: "label_lib \<Rightarrow> flags option \<Rightarrow> Requirement list \<Rightarrow> bool" where
  "MapContains L bigMap reqs =
     (case bigMap of None \<Rightarrow> False | Some m \<Rightarrow> list_ex (\<lambda>r. lb_Matches L r m) reqs)"

definition CheckFlags :: "spec_lib \<Rightarrow> flags \<Rightarrow> Response" where
  "CheckFlags S m =
     (let names = [ResourceCountFlag, ResourcePercentFlag, ResourceLabelsFlag, ResourceNamesFlag];
          v = concat (map (mget m) names)
      in if v = [] then sp_FailWithFlags S ParameterLess [FStr (go_join ''|'' names)]
         else sp_Success S)"

definition CheckPodFlags :: "spec_lib \<Rightarrow> flags \<Rightarrow> Response" where
  "CheckPodFlags S m =
     (let ns = mget m ResourceNamespaceFlag
      in if ns = [] then sp_FailWithFlags S ParameterLess [FStr ResourceNamespaceFlag]
         else if length (go_split CHR '','' ns) > 1
           then sp_FailWithFlags S ParameterInvalidNSNotOne [FStr ResourceNamespaceFlag]
         else CheckFlags S m)"

subsection \<open>The random selection\<close>

definition intn :: "(nat \<Rightarrow> nat) \<Rightarrow> nat \<Rightarrow> nat \<Rightarrow> nat" where
  "intn raw k n = raw k mod n"

fun shuffle_from :: "(nat \<Rightarrow> nat) \<Rightarrow> nat \<Rightarrow> 'a list \<Rightarrow> 'a list" where
  "shuffle_from raw 0 xs = xs"
| "shuffle_from raw (Suc i) xs =
     (let num = intn raw (Suc i) (Suc i + 1)
      in shuffle_from raw i (xs[Suc i := xs ! num, num := xs ! Suc i]))"

definition randomPodSelected :: "(nat \<Rightarrow> nat) \<Rightarrow> 'a list \<Rightarrow> int \<Rightarrow> 'a list go" where
  "randomPodSelected raw pods cnt =
     (if pods = [] then Some pods else slice_to (shuffle_from raw (length pods - 1) pods) cnt)"

subsection \<open>filterByOtherFlags of the pod and container scopes\<close>

definition pod_groups :: "Pod list \<Rightarrow> string list \<Rightarrow> (string \<times> Pod list) list" where
  "pod_groups pods keys =
     multi_map (concat (map (\<lambda>p. map (\<lambda>key. (label_of (pd_Labels p) key, p)) keys) pods))"

fun group_select ::
  "(int \<Rightarrow> int) \<Rightarrow> spec_lib \<Rightarrow> (string \<Rightarrow> nat \<Rightarrow> nat) \<Rightarrow> bool \<Rightarrow> flags \<Rightarrow> Pod list \<Rightarrow>
   (string \<times> Pod list) list \<Rightarrow> Pod list \<Rightarrow> (Pod list \<times> Response option) go" where
  "group_select oor S raw random m pods [] result = Some (result, None)"
| "group_select oor S raw random m pods ((lv, podList) # gs) result =
     (let (c, resp) = GetResourceCount oor S (int (length podList)) m
      in if \<not> rp_Success resp then do { ps \<leftarrow> slice_to pods c; Some (ps, Some resp) }
         else do {
           sel \<leftarrow> (if random then randomPodSelected (raw lv) podList c else slice_to podList c);
           group_select oor S raw random m pods gs (result @ sel) })"

definition pod_filterByOtherFlags ::
  "(int \<Rightarrow> int) \<Rightarrow> spec_lib \<Rightarrow> (string list \<Rightarrow> string list) \<Rightarrow> (string \<Rightarrow> nat \<Rightarrow> nat) \<Rightarrow>
   Pod list \<Rightarrow> flags \<Rightarrow> (Pod list \<times> Response) go" where
  "pod_filterByOtherFlags oor S ord raw pods m =
     (let random = (mget m ''random'' = ''true'');
          groupKey = mget m ResourceGroupKeyFlag
      in if groupKey = [] then
           (let (c, resp) = GetResourceCount oor S (int (length pods)) m
            in if \<not> rp_Success resp then do { ps \<leftarrow> slice_to pods c; Some (ps, resp) }
               else if random then do { ps \<leftarrow> randomPodSelected (raw []) pods c; Some (ps, sp_Success S) }
               else do { ps \<leftarrow> slice_to pods c; Some (ps, sp_Success S) })
         else
           (let groupPods = pod_groups pods (go_split CHR '','' groupKey);
                visited = map (\<lambda>k. (k, the (map_of groupPods k))) (ord (map fst groupPods))
            in do { (result, err) \<leftarrow> group_select oor S raw random m pods visited [];
                    Some (case err of
                        Some resp \<Rightarrow> (result, resp)
                      | None \<Rightarrow>
                          if result = []
                          then (result, sp_FailWithFlags S ParameterInvalidK8sPodQuery [FStr ResourceGroupKeyFlag])
                          else (result, sp_Success S)) }))"

subsection \<open>resourceFunc of the pod and container scopes\<close>

fun pods_by_name ::
  "'w kube \<Rightarrow> label_lib \<Rightarrow> string \<Rightarrow> Requirement list \<Rightarrow> string list \<Rightarrow> 'w \<Rightarrow> Pod list \<times> 'w" where
  "pods_by_name K L ns reqs [] w = ([], w)"
| "pods_by_name K L ns reqs (n # names) w =
     (case k_GetPod K ns n w of
        (Inl err, w1) \<Rightarrow> pods_by_name K L ns reqs names w1
      | (Inr pod, w1) \<Rightarrow>
          (let (rest, w2) = pods_by_name K L ns reqs names w1
           in if reqs \<noteq> [] \<and> \<not> MapContains L (pd_Labels pod) reqs then (rest, w2)
              else (pod # rest, w2)))"

definition pod_resourceFunc ::
  "spec_lib \<Rightarrow> 'w kube \<Rightarrow> label_lib \<Rightarrow> (string list \<Rightarrow> string list) \<Rightarrow> flags \<Rightarrow> 'w \<Rightarrow>
   (Pod list \<times> Response) \<times> 'w" where
  "pod_resourceFunc S K L ord m w =
     (let namespace = mget m ResourceNamespaceFlag;
          labels = mget m ResourceLabelsFlag;
          requirements = ParseLabels L ord labels;
          names = mget m ResourceNamesFlag
      in if names \<noteq> [] then
           (let (pods, w1) = pods_by_name K L namespace requirements (go_split CHR '','' names) w
            in if pods = []
               then ((pods, sp_FailWithFlags S ParameterInvalidK8sPodQuery [FStr names]), w1)
               else ((pods, sp_Success S), w1))
         else if labels \<noteq> [] \<and> requirements = [] then
           (([], sp_FailWithFlags S ParameterLess
              [FStr ResourceLabelsFlag, FStr labels, FStr ''data format error, example: key=value'']), w)
         else if requirements \<noteq> [] then
           (case k_ListPods K namespace (SelReqs requirements) w of
              (Inl err, w1) \<Rightarrow> (([], sp_FailWithFlags S K8sExecFailed [FStr ''PodList'', FErr err]), w1)
            | (Inr items, w1) \<Rightarrow>
                if items = []
                then (([], sp_FailWithFlags S ParameterInvalidK8sPodQuery [FStr ResourceLabelsFlag]), w1)
                else ((filter (\<lambda>p. pd_DeletionTimestamp p = None) items, sp_Success S), w1))
         else (([], sp_Success S), w))"

text \<open>
  \<open>GetMatchedPodResources\<close>. It writes the default namespace into the flag map it was given, which
  the caller shares, so the map is returned as well.
\<close>

definition GetMatchedPodResources ::
  "(int \<Rightarrow> int) \<Rightarrow> spec_lib \<Rightarrow> 'w kube \<Rightarrow> label_lib \<Rightarrow> (string list \<Rightarrow> string list) \<Rightarrow>
   (string \<Rightarrow> nat \<Rightarrow> nat) \<Rightarrow> flags \<Rightarrow> 'w \<Rightarrow> ((Pod list \<times> Response) \<times> flags \<times> 'w) go" where
  "GetMatchedPodResources oor S K L ord raw m0 w =
     (let m = (if mget m0 ResourceNamespaceFlag = []
               then m0(ResourceNamespaceFlag \<mapsto> DefaultNamespace) else m0);
          chk = CheckPodFlags S m
      in if \<not> rp_Success chk then Some (([], chk), m, w)
         else (let ((pods, resp), w1) = pod_resourceFunc S K L ord m w
               in if \<not> rp_Success resp then Some ((pods, resp), m, w1)
                  else do { r \<leftarrow> pod_filterByOtherFlags oor S ord raw pods m; Some (r, m, w1) }))"

subsection \<open>The node scope (exec/node/filter.go)\<close>

text \<open>
  The grouping loop reads \<open>groupNodes\<close> into a local slice and appends to that slice; it never
  stores the slice back.
\<close>

definition node_groups :: "Node list \<Rightarrow> string list \<Rightarrow> (string \<times> Node list) list" where
  "node_groups nodes keys =
     foldl (\<lambda>groupNodes n.
        foldl (\<lambda>groupNodes key.
            let nodeList = (case map_of groupNodes (label_of (nd_Labels n) key) of
                              None \<Rightarrow> [] | Some l \<Rightarrow> l);
                nodeList = nodeList @ [n]
            in groupNodes) groupNodes keys) [] nodes"

fun node_group_select ::
  "(int \<Rightarrow> int) \<Rightarrow> spec_lib \<Rightarrow> flags \<Rightarrow> Node list \<Rightarrow> (string \<times> Node list) list \<Rightarrow> Node list \<Rightarrow>
   (Node list \<times> Response) go" where
  "node_group_select oor S m nodes [] result = Some (result, sp_Success S)"
| "node_group_select oor S m nodes ((lv, nodeList) # gs) result =
     (let (c, resp) = GetResourceCount oor S (int (length nodeList)) m
      in if \<not> rp_Success resp then do { ns \<leftarrow> slice_to nodes c; Some (ns, resp) }
         else do { sel \<leftarrow> slice_to nodeList c; node_group_select oor S m nodes gs (result @ sel) })"

definition node_filterByOtherFlags ::
  "(int \<Rightarrow> int) \<Rightarrow> spec_lib \<Rightarrow> (string list \<Rightarrow> string list) \<Rightarrow> Node list \<Rightarrow> flags \<Rightarrow>
   (Node list \<times> Response) go" where
  "node_filterByOtherFlags oor S ord nodes m =
     (let groupKey = mget m ResourceGroupKeyFlag
      in if groupKey = [] then
           (let (c, resp) = GetResourceCount oor S (int (length nodes)) m
            in do { ns \<leftarrow> slice_to nodes c; Some (ns, resp) })
         else
           (let groupNodes = node_groups nodes (go_split CHR '','' groupKey);
                visited = map (\<lambda>k. (k, the (map_of groupNodes k))) (ord (map fst groupNodes))
            in node_group_select oor S m nodes visited []))"

fun nodes_by_name ::
  "'w kube \<Rightarrow> label_lib \<Rightarrow> Requirement list \<Rightarrow> string list \<Rightarrow> 'w \<Rightarrow> Node list \<times> 'w" where
  "nodes_by_name K L reqs [] w = ([], w)"
| "nodes_by_name K L reqs (n # names) w =
     (case k_GetNode K n w of
        (Inl err, w1) \<Rightarrow> nodes_by_name K L reqs names w1
      | (Inr nd, w1) \<Rightarrow>
          (let (rest, w2) = nodes_by_name K L reqs names w1
           in if reqs \<noteq> [] \<and> \<not> MapContains L (nd_Labels nd) reqs then (rest, w2)
              else (nd # rest, w2)))"

definition node_resourceFunc ::
  "spec_lib \<Rightarrow> 'w kube \<Rightarrow> label_lib \<Rightarrow> (string list \<Rightarrow> string list) \<Rightarrow> flags \<Rightarrow> 'w \<Rightarrow>
   (Node list \<times> Response) \<times> 'w" where
  "node_resourceFunc S K L ord m w =
     (let labels = mget m ResourceLabelsFlag;
          requirements = ParseLabels L ord labels;
          names = mget m ResourceNamesFlag
      in if names \<noteq> [] then
           (let (nodes, w1) = nodes_by_name K L requirements (go_split CHR '','' names) w
            in if nodes = []
               then ((nodes, sp_FailWithFlags S ParameterInvalidK8sNodeQuery [FStr names]), w1)
               else ((nodes, sp_Success S), w1))
         else if labels \<noteq> [] \<and> requirements = [] then
           (([], sp_FailWithFlags S ParameterIllegal
              [FStr ResourceLabelsFlag, FStr labels, FStr ''illegal labels'']), w)
         else if requirements \<noteq> [] then
           (case k_ListNodes K (SelReqs requirements) w of
              (Inl err, w1) \<Rightarrow> (([], sp_FailWithFlags S K8sExecFailed [FStr ''ListNode'', FErr err]), w1)
            | (Inr nodes, w1) \<Rightarrow>
                if nodes = []
                then ((nodes, sp_FailWithFlags S ParameterInvalidK8sNodeQuery [FStr labels]), w1)
                else ((nodes, sp_Success S), w1))
         else (([], sp_FailWithFlags S ParameterInvalidK8sNodeQuery [FStr labels]), w))"

definition getMatchedNodeResources ::
  "(int \<Rightarrow> int) \<Rightarrow> spec_lib \<Rightarrow> 'w kube \<Rightarrow> label_lib \<Rightarrow> (string list \<Rightarrow> string list) \<Rightarrow> flags \<Rightarrow> 'w \<Rightarrow>
   ((Node list \<times> Response) \<times> 'w) go" where
  "getMatchedNodeResources oor S K L ord m w =
     (let chk = CheckFlags S m
      in if \<not> rp_Success chk then Some (([], chk), w)
         else (let ((nodes, resp), w1) = node_resourceFunc S K L ord m w
               in if \<not> rp_Success resp then Some (([], resp), w1)
                  else do { r \<leftarrow> node_filterByOtherFlags oor S ord nodes m; Some (r, w1) }))"

subsection \<open>Facts about the selection\<close>

lemma shuffle_mset: "i < length xs \<Longrightarrow> mset (shuffle_from raw i xs) = mset xs"
proof (induction i arbitrary: xs)
  case 0
  then show ?case by simp
next
  case (Suc i)
  let ?num = "intn raw (Suc i) (Suc i + 1)"
  have "?num < Suc i + 1" by (simp add: intn_def)
  with Suc.prems have "?num < length xs" by linarith
  with Suc.prems have "mset (xs[Suc i := xs ! ?num, ?num := xs ! Suc i]) = mset xs"
    by (intro mset_swap)
  with Suc show ?case by (simp add: Let_def)
qed

lemma randomPodSelected_mset:
  assumes "randomPodSelected raw pods c = Some ps"
  shows "mset ps \<subseteq># mset pods"
proof (cases "pods = []")
  case True
  with assms show ?thesis by (simp add: randomPodSelected_def)
next
  case False
  then have "mset (shuffle_from raw (length pods - 1) pods) = mset pods"
    by (intro shuffle_mset) (cases pods, auto)
  with assms False show ?thesis
    by (auto simp: randomPodSelected_def dest!: slice_to_SomeD intro: mset_take_subset
        simp flip: \<open>mset (shuffle_from raw (length pods - 1) pods) = mset pods\<close>)
qed

lemma randomPodSelected_ok:
  assumes "0 \<le> c" "c \<le> int (length pods)"
  shows "\<exists>ps. randomPodSelected raw pods c = Some ps \<and> length ps = nat c \<and> mset ps \<subseteq># mset pods"
proof (cases "pods = []")
  case True
  with assms show ?thesis by (simp add: randomPodSelected_def)
next
  case False
  then have m: "mset (shuffle_from raw (length pods - 1) pods) = mset pods"
    by (intro shuffle_mset) (cases pods, auto)
  then have l: "length (shuffle_from raw (length pods - 1) pods) = length pods"
    by (metis size_mset)
  have "randomPodSelected raw pods c = Some (take (nat c) (shuffle_from raw (length pods - 1) pods))"
    using assms False l by (simp add: randomPodSelected_def slice_to_def)
  with randomPodSelected_mset [OF this] l assms show ?thesis by simp
qed

text \<open>The flags that select a count: both absent or positive, and the percentage at most 100.\<close>

definition good_counts :: "spec_lib \<Rightarrow> flags \<Rightarrow> int \<Rightarrow> int \<Rightarrow> bool" where
  "good_counts S m c p \<longleftrightarrow>
     positive_flag S ResourceCountFlag 2147483647 m = Inr c \<and>
     positive_flag S ResourcePercentFlag 100 m = Inr p \<and> 0 < c \<and> 1 \<le> p \<and> p \<le> 100"

definition selected_count :: "(int \<Rightarrow> int) \<Rightarrow> int \<Rightarrow> int \<Rightarrow> nat \<Rightarrow> nat" where
  "selected_count oor c p n = nat (min c (percent_count oor p (int n)))"

lemma good_GetResourceCount:
  assumes "good_counts S m c p" "n < 2 ^ 53"
  shows "GetResourceCount oor S (int n) m = (int (selected_count oor c p n), sp_Success S)"
    and "selected_count oor c p n \<le> n"
proof -
  have r: "0 \<le> percent_count oor p (int n) \<and> percent_count oor p (int n) \<le> int n"
    using assms by (intro percent_count_range) (auto simp: good_counts_def)
  then show "selected_count oor c p n \<le> n"
    by (simp add: selected_count_def nat_le_iff min_le_iff_disj)
  show "GetResourceCount oor S (int n) m = (int (selected_count oor c p n), sp_Success S)"
  proof (cases "n = 0")
    case True
    then have "percent_count oor p (int n) = 0" using r by simp
    with True show ?thesis
      using assms by (simp add: GetResourceCount_def selected_count_def good_counts_def min_def)
  next
    case False
    then have "int n \<noteq> 0" by simp
    from GetResourceCount_eval [OF this] assms r show ?thesis
      by (auto simp: good_counts_def selected_count_def min_def)
  qed
qed

lemma group_select_ok:
  assumes S: "spec_contract S" and g: "good_counts S m c p"
    and small: "\<forall>(lv, l)\<in>set gs. length l < 2 ^ 53"
  shows "group_select oor S raw False m pods gs result =
     Some (result @ concat (map (\<lambda>(lv, l). take (selected_count oor c p (length l)) l) gs), None)"
  using small
proof (induction gs arbitrary: result)
  case Nil
  then show ?case by simp
next
  case (Cons x gs)
  obtain lv l where x: "x = (lv, l)" by (cases x)
  with Cons.prems have "length l < 2 ^ 53" by simp
  note gl = good_GetResourceCount [OF g this, of oor]
  from gl have "slice_to l (int (selected_count oor c p (length l))) =
      Some (take (selected_count oor c p (length l)) l)"
    by (simp add: slice_to_ok)
  with Cons gl(1) S show ?case by (simp add: x spec_contractD)
qed

lemma pod_groups_single:
  "pod_groups pods [k] = multi_map (map (\<lambda>p. (label_of (pd_Labels p) k, p)) pods)"
proof -
  have "concat (map (\<lambda>p. [(label_of (pd_Labels p) k, p)]) pods)
      = map (\<lambda>p. (label_of (pd_Labels p) k, p)) pods"
    by (induction pods) auto
  then show ?thesis by (simp add: pod_groups_def)
qed

lemma values_of_labels:
  "values_of v (map (\<lambda>p. (f p, p)) ps) = filter (\<lambda>p. f p = v) ps"
  by (induction ps) (auto simp: values_of_def)

text \<open>
  The visited groups of one key: every label value once, with the pods that carry it.
\<close>

lemma visited_groups:
  fixes k :: string and pods :: "Pod list"
  assumes "\<forall>xs. mset (ord xs) = mset xs"
  defines "g \<equiv> pod_groups pods [k]"
  shows "\<exists>ks. map (\<lambda>v. (v, the (map_of g v))) (ord (map fst g)) =
       map (\<lambda>v. (v, filter (\<lambda>p. label_of (pd_Labels p) k = v) pods)) ks
     \<and> distinct ks \<and> set ks = (\<lambda>p. label_of (pd_Labels p) k) ` set pods"
proof (intro exI conjI)
  let ?kvs = "map (\<lambda>p. (label_of (pd_Labels p) k, p)) pods"
  have g: "g = multi_map ?kvs" by (simp add: g_def pod_groups_single)
  have m: "mset (ord (map fst g)) = mset (map fst g)" using assms(1) by blast
  then have "set (ord (map fst g)) = fst ` set g" by (metis list.set_map mset_eq_setD)
  then have keys: "set (ord (map fst g)) = fst ` set ?kvs" using multi_map_keys [of ?kvs] g by metis
  show "set (ord (map fst g)) = (\<lambda>p. label_of (pd_Labels p) k) ` set pods"
    using keys by (simp add: image_image)
  have "distinct (map fst g)" unfolding g by (rule multi_map_distinct)
  with m show "distinct (ord (map fst g))" by (metis mset_eq_imp_distinct_iff)
  show "map (\<lambda>v. (v, the (map_of g v))) (ord (map fst g)) =
      map (\<lambda>v. (v, filter (\<lambda>p. label_of (pd_Labels p) k = v) pods)) (ord (map fst g))"
  proof (rule map_cong [OF refl])
    fix v
    assume "v \<in> set (ord (map fst g))"
    then have "v \<in> fst ` set ?kvs" using keys by simp
    then have "map_of g v = Some (values_of v ?kvs)" unfolding g map_of_multi_map by simp
    then show "(v, the (map_of g v)) = (v, filter (\<lambda>p. label_of (pd_Labels p) k = v) pods)"
      by (simp add: values_of_labels)
  qed
qed

lemma node_groups_Nil: "node_groups nodes keys = []"
proof -
  have id: "foldl (\<lambda>g key. g) x ks = x" for x :: "(string \<times> Node list) list" and ks :: "string list"
    by (induction ks) auto
  have "foldl (\<lambda>g n. g) x nodes = x" for x :: "(string \<times> Node list) list"
    by (induction nodes) auto
  then show ?thesis by (simp add: node_groups_def Let_def id)
qed

subsection \<open>Properties of the selection\<close>

text \<open>Without a group key and with valid flags, \<open>filterByOtherFlags\<close> never panics and returns
  exactly the computed number of the matched pods: the first ones in list order, or, with the random
  flag and whatever numbers the generator draws, that many of them with no pod more often than it
  was matched.\<close>

theorem ungrouped_selection:
  assumes "spec_contract S" "good_counts S m c p" "length pods < 2 ^ 53"
    and "mget m ResourceGroupKeyFlag = []"
  shows "\<exists>ps. pod_filterByOtherFlags oor S ord raw pods m = Some (ps, sp_Success S)
     \<and> length ps = selected_count oor c p (length pods) \<and> mset ps \<subseteq># mset pods
     \<and> (mget m ''random'' \<noteq> ''true'' \<longrightarrow> ps = take (selected_count oor c p (length pods)) pods)"
proof -
  note g = good_GetResourceCount [OF assms(2,3), of oor]
  have ok: "rp_Success (sp_Success S)" using assms(1) by (rule spec_contractD)
  show ?thesis
  proof (cases "mget m ''random'' = ''true''")
    case True
    obtain ps where "randomPodSelected (raw []) pods (int (selected_count oor c p (length pods))) = Some ps"
      "length ps = selected_count oor c p (length pods)" "mset ps \<subseteq># mset pods"
      using randomPodSelected_ok [of "int (selected_count oor c p (length pods))" pods "raw []"] g(2)
      by auto
    with True g assms(4) ok show ?thesis by (simp add: pod_filterByOtherFlags_def)
  next
    case False
    with g assms(4) ok show ?thesis
      by (simp add: pod_filterByOtherFlags_def slice_to_ok mset_take_subset)
  qed
qed

definition pod_a :: Pod where "pod_a = no_pod\<lparr>pd_Name := ''a'', pd_Labels := Some [''app'' \<mapsto> ''x'']\<rparr>"
definition pod_b :: Pod where "pod_b = no_pod\<lparr>pd_Name := ''b'', pd_Labels := Some [''app'' \<mapsto> ''y'']\<rparr>"

lemma ungrouped_selection_witness:
  "\<exists>ps. pod_filterByOtherFlags id sample_spec id (\<lambda>_ _. 0) [pod_a, pod_b] [ResourceCountFlag \<mapsto> ''1'']
       = Some (ps, sp_Success sample_spec)
     \<and> length ps = selected_count id 1 100 (length [pod_a, pod_b]) \<and> mset ps \<subseteq># mset [pod_a, pod_b]
     \<and> (mget [ResourceCountFlag \<mapsto> ''1''] ''random'' \<noteq> ''true'' \<longrightarrow>
          ps = take (selected_count id 1 100 (length [pod_a, pod_b])) [pod_a, pod_b])"
  by (rule ungrouped_selection)
    (simp_all add: sample_spec_contract good_counts_def positive_flag_def flag_defs atoi_def
      has_prefix_def is_digit_def digits_val_def)

text \<open>C27. With one group key, every label value is treated on its own: the selected pods that carry
  a value are the first ones of its group, as many as the flags give for the size of that group. The
  order in which the loop visits the Go map (any permutation \<open>ord\<close> of its keys) does not matter. The
  response fails exactly when nothing is selected.\<close>

theorem grouped_selection:
  assumes "spec_contract S" "good_counts S m c p" "length pods < 2 ^ 53"
    and "\<forall>xs. mset (ord xs) = mset xs"
    and "mget m ResourceGroupKeyFlag = k" "k \<noteq> []" "CHR '','' \<notin> set k" "mget m ''random'' \<noteq> ''true''"
  shows "\<exists>ps resp. pod_filterByOtherFlags oor S ord raw pods m = Some (ps, resp)
     \<and> (rp_Success resp \<longleftrightarrow> ps \<noteq> [])
     \<and> (\<forall>v. let grp = filter (\<lambda>p. label_of (pd_Labels p) k = v) pods
            in filter (\<lambda>p. label_of (pd_Labels p) k = v) ps
               = take (selected_count oor c p (length grp)) grp)"
proof -
  let ?lab = "\<lambda>p. label_of (pd_Labels p) k"
  let ?grp = "\<lambda>v. filter (\<lambda>p. ?lab p = v) pods"
  let ?sel = "\<lambda>v. take (selected_count oor c p (length (?grp v))) (?grp v)"
  obtain ks where ks: "map (\<lambda>v. (v, the (map_of (pod_groups pods [k]) v)))
        (ord (map fst (pod_groups pods [k]))) = map (\<lambda>v. (v, ?grp v)) ks"
    "distinct ks" "set ks = ?lab ` set pods"
    using visited_groups [OF assms(4), of pods k] by blast
  have small: "\<forall>(lv, l)\<in>set (map (\<lambda>v. (v, ?grp v)) ks). length l < 2 ^ 53"
    using assms(3) by (auto intro: le_less_trans [OF length_filter_le])
  define ps where "ps = concat (map ?sel ks)"
  have sel: "group_select oor S raw False m pods (map (\<lambda>v. (v, ?grp v)) ks) [] = Some (ps, None)"
    using group_select_ok [OF assms(1,2) small, of oor raw pods "[]"]
    by (simp add: ps_def comp_def)
  have res: "pod_filterByOtherFlags oor S ord raw pods m =
      Some (ps, if ps = [] then sp_FailWithFlags S ParameterInvalidK8sPodQuery [FStr ResourceGroupKeyFlag]
                else sp_Success S)"
    using assms(5-8) ks(1) sel by (simp add: pod_filterByOtherFlags_def Let_def)
  have part: "filter (\<lambda>p. ?lab p = v) ps = ?sel v" for v
  proof -
    have "filter (\<lambda>p. ?lab p = v) ps = (if v \<in> set ks then ?sel v else [])"
      unfolding ps_def using ks(2) by (intro filter_concat_groups) (auto dest: in_set_takeD)
    moreover have "?grp v = []" if "v \<notin> set ks"
      using that ks(3) by (auto simp: filter_empty_conv)
    ultimately show ?thesis by auto
  qed
  show ?thesis
    unfolding res using part assms(1) by (auto simp: Let_def spec_contractD)
qed

lemma grouped_selection_witness:
  "\<exists>ps resp. pod_filterByOtherFlags id sample_spec id (\<lambda>_ _. 0) [pod_a, pod_b, pod_a]
        [ResourceCountFlag \<mapsto> ''1'', ResourceGroupKeyFlag \<mapsto> ''app''] = Some (ps, resp)
     \<and> (rp_Success resp \<longleftrightarrow> ps \<noteq> [])
     \<and> (\<forall>v. let grp = filter (\<lambda>p. label_of (pd_Labels p) ''app'' = v) [pod_a, pod_b, pod_a]
            in filter (\<lambda>p. label_of (pd_Labels p) ''app'' = v) ps
               = take (selected_count id 1 100 (length grp)) grp)"
  by (rule grouped_selection)
    (simp_all add: sample_spec_contract good_counts_def positive_flag_def flag_defs atoi_def
      has_prefix_def is_digit_def digits_val_def)

text \<open>A negative count passes the checks of \<open>GetResourceCount\<close>, which refuse only zero, and makes
  the slice expression of \<open>filterByOtherFlags\<close> panic as soon as a pod is matched.\<close>

theorem negative_count_panics:
  assumes "spec_contract S" "pods \<noteq> []" "length pods < 2 ^ 53"
    and "positive_flag S ResourceCountFlag 2147483647 m = Inr c" "c < 0"
    and "positive_flag S ResourcePercentFlag 100 m = Inr p" "1 \<le> p" "p \<le> 100"
    and "mget m ResourceGroupKeyFlag = []"
  shows "pod_filterByOtherFlags oor S ord raw pods m = None"
proof -
  have n: "int (length pods) \<noteq> 0" using assms(2) by simp
  have "0 \<le> percent_count oor p (int (length pods))"
    using percent_count_range [of p "int (length pods)" oor] assms by simp
  then have "GetResourceCount oor S (int (length pods)) m = (c, sp_Success S)"
    using GetResourceCount_eval [OF n assms(4,6), of oor] assms(5) by (simp add: min_def)
  with assms show ?thesis
    by (simp add: pod_filterByOtherFlags_def spec_contractD randomPodSelected_def)
qed

lemma negative_count_panics_witness:
  "pod_filterByOtherFlags id sample_spec id (\<lambda>_ _. 0) [pod_a] [ResourceCountFlag \<mapsto> ''-1''] = None"
  by (rule negative_count_panics [of _ _ _ "- 1" 100])
    (simp_all add: sample_spec_contract positive_flag_def flag_defs atoi_def
      has_prefix_def is_digit_def digits_val_def)

text \<open>In the node scope a group key selects no node at all and still reports success: the
  grouping loop never stores the slices it builds, so the map it iterates over is empty.\<close>

theorem node_group_selects_nothing:
  assumes "\<forall>xs. mset (ord xs) = mset xs" "mget m ResourceGroupKeyFlag \<noteq> []"
  shows "node_filterByOtherFlags oor S ord nodes m = Some ([], sp_Success S)"
proof -
  from assms(1) have "ord [] = []" by (metis mset_zero_iff_right mset.simps(1))
  with assms(2) show ?thesis by (simp add: node_filterByOtherFlags_def node_groups_Nil Let_def)
qed

lemma node_group_selects_nothing_witness:
  "node_filterByOtherFlags id sample_spec id [\<lparr>nd_Name = ''n1'', nd_Labels = None\<rparr>]
     [ResourceGroupKeyFlag \<mapsto> ''zone''] = Some ([], sp_Success sample_spec)"
  by (rule node_group_selects_nothing) simp_all

text \<open>The labels flag means: a pod selected by name passes when some \<open>key=value\<close> of the flag holds
  on it. Values of one key and different keys are all alternatives; entries without \<open>=\<close> and keys the
  labels library refuses are ignored.\<close>

theorem labels_any_match:
  assumes "label_contract L" "\<forall>xs. mset (ord xs) = mset xs" "labels \<noteq> []"
  defines "prs \<equiv> label_pairs (go_split CHR '','' labels)"
  shows "MapContains L (Some pl) (ParseLabels L ord labels) \<longleftrightarrow>
     (\<exists>k v. (k, v) \<in> set prs \<and> lb_Valid L k (values_of k prs) \<and> pl k = Some v)"
proof -
  let ?g = "multi_map prs"
  have "set (ord (map fst ?g)) = set (map fst ?g)" using assms(2) by (metis mset_eq_setD)
  then have keys: "set (ord (map fst ?g)) = fst ` set prs"
    using multi_map_keys [of prs] by simp
  have val: "the (map_of ?g k) = values_of k prs" if "k \<in> fst ` set prs" for k
    using that by (simp add: map_of_multi_map)
  have "set (ParseLabels L ord labels) =
      {(k, values_of k prs) | k. k \<in> fst ` set prs \<and> lb_Valid L k (values_of k prs)}"
    using assms(3) keys val by (auto simp: ParseLabels_def Let_def prs_def)
  then have "MapContains L (Some pl) (ParseLabels L ord labels) \<longleftrightarrow>
      (\<exists>k \<in> fst ` set prs. lb_Valid L k (values_of k prs) \<and> lb_Matches L (k, values_of k prs) pl)"
    by (auto simp: MapContains_def list_ex_iff)
  also have "\<dots> \<longleftrightarrow> (\<exists>k \<in> fst ` set prs. lb_Valid L k (values_of k prs)
        \<and> (\<exists>v. pl k = Some v \<and> (k, v) \<in> set prs))"
  proof (intro bex_cong refl conj_cong)
    fix k
    assume "lb_Valid L k (values_of k prs)"
    then have "lb_Matches L (k, values_of k prs) pl =
        (case pl k of None \<Rightarrow> False | Some v \<Rightarrow> v \<in> set (values_of k prs))"
      using assms(1) by (simp add: label_contract_def)
    then show "lb_Matches L (k, values_of k prs) pl = (\<exists>v. pl k = Some v \<and> (k, v) \<in> set prs)"
      by (auto simp: mem_values_of split: option.splits)
  qed
  also have "\<dots> \<longleftrightarrow> (\<exists>k v. (k, v) \<in> set prs \<and> lb_Valid L k (values_of k prs) \<and> pl k = Some v)"
    by force
  finally show ?thesis .
qed

lemma labels_any_match_witness:
  "MapContains sample_labels (Some [''app'' \<mapsto> ''x'']) (ParseLabels sample_labels id ''app=x,tier=db'')"
proof -
  have "label_pairs (go_split CHR '','' ''app=x,tier=db'') = [(''app'', ''x''), (''tier'', ''db'')]"
    by (simp add: eval_nat_numeral)
  then show ?thesis
    using labels_any_match [of sample_labels id "''app=x,tier=db''" "[''app'' \<mapsto> ''x'']"]
    by (simp add: sample_labels_contract) (simp add: sample_labels_def)
qed

end
