(* ===== verification/Identifier.thy ===== *)
theory Identifier
  imports Types
begin

section \<open>Resource identifiers (exec/model/context.go)\<close>

text \<open>
  A resource status keeps its target as one string,
  \<open>Namespace/Node/Pod[/ContainerName][/ContainerId][/ContainerRuntime]\<close>, written by \<open>GetIdentifier\<close>
  when the experiment is created and read back by \<open>ParseIdentifier\<close> when it is destroyed. The two
  are inverse exactly on the metadata whose optional fields are filled from the left
  (\<open>fields_closed\<close>). The locale \<open>identifier_codec\<close> is what the controllers' \<open>Destroy\<close> relies on.
\<close>

definition GetIdentifier :: "ContainerObjectMeta \<Rightarrow> string" where
  "GetIdentifier c =
     (let i0 = cm_Namespace c @ ''/'' @ cm_NodeName c @ ''/'' @ cm_PodName c;
          i1 = (if cm_ContainerName c \<noteq> [] then i0 @ ''/'' @ cm_ContainerName c else i0);
          i2 = (if cm_ContainerId c \<noteq> [] then i1 @ ''/'' @ cm_ContainerId c else i1)
      in if cm_ContainerRuntime c \<noteq> [] then i2 @ ''/'' @ cm_ContainerRuntime c else i2)"

fun meta_of_fields :: "string list \<Rightarrow> ContainerObjectMeta" where
  "meta_of_fields [a] = no_meta\<lparr>cm_Namespace := a\<rparr>"
| "meta_of_fields [a, b] = no_meta\<lparr>cm_Namespace := a, cm_NodeName := b\<rparr>"
| "meta_of_fields [a, b, d] = no_meta\<lparr>cm_Namespace := a, cm_NodeName := b, cm_PodName := d\<rparr>"
| "meta_of_fields [a, b, d, e] =
     no_meta\<lparr>cm_Namespace := a, cm_NodeName := b, cm_PodName := d, cm_ContainerName := e\<rparr>"
| "meta_of_fields [a, b, d, e, f] =
     no_meta\<lparr>cm_Namespace := a, cm_NodeName := b, cm_PodName := d, cm_ContainerName := e,
       cm_ContainerId := f\<rparr>"
| "meta_of_fields [a, b, d, e, f, g] =
     no_meta\<lparr>cm_Namespace := a, cm_NodeName := b, cm_PodName := d, cm_ContainerName := e,
       cm_ContainerId := f, cm_ContainerRuntime := g\<rparr>"
| "meta_of_fields _ = no_meta"

definition ParseIdentifier :: "string \<Rightarrow> ContainerObjectMeta" where
  "ParseIdentifier s = meta_of_fields (go_splitN 6 CHR ''/'' s)"

subsection \<open>The round trip\<close>

text \<open>The fields the identifier is joined from.\<close>

definition ident_fields :: "ContainerObjectMeta \<Rightarrow> string list" where
  "ident_fields c =
     [cm_Namespace c, cm_NodeName c, cm_PodName c] @
     filter (\<lambda>x. x \<noteq> []) [cm_ContainerName c, cm_ContainerId c, cm_ContainerRuntime c]"

lemma GetIdentifier_join: "GetIdentifier c = go_join ''/'' (ident_fields c)"
  by (simp add: GetIdentifier_def ident_fields_def Let_def)

definition slash_free :: "ContainerObjectMeta \<Rightarrow> bool" where
  "slash_free c \<longleftrightarrow>
     list_all (\<lambda>x. CHR ''/'' \<notin> set x)
       [cm_Namespace c, cm_NodeName c, cm_PodName c, cm_ContainerName c, cm_ContainerId c,
        cm_ContainerRuntime c]"

definition fields_closed :: "ContainerObjectMeta \<Rightarrow> bool" where
  "fields_closed c \<longleftrightarrow>
     (cm_ContainerRuntime c \<noteq> [] \<longrightarrow> cm_ContainerId c \<noteq> []) \<and>
     (cm_ContainerId c \<noteq> [] \<longrightarrow> cm_ContainerName c \<noteq> [])"

definition forget_id :: "ContainerObjectMeta \<Rightarrow> ContainerObjectMeta" where
  "forget_id c = c\<lparr>cm_Id := []\<rparr>"

lemma go_splitN_join:
  "xs \<noteq> [] \<Longrightarrow> length xs \<le> n \<Longrightarrow> list_all (\<lambda>x. c \<notin> set x) xs \<Longrightarrow>
   go_splitN n c (go_join [c] xs) = xs"
proof (induction xs arbitrary: n)
  case Nil
  then show ?case by simp
next
  case (Cons x xs)
  show ?case
  proof (cases xs)
    case Nil
    with Cons.prems show ?thesis by (cases n) (simp_all add: go_splitN_last)
  next
    case (Cons y ys)
    with Cons.prems obtain m where m: "n = Suc (Suc m)" "length xs \<le> Suc m"
      by (cases n; cases "n - 1") auto
    with Cons Cons.prems Cons.IH [of "Suc m"] show ?thesis
      by (simp add: go_splitN_part del: go_splitN.simps)
  qed
qed

lemma ident_fields_length: "3 \<le> length (ident_fields c) \<and> length (ident_fields c) \<le> 6"
  by (simp add: ident_fields_def)

lemma ident_fields_slash_free: "slash_free c \<Longrightarrow> list_all (\<lambda>x. CHR ''/'' \<notin> set x) (ident_fields c)"
  by (simp add: slash_free_def ident_fields_def)

lemma ParseIdentifier_GetIdentifier:
  assumes "slash_free c"
  shows "ParseIdentifier (GetIdentifier c) = meta_of_fields (ident_fields c)"
proof -
  have "ident_fields c \<noteq> []" by (simp add: ident_fields_def)
  then have "go_splitN 6 CHR ''/'' (go_join ''/'' (ident_fields c)) = ident_fields c"
    using ident_fields_length [of c] ident_fields_slash_free [OF assms] by (intro go_splitN_join) auto
  then show ?thesis by (simp add: ParseIdentifier_def GetIdentifier_join)
qed

lemma meta_of_ident_fields:
  "meta_of_fields (ident_fields c) = forget_id c \<longleftrightarrow> fields_closed c"
  by (cases c) (auto simp: ident_fields_def forget_id_def fields_closed_def no_meta_def)

lemma Parse_Get_closed:
  "slash_free c \<Longrightarrow> fields_closed c \<Longrightarrow> ParseIdentifier (GetIdentifier c) = forget_id c"
  by (simp add: ParseIdentifier_GetIdentifier meta_of_ident_fields)

subsection \<open>The codec the controllers rely on\<close>

text \<open>
  \<open>enc\<close> writes a target into a status, \<open>dec\<close> reads it back; on well-formed targets \<open>dec\<close> undoes
  \<open>enc\<close> but for the experiment uid, which the status keeps in a field of its own and \<open>put\<close> restores.
\<close>

locale identifier_codec =
  fixes enc :: "'m \<Rightarrow> string"
    and dec :: "string \<Rightarrow> 'm"
    and wf :: "'m \<Rightarrow> bool"
    and uid :: "'m \<Rightarrow> string"
    and put :: "string \<Rightarrow> 'm \<Rightarrow> 'm"
  assumes dec_enc: "wf m \<Longrightarrow> dec (enc m) = put [] m"
    and put_put: "put u (put v m) = put u m"
    and put_uid: "put (uid m) m = m"
begin

lemma restore: "wf m \<Longrightarrow> put (uid m) (dec (enc m)) = m"
  by (simp add: dec_enc put_put put_uid)

lemma restore_all:
  assumes "list_all wf ms"
  shows "map (\<lambda>(u, s). put u (dec s)) (map (\<lambda>m. (uid m, enc m)) ms) = ms"
  using assms by (induction ms) (auto simp: restore)

lemma enc_inj:
  assumes "wf m" "wf m'" "enc m = enc m'" "uid m = uid m'"
  shows "m = m'"
  using assms by (metis restore)

end

definition wf_meta :: "ContainerObjectMeta \<Rightarrow> bool" where
  "wf_meta c \<longleftrightarrow> slash_free c \<and> fields_closed c"

definition put_id :: "string \<Rightarrow> ContainerObjectMeta \<Rightarrow> ContainerObjectMeta" where
  "put_id u c = c\<lparr>cm_Id := u\<rparr>"

interpretation idc: identifier_codec GetIdentifier ParseIdentifier wf_meta cm_Id put_id
proof unfold_locales
  fix m :: ContainerObjectMeta
  assume "wf_meta m"
  then show "ParseIdentifier (GetIdentifier m) = put_id [] m"
    by (simp add: wf_meta_def Parse_Get_closed put_id_def forget_id_def)
qed (simp_all add: put_id_def)

end
