(* ===== verification/Controllers.thy ===== *)
theory Controllers
  imports Selection Identifier
begin

section \<open>The controllers of the three scopes (exec/pod, exec/node, exec/container)\<close>

text \<open>
  \<open>Create\<close> selects the resources, turns them into container metadata, puts these into the context
  and calls the executor of the action; \<open>Destroy\<close> rebuilds the metadata from the stored statuses.
  What the three controllers take from outside is the record \<open>env\<close>: the \<open>spec\<close> package, the
  client, the labels library, the iteration order of maps, the random source and the two runtime
  names of the container package. The registry of actions is an argument of its own; the executor
  of an action is a function of the type \<open>exec_fun\<close>.
\<close>

record 'w env =
  en_Oor :: "int \<Rightarrow> int"
  en_Spec :: spec_lib
  en_Kube :: "'w kube"
  en_Labels :: label_lib
  en_Ord :: "string list \<Rightarrow> string list"
  en_Raw :: "string \<Rightarrow> nat \<Rightarrow> nat"
  en_Docker :: string
  en_Containerd :: string

type_synonym 'w exec_fun = "string \<Rightarrow> Ctx \<Rightarrow> ExpModel \<Rightarrow> 'w \<Rightarrow> (Response \<times> 'w) go"

subsection \<open>BaseExperimentController.Exec (exec/model/controller.go)\<close>

definition base_Exec ::
  "'w env \<Rightarrow> 'w exec_fun Registry \<Rightarrow> Ctx \<Rightarrow> ExpModel \<Rightarrow> 'w \<Rightarrow> (Response \<times> 'w) go" where
  "base_Exec N reg ctx m w =
     do { experimentId \<leftarrow> GetExperimentIdFromContext ctx;
          case GetExpActionModelSpec reg (em_Target m) (em_ActionName m) of
            None \<Rightarrow>
              (let S = en_Spec N;
                   handler = em_Target m @ ''.'' @ em_ActionName m;
                   errMsg = sp_Sprintf S HandlerExecNotFound [FStr handler]
               in Some (sp_FailWithResult S HandlerExecNotFound
                    (RExp (CreateFailExperimentStatus errMsg (Some []))) [FStr handler], w))
          | Some a \<Rightarrow> ac_Executor a experimentId ctx (m\<lparr>em_ActionPrograms := ac_Programs a\<rparr>) w }"

subsection \<open>Container ids\<close>

definition TruncateContainerObjectMetaUid :: "'w env \<Rightarrow> string \<Rightarrow> string \<times> string" where
  "TruncateContainerObjectMetaUid N u =
     (if has_prefix u ''containerd://'' then (en_Containerd N, replace_all ''containerd://'' [] u)
      else (en_Docker N, replace_all ''docker://'' [] u))"

text \<open>The result is id, name, runtime and error.\<close>

fun first_running :: "'w env \<Rightarrow> ContainerStatus list \<Rightarrow> (string \<times> string \<times> string) option" where
  "first_running N [] = None"
| "first_running N (st # sts) =
     (if \<not> st_Running st then first_running N sts
      else let (runtime, containerId) = TruncateContainerObjectMetaUid N (st_ContainerID st)
           in Some (containerId, st_Name st, runtime))"

definition GetOneAvailableContainerIdFromPod ::
  "'w env \<Rightarrow> Pod \<Rightarrow> (string \<times> string \<times> string) \<times> GoErr option" where
  "GetOneAvailableContainerIdFromPod N pod =
     (case pd_ContainerStatuses pod of
        None \<Rightarrow> (([], [], []), Some (ErrNew (''the container statues is empty in '' @ pd_Name pod @ '' pod'')))
      | Some [] \<Rightarrow> (([], [], []), Some (ErrNew (''the container statues is empty in '' @ pd_Name pod @ '' pod'')))
      | Some sts \<Rightarrow>
          (case first_running N sts of
             Some r \<Rightarrow> (r, None)
           | None \<Rightarrow> (([], [], []),
               Some (ErrNew (''cannot find a valiable container in '' @ pd_Name pod @ '' pod'')))))"

text \<open>\<open>containerId[:12]\<close> when the runtime is docker.\<close>

definition cut_docker :: "'w env \<Rightarrow> string \<Rightarrow> string \<Rightarrow> string go" where
  "cut_docker N runtime cid = (if runtime = en_Docker N then slice_to cid 12 else Some cid)"

subsection \<open>The pod scope\<close>

fun pod_getContainerMatchedList :: "'w env \<Rightarrow> Pod list \<Rightarrow> ContainerObjectMeta list go" where
  "pod_getContainerMatchedList N [] = Some []"
| "pod_getContainerMatchedList N (p # pods) =
     (let ((containerId, containerName, runtime), err) = GetOneAvailableContainerIdFromPod N p
      in do { containerId \<leftarrow> cut_docker N runtime containerId;
              rest \<leftarrow> pod_getContainerMatchedList N pods;
              Some (if err \<noteq> None then rest
                    else no_meta\<lparr>cm_ContainerId := containerId, cm_ContainerName := containerName,
                           cm_ContainerRuntime := runtime, cm_PodName := pd_Name p,
                           cm_NodeName := pd_NodeName p, cm_Namespace := pd_Namespace p\<rparr> # rest) })"

definition pod_Create ::
  "'w env \<Rightarrow> 'w exec_fun Registry \<Rightarrow> Ctx \<Rightarrow> ExperimentSpec \<Rightarrow> 'w \<Rightarrow> (Response \<times> 'w) go" where
  "pod_Create N reg ctx x w =
     (let S = en_Spec N; m = ExtractExpModelFromExperimentSpec x
      in do { experimentId \<leftarrow> GetExperimentIdFromContext ctx;
              ((pods, resp), flags, w1) \<leftarrow> GetMatchedPodResources (en_Oor N) S (en_Kube N)
                  (en_Labels N) (en_Ord N) (en_Raw N) (em_ActionFlags m) w;
              let resp = (if \<not> rp_Success resp
                 then resp\<lparr>rp_Result := RExp (CreateFailExperimentStatus (rp_Err resp) (Some []))\<rparr>
                 else resp);
              metas \<leftarrow> pod_getContainerMatchedList N pods;
              if metas = [] then
                Some (sp_FailWithResult S ContainerInContextNotFound
                  (RExp (CreateFailExperimentStatus (sp_Msg S ContainerInContextNotFound) (Some []))) [], w1)
              else base_Exec N reg (SetContainerObjectMetaListToContext ctx metas)
                     (m\<lparr>em_ActionFlags := flags\<rparr>) w1 })"

text \<open>The loop all three \<open>Destroy\<close> methods share.\<close>

definition destroy_targets :: "ResourceStatus list \<Rightarrow> ContainerObjectMeta list" where
  "destroy_targets sts =
     map (\<lambda>st. (ParseIdentifier (rs_Identifier st))\<lparr>cm_Id := rs_Id st\<rparr>) (filter rs_Success sts)"

definition pod_Destroy ::
  "'w env \<Rightarrow> 'w exec_fun Registry \<Rightarrow> Ctx \<Rightarrow> ExperimentSpec \<Rightarrow> ExperimentStatus \<Rightarrow> 'w \<Rightarrow>
     (Response \<times> 'w) go" where
  "pod_Destroy N reg ctx x old w =
     do { experimentId \<leftarrow> GetExperimentIdFromContext ctx;
          case es_ResStatuses old of
            None \<Rightarrow> Some (sp_ReturnSuccess (en_Spec N) (RExp (CreateSuccessExperimentStatus (Some []))), w)
          | Some sts \<Rightarrow>
              base_Exec N reg (SetContainerObjectMetaListToContext ctx (destroy_targets sts))
                (ExtractExpModelFromExperimentSpec x) w }"

subsection \<open>The node scope\<close>

definition node_getContainerMatchedList :: "Node list \<Rightarrow> ContainerObjectMeta list" where
  "node_getContainerMatchedList nodes = map (\<lambda>n. no_meta\<lparr>cm_NodeName := nd_Name n\<rparr>) nodes"

definition node_Create ::
  "'w env \<Rightarrow> 'w exec_fun Registry \<Rightarrow> Ctx \<Rightarrow> ExperimentSpec \<Rightarrow> 'w \<Rightarrow> (Response \<times> 'w) go" where
  "node_Create N reg ctx x w =
     (let S = en_Spec N; m = ExtractExpModelFromExperimentSpec x
      in do { experimentId \<leftarrow> GetExperimentIdFromContext ctx;
              ((nodes, resp), w1) \<leftarrow> getMatchedNodeResources (en_Oor N) S (en_Kube N)
                  (en_Labels N) (en_Ord N) (em_ActionFlags m) w;
              if \<not> rp_Success resp then
                Some (resp\<lparr>rp_Result := RExp (CreateFailExperimentStatus (rp_Err resp) (Some []))\<rparr>, w1)
              else base_Exec N reg
                     (SetContainerObjectMetaListToContext ctx (node_getContainerMatchedList nodes)) m w1 })"

definition node_Destroy ::
  "'w env \<Rightarrow> 'w exec_fun Registry \<Rightarrow> Ctx \<Rightarrow> ExperimentSpec \<Rightarrow> ExperimentStatus \<Rightarrow> 'w \<Rightarrow>
     (Response \<times> 'w) go" where
  "node_Destroy N reg ctx x old w =
     do { experimentId \<leftarrow> GetExperimentIdFromContext ctx;
          case es_ResStatuses old of
            None \<Rightarrow> Some (sp_ReturnSuccess (en_Spec N) (RExp (CreateSuccessExperimentStatus (Some []))), w)
          | Some sts \<Rightarrow>
              base_Exec N reg (SetContainerObjectMetaListToContext ctx (destroy_targets sts))
                (ExtractExpModelFromExperimentSpec x) w }"

subsection \<open>The container scope\<close>

text \<open>
  The error of a container status, given the error that is already there: the variable lives
  outside the loop over the statuses of a pod.
\<close>

definition not_running :: "ContainerStatus \<Rightarrow> string option \<Rightarrow> string option" where
  "not_running st err =
     (let err = (if st_ContainerID st = [] then Some ''containerId is empty'' else err)
      in if \<not> st_Running st then
           (case err of
              Some e \<Rightarrow> Some (''is not running, '' @ e)
            | None \<Rightarrow> Some (''is not running, containerId: '' @ st_ContainerID st))
         else err)"

definition status_ids :: "'w env \<Rightarrow> ContainerStatus \<Rightarrow> (string \<times> string) go" where
  "status_ids N st =
     (if st_ContainerID st = [] then Some ([], [])
      else let (runtime, cid) = TruncateContainerObjectMetaUid N (st_ContainerID st)
           in do { cid \<leftarrow> cut_docker N runtime cid; Some (runtime, cid) })"

definition container_meta :: "Pod \<Rightarrow> string \<Rightarrow> string \<Rightarrow> string \<Rightarrow> ContainerObjectMeta" where
  "container_meta pod runtime cid name =
     no_meta\<lparr>cm_ContainerRuntime := runtime, cm_ContainerId := cid, cm_ContainerName := name,
       cm_PodName := pd_Name pod, cm_Namespace := pd_Namespace pod, cm_NodeName := pd_NodeName pod\<rparr>"

text \<open>One inner loop, over the expected ids or names; \<open>Inl\<close> is the early return.\<close>

fun match_expected ::
  "spec_lib \<Rightarrow> string \<Rightarrow> (string \<Rightarrow> bool) \<Rightarrow> string \<Rightarrow> string option \<Rightarrow> ContainerObjectMeta \<Rightarrow>
     string list \<Rightarrow> ContainerObjectMeta list \<Rightarrow>
     (ContainerObjectMeta list \<times> Response) + ContainerObjectMeta list" where
  "match_expected S flag hit name err meta [] acc = Inr acc"
| "match_expected S flag hit name err meta (e # es) acc =
     (if e = [] then match_expected S flag hit name err meta es acc
      else if hit e then
        (case err of
           Some msg \<Rightarrow> Inl (acc, sp_FailWithFlags S ParameterInvalid
             [FStr flag, FStr e, FStr (''container: '' @ name @ '' '' @ msg)])
         | None \<Rightarrow> match_expected S flag hit name err meta es (acc @ [meta]))
      else match_expected S flag hit name err meta es acc)"

fun match_statuses ::
  "'w env \<Rightarrow> Pod \<Rightarrow> string \<Rightarrow> string \<Rightarrow> ContainerStatus list \<Rightarrow> string option \<Rightarrow>
     ContainerObjectMeta list \<Rightarrow>
     ((ContainerObjectMeta list \<times> Response) + (string option \<times> ContainerObjectMeta list)) go" where
  "match_statuses N pod ids names [] err acc = Some (Inr (err, acc))"
| "match_statuses N pod ids names (st # sts) err acc =
     do { (runtime, cid) \<leftarrow> status_ids N st;
          let err = not_running st err;
          let meta = container_meta pod runtime cid (st_Name st);
          case (if ids \<noteq> [] then
                  match_expected (en_Spec N) ContainerIdsFlag (\<lambda>e. has_prefix e cid) (st_Name st) err
                    meta (go_split CHR '','' ids) acc
                else if names \<noteq> [] then
                  match_expected (en_Spec N) ContainerNamesFlag (\<lambda>e. e = st_Name st) (st_Name st) err
                    meta (go_split CHR '','' names) acc
                else Inr acc) of
            Inl r \<Rightarrow> Some (Inl r)
          | Inr acc \<Rightarrow> match_statuses N pod ids names sts err acc }"

definition match_index ::
  "'w env \<Rightarrow> Pod \<Rightarrow> string \<Rightarrow> ContainerStatus list \<Rightarrow> string option \<Rightarrow> ContainerObjectMeta list \<Rightarrow>
     ((ContainerObjectMeta list \<times> Response) + ContainerObjectMeta list) go" where
  "match_index N pod index sts err acc =
     (case atoi index of
        Inl e \<Rightarrow> Some (Inl (acc, sp_FailWithFlags (en_Spec N) ParameterIllegal
                  [FStr ContainerIndexFlag, FStr index, FErr (ErrNum e)]))
      | Inr idx \<Rightarrow>
          if idx > int (length sts) - 1 then
            Some (Inl (acc, sp_FailWithFlags (en_Spec N) ParameterIllegal
                  [FStr ContainerIndexFlag, FStr index, FStr ''out of bound'']))
          else
            do { st \<leftarrow> index_at sts idx;
                 case not_running st err of
                   Some msg \<Rightarrow> Some (Inl (acc, sp_FailWithFlags (en_Spec N) ParameterInvalid
                     [FStr ContainerIndexFlag, FInt idx, FStr (''container: '' @ st_Name st @ '' '' @ msg)]))
                 | None \<Rightarrow>
                     (let (runtime, cid) = TruncateContainerObjectMetaUid N (st_ContainerID st)
                      in do { cid \<leftarrow> cut_docker N runtime cid;
                              Some (Inr (acc @ [container_meta pod runtime cid (st_Name st)])) }) })"

fun match_pods ::
  "'w env \<Rightarrow> string \<Rightarrow> string \<Rightarrow> string \<Rightarrow> Pod list \<Rightarrow> ContainerObjectMeta list \<Rightarrow>
     (ContainerObjectMeta list \<times> Response) go" where
  "match_pods N ids names index [] acc = Some (acc, sp_Success (en_Spec N))"
| "match_pods N ids names index (pod # pods) acc =
     (case pd_ContainerStatuses pod of
        None \<Rightarrow> match_pods N ids names index pods acc
      | Some sts \<Rightarrow>
          do { r \<leftarrow> match_statuses N pod ids names sts None acc;
               case r of
                 Inl res \<Rightarrow> Some res
               | Inr (err, acc) \<Rightarrow>
                   if ids = [] \<and> names = [] \<and> index \<noteq> [] then
                     do { r \<leftarrow> match_index N pod index sts err acc;
                          case r of Inl res \<Rightarrow> Some res | Inr acc \<Rightarrow> match_pods N ids names index pods acc }
                   else match_pods N ids names index pods acc })"

definition getMatchedContainerMetaList ::
  "'w env \<Rightarrow> Pod list \<Rightarrow> string \<Rightarrow> string \<Rightarrow> string \<Rightarrow> (ContainerObjectMeta list \<times> Response) go" where
  "getMatchedContainerMetaList N pods ids names index = match_pods N ids names index pods []"

definition container_Create ::
  "'w env \<Rightarrow> 'w exec_fun Registry \<Rightarrow> Ctx \<Rightarrow> ExperimentSpec \<Rightarrow> 'w \<Rightarrow> (Response \<times> 'w) go" where
  "container_Create N reg ctx x w =
     (let S = en_Spec N; m = ExtractExpModelFromExperimentSpec x;
          ids = trim_space (mget (em_ActionFlags m) ContainerIdsFlag);
          names = trim_space (mget (em_ActionFlags m) ContainerNamesFlag);
          index = trim_space (mget (em_ActionFlags m) ContainerIndexFlag);
          lessParameter = ContainerIdsFlag @ ''|'' @ ContainerNamesFlag @ ''|'' @ ContainerIndexFlag
      in do { experimentId \<leftarrow> GetExperimentIdFromContext ctx;
              if ids = [] \<and> names = [] \<and> index = [] then
                Some (sp_FailWithResult S ParameterLess
                  (RExp (CreateFailExperimentStatus (sp_Sprintf S ParameterLess [FStr lessParameter]) None))
                  [FStr lessParameter], w)
              else
                do { ((pods, resp), flags, w1) \<leftarrow> GetMatchedPodResources (en_Oor N) S (en_Kube N)
                       (en_Labels N) (en_Ord N) (en_Raw N) (em_ActionFlags m) w;
                     if \<not> rp_Success resp then
                       Some (resp\<lparr>rp_Result := RExp (CreateFailExperimentStatus (rp_Err resp) (Some []))\<rparr>, w1)
                     else
                       do { (metas, resp) \<leftarrow> getMatchedContainerMetaList N pods ids names index;
                            if \<not> rp_Success resp then
                              Some (resp\<lparr>rp_Result := RExp (CreateFailExperimentStatus (rp_Err resp) (Some []))\<rparr>, w1)
                            else if metas = [] then
                              (let what = [FStr (go_join ''|'' [ContainerIdsFlag, ContainerNamesFlag, ContainerIndexFlag]),
                                           FStr (go_join ''|'' [ids, names, index]),
                                           FStr ''cannot find the containers'']
                               in Some (sp_FailWithResult S ParameterInvalid
                                    (RExp (CreateFailExperimentStatus (sp_Sprintf S ParameterInvalid what) (Some [])))
                                    what, w1))
                            else base_Exec N reg (SetContainerObjectMetaListToContext ctx metas)
                                   (m\<lparr>em_ActionFlags := flags\<rparr>) w1 } } })"

definition container_Destroy ::
  "'w env \<Rightarrow> 'w exec_fun Registry \<Rightarrow> Ctx \<Rightarrow> ExperimentSpec \<Rightarrow> ExperimentStatus \<Rightarrow> 'w \<Rightarrow>
     (Response \<times> 'w) go" where
  "container_Destroy N reg ctx x old w =
     do { experimentId \<leftarrow> GetExperimentIdFromContext ctx;
          case es_ResStatuses old of
            None \<Rightarrow> Some (sp_ReturnSuccess (en_Spec N) (RExp (CreateSuccessExperimentStatus (Some []))), w)
          | Some sts \<Rightarrow>
              if destroy_targets sts = []
              then Some (sp_ReturnSuccess (en_Spec N) (RExp (CreateSuccessExperimentStatus (Some sts))), w)
              else base_Exec N reg (SetContainerObjectMetaListToContext ctx (destroy_targets sts))
                     (ExtractExpModelFromExperimentSpec x) w }"

subsection \<open>What the dispatcher relies on\<close>

text \<open>
  The controllers as values of the interface \<open>ExperimentController\<close>. The dispatcher asserts that
  the result of a response, unless nil, is an experiment status; \<open>exp_result\<close> says so, and
  \<open>registry_ok\<close> that every executor of a registry keeps to it.
\<close>

record 'w Controller =
  co_Name :: string
  co_Create :: "Ctx \<Rightarrow> ExperimentSpec \<Rightarrow> 'w \<Rightarrow> (Response \<times> 'w) go"
  co_Destroy :: "Ctx \<Rightarrow> ExperimentSpec \<Rightarrow> ExperimentStatus \<Rightarrow> 'w \<Rightarrow> (Response \<times> 'w) go"

definition pod_Controller :: "'w env \<Rightarrow> 'w exec_fun Registry \<Rightarrow> 'w Controller" where
  "pod_Controller N reg =
     \<lparr>co_Name = ''pod'', co_Create = pod_Create N reg, co_Destroy = pod_Destroy N reg\<rparr>"

definition node_Controller :: "'w env \<Rightarrow> 'w exec_fun Registry \<Rightarrow> 'w Controller" where
  "node_Controller N reg =
     \<lparr>co_Name = ''node'', co_Create = node_Create N reg, co_Destroy = node_Destroy N reg\<rparr>"

definition container_Controller :: "'w env \<Rightarrow> 'w exec_fun Registry \<Rightarrow> 'w Controller" where
  "container_Controller N reg =
     \<lparr>co_Name = ''container'', co_Create = container_Create N reg, co_Destroy = container_Destroy N reg\<rparr>"

definition exp_result :: "Response \<Rightarrow> bool" where
  "exp_result r \<longleftrightarrow> (case rp_Result r of RNil \<Rightarrow> True | RExp _ \<Rightarrow> True | _ \<Rightarrow> False)"

definition exec_ok :: "'w exec_fun \<Rightarrow> bool" where
  "exec_ok ex \<longleftrightarrow> (\<forall>u ctx m w r w'. ex u ctx m w = Some (r, w') \<longrightarrow> exp_result r)"

definition registry_ok :: "'w exec_fun Registry \<Rightarrow> bool" where
  "registry_ok reg \<longleftrightarrow>
     (\<forall>t c as a. reg t = Some c \<longrightarrow> cs_Actions c = Some as \<longrightarrow> a \<in> set as \<longrightarrow> exec_ok (ac_Executor a))"

lemma registry_okD:
  "registry_ok reg \<Longrightarrow> GetExpActionModelSpec reg t n = Some a \<Longrightarrow> exec_ok (ac_Executor a)"
  unfolding registry_ok_def GetExpActionModelSpec_def
  by (auto split: option.splits dest!: find_action_Some)

lemma exec_okD: "exec_ok ex \<Longrightarrow> ex u ctx m w = Some (r, w') \<Longrightarrow> exp_result r"
  unfolding exec_ok_def by blast

lemma exp_result_RExp [simp]: "exp_result (r\<lparr>rp_Result := RExp e\<rparr>)"
  by (simp add: exp_result_def)

lemma base_Exec_result:
  assumes S: "spec_contract (en_Spec N)" and reg: "registry_ok reg"
    and r: "base_Exec N reg ctx m w = Some (r, w')"
  shows "exp_result r"
proof (cases "GetExpActionModelSpec reg (em_Target m) (em_ActionName m)")
  case None
  with r show ?thesis
    by (auto simp: base_Exec_def exp_result_def spec_contractD [OF S] Let_def split: Option.bind_splits)
next
  case (Some a)
  then have "exec_ok (ac_Executor a)" using registry_okD [OF reg] by simp
  with Some r show ?thesis by (auto simp: base_Exec_def split: Option.bind_splits dest: exec_okD)
qed

locale scope_controller =
  fixes ctl :: "'w env \<Rightarrow> 'w exec_fun Registry \<Rightarrow> 'w Controller"
  assumes create_result: "spec_contract (en_Spec N) \<Longrightarrow> registry_ok reg \<Longrightarrow>
      co_Create (ctl N reg) ctx x w = Some (r, w') \<Longrightarrow> exp_result r"
    and destroy_result: "spec_contract (en_Spec N) \<Longrightarrow> registry_ok reg \<Longrightarrow>
      co_Destroy (ctl N reg) ctx x old w = Some (r, w') \<Longrightarrow> exp_result r"
    and destroy_targets_only: "es_ResStatuses old = Some sts \<Longrightarrow> destroy_targets sts \<noteq> [] \<Longrightarrow>
      ctx ExperimentIdKey = Some (CtxStr u) \<Longrightarrow>
      co_Destroy (ctl N reg) ctx x old w =
        base_Exec N reg (SetContainerObjectMetaListToContext ctx (destroy_targets sts))
          (ExtractExpModelFromExperimentSpec x) w"
begin

text \<open>A status list written from targets leads back to those targets whose experiment succeeded.\<close>

lemma destroy_restores:
  assumes sts: "es_ResStatuses old = Some sts" "ctx ExperimentIdKey = Some (CtxStr u)"
    and wr: "list_all2 (\<lambda>c st. rs_Identifier st = GetIdentifier c \<and> rs_Id st = cm_Id c) ms sts"
    and wf: "list_all wf_meta ms" and some: "\<exists>st \<in> set sts. rs_Success st"
  shows "co_Destroy (ctl N reg) ctx x old w =
    base_Exec N reg (SetContainerObjectMetaListToContext ctx
      (map fst (filter (rs_Success \<circ> snd) (zip ms sts)))) (ExtractExpModelFromExperimentSpec x) w"
proof -
  have "destroy_targets sts = map fst (filter (rs_Success \<circ> snd) (zip ms sts))"
    using wr wf
  proof (induction rule: list_all2_induct)
    case (Cons c cs st sts)
    then have "(ParseIdentifier (rs_Identifier st))\<lparr>cm_Id := rs_Id st\<rparr> = c"
      using idc.restore [of c] by (simp add: put_id_def)
    with Cons show ?case by (simp add: destroy_targets_def)
  qed (simp add: destroy_targets_def)
  moreover have "destroy_targets sts \<noteq> []"
    using some by (auto simp: destroy_targets_def filter_empty_conv)
  ultimately show ?thesis using destroy_targets_only [of old sts ctx u N reg x w] sts by simp
qed

end

lemma GetExperimentId_Some [simp]:
  "ctx ExperimentIdKey = Some (CtxStr u) \<Longrightarrow> GetExperimentIdFromContext ctx = Some u"
  by (simp add: GetExperimentIdFromContext_def)

lemma destroy_result_base:
  assumes "spec_contract (en_Spec N)" "registry_ok reg"
  shows "pod_Destroy N reg ctx x old w = Some (r, w') \<Longrightarrow> exp_result r"
    and "node_Destroy N reg ctx x old w = Some (r, w') \<Longrightarrow> exp_result r"
    and "container_Destroy N reg ctx x old w = Some (r, w') \<Longrightarrow> exp_result r"
  using base_Exec_result [OF assms]
  by (auto simp: pod_Destroy_def node_Destroy_def container_Destroy_def exp_result_def
      spec_contractD [OF assms(1)] split: Option.bind_splits option.splits if_splits)

interpretation pod: scope_controller pod_Controller
proof unfold_locales
  fix N :: "'w env" and reg ctx x w r w'
  assume N: "spec_contract (en_Spec N)" "registry_ok reg"
    and r: "co_Create (pod_Controller N reg) ctx x w = Some (r, w')"
  then show "exp_result r" using base_Exec_result [OF N]
    by (auto simp: pod_Controller_def pod_Create_def exp_result_def spec_contractD [OF N(1)] Let_def
        split: Option.bind_splits if_splits)
qed (simp_all add: pod_Controller_def destroy_result_base pod_Destroy_def)

interpretation node: scope_controller node_Controller
proof unfold_locales
  fix N :: "'w env" and reg ctx x w r w'
  assume N: "spec_contract (en_Spec N)" "registry_ok reg"
    and r: "co_Create (node_Controller N reg) ctx x w = Some (r, w')"
  then show "exp_result r" using base_Exec_result [OF N]
    by (auto simp: node_Controller_def node_Create_def exp_result_def spec_contractD [OF N(1)] Let_def
        split: Option.bind_splits if_splits)
qed (simp_all add: node_Controller_def destroy_result_base node_Destroy_def)

interpretation container: scope_controller container_Controller
proof unfold_locales
  fix N :: "'w env" and reg ctx x w r w'
  assume N: "spec_contract (en_Spec N)" "registry_ok reg"
    and r: "co_Create (container_Controller N reg) ctx x w = Some (r, w')"
  then show "exp_result r" using base_Exec_result [OF N]
    by (auto simp: container_Controller_def container_Create_def exp_result_def spec_contractD [OF N(1)]
        Let_def split: Option.bind_splits if_splits)
qed (simp_all add: container_Controller_def destroy_result_base container_Destroy_def)

subsection \<open>A failed selection selects nothing\<close>

lemma group_select_fail:
  assumes "spec_contract S"
  shows "group_select oor S raw random m pods gs res = Some (ps, Some r) \<Longrightarrow> ps = []"
proof (induction gs arbitrary: res)
  case (Cons g gs)
  obtain lv l where g: "g = (lv, l)" by (cases g)
  obtain c resp where rc: "GetResourceCount oor S (int (length l)) m = (c, resp)" by fastforce
  show ?case
  proof (cases "rp_Success resp")
    case True
    with Cons g rc show ?thesis by (auto split: Option.bind_splits)
  next
    case False
    then have "c = 0" using GetResourceCount_fail [OF assms rc] by simp
    with False Cons.prems g rc show ?thesis by simp
  qed
qed simp

lemma pod_filter_fail:
  assumes "spec_contract S" "pod_filterByOtherFlags oor S ord raw pods m = Some (ps, r)" "\<not> rp_Success r"
  shows "ps = []"
proof (cases "mget m ResourceGroupKeyFlag = []")
  case True
  obtain c resp where rc: "GetResourceCount oor S (int (length pods)) m = (c, resp)" by fastforce
  have "\<not> rp_Success resp"
    using assms True rc
    by (auto simp: pod_filterByOtherFlags_def spec_contractD [OF assms(1)] split: if_splits Option.bind_splits)
  with GetResourceCount_fail [OF assms(1) rc] assms(2) True rc show ?thesis
    by (simp add: pod_filterByOtherFlags_def)
next
  case False
  with assms show ?thesis
    by (auto simp: pod_filterByOtherFlags_def Let_def spec_contractD [OF assms(1)]
        dest: group_select_fail [OF assms(1)] split: Option.bind_splits option.splits if_splits)
qed

lemma pod_resourceFunc_fail:
  assumes "spec_contract S" "pod_resourceFunc S K L ord m w = ((ps, r), w')" "\<not> rp_Success r"
  shows "ps = []"
  using assms by (auto simp: pod_resourceFunc_def Let_def spec_contractD [OF assms(1)]
      split: if_splits prod.splits sum.splits)

lemma GetMatched_fail:
  assumes "spec_contract S"
    "GetMatchedPodResources oor S K L ord raw m w = Some ((ps, r), m', w')" "\<not> rp_Success r"
  shows "ps = []"
  using assms pod_resourceFunc_fail [OF assms(1)]
  by (auto simp: GetMatchedPodResources_def Let_def split: if_splits prod.splits Option.bind_splits
      dest: pod_filter_fail [OF assms(1)])

subsection \<open>Matching on a healthy pod\<close>

text \<open>A status that yields its ids: it runs, its id is not empty and long enough to be cut.\<close>

definition healthy :: "'w env \<Rightarrow> ContainerStatus \<Rightarrow> bool" where
  "healthy N st \<longleftrightarrow> st_Running st \<and> st_ContainerID st \<noteq> [] \<and>
     (let (runtime, cid) = TruncateContainerObjectMetaUid N (st_ContainerID st)
      in runtime = en_Docker N \<longrightarrow> 12 \<le> length cid)"

text \<open>The short id of a status, and its metadata.\<close>

definition short_id :: "'w env \<Rightarrow> ContainerStatus \<Rightarrow> string" where
  "short_id N st = (let (runtime, cid) = TruncateContainerObjectMetaUid N (st_ContainerID st)
     in if runtime = en_Docker N then take 12 cid else cid)"

definition healthy_meta :: "'w env \<Rightarrow> Pod \<Rightarrow> ContainerStatus \<Rightarrow> ContainerObjectMeta" where
  "healthy_meta N pod st = container_meta pod
     (fst (TruncateContainerObjectMetaUid N (st_ContainerID st))) (short_id N st) (st_Name st)"

lemma healthy_ids:
  "healthy N st \<Longrightarrow> status_ids N st =
     Some (fst (TruncateContainerObjectMetaUid N (st_ContainerID st)), short_id N st)"
  by (auto simp: healthy_def status_ids_def short_id_def cut_docker_def slice_to_def split_beta Let_def)

lemma healthy_not_running: "healthy N st \<Longrightarrow> not_running st None = None"
  by (simp add: healthy_def not_running_def)

definition hits :: "(string \<Rightarrow> bool) \<Rightarrow> string list \<Rightarrow> 'a \<Rightarrow> 'a list" where
  "hits h es x = map (\<lambda>_. x) (filter (\<lambda>e. e \<noteq> [] \<and> h e) es)"

lemma match_expected_None:
  "match_expected S flag h n None x es acc = Inr (acc @ hits h es x)"
  by (induction S flag h n "None :: string option" x es acc rule: match_expected.induct)
    (simp_all add: hits_def)

definition wanted :: "'w env \<Rightarrow> string \<Rightarrow> string \<Rightarrow> ContainerStatus \<Rightarrow> string list" where
  "wanted N ids names st =
     (if ids \<noteq> [] then filter (\<lambda>e. e \<noteq> [] \<and> has_prefix e (short_id N st)) (go_split CHR '','' ids)
      else if names \<noteq> [] then filter (\<lambda>e. e \<noteq> [] \<and> e = st_Name st) (go_split CHR '','' names)
      else [])"

lemma match_statuses_healthy:
  assumes "list_all (healthy N) sts"
  shows "match_statuses N pod ids names sts None acc = Some (Inr (None,
    acc @ concat (map (\<lambda>st. map (\<lambda>_. healthy_meta N pod st) (wanted N ids names st)) sts)))"
  using assms
proof (induction sts arbitrary: acc)
  case (Cons st sts)
  then have st: "status_ids N st =
      Some (fst (TruncateContainerObjectMetaUid N (st_ContainerID st)), short_id N st)"
    "not_running st None = None"
    using healthy_not_running [of N st] by (simp_all add: healthy_ids)
  have "(if ids \<noteq> [] then
        match_expected (en_Spec N) ContainerIdsFlag (\<lambda>e. has_prefix e (short_id N st)) (st_Name st) None
          (healthy_meta N pod st) (go_split CHR '','' ids) acc
      else if names \<noteq> [] then
        match_expected (en_Spec N) ContainerNamesFlag (\<lambda>e. e = st_Name st) (st_Name st) None
          (healthy_meta N pod st) (go_split CHR '','' names) acc
      else Inr acc) = Inr (acc @ map (\<lambda>_. healthy_meta N pod st) (wanted N ids names st))"
    by (simp add: match_expected_None hits_def wanted_def)
  with Cons show ?case
    by (simp only: match_statuses.simps st Option.bind.simps prod.case Let_def
        healthy_meta_def [symmetric] sum.case) simp
qed simp

lemma match_pods_healthy:
  assumes "\<forall>pod \<in> set pods. \<forall>sts. pd_ContainerStatuses pod = Some sts \<longrightarrow> list_all (healthy N) sts"
    and "ids \<noteq> [] \<or> names \<noteq> []"
  shows "match_pods N ids names index pods acc = Some (acc @ concat (map (\<lambda>pod.
      concat (map (\<lambda>st. map (\<lambda>_. healthy_meta N pod st) (wanted N ids names st))
        (case pd_ContainerStatuses pod of None \<Rightarrow> [] | Some sts \<Rightarrow> sts))) pods), sp_Success (en_Spec N))"
  using assms(1)
proof (induction pods arbitrary: acc)
  case (Cons pod pods)
  then show ?case
    using assms(2) by (cases "pd_ContainerStatuses pod") (auto simp: match_statuses_healthy)
qed simp

subsection \<open>Properties\<close>

text \<open>C28. Container selection: when every container of the matched pods runs and has an id of full
  length, the ids flag (or, without it, the names flag) selects exactly the containers asked for,
  pod by pod and container by container, one entry for every non-empty element of the flag that hits
  it: a name by equality, an id when the container's short id is a prefix of it.\<close>

theorem containers_selected:
  assumes "\<forall>pod \<in> set pods. \<forall>sts. pd_ContainerStatuses pod = Some sts \<longrightarrow> list_all (healthy N) sts"
    and "ids \<noteq> [] \<or> names \<noteq> []"
  shows "getMatchedContainerMetaList N pods ids names index = Some (concat (map (\<lambda>pod.
      concat (map (\<lambda>st. map (\<lambda>_. healthy_meta N pod st) (wanted N ids names st))
        (case pd_ContainerStatuses pod of None \<Rightarrow> [] | Some sts \<Rightarrow> sts))) pods), sp_Success (en_Spec N))"
  using match_pods_healthy [OF assms, of index "[]"] by (simp add: getMatchedContainerMetaList_def)

definition quiet_kube :: "Pod list \<Rightarrow> 'w kube" where
  "quiet_kube pods =
     \<lparr>k_GetPod = (\<lambda>ns n w. (case find (\<lambda>p. pd_Name p = n) pods of
          Some p \<Rightarrow> Inr p | None \<Rightarrow> Inl (ErrApi True ''not found''), w)),
      k_GetNode = (\<lambda>n w. (Inr \<lparr>nd_Name = n, nd_Labels = None\<rparr>, w)),
      k_ListPods = (\<lambda>ns s w. (Inr pods, w)),
      k_ListNodes = (\<lambda>s w. (Inr [], w)),
      k_UpdatePod = (\<lambda>p w. (None, w)),
      k_DeletePod = (\<lambda>ns n w. (None, w)),
      k_Stream = (\<lambda>r w. (\<lparr>sr_Out = [], sr_Err = [], sr_Error = None\<rparr>, w))\<rparr>"

definition sample_env :: "Pod list \<Rightarrow> 'w env" where
  "sample_env pods =
     \<lparr>en_Oor = id, en_Spec = sample_spec, en_Kube = quiet_kube pods, en_Labels = sample_labels,
      en_Ord = id, en_Raw = (\<lambda>_ _. 0), en_Docker = ''docker'', en_Containerd = ''containerd''\<rparr>"

definition run_a :: ContainerStatus where
  "run_a = \<lparr>st_Name = ''a'', st_ContainerID = ''containerd://1a'', st_Running = True\<rparr>"

definition wait_b :: ContainerStatus where
  "wait_b = \<lparr>st_Name = ''b'', st_ContainerID = ''containerd://2b'', st_Running = False\<rparr>"

definition pod_c :: Pod where
  "pod_c = no_pod\<lparr>pd_Name := ''c'', pd_NodeName := ''n'', pd_Namespace := ''d'',
     pd_ContainerStatuses := Some [run_a]\<rparr>"

lemma containerd_ids [simp]:
  "TruncateContainerObjectMetaUid N ''containerd://1a'' = (en_Containerd N, ''1a'')"
  "TruncateContainerObjectMetaUid N ''containerd://2b'' = (en_Containerd N, ''2b'')"
  by (simp_all add: TruncateContainerObjectMetaUid_def has_prefix_def replace_all.simps)

lemma sample_env_sel [simp]:
  "en_Spec (sample_env ps) = sample_spec" "en_Docker (sample_env ps) = ''docker''"
  "en_Containerd (sample_env ps) = ''containerd''" "en_Kube (sample_env ps) = quiet_kube ps"
  "en_Labels (sample_env ps) = sample_labels" "en_Ord (sample_env ps) = id" "en_Oor (sample_env ps) = id"
  by (simp_all add: sample_env_def)

lemma containers_selected_witness:
  "getMatchedContainerMetaList (sample_env [] :: unit env) [pod_c] [] ''a,x'' [] =
     Some ([container_meta pod_c ''containerd'' ''1a'' ''a''], sp_Success sample_spec)"
proof -
  let ?N = "sample_env [] :: unit env"
  have "getMatchedContainerMetaList ?N [pod_c] [] ''a,x'' [] = Some (concat (map (\<lambda>pod.
      concat (map (\<lambda>st. map (\<lambda>_. healthy_meta ?N pod st) (wanted ?N [] ''a,x'' st))
        (case pd_ContainerStatuses pod of None \<Rightarrow> [] | Some sts \<Rightarrow> sts))) [pod_c]), sp_Success (en_Spec ?N))"
    by (rule containers_selected) (simp_all add: pod_c_def run_a_def healthy_def)
  then show ?thesis by (simp add: pod_c_def run_a_def wanted_def healthy_meta_def short_id_def)
qed

text \<open>A container that is asked for by name and runs is refused when a container listed before it
  in the same pod does not run, whether that one is asked for or not: the error variable is
  not reset between containers.\<close>

theorem stale_status_error:
  assumes "pd_ContainerStatuses pod = Some (bad # good # sts)"
    and "status_ids N bad \<noteq> None" "status_ids N good \<noteq> None"
    and "\<not> st_Running bad" "st_Running good" "st_ContainerID good \<noteq> []"
    and "names = st_Name good" "CHR '','' \<notin> set names" "names \<noteq> []" "st_Name bad \<noteq> names"
  shows "\<exists>msg. getMatchedContainerMetaList N (pod # pods) [] names index =
    Some ([], sp_FailWithFlags (en_Spec N) ParameterInvalid
      [FStr ContainerNamesFlag, FStr names, FStr (''container: '' @ st_Name good @ '' is not running, '' @ msg)])"
proof -
  obtain r1 c1 r2 c2 where ids: "status_ids N bad = Some (r1, c1)" "status_ids N good = Some (r2, c2)"
    using assms(2,3) by fast
  have "\<exists>msg. not_running bad None = Some (''is not running, '' @ msg)"
    using assms(4) by (cases "st_ContainerID bad = []") (auto simp: not_running_def)
  then obtain msg where bad: "not_running bad None = Some (''is not running, '' @ msg)" by blast
  have good: "not_running good (Some e) = Some e" for e
    using assms(5,6) by (simp add: not_running_def)
  show ?thesis
    using assms(1,7-10) ids
    by (intro exI [of _ msg])
      (simp add: getMatchedContainerMetaList_def go_split_single bad good)
qed

lemma stale_status_error_witness:
  "\<exists>msg. getMatchedContainerMetaList (sample_env [] :: unit env)
      [pod_c\<lparr>pd_ContainerStatuses := Some [wait_b, run_a]\<rparr>] [] ''a'' [] =
    Some ([], sp_FailWithFlags (en_Spec (sample_env [] :: unit env)) ParameterInvalid
      [FStr ContainerNamesFlag, FStr ''a'', FStr (''container: '' @ st_Name run_a @ '' is not running, '' @ msg)])"
  by (rule stale_status_error [of _ wait_b run_a "[]"])
    (simp_all add: wait_b_def run_a_def status_ids_def cut_docker_def)

text \<open>A docker container id with fewer than twelve characters makes the pod scope panic.\<close>

theorem docker_short_id_panics:
  assumes "pd_ContainerStatuses pod = Some (st # sts)" "st_Running st"
    and "\<not> has_prefix (st_ContainerID st) ''containerd://''"
    and "length (replace_all ''docker://'' [] (st_ContainerID st)) < 12"
  shows "pod_getContainerMatchedList N (pod # pods) = None"
proof -
  let ?cid = "replace_all ''docker://'' [] (st_ContainerID st)"
  have "GetOneAvailableContainerIdFromPod N pod = ((?cid, st_Name st, en_Docker N), None)"
    using assms(1-3) by (simp add: GetOneAvailableContainerIdFromPod_def TruncateContainerObjectMetaUid_def)
  moreover have "cut_docker N (en_Docker N) ?cid = None"
    using assms(4) by (simp add: cut_docker_def slice_to_def)
  ultimately show ?thesis by simp
qed

lemma docker_short_id_panics_witness:
  "pod_getContainerMatchedList (sample_env [] :: unit env)
     [pod_c\<lparr>pd_ContainerStatuses := Some [\<lparr>st_Name = ''a'', st_ContainerID = [], st_Running = True\<rparr>]\<rparr>] = None"
  by (rule docker_short_id_panics [where st = "\<lparr>st_Name = ''a'', st_ContainerID = [], st_Running = True\<rparr>"
        and sts = "[]"]) (simp_all add: has_prefix_def)

text \<open>A negative container index is not refused: it passes the bound check and the index expression
  panics.\<close>

theorem negative_index_panics:
  assumes "atoi index = Inr i" "i < 0" "index \<noteq> []"
    and "pd_ContainerStatuses pod = Some sts" "list_all (healthy N) sts"
  shows "getMatchedContainerMetaList N (pod # pods) [] [] index = None"
  using assms by (simp add: getMatchedContainerMetaList_def match_statuses_healthy match_index_def
      index_at_oob wanted_def)

lemma negative_index_panics_witness:
  "getMatchedContainerMetaList (sample_env [] :: unit env) [pod_c] [] [] ''-1'' = None"
  by (rule negative_index_panics [of _ "- 1" _ "[run_a]"])
    (simp_all add: atoi_def has_prefix_def is_digit_def digits_val_def pod_c_def run_a_def healthy_def)

text \<open>The pod scope hides why a selection failed: whatever went wrong (an unparsable count, an API
  error, no matching pod), the experiment reports that no container was found in the context, and
  the status made from the real error is dropped, because the error branch does not return.\<close>

theorem pod_create_masks_error:
  assumes "spec_contract (en_Spec N)" "GetExperimentIdFromContext ctx \<noteq> None"
    and "GetMatchedPodResources (en_Oor N) (en_Spec N) (en_Kube N) (en_Labels N) (en_Ord N) (en_Raw N)
      (em_ActionFlags (ExtractExpModelFromExperimentSpec x)) w = Some ((pods, resp), flags, w1)"
    and "\<not> rp_Success resp"
  shows "pod_Create N reg ctx x w = Some (sp_FailWithResult (en_Spec N) ContainerInContextNotFound
    (RExp (CreateFailExperimentStatus (sp_Msg (en_Spec N) ContainerInContextNotFound) (Some []))) [], w1)"
proof -
  have "pods = []" by (rule GetMatched_fail [OF assms(1,3,4)])
  with assms(2,3) show ?thesis by (auto simp: pod_Create_def Let_def)
qed

definition spec_x :: ExperimentSpec where
  "spec_x = \<lparr>xs_Scope = ''pod'', xs_Target = ''pod'', xs_Action = ''delete'', xs_Desc = [],
     xs_Matchers = [\<lparr>fs_Name = ResourceNamesFlag, fs_Value = [''zz'']\<rparr>]\<rparr>"

lemma pod_create_masks_error_witness:
  "pod_Create (sample_env [] :: unit env) Map.empty [ExperimentIdKey \<mapsto> CtxStr ''e''] spec_x () =
   Some (sp_FailWithResult (en_Spec (sample_env [] :: unit env)) ContainerInContextNotFound
    (RExp (CreateFailExperimentStatus
      (sp_Msg (en_Spec (sample_env [] :: unit env)) ContainerInContextNotFound) (Some []))) [], ())"
  by (rule pod_create_masks_error [where pods = "[]" and w = "()" and
        resp = "sp_FailWithFlags sample_spec ParameterInvalidK8sPodQuery [FStr ''zz'']" and
        flags = "[ResourceNamesFlag \<mapsto> ''zz'', ResourceNamespaceFlag \<mapsto> DefaultNamespace]"])
    (simp_all add: sample_spec_contract GetMatchedPodResources_def DefaultNamespace_def
      CheckPodFlags_def CheckFlags_def pod_resourceFunc_def ExtractExpModelFromExperimentSpec_def
      spec_x_def flag_defs ParseLabels_def quiet_kube_def spec_contractD [OF sample_spec_contract] Let_def
      has_prefix_def)

text \<open>C23. A destroy goes to the targets that were hit: when the stored statuses were written from
  well-formed targets, each with the identifier and the uid of its target, the controller of any
  scope calls the executor with exactly the targets whose status is a success, uid included and in
  their order.\<close>

theorem destroy_hits_created:
  assumes "C \<in> {pod_Controller N reg, node_Controller N reg, container_Controller N reg}"
    and "es_ResStatuses old = Some sts" "ctx ExperimentIdKey = Some (CtxStr u)"
    and "list_all2 (\<lambda>c st. rs_Identifier st = GetIdentifier c \<and> rs_Id st = cm_Id c) ms sts"
    and "list_all wf_meta ms" "\<exists>st \<in> set sts. rs_Success st"
  shows "co_Destroy C ctx x old w =
    base_Exec N reg (SetContainerObjectMetaListToContext ctx
      (map fst (filter (rs_Success \<circ> snd) (zip ms sts)))) (ExtractExpModelFromExperimentSpec x) w"
  using assms(1) pod.destroy_restores [of old sts ctx u ms N reg x w]
    node.destroy_restores [of old sts ctx u ms N reg x w]
    container.destroy_restores [of old sts ctx u ms N reg x w] assms(2-) by auto

definition meta_c :: ContainerObjectMeta where
  "meta_c = \<lparr>cm_Id = ''7'', cm_ContainerRuntime = ''containerd'', cm_ContainerId = ''1a'',
     cm_ContainerName = ''a'', cm_PodName = ''c'', cm_NodeName = ''n'', cm_Namespace = ''d''\<rparr>"

lemma destroy_hits_created_witness:
  "co_Destroy (pod_Controller (sample_env [] :: unit env) Map.empty) [ExperimentIdKey \<mapsto> CtxStr ''e'']
     spec_x (CreateSuccessExperimentStatus (Some [no_status\<lparr>rs_Id := ''7'',
        rs_Identifier := GetIdentifier meta_c, rs_Success := True\<rparr>])) () =
   base_Exec (sample_env []) Map.empty
     (SetContainerObjectMetaListToContext [ExperimentIdKey \<mapsto> CtxStr ''e'']
       (map fst (filter (rs_Success \<circ> snd) (zip [meta_c] [no_status\<lparr>rs_Id := ''7'',
        rs_Identifier := GetIdentifier meta_c, rs_Success := True\<rparr>]))))
     (ExtractExpModelFromExperimentSpec spec_x) ()"
  by (rule destroy_hits_created [where u = "''e''"])
    (simp_all add: wf_meta_def slash_free_def fields_closed_def meta_c_def)

text \<open>An experiment in the node scope with a group key starts on no node, whatever nodes match.\<close>

lemma node_group_runs_on_nothing:
  assumes "\<forall>xs. mset (en_Ord N xs) = mset xs" "ctx ExperimentIdKey = Some (CtxStr u)"
    and "mget (em_ActionFlags (ExtractExpModelFromExperimentSpec x)) ResourceGroupKeyFlag \<noteq> []"
    and "getMatchedNodeResources (en_Oor N) (en_Spec N) (en_Kube N) (en_Labels N) (en_Ord N)
      (em_ActionFlags (ExtractExpModelFromExperimentSpec x)) w = Some ((nodes, resp), w1)" "rp_Success resp"
  shows "node_Create N reg ctx x w =
    base_Exec N reg (SetContainerObjectMetaListToContext ctx []) (ExtractExpModelFromExperimentSpec x) w1"
proof -
  let ?m = "em_ActionFlags (ExtractExpModelFromExperimentSpec x)"
  from assms(1) have "en_Ord N [] = []" by (metis mset_zero_iff_right mset.simps(1))
  then have "node_filterByOtherFlags (en_Oor N) (en_Spec N) (en_Ord N) ns ?m = Some ([], sp_Success (en_Spec N))" for ns
    using assms(3) by (simp add: node_filterByOtherFlags_def node_groups_Nil Let_def)
  with assms(4,5) have "nodes = []"
    by (auto simp: getMatchedNodeResources_def Let_def split: if_splits prod.splits)
  with assms(2,4,5) show ?thesis by (auto simp: node_Create_def node_getContainerMatchedList_def)
qed

end
