(* ===== verification/Dispatch.thy ===== *)
theory Dispatch
  imports Controllers Reconcile
begin

section \<open>The dispatcher (exec/controller.go)\<close>

text \<open>
  The executor the reconciler holds: it picks the controller of the scope, runs it in a context with
  the name of the blade, and turns its response into an experiment status. A response whose result
  is neither nil nor a status makes the type assertion panic.
\<close>

definition CreateDestroyedStatus :: "ExperimentStatus \<Rightarrow> ExperimentStatus" where
  "CreateDestroyedStatus old =
     CreateDestroyedExperimentStatus (Some
       (case es_ResStatuses old of
          None \<Rightarrow> []
        | Some sts \<Rightarrow> map (\<lambda>st. no_status\<lparr>rs_Id := rs_Id st, rs_State := DestroyedState,
            rs_Success := True, rs_Kind := rs_Kind st, rs_Identifier := rs_Identifier st\<rparr>) sts))"

definition createExperimentStatusByResponse :: "Response \<Rightarrow> ExperimentStatus go" where
  "createExperimentStatusByResponse r =
     (case rp_Result r of
        RExp e \<Rightarrow> Some e
      | RNil \<Rightarrow>
          Some (if rp_Success r then CreateSuccessExperimentStatus (Some [])
                else CreateFailExperimentStatus (rp_Err r) (Some []))
      | _ \<Rightarrow> None)"

text \<open>The inner loop writes to the loop variable, a copy: the statuses stay as they are.\<close>

definition validateAndSetNecessaryFields ::
  "ExperimentStatus \<Rightarrow> ExperimentStatus \<Rightarrow> ExperimentStatus" where
  "validateAndSetNecessaryFields status old =
     (let status = status\<lparr>es_Scope := es_Scope old, es_Target := es_Target old, es_Action := es_Action old\<rparr>;
          status = (if es_State status = ''Error'' then status\<lparr>es_State := es_State old\<rparr> else status)
      in case es_ResStatuses status of
           None \<Rightarrow> status
         | Some sts \<Rightarrow>
             (let copies = map (\<lambda>s. foldl (\<lambda>s os.
                    if rs_Id s \<noteq> rs_Id os then s
                    else if rs_State s = ''Error'' then s\<lparr>rs_State := rs_State os\<rparr> else s)
                    s (case es_ResStatuses old of None \<Rightarrow> [] | Some olds \<Rightarrow> olds)) sts
              in status))"

type_synonym 'w Controllers = "string \<rightharpoonup> 'w Controller"

definition register :: "'w Controllers \<Rightarrow> 'w Controller list \<Rightarrow> 'w Controllers" where
  "register cs ctls = foldl (\<lambda>m c. m(co_Name c \<mapsto> c)) cs ctls"

text \<open>\<open>NewDispatcherExecutor\<close>; \<open>regs\<close> gives the model registry each scope builds.\<close>

definition NewDispatcherExecutor ::
  "'w env \<Rightarrow> (string \<Rightarrow> 'w exec_fun Registry) \<Rightarrow> 'w Controllers" where
  "NewDispatcherExecutor N regs = register Map.empty
     [node_Controller N (regs ''node''), pod_Controller N (regs ''pod''),
      container_Controller N (regs ''container'')]"

definition dispatch_Create ::
  "'w Controllers \<Rightarrow> string \<Rightarrow> ExperimentSpec \<Rightarrow> 'w \<Rightarrow> (ExperimentStatus \<times> 'w) go" where
  "dispatch_Create cs bladeName x w =
     (case cs (xs_Scope x) of
        None \<Rightarrow> Some (no_exp_status\<lparr>es_State := ''Error'',
          es_Error := ''can not find the scope controller for creating''\<rparr>, w)
      | Some c \<Rightarrow>
          do { (response, w1) \<leftarrow> co_Create c (SetExperimentIdToContext Map.empty bladeName) x w;
               st \<leftarrow> createExperimentStatusByResponse response;
               Some (st\<lparr>es_Scope := xs_Scope x, es_Target := xs_Target x, es_Action := xs_Action x\<rparr>, w1) })"

definition dispatch_Destroy ::
  "spec_lib \<Rightarrow> 'w Controllers \<Rightarrow> string \<Rightarrow> ExperimentSpec \<Rightarrow> ExperimentStatus \<Rightarrow> 'w \<Rightarrow>
     (ExperimentStatus \<times> 'w) go" where
  "dispatch_Destroy S cs bladeName x old w =
     (case cs (xs_Scope x) of
        None \<Rightarrow> Some (no_exp_status\<lparr>es_State := ''Error'',
          es_Error := ''can not find the scope controller for destroying''\<rparr>, w)
      | Some c \<Rightarrow>
          if es_ResStatuses old = None \<or> es_ResStatuses old = Some [] then
            Some (CreateDestroyedStatus old, w)
          else
            do { let ctx = SetExperimentIdToContext (sp_SetDestroyFlag S Map.empty bladeName) bladeName;
                 (response, w1) \<leftarrow> co_Destroy c ctx x old w;
                 st \<leftarrow> createExperimentStatusByResponse response;
                 Some (validateAndSetNecessaryFields st old, w1) })"

text \<open>The dispatcher as the executor of the reconciler.\<close>

definition dispatcher :: "'w env \<Rightarrow> (string \<Rightarrow> 'w exec_fun Registry) \<Rightarrow> 'w executor" where
  "dispatcher N regs =
     \<lparr>ex_Create = dispatch_Create (NewDispatcherExecutor N regs),
      ex_Destroy = dispatch_Destroy (en_Spec N) (NewDispatcherExecutor N regs)\<rparr>"

subsection \<open>Facts\<close>

lemma dispatcher_controllers:
  "NewDispatcherExecutor N regs s =
     (if s = ''container'' then Some (container_Controller N (regs s))
      else if s = ''pod'' then Some (pod_Controller N (regs s))
      else if s = ''node'' then Some (node_Controller N (regs s)) else None)"
  by (simp add: NewDispatcherExecutor_def register_def container_Controller_def pod_Controller_def
      node_Controller_def)

lemma validate_eq:
  "validateAndSetNecessaryFields st old =
     st\<lparr>es_Scope := es_Scope old, es_Target := es_Target old, es_Action := es_Action old,
        es_State := if es_State st = ''Error'' then es_State old else es_State st\<rparr>"
  by (simp add: validateAndSetNecessaryFields_def Let_def split: option.splits)

lemma status_of_response: "exp_result r \<Longrightarrow> \<exists>st. createExperimentStatusByResponse r = Some st"
  by (auto simp: exp_result_def createExperimentStatusByResponse_def split: ResVal.splits)

text \<open>For every scope controller, the dispatcher panics only where the controller does.\<close>

context scope_controller begin

lemma create_status:
  assumes "spec_contract (en_Spec N)" "registry_ok reg" "co_Create (ctl N reg) ctx x w = Some (r, w')"
  shows "\<exists>st. createExperimentStatusByResponse r = Some st"
  using create_result [OF assms] by (rule status_of_response)

lemma destroy_status:
  assumes "spec_contract (en_Spec N)" "registry_ok reg" "co_Destroy (ctl N reg) ctx x old w = Some (r, w')"
  shows "\<exists>st. createExperimentStatusByResponse r = Some st"
  using destroy_result [OF assms] by (rule status_of_response)

end

lemma dispatcher_scopes:
  "NewDispatcherExecutor N regs s = Some c \<Longrightarrow>
   c \<in> {pod_Controller N (regs s), node_Controller N (regs s), container_Controller N (regs s)}"
  by (auto simp: dispatcher_controllers split: if_splits)

lemma created_status:
  assumes "spec_contract (en_Spec N)" "registry_ok (regs s)" "NewDispatcherExecutor N regs s = Some c"
    and "co_Create c ctx x w = Some (r, w')"
  shows "exp_result r"
  using dispatcher_scopes [OF assms(3)] assms(4) pod.create_result [OF assms(1,2)]
    node.create_result [OF assms(1,2)] container.create_result [OF assms(1,2)] by auto

lemma destroyed_status:
  assumes "spec_contract (en_Spec N)" "registry_ok (regs s)" "NewDispatcherExecutor N regs s = Some c"
    and "co_Destroy c ctx x old w = Some (r, w')"
  shows "exp_result r"
  using dispatcher_scopes [OF assms(3)] assms(4) pod.destroy_result [OF assms(1,2)]
    node.destroy_result [OF assms(1,2)] container.destroy_result [OF assms(1,2)] by auto

text \<open>Creating through the dispatcher has the effect of the controller and names its status.\<close>

lemma created_create:
  assumes "spec_contract (en_Spec N)" "registry_ok (regs (xs_Scope x))"
    and "NewDispatcherExecutor N regs (xs_Scope x) = Some c"
    and "co_Create c (SetExperimentIdToContext Map.empty n) x w = Some (r, w')"
  shows "\<exists>st. ex_Create (dispatcher N regs) n x w = Some (st, w') \<and>
    es_Scope st = xs_Scope x \<and> es_Target st = xs_Target x \<and> es_Action st = xs_Action x \<and>
    es_Success st = (case rp_Result r of RExp e \<Rightarrow> es_Success e | _ \<Rightarrow> rp_Success r)"
proof -
  have "exp_result r" by (rule created_status [where regs = regs, OF assms])
  then show ?thesis
    using assms(3,4) by (auto simp: dispatcher_def dispatch_Create_def exp_result_def
        createExperimentStatusByResponse_def split: ResVal.splits)
qed

subsection \<open>Properties\<close>

text \<open>Destroying through the dispatcher: an experiment that reached no resource is destroyed without
  a call and counts as destroyed; otherwise, whenever the controller answers, the status keeps scope,
  target and action of the stored one, keeps its state when the destroy ends in Error, and has the
  resource statuses of the controller as they are. (The loop that is meant to restore the states of
  single resources changes copies only.)\<close>

theorem dispatch_destroy_status:
  assumes "spec_contract (en_Spec N)" "registry_ok (regs (xs_Scope x))"
    and "NewDispatcherExecutor N regs (xs_Scope x) = Some c"
    and "co_Destroy c (SetExperimentIdToContext (sp_SetDestroyFlag (en_Spec N) Map.empty n) n) x old w = Some (r, w')"
  shows "if es_ResStatuses old = None \<or> es_ResStatuses old = Some []
    then ex_Destroy (dispatcher N regs) n x old w = Some (CreateDestroyedExperimentStatus (Some []), w)
    else \<exists>new st. createExperimentStatusByResponse r = Some new \<and>
      ex_Destroy (dispatcher N regs) n x old w = Some (st, w') \<and>
      es_Scope st = es_Scope old \<and> es_Target st = es_Target old \<and> es_Action st = es_Action old \<and>
      es_Success st = es_Success new \<and> es_Error st = es_Error new \<and>
      es_State st = (if es_State new = ErrorState then es_State old else es_State new) \<and>
      es_ResStatuses st = es_ResStatuses new"
proof (cases "es_ResStatuses old = None \<or> es_ResStatuses old = Some []")
  case True
  then have "CreateDestroyedStatus old = CreateDestroyedExperimentStatus (Some [])"
    by (auto simp: CreateDestroyedStatus_def)
  with True assms(3) show ?thesis by (auto simp: dispatcher_def dispatch_Destroy_def)
next
  case False
  have "exp_result r" by (rule destroyed_status [where regs = regs, OF assms])
  then obtain new where new: "createExperimentStatusByResponse r = Some new"
    using status_of_response by blast
  then have "ex_Destroy (dispatcher N regs) n x old w = Some (validateAndSetNecessaryFields new old, w')"
    using assms(3,4) False by (auto simp: dispatcher_def dispatch_Destroy_def Let_def)
  with new show ?thesis by (simp only: if_not_P [OF False]) (simp add: validate_eq state_defs)
qed

lemma dispatch_destroy_status_witness:
  "\<exists>st. ex_Destroy (dispatcher (sample_env [] :: unit env) (\<lambda>_. Map.empty)) ''e'' spec_x
      (CreateSuccessExperimentStatus (Some [no_status])) () = Some (st, ()) \<and>
    es_State st = SuccessState \<and> \<not> es_Success st \<and> es_ResStatuses st = Some []"
proof -
  let ?N = "sample_env [] :: unit env"
  let ?ctx = "SetExperimentIdToContext (sp_SetDestroyFlag (en_Spec ?N) Map.empty ''e'') ''e''"
  have id: "GetExperimentIdFromContext (SetContainerObjectMetaListToContext ?ctx []) = Some ''e''" by simp
  have c: "co_Destroy (pod_Controller ?N Map.empty) ?ctx spec_x
      (CreateSuccessExperimentStatus (Some [no_status])) () =
    Some (sp_FailWithResult sample_spec HandlerExecNotFound (RExp (CreateFailExperimentStatus
      (sp_Sprintf sample_spec HandlerExecNotFound [FStr ''pod.delete'']) (Some []))) [FStr ''pod.delete''], ())"
    by (simp add: pod_Controller_def pod_Destroy_def destroy_targets_def base_Exec_def id no_status_def
        GetExpActionModelSpec_def spec_x_def Let_def)
  have "registry_ok (Map.empty :: unit exec_fun Registry)" by (simp add: registry_ok_def)
  from dispatch_destroy_status [where regs = "\<lambda>_. Map.empty" and N = ?N, OF _ this _ c] show ?thesis
    by (simp add: sample_spec_contract dispatcher_controllers spec_x_def createExperimentStatusByResponse_def
        spec_contractD [OF sample_spec_contract] state_defs) auto
qed

text \<open>A scope without a controller is an error: nothing is called, and neither direction succeeds,
  so that a blade with such an experiment never leaves Destroying through its destroy.\<close>

theorem unknown_scope:
  assumes "xs_Scope x \<notin> {''pod'', ''node'', ''container''}"
  shows "\<exists>st st'. ex_Create (dispatcher N regs) n x w = Some (st, w) \<and> \<not> es_Success st \<and>
    ex_Destroy (dispatcher N regs) n x old w = Some (st', w) \<and> \<not> es_Success st'"
  using assms by (simp add: dispatcher_def dispatch_Create_def dispatch_Destroy_def
      dispatcher_controllers no_exp_status_def)

lemma unknown_scope_witness:
  "\<exists>st st'. ex_Create (dispatcher (sample_env [] :: unit env) (\<lambda>_. Map.empty)) ''e'' (spec_x\<lparr>xs_Scope := ''host''\<rparr>) () =
      Some (st, ()) \<and> \<not> es_Success st \<and>
    ex_Destroy (dispatcher (sample_env [] :: unit env) (\<lambda>_. Map.empty)) ''e'' (spec_x\<lparr>xs_Scope := ''host''\<rparr>)
      no_exp_status () = Some (st', ()) \<and> \<not> es_Success st'"
  by (rule unknown_scope) simp

end
