(* ===== verification/Parallelizer.thy ===== *)
theory Parallelizer
  imports Prelude
begin

section \<open>The worker pool (exec/model/parallelizer.go)\<close>

text \<open>
  \<open>ParallelizeExec\<close> fills a channel with the numbers below \<open>workCount\<close>, closes it, and starts at
  most 64 goroutines that take numbers from it until it is empty; then it waits for all of them.
  The state of the pool is the channel, the goroutines and what they share. A piece of work is a
  program given by its initial state and a step function: a step is one atomic action on the shared
  state, it ends the work (\<open>None\<close>) or goes on (\<open>Some t\<close>), or it panics, which kills the process.
  \<open>po_Done\<close> records the finished work; the code has no such variable.
\<close>

datatype 't Worker = Idle | Busy nat 't | Exited

record ('t, 's) Pool =
  po_Queue :: "nat list"
  po_Workers :: "'t Worker list"
  po_Done :: "nat list"
  po_Shared :: 's
  po_Crashed :: bool

type_synonym ('t, 's) work = "nat \<Rightarrow> 't \<Rightarrow> 's \<Rightarrow> ('t option \<times> 's) go"

definition maxWorkers :: nat where "maxWorkers = 64"

definition pool_init :: "nat \<Rightarrow> 's \<Rightarrow> ('t, 's) Pool" where
  "pool_init workCount s =
     (let workers = (if workCount < maxWorkers then workCount else maxWorkers)
      in \<lparr>po_Queue = [0..<workCount], po_Workers = replicate workers Idle, po_Done = [],
          po_Shared = s, po_Crashed = False\<rparr>)"

text \<open>The next action of goroutine \<open>k\<close>, if it has one.\<close>

definition worker_step ::
  "(nat \<Rightarrow> 't) \<Rightarrow> ('t, 's) work \<Rightarrow> nat \<Rightarrow> ('t, 's) Pool \<Rightarrow> ('t, 's) Pool option" where
  "worker_step start doWork k p =
     (if po_Crashed p \<or> length (po_Workers p) \<le> k then None
      else case po_Workers p ! k of
        Exited \<Rightarrow> None
      | Idle \<Rightarrow>
          (case po_Queue p of
             [] \<Rightarrow> Some (p\<lparr>po_Workers := (po_Workers p)[k := Exited]\<rparr>)
           | i # q \<Rightarrow> Some (p\<lparr>po_Queue := q, po_Workers := (po_Workers p)[k := Busy i (start i)]\<rparr>))
      | Busy i t \<Rightarrow>
          (case doWork i t (po_Shared p) of
             None \<Rightarrow> Some (p\<lparr>po_Crashed := True\<rparr>)
           | Some (Some t', s) \<Rightarrow>
               Some (p\<lparr>po_Workers := (po_Workers p)[k := Busy i t'], po_Shared := s\<rparr>)
           | Some (None, s) \<Rightarrow>
               Some (p\<lparr>po_Workers := (po_Workers p)[k := Idle], po_Shared := s,
                        po_Done := po_Done p @ [i]\<rparr>)))"

text \<open>All interleavings: any goroutine that can act may act next.\<close>

inductive pool_step ::
  "(nat \<Rightarrow> 't) \<Rightarrow> ('t, 's) work \<Rightarrow> ('t, 's) Pool \<Rightarrow> ('t, 's) Pool \<Rightarrow> bool"
  for start doWork where
  "worker_step start doWork k p = Some p' \<Longrightarrow> pool_step start doWork p p'"

inductive pool_reach ::
  "(nat \<Rightarrow> 't) \<Rightarrow> ('t, 's) work \<Rightarrow> ('t, 's) Pool \<Rightarrow> ('t, 's) Pool \<Rightarrow> bool"
  for start doWork p where
  reach_refl: "pool_reach start doWork p p"
| reach_step: "pool_reach start doWork p p1 \<Longrightarrow> pool_step start doWork p1 p2 \<Longrightarrow>
    pool_reach start doWork p p2"

inductive_cases pool_stepE: "pool_step start doWork p p'"

text \<open>\<open>wg.Wait()\<close> returns when every goroutine has left.\<close>

definition pool_final :: "('t, 's) Pool \<Rightarrow> bool" where
  "pool_final p \<longleftrightarrow> \<not> po_Crashed p \<and> (\<forall>x \<in> set (po_Workers p). x = Exited)"

text \<open>
  One interleaving, picked by \<open>sched\<close>: among the goroutines that can act, the \<open>sched t\<close>-th acts at
  time \<open>t\<close>. \<open>fuel\<close> bounds the number of actions.
\<close>

definition enabled :: "('t, 's) Pool \<Rightarrow> nat list" where
  "enabled p = (if po_Crashed p then []
     else filter (\<lambda>k. case po_Workers p ! k of Exited \<Rightarrow> False | _ \<Rightarrow> True) [0..<length (po_Workers p)])"

fun run_pool ::
  "(nat \<Rightarrow> 't) \<Rightarrow> ('t, 's) work \<Rightarrow> (nat \<Rightarrow> nat) \<Rightarrow> nat \<Rightarrow> ('t, 's) Pool \<Rightarrow> ('t, 's) Pool" where
  "run_pool start doWork sched 0 p = p"
| "run_pool start doWork sched (Suc fuel) p =
     (case enabled p of
        [] \<Rightarrow> p
      | k # ks \<Rightarrow>
          (case worker_step start doWork ((k # ks) ! (sched 0 mod length (k # ks))) p of
             None \<Rightarrow> p
           | Some p' \<Rightarrow> run_pool start doWork (\<lambda>t. sched (Suc t)) fuel p'))"

text \<open>
  \<open>ParallelizeExec\<close> with a schedule: the shared state when all goroutines have left. It is \<open>None\<close> when the
  process has died of a panic, and also when some goroutine is still there after the last of the actions
  the fuel allows, so that a result says that the code has returned. The fuel is \<open>bound\<close> actions for each
  piece of work and one to take it, one for each goroutine to leave and one for a panic; \<open>parallelize_panic\<close>
  shows that it is enough, that is, that only a panic gives \<open>None\<close>.
\<close>

definition ParallelizeExec ::
  "(nat \<Rightarrow> 't) \<Rightarrow> ('t, 's) work \<Rightarrow> nat \<Rightarrow> (nat \<Rightarrow> nat) \<Rightarrow> nat \<Rightarrow> 's \<Rightarrow> 's go" where
  "ParallelizeExec start doWork bound sched workCount s =
     (let p = run_pool start doWork sched (workCount * (bound + 2) + maxWorkers + 1) (pool_init workCount s)
      in if pool_final p then Some (po_Shared p) else None)"

subsection \<open>What holds of every interleaving\<close>

lemma enabled_iff:
  "k \<in> set (enabled p) \<longleftrightarrow> \<not> po_Crashed p \<and> k < length (po_Workers p) \<and> po_Workers p ! k \<noteq> Exited"
  by (auto simp: enabled_def split: Worker.splits)

lemma worker_step_enabled: "worker_step start doWork k p \<noteq> None \<longleftrightarrow> k \<in> set (enabled p)"
  by (auto simp: enabled_iff worker_step_def split: Worker.splits list.splits option.splits)

lemma final_or_enabled: "\<not> po_Crashed p \<Longrightarrow> enabled p = [] \<longleftrightarrow> pool_final p"
  unfolding pool_final_def enabled_def
  by (auto simp: filter_empty_conv all_set_conv_all_nth split: Worker.splits)
    (metis Worker.exhaust atLeastLessThan_iff zero_le)

lemma pool_progress:
  assumes "\<not> po_Crashed p" "\<not> pool_final p"
  shows "\<exists>p'. pool_step start doWork p p'"
proof -
  from final_or_enabled [OF assms(1)] assms(2) have "enabled p \<noteq> []" by simp
  then obtain k where "k \<in> set (enabled p)" by (cases "enabled p") auto
  then obtain p' where "worker_step start doWork k p = Some p'"
    using worker_step_enabled [of start doWork k p] by blast
  then show ?thesis by (auto intro: pool_step.intros)
qed

text \<open>The numbers that are in the channel, in work, or done are together the ones put in.\<close>

definition busy :: "'t Worker list \<Rightarrow> nat multiset" where
  "busy ws = mset (concat (map (\<lambda>x. case x of Busy i t \<Rightarrow> [i] | _ \<Rightarrow> []) ws))"

lemma busy_update:
  "k < length ws \<Longrightarrow>
   busy (ws[k := x]) + busy [ws ! k] = busy ws + busy [x]"
proof (induction ws arbitrary: k)
  case (Cons y ws)
  show ?case
  proof (cases k)
    case 0
    then show ?thesis by (simp add: busy_def union_ac)
  next
    case (Suc j)
    with Cons have "busy (ws[j := x]) + busy [ws ! j] = busy ws + busy [x]" by simp
    moreover have "busy (a # b) = busy [a] + busy b" for a :: "'a Worker" and b by (simp add: busy_def)
    ultimately show ?thesis using Suc by (metis add.assoc list_update_code(3) nth_Cons_Suc)
  qed
qed simp

lemma busy_simps [simp]:
  "busy [Idle] = {#}" "busy [Exited] = {#}" "busy [Busy i t] = {#i#}"
  by (simp_all add: busy_def)

definition pool_ids :: "('t, 's) Pool \<Rightarrow> nat multiset" where
  "pool_ids p = mset (po_Queue p) + busy (po_Workers p) + mset (po_Done p)"

lemma pool_step_ids: "pool_step start doWork p p' \<Longrightarrow> pool_ids p' = pool_ids p"
proof (erule pool_stepE)
  fix k assume s: "worker_step start doWork k p = Some p'"
  then have k: "k < length (po_Workers p)" by (auto simp: worker_step_def split: if_splits)
  note u = busy_update [OF k]
  show ?thesis
  proof (cases "po_Workers p ! k")
    case Idle
    then show ?thesis using s u [of Exited] u [of "Busy (hd (po_Queue p)) (start (hd (po_Queue p)))"]
      by (auto simp: worker_step_def pool_ids_def split: if_splits list.splits)
  next
    case (Busy i t)
    then show ?thesis using s u [of Idle] u [of "Busy i (the (fst (the (doWork i t (po_Shared p)))))"]
      by (auto simp: worker_step_def pool_ids_def split: if_splits option.splits)
  next
    case Exited
    then show ?thesis using s by (simp add: worker_step_def split: if_splits)
  qed
qed

lemma pool_step_length:
  "pool_step start doWork p p' \<Longrightarrow> length (po_Workers p') = length (po_Workers p)"
  by (erule pool_stepE)
    (auto simp: worker_step_def split: if_splits Worker.splits list.splits option.splits)

lemma pool_reach_ids: "pool_reach start doWork p p' \<Longrightarrow> pool_ids p' = pool_ids p"
  by (induction rule: pool_reach.induct) (auto simp: pool_step_ids)

lemma pool_reach_length:
  "pool_reach start doWork p p' \<Longrightarrow> length (po_Workers p') = length (po_Workers p)"
  by (induction rule: pool_reach.induct) (auto simp: pool_step_length)

lemma busy_idle [simp]: "busy (replicate m Idle) = {#}"
  by (induction m) (auto simp: busy_def)

lemma pool_init_ids: "pool_ids (pool_init n s) = mset [0..<n]"
  by (simp add: pool_ids_def pool_init_def Let_def)

lemma busy_exited: "\<forall>x \<in> set ws. x = Exited \<Longrightarrow> busy ws = {#}"
  by (induction ws) (auto simp: busy_def)

text \<open>A goroutine leaves only when the channel is empty, and the channel is never refilled.\<close>

definition leaves_last :: "('t, 's) Pool \<Rightarrow> bool" where
  "leaves_last p \<longleftrightarrow> (Exited \<in> set (po_Workers p) \<longrightarrow> po_Queue p = []) \<and> (po_Workers p = [] \<longrightarrow> po_Queue p = [])"

lemma leaves_last_step: "pool_step start doWork p p' \<Longrightarrow> leaves_last p \<Longrightarrow> leaves_last p'"
  by (erule pool_stepE)
    (auto simp: worker_step_def leaves_last_def set_conv_nth nth_list_update
      split: if_splits Worker.splits list.splits option.splits)

lemma leaves_last_reach:
  "pool_reach start doWork p p' \<Longrightarrow> leaves_last p \<Longrightarrow> leaves_last p'"
  by (induction rule: pool_reach.induct) (auto intro: leaves_last_step)

lemma leaves_last_init: "leaves_last (pool_init n s)"
  by (auto simp: leaves_last_def pool_init_def maxWorkers_def Let_def)

lemma pool_final_done:
  assumes "pool_reach start doWork (pool_init n s) p" "pool_final p"
  shows "mset (po_Done p) = mset [0..<n]"
proof -
  have q: "leaves_last p" using leaves_last_reach [OF assms(1) leaves_last_init] .
  have ex: "\<forall>x \<in> set (po_Workers p). x = Exited" using assms(2) by (simp add: pool_final_def)
  with q have "po_Queue p = []" by (cases "po_Workers p") (auto simp: leaves_last_def)
  with busy_exited [OF ex] pool_reach_ids [OF assms(1)] pool_init_ids [of n s] show ?thesis
    by (simp add: pool_ids_def)
qed

text \<open>An invariant of the shared state that each action of the work keeps.\<close>

lemma pool_shared_inv:
  assumes "pool_reach start doWork p p'" "I (po_Shared p)"
    and "\<And>i t s r. I s \<Longrightarrow> doWork i t s = Some r \<Longrightarrow> I (snd r)"
  shows "I (po_Shared p')"
  using assms(1,2)
proof (induction rule: pool_reach.induct)
  case (reach_step p1 p2)
  from reach_step.hyps(2) have "po_Shared p2 = po_Shared p1 \<or>
      (\<exists>i t r. doWork i t (po_Shared p1) = Some r \<and> po_Shared p2 = snd r)"
    by (elim pool_stepE)
      (fastforce simp: worker_step_def split: if_splits Worker.splits list.splits option.splits)
  with reach_step assms(3) show ?case by fastforce
qed

subsection \<open>Termination\<close>

text \<open>
  What the pool needs of a piece of work to end: a measure that every action lowers. The contract
  has a safety half, a relation between the shared state and the work that is done.
\<close>

locale work_task =
  fixes start :: "nat \<Rightarrow> 't" and doWork :: "('t, 's) work" and meas :: "'t \<Rightarrow> nat" and bound :: nat
  assumes meas_start: "meas (start i) \<le> bound"
    and meas_step: "doWork i t s = Some (Some t', s') \<Longrightarrow> meas t' < meas t"
begin

definition worker_meas :: "'t Worker \<Rightarrow> nat" where
  "worker_meas x = (case x of Idle \<Rightarrow> 1 | Busy i t \<Rightarrow> meas t + 2 | Exited \<Rightarrow> 0)"

definition pool_meas :: "('t, 's) Pool \<Rightarrow> nat" where
  "pool_meas p = length (po_Queue p) * (bound + 2) + sum_list (map worker_meas (po_Workers p))
     + (if po_Crashed p then 0 else 1)"

lemma sum_update:
  "k < length ws \<Longrightarrow> sum_list (map worker_meas (ws[k := x])) + worker_meas (ws ! k) =
     sum_list (map worker_meas ws) + worker_meas x"
proof (induction ws arbitrary: k)
  case (Cons y ws)
  show ?case
  proof (cases k)
    case (Suc j)
    with Cons.prems Cons.IH [of j] show ?thesis by simp
  qed simp
qed simp

lemma pool_meas_step: "pool_step start doWork p p' \<Longrightarrow> pool_meas p' < pool_meas p"
proof (erule pool_stepE)
  fix k assume s: "worker_step start doWork k p = Some p'"
  then have k: "k < length (po_Workers p)" by (auto simp: worker_step_def split: if_splits)
  note u = sum_update [OF k]
  show ?thesis
  proof (cases "po_Workers p ! k")
    case Idle
    then show ?thesis using s u [of Exited] u [of "Busy (hd (po_Queue p)) (start (hd (po_Queue p)))"]
        meas_start [of "hd (po_Queue p)"]
      by (auto simp: worker_step_def pool_meas_def worker_meas_def split: if_splits list.splits)
  next
    case (Busy i t)
    show ?thesis
    proof (cases "doWork i t (po_Shared p)")
      case None
      then show ?thesis using s Busy by (auto simp: worker_step_def pool_meas_def split: if_splits)
    next
      case (Some r)
      obtain o' s' where r: "r = (o', s')" by (cases r)
      show ?thesis
      proof (cases o')
        case None
        then show ?thesis using s Busy Some r u [of Idle]
          by (auto simp: worker_step_def pool_meas_def worker_meas_def split: if_splits)
      next
        case (Some t')
        have "meas t' < meas t"
          by (rule meas_step) (use \<open>doWork i t (po_Shared p) = Some r\<close> r Some in simp)
        then show ?thesis using s Busy \<open>doWork i t (po_Shared p) = Some r\<close> r Some u [of "Busy i t'"]
          by (auto simp: worker_step_def pool_meas_def worker_meas_def split: if_splits)
      qed
    qed
  next
    case Exited
    then show ?thesis using s by (simp add: worker_step_def split: if_splits)
  qed
qed

lemma pool_terminates: "wf {(p', p). pool_step start doWork p p'}"
  by (rule wf_subset [OF wf_measure [of pool_meas]]) (auto dest: pool_meas_step)

lemma pool_meas_init: "pool_meas (pool_init n s) \<le> n * (bound + 2) + maxWorkers + 1"
  by (auto simp: pool_meas_def pool_init_def worker_meas_def sum_list_replicate maxWorkers_def Let_def)

lemma run_pool_reach:
  "pool_meas p \<le> fuel \<Longrightarrow> pool_reach start doWork p (run_pool start doWork sched fuel p) \<and>
     enabled (run_pool start doWork sched fuel p) = []"
proof (induction fuel arbitrary: p sched)
  case 0
  then have "po_Crashed p" by (simp add: pool_meas_def split: if_splits)
  then show ?case by (simp add: reach_refl enabled_def)
next
  case (Suc fuel)
  show ?case
  proof (cases "enabled p")
    case Nil
    then show ?thesis by (simp add: reach_refl)
  next
    case (Cons k ks)
    let ?k = "(k # ks) ! (sched 0 mod length (k # ks))"
    have "?k \<in> set (enabled p)" unfolding Cons by (rule nth_mem) simp
    then obtain p' where p': "worker_step start doWork ?k p = Some p'"
      using worker_step_enabled [of start doWork ?k p] by blast
    then have st: "pool_step start doWork p p'" by (rule pool_step.intros)
    then have "pool_meas p' \<le> fuel" using Suc.prems pool_meas_step [OF st] by simp
    from Suc.IH [OF this, of "\<lambda>t. sched (Suc t)"]
    have "pool_reach start doWork p' (run_pool start doWork (\<lambda>t. sched (Suc t)) fuel p')"
      "enabled (run_pool start doWork (\<lambda>t. sched (Suc t)) fuel p') = []" by auto
    moreover have "pool_reach start doWork p' q \<Longrightarrow> pool_reach start doWork p q" for q
      by (induction rule: pool_reach.induct)
        (auto intro: pool_reach.intros reach_step [OF reach_refl st])
    ultimately show ?thesis using Cons p' by simp
  qed
qed

text \<open>
  \<open>ParallelizeExec\<close> ends under every schedule, and what it returns is the shared state of a reachable
  pool in which all work is done, each piece once.
\<close>

lemma parallelize_final:
  assumes "ParallelizeExec start doWork bound sched n s = Some s'"
  shows "\<exists>p. pool_reach start doWork (pool_init n s) p \<and> pool_final p \<and> po_Shared p = s' \<and>
    mset (po_Done p) = mset [0..<n]"
proof -
  let ?p = "run_pool start doWork sched (n * (bound + 2) + maxWorkers + 1) (pool_init n s)"
  from run_pool_reach [OF pool_meas_init, where sched = sched]
  have r: "pool_reach start doWork (pool_init n s) ?p" "enabled ?p = []" by auto
  from assms have f: "pool_final ?p" and s: "po_Shared ?p = s'"
    by (auto simp: ParallelizeExec_def Let_def split: if_splits)
  show ?thesis
    using r(1) f s pool_final_done [OF r(1) f] by (intro exI [of _ ?p] conjI)
qed

lemma parallelize_panic:
  assumes "ParallelizeExec start doWork bound sched n s = None"
  shows "\<exists>p. pool_reach start doWork (pool_init n s) p \<and> po_Crashed p"
proof -
  let ?p = "run_pool start doWork sched (n * (bound + 2) + maxWorkers + 1) (pool_init n s)"
  from run_pool_reach [OF pool_meas_init, where sched = sched]
  have r: "pool_reach start doWork (pool_init n s) ?p" "enabled ?p = []" by auto
  moreover have "\<not> pool_final ?p"
    using assms by (auto simp: ParallelizeExec_def Let_def split: if_splits)
  ultimately have "po_Crashed ?p" using final_or_enabled by blast
  with r(1) show ?thesis by blast
qed

end

subsection \<open>Invariants of work in progress\<close>

text \<open>
  \<open>T i t\<close> holds of every piece of work in progress, \<open>I s d\<close> of the shared state and the work done.
\<close>

lemma pool_task_inv:
  assumes "pool_reach start doWork (pool_init n s0) p"
    and "\<And>i. T i (start i)" "I s0 []"
    and goes: "\<And>i t s t' s' d. T i t \<Longrightarrow> I s d \<Longrightarrow> doWork i t s = Some (Some t', s') \<Longrightarrow> T i t' \<and> I s' d"
    and ends: "\<And>i t s s' d. T i t \<Longrightarrow> I s d \<Longrightarrow> doWork i t s = Some (None, s') \<Longrightarrow> I s' (d @ [i])"
  shows "I (po_Shared p) (po_Done p) \<and> (\<forall>i t. Busy i t \<in> set (po_Workers p) \<longrightarrow> T i t)"
  using assms(1)
proof (induction rule: pool_reach.induct)
  case reach_refl
  then show ?case using assms(3) by (auto simp: pool_init_def Let_def)
next
  case (reach_step p1 p2)
  then have I: "I (po_Shared p1) (po_Done p1)" and T: "\<And>i t. Busy i t \<in> set (po_Workers p1) \<Longrightarrow> T i t"
    by blast+
  from reach_step.hyps(2) obtain k where s: "worker_step start doWork k p1 = Some p2" by (rule pool_stepE)
  then have k: "k < length (po_Workers p1)" by (auto simp: worker_step_def split: if_splits)
  have upd: "Busy i t \<in> set ((po_Workers p1)[k := x]) \<Longrightarrow> x = Busy i t \<or> Busy i t \<in> set (po_Workers p1)" for x i t
    using set_update_subset_insert [of "po_Workers p1" k x] by auto
  show ?case
  proof (cases "po_Workers p1 ! k")
    case Idle
    with s I T assms(2) show ?thesis
      by (auto simp: worker_step_def split: if_splits list.splits dest!: upd)
  next
    case (Busy i t)
    then have t: "T i t" using T nth_mem [OF k] by simp
    show ?thesis
    proof (cases "doWork i t (po_Shared p1)")
      case None
      with s Busy I T show ?thesis by (auto simp: worker_step_def split: if_splits)
    next
      case (Some r)
      obtain c s' where r: "r = (c, s')" by (cases r)
      show ?thesis
      proof (cases c)
        case None
        with ends [OF t I] Some r have "I s' (po_Done p1 @ [i])" by simp
        with s Busy Some r None T show ?thesis
          by (auto simp: worker_step_def split: if_splits dest!: upd)
      next
        case (Some t')
        with goes [OF t I] \<open>doWork i t (po_Shared p1) = Some r\<close> r have "T i t'" "I s' (po_Done p1)" by auto
        with s Busy \<open>doWork i t (po_Shared p1) = Some r\<close> r Some T show ?thesis
          by (auto simp: worker_step_def split: if_splits dest!: upd)
      qed
    qed
  next
    case Exited
    with s show ?thesis by (simp add: worker_step_def split: if_splits)
  qed
qed

lemma pool_busy_less:
  assumes "pool_reach start doWork (pool_init n s) p" "Busy i t \<in> set (po_Workers p)"
  shows "i < n"
proof -
  have "i \<in># busy ws" if "Busy i t \<in> set ws" for ws :: "'a Worker list"
    using that by (force simp: busy_def)
  with assms(2) have "i \<in># pool_ids p" by (simp add: pool_ids_def)
  then show ?thesis
    using pool_reach_ids [OF assms(1)] pool_init_ids [of n s] by (metis atLeastLessThan_iff set_mset_mset set_upt)
qed

lemma pool_no_crash:
  assumes "pool_reach start doWork (pool_init n s0) p" "\<And>i t s. i < n \<Longrightarrow> doWork i t s \<noteq> None"
  shows "\<not> po_Crashed p"
  using assms(1)
proof (induction rule: pool_reach.induct)
  case reach_refl
  then show ?case by (simp add: pool_init_def Let_def)
next
  case (reach_step p1 p2)
  from reach_step.hyps(2) obtain k where s: "worker_step start doWork k p1 = Some p2" by (rule pool_stepE)
  then have k: "k < length (po_Workers p1)" by (auto simp: worker_step_def split: if_splits)
  show ?case
  proof (cases "po_Workers p1 ! k")
    case (Busy i t)
    then have "i < n" using pool_busy_less [OF reach_step.hyps(1), of i t] nth_mem [OF k] by simp
    then obtain r where "doWork i t (po_Shared p1) = Some r" using assms(2) by blast
    with s Busy reach_step.IH show ?thesis
      by (auto simp: worker_step_def split: if_splits option.splits prod.splits)
  qed (use s reach_step.IH in \<open>auto simp: worker_step_def split: if_splits list.splits\<close>)
qed

end
