(* ===== verification/Client.thy ===== *)
theory Client
  imports K8s
begin

section \<open>The exec channel (channel/client.go)\<close>

text \<open>
  \<open>Client.Exec\<close> streams a command into a container and turns what comes back into one value. The
  executor runs the blade tool with it and the deployment modes prepare the target container with it.
\<close>

text \<open>
  The decoders turn the bytes of a stream into the result, an \<open>interface{}\<close> value, of which \<open>None\<close>
  is nil.
\<close>

definition client_Exec ::
  "'w kube \<Rightarrow> ExecRequest \<Rightarrow> bool \<Rightarrow> (string \<Rightarrow> 'r option) \<Rightarrow> (string \<Rightarrow> 'r option) \<Rightarrow> 'w \<Rightarrow>
     'r option \<times> 'w" where
  "client_Exec K req ignoreOutput errDecoder outDecoder w =
     (let (r, w1) = k_Stream K req w;
          errMsg = trim_space (sr_Err r);
          outMsg = trim_space (sr_Out r)
      in (if errMsg \<noteq> [] then errDecoder (sr_Err r)
          else case sr_Error r of
            Some e \<Rightarrow> errDecoder e
          | None \<Rightarrow>
              if outMsg \<noteq> [] then outDecoder (sr_Out r)
              else if ignoreOutput then None
              else errDecoder (''cannot get output of pods/'' @ er_PodName req @
                ''/exec, maybe kubelet cannot be accessed or container not found''), w1))"

text \<open>The world is touched by the stream only.\<close>

lemma client_Exec_world [simp]: "snd (client_Exec K req ig e d w) = snd (k_Stream K req w)"
  by (simp add: client_Exec_def Let_def split_beta)

text \<open>No result at all: nothing on stderr, no error, and no output that matters.\<close>

lemma client_Exec_None:
  "fst (client_Exec K req True (\<lambda>b. Some (e b)) (\<lambda>b. None) w) = None \<longleftrightarrow>
     trim_space (sr_Err (fst (k_Stream K req w))) = [] \<and> sr_Error (fst (k_Stream K req w)) = None"
  by (auto simp: client_Exec_def Let_def split_beta split: option.splits)

end
