(* ===== verification/Executor.thy ===== *)
theory Executor
  imports Dispatch Parallelizer Client
begin

section \<open>Executing in pods (exec/model/executor_copy.go, executor.go)\<close>

text \<open>
  \<open>Exec\<close> computes one identifier (target, command, daemonset pod) for each piece of container
  metadata, runs the commands with the worker pool, and collects the statuses. Each closure the pool
  runs is a small program \<open>Task\<close> of atomic actions: the reading of the target pod, the write
  \<open>success = true\<close> that takes no lock, the execution in the pod, and the critical section. The
  computation of the identifiers is an argument here and is modelled in theory \<open>Commands\<close>.
\<close>

subsection \<open>Identifiers and execCommands\<close>

record ExperimentIdentifierInPod =
  ei_Meta :: ContainerObjectMeta
  ei_Command :: string
  ei_Error :: string
  ei_Code :: int
  ei_ChaosBladePodName :: string
  ei_ChaosBladeNamespace :: string
  ei_ChaosBladeContainerName :: string

text \<open>Where the command runs: the daemonset pod when there is one, else the target itself.\<close>

definition exec_target :: "ExperimentIdentifierInPod \<Rightarrow> string \<times> string \<times> string" where
  "exec_target d =
     (if ei_ChaosBladePodName d \<noteq> []
      then (ei_ChaosBladePodName d, ei_ChaosBladeNamespace d, ei_ChaosBladeContainerName d)
      else (cm_PodName (ei_Meta d), cm_Namespace (ei_Meta d), cm_ContainerName (ei_Meta d)))"

definition execCommands ::
  "'w env \<Rightarrow> bool \<Rightarrow> ResourceStatus \<Rightarrow> ExperimentIdentifierInPod \<Rightarrow> 'w \<Rightarrow>
     ((bool \<times> ResourceStatus) \<times> 'w) go" where
  "execCommands N isDestroy rs d w =
     (let S = en_Spec N;
          (podName, podNamespace, containerName) = exec_target d;
          dec = (\<lambda>content. Some (sp_Decode S content
                   (sp_FailWithFlags S K8sExecFailed [FStr ''pods/exec'', FStr content])));
          req = \<lparr>er_PodName = podName, er_PodNamespace = podNamespace, er_ContainerName = containerName,
                 er_Command = go_split CHR '' '' (ei_Command d), er_Stdin = None\<rparr>;
          (res, w1) = client_Exec (en_Kube N) req False dec dec w
      in do { response \<leftarrow> res;
              if rp_Success response then
                do { rs \<leftarrow> (if isDestroy then Some rs
                            else case rp_Result response of RStr s \<Rightarrow> Some (rs\<lparr>rs_Id := s\<rparr>) | _ \<Rightarrow> None);
                     Some ((True, CreateSuccessResourceStatus rs), w1) }
              else Some ((False, CreateFailResourceStatus rs (rp_Err response) (rp_Code response)), w1) })"

subsection \<open>The closure execCommandInPod\<close>

datatype Task = TStart | TSkip ResourceStatus | TExec ResourceStatus | TPush ResourceStatus bool

record 'w ExecShared =
  sh_Statuses :: "ResourceStatus list"
  sh_Success :: bool
  sh_World :: 'w

definition task_status :: "ExpModel \<Rightarrow> ExperimentIdentifierInPod \<Rightarrow> ResourceStatus" where
  "task_status m d = no_status\<lparr>rs_Kind := em_Scope m, rs_Identifier := GetIdentifier (ei_Meta d),
     rs_Id := cm_Id (ei_Meta d)\<rparr>"

text \<open>The first action: the identifier, its error, and the reading of the pod.\<close>

definition check_target ::
  "'w env \<Rightarrow> ExpModel \<Rightarrow> ExperimentIdentifierInPod \<Rightarrow> 'w \<Rightarrow> Task \<times> 'w" where
  "check_target N m d w =
     (let rs = task_status m d; code = sp_Code (en_Spec N) K8sExecFailed
      in if ei_Error d \<noteq> [] then (TPush (CreateFailResourceStatus rs (ei_Error d) code) False, w)
         else if cm_PodName (ei_Meta d) \<noteq> [] then
           (case k_GetPod (en_Kube N) (cm_Namespace (ei_Meta d)) (cm_PodName (ei_Meta d)) w of
              (Inr pod, w1) \<Rightarrow> (TExec rs, w1)
            | (Inl err, w1) \<Rightarrow>
                if IsNotFound err then
                  (TSkip ((CreateSuccessResourceStatus rs)\<lparr>rs_Error := ''pod: '' @ cm_PodName (ei_Meta d)
                     @ '' in '' @ cm_Namespace (ei_Meta d) @ '' not found, skip to execute command in it''\<rparr>), w1)
                else (TPush (CreateFailResourceStatus rs (''get pod: '' @ cm_PodName (ei_Meta d)
                     @ '' in '' @ cm_Namespace (ei_Meta d) @ '' error'') code) False, w1))
         else (TExec rs, w))"

definition execCommandInPod ::
  "'w env \<Rightarrow> bool \<Rightarrow> ExpModel \<Rightarrow> ExperimentIdentifierInPod list \<Rightarrow> (Task, 'w ExecShared) work" where
  "execCommandInPod N isDestroy m ids i t sh =
     (case t of
        TStart \<Rightarrow>
          do { d \<leftarrow> index_at ids (int i);
               let (t', w1) = check_target N m d (sh_World sh);
               Some (Some t', sh\<lparr>sh_World := w1\<rparr>) }
      | TSkip rs \<Rightarrow> Some (Some (TExec rs), sh\<lparr>sh_Success := True\<rparr>)
      | TExec rs \<Rightarrow>
          do { d \<leftarrow> index_at ids (int i);
               ((execSuccess, rs'), w1) \<leftarrow> execCommands N isDestroy rs d (sh_World sh);
               Some (Some (TPush rs' execSuccess), sh\<lparr>sh_World := w1\<rparr>) }
      | TPush rs execSuccess \<Rightarrow>
          Some (None, sh\<lparr>sh_Statuses := sh_Statuses sh @ [rs],
                         sh_Success := sh_Success sh \<and> execSuccess\<rparr>))"

text \<open>An action lowers this measure, so every closure ends after at most four actions.\<close>

fun task_meas :: "Task \<Rightarrow> nat" where
  "task_meas TStart = 3"
| "task_meas (TSkip rs) = 2"
| "task_meas (TExec rs) = 1"
| "task_meas (TPush rs ok) = 0"

interpretation pods: work_task "\<lambda>i. TStart" "execCommandInPod N isDestroy m ids" task_meas 3
proof unfold_locales
  fix i t s t' s'
  assume "execCommandInPod N isDestroy m ids i t s = Some (Some t', s')"
  then show "task_meas t' < task_meas t"
    by (cases t) (auto simp: execCommandInPod_def check_target_def Let_def
        split: Option.bind_splits prod.splits if_splits sum.splits)
qed simp

subsection \<open>Exec\<close>

definition experiment_status :: "ResourceStatus list \<Rightarrow> bool \<Rightarrow> ExperimentStatus" where
  "experiment_status statuses success =
     no_exp_status\<lparr>es_State := (if success then SuccessState else ErrorState),
       es_Error := (if success then []
         else if statuses = [] then ''the resources not found''
         else ''see resStatus for the error details''),
       es_Success := success, es_ResStatuses := Some statuses\<rparr>"

text \<open>
  \<open>getIds\<close> computes the identifiers; \<open>sched\<close> is the schedule of the goroutines. The goroutine that
  \<open>checkExperimentStatus\<close> starts at the end outlives the call and is not part of its result.
\<close>

type_synonym 'w get_ids = "Ctx \<Rightarrow> ExpModel \<Rightarrow> 'w \<Rightarrow> ((GoErr + ExperimentIdentifierInPod list) \<times> 'w) go"

definition Exec :: "'w env \<Rightarrow> 'w get_ids \<Rightarrow> (nat \<Rightarrow> nat) \<Rightarrow> 'w exec_fun" where
  "Exec N getIds sched uid ctx m w =
     do { experimentId \<leftarrow> GetExperimentIdFromContext ctx;
          (r, w1) \<leftarrow> getIds ctx m w;
          case r of
            Inl err \<Rightarrow> Some (sp_FailWithResult (en_Spec N) GetIdentifierFailed
              (RExp (CreateFailExperimentStatus (sp_ErrText (en_Spec N) err) (Some []))) [FErr err], w1)
          | Inr ids \<Rightarrow>
              do { sh \<leftarrow> ParallelizeExec (\<lambda>i. TStart)
                     (execCommandInPod N (sp_IsDestroy (en_Spec N) ctx) m ids) 3 sched (length ids)
                     \<lparr>sh_Statuses = [], sh_Success = True, sh_World = w1\<rparr>;
                   Some (sp_ReturnResultIgnoreCode (en_Spec N)
                     (RExp (experiment_status (sh_Statuses sh) (sh_Success sh))), sh_World sh) } }"

subsection \<open>Facts about one closure\<close>

lemma task_status_sel [simp]:
  "rs_Kind (task_status m d) = em_Scope m" "rs_Identifier (task_status m d) = GetIdentifier (ei_Meta d)"
  "rs_Id (task_status m d) = cm_Id (ei_Meta d)"
  by (simp_all add: task_status_def)

lemma execCommands_keeps:
  assumes "execCommands N isDestroy rs d w = Some ((ok, rs'), w')"
  shows "rs_Kind rs' = rs_Kind rs" "rs_Identifier rs' = rs_Identifier rs" "rs_Success rs' = ok"
    and "isDestroy \<Longrightarrow> rs_Id rs' = rs_Id rs"
  using assms by (auto simp: execCommands_def Let_def split: prod.splits Option.bind_splits if_splits ResVal.splits)

text \<open>\<open>key\<close> is what a status says of its target: kind, identifier, and in a destroy the uid.\<close>

definition key :: "bool \<Rightarrow> ResourceStatus \<Rightarrow> string \<times> string \<times> string option" where
  "key isDestroy rs = (rs_Kind rs, rs_Identifier rs, if isDestroy then Some (rs_Id rs) else None)"

definition target_key :: "bool \<Rightarrow> ExpModel \<Rightarrow> ExperimentIdentifierInPod \<Rightarrow> string \<times> string \<times> string option" where
  "target_key isDestroy m d = (em_Scope m, GetIdentifier (ei_Meta d),
     if isDestroy then Some (cm_Id (ei_Meta d)) else None)"

text \<open>A closure always holds the status of its own target.\<close>

definition task_ok :: "bool \<Rightarrow> ExpModel \<Rightarrow> ExperimentIdentifierInPod list \<Rightarrow> nat \<Rightarrow> Task \<Rightarrow> bool" where
  "task_ok isDestroy m ids i t = (case t of
     TStart \<Rightarrow> True
   | TSkip rs \<Rightarrow> key isDestroy rs = target_key isDestroy m (ids ! i)
   | TExec rs \<Rightarrow> key isDestroy rs = target_key isDestroy m (ids ! i)
   | TPush rs ok \<Rightarrow> key isDestroy rs = target_key isDestroy m (ids ! i) \<and> rs_Success rs = ok)"

lemma key_task_status [simp]: "key b (task_status m d) = target_key b m d"
  by (simp add: key_def target_key_def)

lemma key_fail [simp]: "key b (CreateFailResourceStatus rs e c) = key b rs"
  by (simp add: key_def)

lemma key_success [simp]: "key b (CreateSuccessResourceStatus rs) = key b rs"
  by (simp add: key_def)

lemma key_error [simp]: "key b (rs\<lparr>rs_Error := e\<rparr>) = key b rs"
  by (simp add: key_def)

lemma check_target_ok:
  "check_target N m (ids ! i) w = (t, w') \<Longrightarrow> task_ok b m ids i t"
  by (auto simp: check_target_def task_ok_def Let_def split: if_splits prod.splits sum.splits)

lemma run_TStart:
  "execCommandInPod N b m ids i TStart s = (if i < length ids then
     Some (Some (fst (check_target N m (ids ! i) (sh_World s))),
           s\<lparr>sh_World := snd (check_target N m (ids ! i) (sh_World s))\<rparr>) else None)"
  by (simp add: execCommandInPod_def index_at_def split_beta Let_def)

lemma run_TExec:
  "execCommandInPod N b m ids i (TExec rs) s = (if i < length ids then
     map_option (\<lambda>((ok, rs'), w1). (Some (TPush rs' ok), s\<lparr>sh_World := w1\<rparr>))
       (execCommands N b rs (ids ! i) (sh_World s)) else None)"
  by (cases "execCommands N b rs (ids ! i) (sh_World s)")
    (simp_all add: execCommandInPod_def index_at_def split_beta)

lemma run_others:
  "execCommandInPod N b m ids i (TSkip rs) s = Some (Some (TExec rs), s\<lparr>sh_Success := True\<rparr>)"
  "execCommandInPod N b m ids i (TPush rs ok) s =
     Some (None, s\<lparr>sh_Statuses := sh_Statuses s @ [rs], sh_Success := sh_Success s \<and> ok\<rparr>)"
  by (simp_all add: execCommandInPod_def)

lemmas run_simps = run_TStart run_TExec run_others

lemma execCommandInPod_goes:
  assumes "task_ok b m ids i t" "execCommandInPod N b m ids i t s = Some (Some t', s')"
  shows "task_ok b m ids i t' \<and> sh_Statuses s' = sh_Statuses s"
proof (cases t)
  case TStart
  with assms(2) show ?thesis
    by (auto simp: run_simps split: if_splits) (metis check_target_ok prod.collapse)
next
  case (TSkip rs)
  with assms show ?thesis by (auto simp: run_simps task_ok_def)
next
  case (TExec rs)
  with assms(2) obtain ok rs' w1 where e: "execCommands N b rs (ids ! i) (sh_World s) = Some ((ok, rs'), w1)"
    "t' = TPush rs' ok" "s' = s\<lparr>sh_World := w1\<rparr>"
    by (auto simp: run_simps split: if_splits)
  from execCommands_keeps [OF e(1)] have "key b rs' = key b rs" "rs_Success rs' = ok" by (auto simp: key_def)
  with e assms(1) TExec show ?thesis by (simp add: task_ok_def)
next
  case (TPush rs ok)
  with assms(2) show ?thesis by (simp add: run_simps)
qed

lemma execCommandInPod_ends:
  assumes "execCommandInPod N b m ids i t s = Some (None, s')"
  obtains rs ok where "t = TPush rs ok" "sh_Statuses s' = sh_Statuses s @ [rs]"
    "sh_Success s' = (sh_Success s \<and> ok)"
  using assms by (cases t) (auto simp: run_simps split: if_splits)

text \<open>Without pods that are gone nobody resets the flag, and it is the conjunction of the statuses.\<close>

definition pods_exist :: "'w kube \<Rightarrow> bool" where
  "pods_exist K \<longleftrightarrow> (\<forall>ns n w e w'. k_GetPod K ns n w = (Inl e, w') \<longrightarrow> \<not> IsNotFound e)"

lemma pods_existD: "pods_exist K \<Longrightarrow> k_GetPod K ns n w = (Inl e, w') \<Longrightarrow> \<not> IsNotFound e"
  unfolding pods_exist_def by blast

lemma check_target_exist:
  "pods_exist (en_Kube N) \<Longrightarrow> check_target N m d w = (t, w') \<Longrightarrow>
   (case t of TSkip rs \<Rightarrow> False | TPush rs ok \<Rightarrow> rs_Success rs = ok | _ \<Rightarrow> True)"
  by (auto simp: check_target_def Let_def dest: pods_existD split: if_splits prod.splits sum.splits)

lemma pool_statuses:
  assumes "pool_reach (\<lambda>i. TStart) (execCommandInPod N b m ids) (pool_init (length ids) s0) p"
    and "sh_Statuses s0 = []"
  shows "map (key b) (sh_Statuses (po_Shared p)) = map (\<lambda>i. target_key b m (ids ! i)) (po_Done p)"
proof -
  have "map (key b) (sh_Statuses (po_Shared p)) = map (\<lambda>i. target_key b m (ids ! i)) (po_Done p) \<and>
      (\<forall>i t. Busy i t \<in> set (po_Workers p) \<longrightarrow> task_ok b m ids i t)"
  proof (rule pool_task_inv [OF assms(1), where T = "task_ok b m ids" and
        I = "\<lambda>s d. map (key b) (sh_Statuses s) = map (\<lambda>i. target_key b m (ids ! i)) d"])
    fix i t s s' d
    assume t: "task_ok b m ids i t"
      and I: "map (key b) (sh_Statuses s) = map (\<lambda>i. target_key b m (ids ! i)) d"
      and s: "execCommandInPod N b m ids i t s = Some (None, s')"
    show "map (key b) (sh_Statuses s') = map (\<lambda>i. target_key b m (ids ! i)) (d @ [i])"
      by (rule execCommandInPod_ends [OF s]) (use t I in \<open>simp add: task_ok_def\<close>)
  next
    fix i t s t' s' d
    assume "task_ok b m ids i t" "map (key b) (sh_Statuses s) = map (\<lambda>i. target_key b m (ids ! i)) d"
      and "execCommandInPod N b m ids i t s = Some (Some t', s')"
    with execCommandInPod_goes [of b m ids i t N s t' s']
    show "task_ok b m ids i t' \<and> map (key b) (sh_Statuses s') = map (\<lambda>i. target_key b m (ids ! i)) d"
      by simp
  qed (simp_all add: task_ok_def assms(2))
  then show ?thesis by blast
qed

lemma pool_success:
  assumes "pool_reach (\<lambda>i. TStart) (execCommandInPod N b m ids) (pool_init n s0) p"
    and "pods_exist (en_Kube N)" "sh_Statuses s0 = []" "sh_Success s0"
  shows "sh_Success (po_Shared p) = (\<forall>st \<in> set (sh_Statuses (po_Shared p)). rs_Success st)"
proof -
  define T where "T = (\<lambda>(i :: nat) t. case t of TSkip rs \<Rightarrow> False | TPush rs ok \<Rightarrow> rs_Success rs = ok | _ \<Rightarrow> True)"
  define I where "I = (\<lambda>(s :: 'a ExecShared) (d :: nat list). sh_Success s = (\<forall>st \<in> set (sh_Statuses s). rs_Success st))"
  have "I (po_Shared p) (po_Done p) \<and> (\<forall>i t. Busy i t \<in> set (po_Workers p) \<longrightarrow> T i t)"
  proof (rule pool_task_inv [OF assms(1)])
    fix i t s s' d
    assume t: "T i t" and I: "I s d" and s: "execCommandInPod N b m ids i t s = Some (None, s')"
    show "I s' (d @ [i])"
      by (rule execCommandInPod_ends [OF s]) (use t I in \<open>auto simp: T_def I_def\<close>)
  next
    fix i t s t' s' d
    assume t: "T i t" and I: "I s d" and s: "execCommandInPod N b m ids i t s = Some (Some t', s')"
    show "T i t' \<and> I s' d"
    proof (cases t)
      case TStart
      with s I check_target_exist [OF assms(2) surjective_pairing, of m "ids ! i" "sh_World s"]
      show ?thesis by (auto simp: run_simps T_def I_def split: if_splits)
    next
      case (TExec rs)
      with s I show ?thesis
        by (auto simp: run_simps T_def I_def dest: execCommands_keeps(3) split: if_splits)
    qed (use s t in \<open>simp_all add: run_simps T_def\<close>)
  qed (simp_all add: T_def I_def assms(3,4))
  then show ?thesis by (simp add: I_def)
qed

lemma experiment_status_sel [simp]:
  "es_Success (experiment_status sts ok) = ok" "es_ResStatuses (experiment_status sts ok) = Some sts"
  "es_State (experiment_status sts ok) = (if ok then SuccessState else ErrorState)"
  by (simp_all add: experiment_status_def)

lemma Exec_pool:
  assumes "spec_contract (en_Spec N)" "getIds ctx m w = Some (Inr ids, w1)"
    and "Exec N getIds sched u ctx m w = Some (r, w')"
  obtains p where "pool_reach (\<lambda>i. TStart) (execCommandInPod N (sp_IsDestroy (en_Spec N) ctx) m ids)
      (pool_init (length ids) \<lparr>sh_Statuses = [], sh_Success = True, sh_World = w1\<rparr>) p"
    "mset (po_Done p) = mset [0..<length ids]"
    "rp_Result r = RExp (experiment_status (sh_Statuses (po_Shared p)) (sh_Success (po_Shared p)))"
proof -
  from assms(2,3) obtain sh where sh: "ParallelizeExec (\<lambda>i. TStart)
      (execCommandInPod N (sp_IsDestroy (en_Spec N) ctx) m ids) 3 sched (length ids)
      \<lparr>sh_Statuses = [], sh_Success = True, sh_World = w1\<rparr> = Some sh"
    and r: "r = sp_ReturnResultIgnoreCode (en_Spec N)
      (RExp (experiment_status (sh_Statuses sh) (sh_Success sh)))"
    by (auto simp: Exec_def split: Option.bind_splits)
  from pods.parallelize_final [OF sh] r that show thesis
    by (auto simp: spec_contractD [OF assms(1)])
qed

lemma Exec_exec_ok: "spec_contract (en_Spec N) \<Longrightarrow> exec_ok (Exec N getIds sched)"
  unfolding exec_ok_def
  by (auto simp: Exec_def exp_result_def spec_contractD split: Option.bind_splits sum.splits)

text \<open>
  What the code relies on in a create: when the decoded answer to the command of an identifier is a success,
  it carries a string, the uid that \<open>blade create\<close> prints. (The code asserts the type and panics otherwise.)
  A destroy does not look at the result.
\<close>

definition command_answer :: "'w env \<Rightarrow> ExperimentIdentifierInPod \<Rightarrow> 'w \<Rightarrow> Response option" where
  "command_answer N d w =
     (let S = en_Spec N;
          (podName, podNamespace, containerName) = exec_target d;
          dec = (\<lambda>content. Some (sp_Decode S content
                   (sp_FailWithFlags S K8sExecFailed [FStr ''pods/exec'', FStr content])))
      in fst (client_Exec (en_Kube N) \<lparr>er_PodName = podName, er_PodNamespace = podNamespace,
           er_ContainerName = containerName, er_Command = go_split CHR '' '' (ei_Command d), er_Stdin = None\<rparr>
           False dec dec w))"

definition create_answers :: "'w env \<Rightarrow> ExperimentIdentifierInPod list \<Rightarrow> bool" where
  "create_answers N ids \<longleftrightarrow>
     (\<forall>d \<in> set ids. \<forall>w r. command_answer N d w = Some r \<and> rp_Success r \<longrightarrow> (\<exists>uid. rp_Result r = RStr uid))"

lemma command_answered: "\<exists>r. command_answer N d w = Some r"
  by (auto simp: command_answer_def client_Exec_def Let_def split_beta split: option.splits)

lemma execCommands_total:
  assumes "b \<or> create_answers N ids" "d \<in> set ids"
  shows "execCommands N b rs d w \<noteq> None"
proof -
  obtain r where r: "command_answer N d w = Some r" using command_answered [of N d w] by auto
  have u: "\<exists>uid. rp_Result r = RStr uid" if "\<not> b" "rp_Success r"
    using assms r that unfolding create_answers_def by blast
  show ?thesis
  proof
    assume "execCommands N b rs d w = None"
    with r have "\<not> b" "rp_Success r" "\<And>uid. rp_Result r \<noteq> RStr uid"
      by (auto simp: execCommands_def command_answer_def Let_def split: prod.splits if_splits)
    with u show False by blast
  qed
qed

lemma exec_no_crash:
  assumes "b \<or> create_answers N ids"
    and "i < length ids"
  shows "execCommandInPod N b m ids i t s \<noteq> None"
  using execCommands_total [OF assms(1) nth_mem [OF assms(2)]] assms(2) by (cases t) (simp_all add: run_simps)

lemma exec_pool_ends:
  assumes "b \<or> create_answers N ids"
  shows "ParallelizeExec (\<lambda>i. TStart) (execCommandInPod N b m ids) 3 sched (length ids) s \<noteq> None"
proof
  assume "ParallelizeExec (\<lambda>i. TStart) (execCommandInPod N b m ids) 3 sched (length ids) s = None"
  from pods.parallelize_panic [OF this] obtain p where
    "pool_reach (\<lambda>i. TStart) (execCommandInPod N b m ids) (pool_init (length ids) s) p" "po_Crashed p"
    by blast
  with pool_no_crash [OF this(1) exec_no_crash [OF assms]] show False by simp
qed

lemma Exec_statuses:
  assumes "spec_contract (en_Spec N)" "getIds ctx m w = Some (Inr ids, w1)"
    and "Exec N getIds sched u ctx m w = Some (r, w')"
  shows "\<exists>sts ok. rp_Result r = RExp (experiment_status sts ok) \<and>
    mset (map (key (sp_IsDestroy (en_Spec N) ctx)) sts) =
    mset (map (target_key (sp_IsDestroy (en_Spec N) ctx) m) ids)"
proof (rule Exec_pool [OF assms])
  let ?b = "sp_IsDestroy (en_Spec N) ctx"
  fix p
  assume p: "pool_reach (\<lambda>i. TStart) (execCommandInPod N ?b m ids)
      (pool_init (length ids) \<lparr>sh_Statuses = [], sh_Success = True, sh_World = w1\<rparr>) p"
    and fin: "mset (po_Done p) = mset [0..<length ids]"
    and r: "rp_Result r = RExp (experiment_status (sh_Statuses (po_Shared p)) (sh_Success (po_Shared p)))"
  have "mset (map (key ?b) (sh_Statuses (po_Shared p))) = image_mset (\<lambda>i. target_key ?b m (ids ! i)) (mset (po_Done p))"
    using pool_statuses [OF p] by (simp flip: mset_map)
  also have "\<dots> = mset (map (\<lambda>i. target_key ?b m (ids ! i)) [0..<length ids])"
    unfolding fin by simp
  also have "map (\<lambda>i. target_key ?b m (ids ! i)) [0..<length ids] = map (target_key ?b m) ids"
    by (rule nth_equalityI) simp_all
  finally show ?thesis using r by blast
qed

subsection \<open>Properties\<close>

text \<open>C6. An execution reports on every target exactly once, under every schedule of the goroutines:
  the kinds and identifiers of the statuses are, up to order, those of the targets; in a destroy the
  uids are too.\<close>

theorem exec_one_status_per_target:
  assumes "spec_contract (en_Spec N)" "getIds ctx m w = Some (Inr ids, w1)"
    and "Exec N getIds sched u ctx m w = Some (r, w')"
  shows "\<exists>sts ok. rp_Result r = RExp (experiment_status sts ok) \<and>
    mset (map (key (sp_IsDestroy (en_Spec N) ctx)) sts) =
    mset (map (target_key (sp_IsDestroy (en_Spec N) ctx) m) ids)"
  by (rule Exec_statuses [OF assms])

text \<open>C24. When no target pod is gone, the experiment succeeds exactly when every resource status does,
  under every schedule.\<close>

theorem exec_success_exact:
  assumes "spec_contract (en_Spec N)" "getIds ctx m w = Some (Inr ids, w1)"
    and "Exec N getIds sched u ctx m w = Some (r, w')" "pods_exist (en_Kube N)"
  shows "\<exists>sts. rp_Result r = RExp (experiment_status sts (\<forall>st \<in> set sts. rs_Success st))"
proof (rule Exec_pool [OF assms(1-3)])
  fix p
  assume p: "pool_reach (\<lambda>i. TStart) (execCommandInPod N (sp_IsDestroy (en_Spec N) ctx) m ids)
      (pool_init (length ids) \<lparr>sh_Statuses = [], sh_Success = True, sh_World = w1\<rparr>) p"
    and r: "rp_Result r = RExp (experiment_status (sh_Statuses (po_Shared p)) (sh_Success (po_Shared p)))"
  have "sh_Success (po_Shared p) = (\<forall>st \<in> set (sh_Statuses (po_Shared p)). rs_Success st)"
    by (rule pool_success [OF p assms(4)]) simp_all
  with r show ?thesis by (intro exI [of _ "sh_Statuses (po_Shared p)"]) (simp only:)
qed

lemma Exec_returns:
  assumes "getIds ctx m w = Some (Inr ids, w1)" "GetExperimentIdFromContext ctx \<noteq> None"
    and "sp_IsDestroy (en_Spec N) ctx \<or> create_answers N ids"
  shows "\<exists>r w'. Exec N getIds sched u ctx m w = Some (r, w')"
proof -
  obtain sh where "ParallelizeExec (\<lambda>i. TStart)
      (execCommandInPod N (sp_IsDestroy (en_Spec N) ctx) m ids) 3 sched (length ids)
      \<lparr>sh_Statuses = [], sh_Success = True, sh_World = w1\<rparr> = Some sh"
    using exec_pool_ends [OF assms(3)] by (metis option.exhaust)
  with assms(1,2) show ?thesis by (auto simp: Exec_def)
qed

text \<open>C25. The execution ends: no interleaving of the goroutines goes on for ever, whatever the commands
  answer; and under every schedule all goroutines leave and \<open>Exec\<close> returns a response, in a destroy always, and
  in a create when each command of this execution that succeeds answers with a uid, a string. (With another
  result the type assertion of \<open>execCommands\<close> panics.)\<close>

theorem exec_ends:
  assumes "getIds ctx m w = Some (Inr ids, w1)" "GetExperimentIdFromContext ctx \<noteq> None"
    and "sp_IsDestroy (en_Spec N) ctx \<or> create_answers N ids"
  shows "wf {(p', p). pool_step (\<lambda>i. TStart) (execCommandInPod N (sp_IsDestroy (en_Spec N) ctx) m ids) p p'} \<and>
    (\<forall>sched. \<exists>r w'. Exec N getIds sched u ctx m w = Some (r, w'))"
  using pods.pool_terminates Exec_returns [where getIds = getIds and ids = ids and ?w1.0 = w1, OF assms] by blast

lemmas pool_run = ParallelizeExec_def pool_init_def maxWorkers_def enabled_def worker_step_def
  pool_final_def run_simps eval_nat_numeral

lemma check_target_error:
  "ei_Error d \<noteq> [] \<Longrightarrow> check_target N m d w =
     (TPush (CreateFailResourceStatus (task_status m d) (ei_Error d) (sp_Code (en_Spec N) K8sExecFailed)) False, w)"
  by (simp add: check_target_def)

text \<open>C39. A failure can be lost: the branch for a target pod that is gone sets the shared flag to true
  without the lock. When one target fails first and the pod of another is gone (its command still
  runs, in the daemonset pod), the experiment reports success although a resource status failed.\<close>

theorem lost_failure:
  assumes "spec_contract (en_Spec N)" "getIds ctx m w = Some (Inr [a, b], w1)"
    and "GetExperimentIdFromContext ctx \<noteq> None"
    and "ei_Error a \<noteq> []" "check_target N m b w1 = (TSkip rs, w2)"
    and "execCommands N (sp_IsDestroy (en_Spec N) ctx) rs b w2 = Some ((True, rs'), w3)"
  shows "\<exists>sched r sts. Exec N getIds sched u ctx m w = Some (r, w3) \<and>
    rp_Result r = RExp (experiment_status sts True) \<and> (\<exists>st \<in> set sts. \<not> rs_Success st)"
proof -
  let ?b = "sp_IsDestroy (en_Spec N) ctx"
  let ?sts = "[CreateFailResourceStatus (task_status m a) (ei_Error a) (sp_Code (en_Spec N) K8sExecFailed), rs']"
  have "ParallelizeExec (\<lambda>i. TStart) (execCommandInPod N ?b m [a, b]) 3 (\<lambda>_. 0) (length [a, b])
      \<lparr>sh_Statuses = [], sh_Success = True, sh_World = w1\<rparr> =
    Some \<lparr>sh_Statuses = ?sts, sh_Success = True, sh_World = w3\<rparr>"
    using assms(5,6) by (simp add: pool_run check_target_error [OF assms(4)])
  then have "Exec N getIds (\<lambda>_. 0) u ctx m w =
      Some (sp_ReturnResultIgnoreCode (en_Spec N) (RExp (experiment_status ?sts True)), w3)"
    using assms(2,3) by (auto simp: Exec_def)
  then show ?thesis by (intro exI conjI) (auto simp: spec_contractD [OF assms(1)])
qed

text \<open>The statuses come in the order in which the goroutines finish, not in the order of the targets:
  for two targets some schedule reports them the other way round. (\<open>checkExperimentStatus\<close> pairs
  the i-th status with the i-th target.)\<close>

theorem statuses_out_of_order:
  assumes "ei_Error a \<noteq> []" "ei_Error b \<noteq> []"
  shows "\<exists>sched sh. ParallelizeExec (\<lambda>i. TStart) (execCommandInPod N isDestroy m [a, b]) 3 sched (length [a, b])
      \<lparr>sh_Statuses = [], sh_Success = True, sh_World = w\<rparr> = Some sh \<and>
    map rs_Identifier (sh_Statuses sh) = [GetIdentifier (ei_Meta b), GetIdentifier (ei_Meta a)]"
proof -
  let ?code = "sp_Code (en_Spec N) K8sExecFailed"
  have "ParallelizeExec (\<lambda>i. TStart) (execCommandInPod N isDestroy m [a, b]) 3
      (\<lambda>t. if t = 0 then 0 else 1) (length [a, b]) \<lparr>sh_Statuses = [], sh_Success = True, sh_World = w\<rparr> =
    Some \<lparr>sh_Statuses = [CreateFailResourceStatus (task_status m b) (ei_Error b) ?code,
        CreateFailResourceStatus (task_status m a) (ei_Error a) ?code],
      sh_Success = False, sh_World = w\<rparr>"
    by (simp add: pool_run check_target_error [OF assms(1)] check_target_error [OF assms(2)])
  then show ?thesis by (intro exI conjI) auto
qed

text \<open>With no identifier nothing runs, and the experiment reports success with an empty list of statuses.\<close>

lemma no_targets_succeed:
  assumes "getIds ctx m w = Some (Inr [], w1)" "GetExperimentIdFromContext ctx \<noteq> None"
  shows "Exec N getIds sched u ctx m w =
    Some (sp_ReturnResultIgnoreCode (en_Spec N) (RExp (CreateSuccessExperimentStatus (Some []))), w1)"
proof -
  have "ParallelizeExec (\<lambda>i. TStart) (execCommandInPod N (sp_IsDestroy (en_Spec N) ctx) m []) 3 sched 0
      \<lparr>sh_Statuses = [], sh_Success = True, sh_World = w1\<rparr> =
    Some \<lparr>sh_Statuses = [], sh_Success = True, sh_World = w1\<rparr>"
    by (simp add: ParallelizeExec_def pool_init_def pool_final_def maxWorkers_def enabled_def eval_nat_numeral)
  with assms show ?thesis
    by (auto simp: Exec_def experiment_status_def CreateSuccessExperimentStatus_def state_defs no_exp_status_def)
qed

subsection \<open>Witnesses\<close>

definition tool_env :: "unit env" where
  "tool_env = sample_env []\<lparr>en_Kube := quiet_kube []\<lparr>k_Stream :=
     \<lambda>r w. (\<lparr>sr_Out = ''ok:7'', sr_Err = [], sr_Error = None\<rparr>, w)\<rparr>\<rparr>"

definition ident_err :: ExperimentIdentifierInPod where
  "ident_err = \<lparr>ei_Meta = meta_c, ei_Command = ''blade'', ei_Error = ''deploy failed'', ei_Code = 0,
     ei_ChaosBladePodName = [], ei_ChaosBladeNamespace = [], ei_ChaosBladeContainerName = []\<rparr>"

definition ident_gone :: ExperimentIdentifierInPod where
  "ident_gone = ident_err\<lparr>ei_Error := [], ei_ChaosBladePodName := ''tool''\<rparr>"

definition ctx_e :: Ctx where "ctx_e = [ExperimentIdKey \<mapsto> CtxStr ''e'']"

definition model_x :: ExpModel where "model_x = ExtractExpModelFromExperimentSpec spec_x"

lemma tool_env_spec [simp]: "en_Spec tool_env = sample_spec"
  by (simp add: tool_env_def sample_env_def)

lemma ctx_e_id [simp]: "GetExperimentIdFromContext ctx_e = Some ''e''"
  by (simp add: ctx_e_def)

lemma ctx_e_create [simp]: "\<not> sp_IsDestroy sample_spec ctx_e"
  by (simp add: ctx_e_def sample_spec_def destroy_key_def ExperimentIdKey_def)

lemma tool_exec_err:
  "\<exists>r. Exec tool_env (\<lambda>c m w. Some (Inr [ident_err], w)) (\<lambda>_. 0) ''e'' ctx_e model_x () = Some (r, ())"
  by (simp add: Exec_def pool_run check_target_def ident_err_def)

lemma ident_err_error [simp]: "ei_Error ident_err \<noteq> []"
  by (simp add: ident_err_def)

lemma exec_one_status_per_target_witness:
  "\<exists>r sts ok. Exec tool_env (\<lambda>c m w. Some (Inr [ident_err], w)) (\<lambda>_. 0) ''e'' ctx_e model_x () = Some (r, ()) \<and>
    rp_Result r = RExp (experiment_status sts ok) \<and>
    mset (map (key (sp_IsDestroy (en_Spec tool_env) ctx_e)) sts) =
    mset (map (target_key (sp_IsDestroy (en_Spec tool_env) ctx_e) model_x) [ident_err])"
proof -
  obtain r where r: "Exec tool_env (\<lambda>c m w. Some (Inr [ident_err], w)) (\<lambda>_. 0) ''e'' ctx_e model_x () = Some (r, ())"
    using tool_exec_err by blast
  have "\<exists>sts ok. rp_Result r = RExp (experiment_status sts ok) \<and>
    mset (map (key (sp_IsDestroy (en_Spec tool_env) ctx_e)) sts) =
    mset (map (target_key (sp_IsDestroy (en_Spec tool_env) ctx_e) model_x) [ident_err])"
    by (rule exec_one_status_per_target [OF _ _ r]) (simp_all add: sample_spec_contract)
  with r show ?thesis by blast
qed

definition full_env :: "unit env" where
  "full_env = tool_env\<lparr>en_Kube := quiet_kube []\<lparr>k_GetPod := \<lambda>ns n w. (Inr no_pod, w)\<rparr>\<rparr>"

lemma exec_success_exact_witness:
  "\<exists>r sts. Exec full_env (\<lambda>c m w. Some (Inr [ident_err], w)) (\<lambda>_. 0) ''e'' ctx_e model_x () = Some (r, ()) \<and>
    rp_Result r = RExp (experiment_status sts (\<forall>st \<in> set sts. rs_Success st))"
proof -
  have "\<exists>r. Exec full_env (\<lambda>c m w. Some (Inr [ident_err], w)) (\<lambda>_. 0) ''e'' ctx_e model_x () = Some (r, ())"
    by (simp add: Exec_def pool_run check_target_error full_env_def)
  then obtain r where r: "Exec full_env (\<lambda>c m w. Some (Inr [ident_err], w)) (\<lambda>_. 0) ''e'' ctx_e model_x () = Some (r, ())"
    by blast
  have "\<exists>sts. rp_Result r = RExp (experiment_status sts (\<forall>st \<in> set sts. rs_Success st))"
    by (rule exec_success_exact [OF _ _ r])
      (simp_all add: sample_spec_contract pods_exist_def full_env_def)
  with r show ?thesis by blast
qed

lemma tool_gone:
  "check_target tool_env model_x ident_gone () = (TSkip ((CreateSuccessResourceStatus
     (task_status model_x ident_gone))\<lparr>rs_Error := ''pod: c in d not found, skip to execute command in it''\<rparr>), ())"
  by (simp add: check_target_def ident_gone_def ident_err_def meta_c_def tool_env_def sample_env_def
      quiet_kube_def IsNotFound_def Let_def)

lemma trim_ok7: "trim_space ''ok:7'' = ''ok:7''"
  by code_simp

lemma tool_runs: "\<exists>rs'. execCommands tool_env False rs ident_gone () = Some ((True, rs'), ())"
  by (simp add: execCommands_def exec_target_def client_Exec_def ident_gone_def tool_env_def sample_env_def
      quiet_kube_def sample_spec_def has_prefix_def trim_ok7 Let_def)

lemma tool_create_answers: "create_answers tool_env [ident_err, ident_gone]"
  by (auto simp: create_answers_def command_answer_def exec_target_def client_Exec_def ident_gone_def ident_err_def
      tool_env_def sample_env_def quiet_kube_def sample_spec_def has_prefix_def trim_ok7 Let_def)

text \<open>A create with a target that failed before and one whose command runs, with two goroutines.\<close>

lemma exec_ends_witness:
  "\<forall>sched. \<exists>r w'. Exec tool_env (\<lambda>c m w. Some (Inr [ident_err, ident_gone], w)) sched ''e'' ctx_e model_x () = Some (r, w')"
  using exec_ends [where N = tool_env and getIds = "\<lambda>c m w. Some (Inr [ident_err, ident_gone], w)" and
      ids = "[ident_err, ident_gone]" and ?w1.0 = "()" and w = "()" and ctx = ctx_e and m = model_x and u = "''e''"]
    tool_create_answers
  by simp

lemma lost_failure_witness:
  "\<exists>sched r sts. Exec tool_env (\<lambda>c m w. Some (Inr [ident_err, ident_gone], w)) sched ''e'' ctx_e model_x () = Some (r, ()) \<and>
    rp_Result r = RExp (experiment_status sts True) \<and> (\<exists>st \<in> set sts. \<not> rs_Success st)"
proof -
  obtain rs' where e: "execCommands tool_env (sp_IsDestroy (en_Spec tool_env) ctx_e)
     ((CreateSuccessResourceStatus (task_status model_x ident_gone))
       \<lparr>rs_Error := ''pod: c in d not found, skip to execute command in it''\<rparr>) ident_gone () = Some ((True, rs'), ())"
    using tool_runs by auto
  show ?thesis
    by (rule lost_failure [OF _ _ _ ident_err_error tool_gone e]) (simp_all add: sample_spec_contract)
qed

definition ident_err2 :: ExperimentIdentifierInPod where
  "ident_err2 = \<lparr>ei_Meta = meta_c\<lparr>cm_PodName := ''x''\<rparr>, ei_Command = ''blade'', ei_Error = ''deploy failed'',
     ei_Code = 0, ei_ChaosBladePodName = [], ei_ChaosBladeNamespace = [], ei_ChaosBladeContainerName = []\<rparr>"

lemma ident_err2_error [simp]: "ei_Error ident_err2 \<noteq> []"
  by (simp add: ident_err2_def)

lemma statuses_out_of_order_witness:
  "\<exists>sched sh. ParallelizeExec (\<lambda>i. TStart) (execCommandInPod tool_env False model_x
      [ident_err, ident_err2]) 3 sched (length [ident_err, ident_err2])
      \<lparr>sh_Statuses = [], sh_Success = True, sh_World = ()\<rparr> = Some sh \<and>
    map rs_Identifier (sh_Statuses sh) = [GetIdentifier (ei_Meta ident_err2), GetIdentifier (ei_Meta ident_err)]"
  by (rule statuses_out_of_order [OF ident_err_error ident_err2_error])

end
