(* ===== verification/GoPath.thy ===== *)
theory GoPath
  imports GoStrings
begin

section \<open>The path package of the Go standard library\<close>

text \<open>
  \<open>path.Clean\<close>, \<open>path.Join\<close>, \<open>path.Dir\<close> and \<open>path.Base\<close>, by their documented rules: repeated
  slashes are one, \<open>.\<close> elements vanish, an inner \<open>..\<close> removes the element before it, \<open>..\<close> at the
  root vanishes, and an empty result is \<open>.\<close>. A path is handled as its list of elements; the
  elements kept so far are a stack, last one first.
\<close>

fun clean_elems :: "bool \<Rightarrow> string list \<Rightarrow> string list \<Rightarrow> string list" where
  "clean_elems rooted st [] = rev st"
| "clean_elems rooted st (e # es) =
     (if e = [] \<or> e = ''.'' then clean_elems rooted st es
      else if e = ''..'' then
        (case st of
           [] \<Rightarrow> if rooted then clean_elems rooted [] es else clean_elems rooted [e] es
         | t # ts \<Rightarrow> if t = ''..'' then clean_elems rooted (e # st) es
                     else clean_elems rooted ts es)
      else clean_elems rooted (e # st) es)"

definition path_clean :: "string \<Rightarrow> string" where
  "path_clean p =
     (if p = [] then ''.''
      else let rooted = has_prefix p ''/'';
               out = (if rooted then ''/'' else []) @ go_join ''/'' (clean_elems rooted [] (go_split CHR ''/'' p))
           in if out = [] then ''.'' else out)"

definition path_join :: "string list \<Rightarrow> string" where
  "path_join es =
     (let ne = filter (\<lambda>e. e \<noteq> []) es in if ne = [] then [] else path_clean (go_join ''/'' ne))"

text \<open>\<open>path.Dir\<close>: everything up to the last slash, cleaned. \<open>path.Base\<close>: the last element.\<close>

definition path_dir :: "string \<Rightarrow> string" where
  "path_dir p = path_clean (rev (dropWhile (\<lambda>c. c \<noteq> CHR ''/'') (rev p)))"

definition path_base :: "string \<Rightarrow> string" where
  "path_base p =
     (if p = [] then ''.''
      else let q = dropWhile (\<lambda>c. c = CHR ''/'') (rev p)
           in if q = [] then ''/'' else rev (takeWhile (\<lambda>c. c \<noteq> CHR ''/'') q))"

text \<open>Elements a clean path is made of.\<close>

definition plain_elem :: "string \<Rightarrow> bool" where
  "plain_elem e \<longleftrightarrow> e \<noteq> [] \<and> e \<noteq> ''.'' \<and> e \<noteq> ''..'' \<and> CHR ''/'' \<notin> set e"

lemma clean_elems_plain:
  "list_all plain_elem es \<Longrightarrow> clean_elems r st es = rev st @ es"
  by (induction es arbitrary: st) (auto simp: plain_elem_def)

lemma clean_elems_append_plain:
  "list_all plain_elem es \<Longrightarrow> clean_elems r st (ds @ es) = clean_elems r st ds @ es"
proof (induction ds arbitrary: st)
  case Nil
  then show ?case by (simp add: clean_elems_plain)
next
  case (Cons d ds)
  then show ?case by (auto split: list.splits)
qed

lemma clean_elems_skip_empty [simp]: "clean_elems r st ([] # es) = clean_elems r st es"
  by simp

lemma go_split_join_slash:
  "es \<noteq> [] \<Longrightarrow> list_all plain_elem es \<Longrightarrow> go_split CHR ''/'' (go_join ''/'' es) = es"
  by (rule go_split_join) (auto simp: list_all_iff plain_elem_def)

lemma go_split_slash: "go_split CHR ''/'' (CHR ''/'' # p) = [] # go_split CHR ''/'' p"
  by simp

text \<open>A rooted path of plain elements is its own clean form.\<close>

definition abs_path :: "string list \<Rightarrow> string" where
  "abs_path es = ''/'' @ go_join ''/'' es"

lemma path_clean_abs: "list_all plain_elem es \<Longrightarrow> path_clean (abs_path es) = abs_path es"
proof (cases "es = []")
  case True
  then show ?thesis by (simp add: path_clean_def abs_path_def has_prefix_def)
next
  case False
  assume "list_all plain_elem es"
  with False show ?thesis
    by (simp add: path_clean_def abs_path_def has_prefix_def go_split_join_slash clean_elems_plain)
qed

lemma go_join_append:
  "xs \<noteq> [] \<Longrightarrow> ys \<noteq> [] \<Longrightarrow> go_join sep (xs @ ys) = go_join sep xs @ sep @ go_join sep ys"
proof (induction xs)
  case Nil
  then show ?case by simp
next
  case (Cons x xs)
  then show ?case
    by (cases xs; cases ys) auto
qed

text \<open>Joining plain elements to a rooted clean path appends them.\<close>

lemma plain_nonempty: "list_all plain_elem es \<Longrightarrow> filter (\<lambda>e. e \<noteq> []) es = es"
  by (induction es) (auto simp: plain_elem_def)

lemma path_join_abs:
  assumes "list_all plain_elem ds" "list_all plain_elem es" "ds \<noteq> []"
  shows "path_join (abs_path ds # es) = abs_path (ds @ es)"
proof (cases "es = []")
  case True
  have "abs_path ds \<noteq> []" by (simp add: abs_path_def)
  with True assms show ?thesis by (simp add: path_join_def path_clean_abs)
next
  case False
  have ne: "filter (\<lambda>e. e \<noteq> []) (abs_path ds # es) = abs_path ds # es"
    using assms by (simp add: plain_nonempty abs_path_def)
  have "go_join ''/'' (abs_path ds # es) = abs_path (ds @ es)"
    using assms False by (cases es) (simp_all add: abs_path_def go_join_append)
  with assms ne show ?thesis
    by (simp add: path_join_def path_clean_abs)
qed

text \<open>Joining a subpath of plain elements, given as one string, appends its elements.\<close>

lemma path_join_subpath:
  assumes "list_all plain_elem ds" "ds \<noteq> []" "list_all plain_elem (e # es)"
  shows "path_join [abs_path ds, go_join ''/'' (e # es)] = abs_path (ds @ e # es)"
proof -
  have "go_join ''/'' (e # es) \<noteq> []" using assms(3) by (cases es) (auto simp: plain_elem_def)
  then have "path_join [abs_path ds, go_join ''/'' (e # es)] = path_clean (abs_path ds @ ''/'' @ go_join ''/'' (e # es))"
    by (simp add: path_join_def abs_path_def)
  also have "abs_path ds @ ''/'' @ go_join ''/'' (e # es) = abs_path (ds @ e # es)"
    using go_join_append [OF assms(2), of "e # es" "''/''"] by (simp add: abs_path_def)
  finally show ?thesis using assms by (simp add: path_clean_abs)
qed

lemma abs_path_inj:
  assumes "list_all plain_elem xs" "list_all plain_elem ys" "xs \<noteq> []" "ys \<noteq> []" "abs_path xs = abs_path ys"
  shows "xs = ys"
proof -
  have "go_join ''/'' xs = go_join ''/'' ys" using assms(5) by (simp add: abs_path_def)
  then show ?thesis
    using go_split_join_slash [OF assms(3,1)] go_split_join_slash [OF assms(4,2)] by metis
qed

text \<open>The same for relative paths, and the directory and the last element of a rooted path.\<close>

lemma plain_join_head:
  assumes "list_all plain_elem es" "es \<noteq> []"
  shows "go_join ''/'' es \<noteq> [] \<and> hd (go_join ''/'' es) \<noteq> CHR ''/''"
proof -
  obtain e fs where es: "es = e # fs" using assms(2) by (cases es) auto
  with assms(1) have e: "e \<noteq> []" "CHR ''/'' \<notin> set e" by (simp_all add: plain_elem_def)
  then obtain x xs where x: "e = x # xs" by (cases e) auto
  with e(2) have "x \<noteq> CHR ''/''" by auto
  moreover have "\<exists>ys. go_join ''/'' es = x # ys" using es x by (cases fs) simp_all
  ultimately show ?thesis by auto
qed

lemma path_clean_rel:
  assumes "list_all plain_elem es" "es \<noteq> []"
  shows "path_clean (go_join ''/'' es) = go_join ''/'' es"
proof -
  have "\<not> has_prefix (go_join ''/'' es) ''/''"
    using plain_join_head [OF assms] by (cases "go_join ''/'' es") (auto simp: has_prefix_def)
  then show ?thesis
    using plain_join_head [OF assms]
    by (simp add: path_clean_def Let_def go_split_join_slash [OF assms(2,1)] clean_elems_plain [OF assms(1)])
qed

lemma path_join_rel:
  assumes "list_all plain_elem es" "es \<noteq> []" "plain_elem e"
  shows "path_join [go_join ''/'' es, e] = go_join ''/'' (es @ [e])"
proof -
  have ne: "e \<noteq> []" using assms(3) by (simp add: plain_elem_def)
  have "path_join [go_join ''/'' es, e] = path_clean (go_join ''/'' es @ ''/'' @ e)"
    using plain_join_head [OF assms(1,2)] ne by (simp add: path_join_def)
  also have "go_join ''/'' es @ ''/'' @ e = go_join ''/'' (es @ [e])"
    using go_join_append [OF assms(2), of "[e]" "''/''"] by simp
  also have "path_clean (go_join ''/'' (es @ [e])) = go_join ''/'' (es @ [e])"
    by (rule path_clean_rel) (use assms in simp_all)
  finally show ?thesis .
qed

lemma abs_path_snoc: "es \<noteq> [] \<Longrightarrow> abs_path (es @ [e]) = abs_path es @ CHR ''/'' # e"
  using go_join_append [of es "[e]" "''/''"] by (simp add: abs_path_def)

lemma slash_cut:
  assumes "CHR ''/'' \<notin> set e"
  shows "rev (dropWhile (\<lambda>c. c \<noteq> CHR ''/'') (rev (p @ CHR ''/'' # e))) = p @ ''/''"
    and "takeWhile (\<lambda>c. c \<noteq> CHR ''/'') (rev (p @ CHR ''/'' # e)) = rev e"
proof -
  have "dropWhile (\<lambda>c. c \<noteq> CHR ''/'') (ds @ CHR ''/'' # q) = CHR ''/'' # q \<and>
      takeWhile (\<lambda>c. c \<noteq> CHR ''/'') (ds @ CHR ''/'' # q) = ds"
    if "CHR ''/'' \<notin> set ds" for ds q using that by (induction ds) auto
  from this [of "rev e" "rev p"] assms
  show "rev (dropWhile (\<lambda>c. c \<noteq> CHR ''/'') (rev (p @ CHR ''/'' # e))) = p @ ''/''"
    and "takeWhile (\<lambda>c. c \<noteq> CHR ''/'') (rev (p @ CHR ''/'' # e)) = rev e"
    by simp_all
qed

lemma path_dir_abs:
  assumes "list_all plain_elem es" "plain_elem e" "es \<noteq> []"
  shows "path_dir (abs_path (es @ [e])) = abs_path es"
proof -
  have e: "CHR ''/'' \<notin> set e" using assms(2) by (simp add: plain_elem_def)
  have "path_dir (abs_path (es @ [e])) = path_clean (abs_path es @ ''/'')"
    unfolding path_dir_def abs_path_snoc [OF assms(3)] slash_cut(1) [OF e] ..
  also have "\<dots> = abs_path es"
  proof -
    have "go_split CHR ''/'' (go_join ''/'' es @ ''/'') = es @ [[]]"
      using go_split_append [of "CHR ''/''" "go_join ''/'' es" "[]"] by (simp add: go_split_join_slash [OF assms(3,1)])
    moreover have "clean_elems True [] (es @ [[]]) = es"
    proof -
      have "clean_elems True st (ds @ [[]]) = clean_elems True st ds" for st ds
        by (induction ds arbitrary: st) (simp_all split: list.split)
      then show ?thesis by (simp add: clean_elems_plain [OF assms(1)])
    qed
    ultimately show ?thesis by (simp add: path_clean_def Let_def abs_path_def has_prefix_def)
  qed
  finally show ?thesis .
qed

lemma path_base_abs:
  assumes "plain_elem e" "es \<noteq> []"
  shows "path_base (abs_path (es @ [e])) = e"
proof -
  have e: "CHR ''/'' \<notin> set e" "e \<noteq> []" using assms(1) by (simp_all add: plain_elem_def)
  then have "hd (rev e) \<noteq> CHR ''/''" by (metis hd_in_set rev_is_Nil_conv set_rev)
  then have "dropWhile (\<lambda>c. c = CHR ''/'') (rev (abs_path es @ CHR ''/'' # e)) = rev (abs_path es @ CHR ''/'' # e)"
    using e(2) by (cases "rev e") auto
  then show ?thesis
    using slash_cut(2) [OF e(1), of "abs_path es"]
    by (simp add: path_base_def Let_def abs_path_snoc [OF assms(2)])
qed

text \<open>A clean path has no trailing slash, the root apart.\<close>

definition path_part :: "string \<Rightarrow> bool" where
  "path_part e \<longleftrightarrow> e \<noteq> [] \<and> CHR ''/'' \<notin> set e"

lemma clean_elems_parts:
  "list_all path_part st \<Longrightarrow> \<forall>e \<in> set es. CHR ''/'' \<notin> set e \<Longrightarrow> list_all path_part (clean_elems r st es)"
proof (induction es arbitrary: r st)
  case Nil
  then show ?case by (simp add: list_all_iff)
next
  case (Cons e es)
  show ?case
  proof (cases "e = [] \<or> e = ''.''")
    case True
    with Cons show ?thesis by simp
  next
    case False
    then have e: "path_part e" using Cons.prems by (simp add: path_part_def)
    have es: "\<forall>e \<in> set es. CHR ''/'' \<notin> set e" using Cons.prems by simp
    note IH = Cons.IH [OF _ es]
    show ?thesis
    proof (cases st)
      case Nil
      with False e IH [of "[]"] IH [of "[e]"] show ?thesis by (cases "e = ''..''") auto
    next
      case (Cons t ts)
      with False e Cons.prems IH [of "e # st"] IH [of ts] show ?thesis by (cases "e = ''..''") auto
    qed
  qed
qed

lemma last_go_join:
  "xs \<noteq> [] \<Longrightarrow> last xs \<noteq> [] \<Longrightarrow> last (go_join sep xs) = last (last xs) \<and> go_join sep xs \<noteq> []"
proof (induction xs)
  case (Cons x xs)
  then show ?case by (cases xs) auto
qed simp

lemma path_clean_last: "path_clean p = ''/'' \<or> last (path_clean p) \<noteq> CHR ''/''"
proof (cases "p = []")
  case True
  then show ?thesis by (simp add: path_clean_def)
next
  case False
  let ?es = "clean_elems (has_prefix p ''/'') [] (go_split CHR ''/'' p)"
  have parts: "list_all path_part ?es"
    by (rule clean_elems_parts) (auto dest: go_split_parts)
  show ?thesis
  proof (cases "?es = []")
    case True
    with False show ?thesis by (simp add: path_clean_def Let_def)
  next
    case ne: False
    with parts have "last ?es \<noteq> [] \<and> CHR ''/'' \<notin> set (last ?es)"
      by (metis last_in_set list_all_iff path_part_def)
    then have "last (go_join ''/'' ?es) \<noteq> CHR ''/''" "go_join ''/'' ?es \<noteq> []"
      using last_go_join [OF ne, of "''/''"] by (metis last_in_set)+
    with False show ?thesis by (simp add: path_clean_def Let_def)
  qed
qed

lemma path_join_last: "path_join es = [] \<or> path_join es = ''/'' \<or> last (path_join es) \<noteq> CHR ''/''"
  using path_clean_last by (simp add: path_join_def Let_def)

end
