(* ===== verification/Deploy.thy ===== *)
theory Deploy
  imports Client Flags GoPath
begin

section \<open>Deploying the tool into a target container (exec/model/deploy.go, copy.go, download.go)\<close>

text \<open>
  Before a command runs in a target container, \<open>deployChaosBlade\<close> makes sure that the directory, the
  blade binary, the yaml files, the \<open>chaos_os\<close> program and the programs of the action are there. A
  file is brought by one of two modes with the same interface: a tar stream from the operator's own
  image, or a download inside the container. The interface is the locale \<open>deploy_mode\<close>.

  A tar stream is modelled by its source and destination path; the archive made of them is in theory \<open>Tar\<close>.
\<close>

subsection \<open>Paths (pkg/runtime/chaosblade/chaosblade.go, executor.go)\<close>

definition OperatorChaosBladePath :: string where "OperatorChaosBladePath = ''/opt/chaosblade''"
definition OperatorChaosBladeBin :: string where "OperatorChaosBladeBin = ''/opt/chaosblade/bin''"
definition OperatorChaosBladeLib :: string where "OperatorChaosBladeLib = ''/opt/chaosblade/lib''"
definition OperatorChaosBladeYaml :: string where "OperatorChaosBladeYaml = ''/opt/chaosblade/yaml''"
definition OperatorChaosBladeBlade :: string where "OperatorChaosBladeBlade = ''/opt/chaosblade/blade''"


definition getTargetChaosBladePath :: "ExpModel \<Rightarrow> string" where
  "getTargetChaosBladePath m =
     (let chaosbladePath = mget (em_ActionFlags m) ChaosBladePathFlag
      in if chaosbladePath = [] then OperatorChaosBladePath
         else path_join [chaosbladePath, ''chaosblade''])"

definition getTargetChaosBladeBin :: "ExpModel \<Rightarrow> string" where
  "getTargetChaosBladeBin m = path_join [getTargetChaosBladePath m, ''blade'']"

subsection \<open>DeployOptions\<close>

record DeployOptions =
  do_Container :: string
  do_Namespace :: string
  do_PodName :: string

definition deploy_request :: "DeployOptions \<Rightarrow> string list \<Rightarrow> (string \<times> string) option \<Rightarrow> ExecRequest" where
  "deploy_request o' command stdin =
     \<lparr>er_PodName = do_PodName o', er_PodNamespace = do_Namespace o', er_ContainerName = do_Container o',
      er_Command = command, er_Stdin = stdin\<rparr>"

type_synonym 'w deploy_step = "'w \<Rightarrow> GoErr option \<times> 'w"

definition CheckFileExists :: "'w kube \<Rightarrow> DeployOptions \<Rightarrow> string \<Rightarrow> 'w deploy_step" where
  "CheckFileExists K o' dest w =
     client_Exec K (deploy_request o' [''test'', ''-e'', dest] None) True
       (\<lambda>bytes. Some (ErrNew bytes)) (\<lambda>bytes. None) w"

definition CreateDir :: "'w kube \<Rightarrow> DeployOptions \<Rightarrow> string \<Rightarrow> 'w deploy_step" where
  "CreateDir K o' dir w =
     (if dir = [] then (Some (ErrNew ''illegal directory name''), w)
      else client_Exec K (deploy_request o' [''mkdir'', ''-p'', dir] None) True
             (\<lambda>bytes. Some (ErrNew bytes)) (\<lambda>bytes. None) w)"

subsection \<open>Copy mode (copy.go)\<close>

definition copy_execute :: "'w kube \<Rightarrow> DeployOptions \<Rightarrow> ExecRequest \<Rightarrow> 'w deploy_step" where
  "copy_execute K o' req w =
     (let req = (if er_PodNamespace req = [] then req\<lparr>er_PodNamespace := do_Namespace o'\<rparr> else req);
          req = (if do_Container o' \<noteq> [] then req\<lparr>er_ContainerName := do_Container o'\<rparr> else req)
      in client_Exec K req True (\<lambda>bytes. Some (ErrNew bytes)) (\<lambda>bytes. None) w)"

definition strip_slash :: "string \<Rightarrow> string" where
  "strip_slash dest = (if dest \<noteq> ''/'' \<and> last dest = CHR ''/'' then butlast dest else dest)"

definition copy_DeployToPod :: "'w kube \<Rightarrow> DeployOptions \<Rightarrow> string \<Rightarrow> string \<Rightarrow> 'w deploy_step" where
  "copy_DeployToPod K o' src dest w =
     (if src = [] \<or> dest = [] then (Some (ErrNew ''filepath can not be empty''), w)
      else let dest = strip_slash dest;
               cmdArr = [''tar'', ''--no-same-permissions'', ''--no-same-owner'', ''-xmf'', ''-''];
               destDir = path_dir dest;
               cmdArr = (if destDir \<noteq> [] then cmdArr @ [''-C'', destDir] else cmdArr)
           in copy_execute K o' (deploy_request o' cmdArr (Some (src, dest))) w)"

subsection \<open>Download mode (download.go)\<close>

definition download_getUrl :: "string \<Rightarrow> string \<Rightarrow> string" where
  "download_getUrl url srcFile =
     (let obj = (if srcFile = OperatorChaosBladeBlade then ''blade''
                 else if srcFile = OperatorChaosBladeYaml then ''yaml.tar.gz''
                 else if srcFile = OperatorChaosBladeLib then ''lib.tar.gz''
                 else trim_prefix srcFile (OperatorChaosBladePath @ ''/''))
      in url @ ''/'' @ obj)"

definition uncompress :: "'w kube \<Rightarrow> DeployOptions \<Rightarrow> string \<Rightarrow> 'w deploy_step" where
  "uncompress K o' file w =
     (let dir = path_dir file;
          command = [''/bin/sh'', ''-c'', ''tar -zxf '' @ file @ '' -C '' @ dir @ '' && chmod -R 755 '' @ dir];
          (r, w1) = client_Exec K (deploy_request o' command None) True Some Some w
      in (map_option ErrNew r, w1))"

definition curl_command :: "string \<Rightarrow> string \<Rightarrow> string list" where
  "curl_command dest url =
     [''sh'', ''-c'', ''curl -s -L -w %{http_code} '' @ ''-o '' @ dest @ '' '' @ url @ '' && chmod 755 '' @ dest]"

definition is_archive :: "string \<Rightarrow> bool" where
  "is_archive url = has_suffix url ''tar.gz''"

text \<open>
  \<open>Exec(\<dots>).(string)\<close> cannot panic: with \<open>IgnoreOutput\<close> off and these decoders there is always a
  string; the model takes the empty string otherwise, and \<open>curl_answers\<close> shows that it never does.
\<close>

definition download_DeployToPod ::
  "string \<Rightarrow> 'w kube \<Rightarrow> DeployOptions \<Rightarrow> string \<Rightarrow> string \<Rightarrow> 'w deploy_step" where
  "download_DeployToPod base K o' src dest w =
     (if src = [] then (Some (ErrNew ''the chaosblade downloaded address is empty''), w)
      else let url = download_getUrl base src;
               dest = (if is_archive url then dest @ ''.'' @ ''tar.gz'' else dest);
               (r, w1) = client_Exec K (deploy_request o' (curl_command dest url) None) False Some Some w;
               statusCode = (case r of Some s \<Rightarrow> s | None \<Rightarrow> [])
           in (case atoi (trim_space statusCode) of
                 Inl err \<Rightarrow> (Some (ErrNew statusCode), w1)
               | Inr code \<Rightarrow>
                   if code \<noteq> 200 then (Some (ErrNew (''response code is '' @ show_int code)), w1)
                   else if is_archive url then uncompress K o' dest w1
                   else (None, w1)))"

lemma curl_answers: "fst (client_Exec K req False Some Some w) \<noteq> None"
  by (simp add: client_Exec_def Let_def split_beta split: option.splits)

subsection \<open>Choosing the mode (getDeployMode)\<close>

datatype DeployMode = CopyOptions DeployOptions | DownloadOptions DeployOptions string

definition getDeployMode :: "string \<Rightarrow> DeployOptions \<Rightarrow> ExpModel \<Rightarrow> GoErr + DeployMode" where
  "getDeployMode DownloadUrl o' m =
     (let mode = mget (em_ActionFlags m) ChaosBladeDeployModeFlag;
          url = mget (em_ActionFlags m) ChaosBladeDownloadUrlFlag
      in if mode = CopyMode then Inr (CopyOptions o')
         else if mode = DownloadMode then
           (let url = (if url = [] then DownloadUrl else url)
            in if url = [] then Inl (ErrNew ''must config the chaosblade-download-url flag'')
               else Inr (DownloadOptions o' url))
         else Inr (CopyOptions o'))"

definition DeployToPod :: "'w kube \<Rightarrow> DeployMode \<Rightarrow> string \<Rightarrow> string \<Rightarrow> 'w deploy_step" where
  "DeployToPod K d src dest w =
     (case d of
        CopyOptions o' \<Rightarrow> copy_DeployToPod K o' src dest w
      | DownloadOptions o' url \<Rightarrow> download_DeployToPod url K o' src dest w)"

subsection \<open>deployChaosBlade (executor_copy.go)\<close>

text \<open>One file, brought by the method \<open>deploy\<close> of the chosen mode: unless \<open>override\<close> asks for it anyway,
  a file that exists is left alone.\<close>

definition deploy_file ::
  "'w kube \<Rightarrow> DeployOptions \<Rightarrow> (string \<Rightarrow> string \<Rightarrow> 'w deploy_step) \<Rightarrow> bool \<Rightarrow> string \<Rightarrow> string \<Rightarrow>
     'w deploy_step" where
  "deploy_file K o' deploy override src dest w =
     (if override then deploy src dest w
      else (case CheckFileExists K o' dest w of
              (None, w1) \<Rightarrow> (None, w1)
            | (Some e, w1) \<Rightarrow> deploy src dest w1))"

text \<open>Source and destination of a program of the action.\<close>

definition program_files :: "string \<Rightarrow> string \<Rightarrow> string \<times> string" where
  "program_files chaosBladePath program =
     (if program = ''java'' then (OperatorChaosBladeLib, path_join [chaosBladePath, ''lib''])
      else (path_join [OperatorChaosBladeBin, program], path_join [chaosBladePath, ''bin'', program]))"

fun deploy_programs ::
  "'w kube \<Rightarrow> DeployOptions \<Rightarrow> (string \<Rightarrow> string \<Rightarrow> 'w deploy_step) \<Rightarrow> bool \<Rightarrow> string \<Rightarrow>
     string list \<Rightarrow> 'w deploy_step" where
  "deploy_programs K o' deploy override path [] w = (None, w)"
| "deploy_programs K o' deploy override path (p # ps) w =
     (let (src, dest) = program_files path p
      in case deploy_file K o' deploy override src dest w of
           (None, w1) \<Rightarrow> deploy_programs K o' deploy override path ps w1
         | (Some e, w1) \<Rightarrow> (Some e, w1))"

definition deploy_target :: "ContainerObjectMeta \<Rightarrow> DeployOptions" where
  "deploy_target obj = \<lparr>do_Container = cm_ContainerName obj, do_Namespace = cm_Namespace obj,
     do_PodName = cm_PodName obj\<rparr>"

definition ensure_dir :: "'w kube \<Rightarrow> DeployOptions \<Rightarrow> string \<Rightarrow> 'w deploy_step" where
  "ensure_dir K o' dir w =
     (case CheckFileExists K o' dir w of
        (None, w1) \<Rightarrow> (None, w1)
      | (Some e, w1) \<Rightarrow> CreateDir K o' dir w1)"

text \<open>\<open>if err := ...; err != nil { return ... }\<close>: the response for the error, or the rest.\<close>

definition on_error ::
  "GoErr option \<times> 'w \<Rightarrow> (GoErr \<Rightarrow> Response) \<Rightarrow> ('w \<Rightarrow> Response \<times> 'w) \<Rightarrow> Response \<times> 'w" where
  "on_error r fail rest = (case r of (Some e, w) \<Rightarrow> (fail e, w) | (None, w) \<Rightarrow> rest w)"

definition deployChaosBlade ::
  "spec_lib \<Rightarrow> 'w kube \<Rightarrow> string \<Rightarrow> ExpModel \<Rightarrow> ContainerObjectMeta \<Rightarrow> bool \<Rightarrow> 'w \<Rightarrow> Response \<times> 'w" where
  "deployChaosBlade S K DownloadUrl m obj override w =
     (let chaosBladePath = getTargetChaosBladePath m;
          o' = deploy_target obj;
          chaosBladeBinPath = path_join [chaosBladePath, ''bin''];
          bladePath = path_join [chaosBladePath, ''blade''];
          yamlPath = path_join [chaosBladePath, ''yaml''];
          chaosOSPath = path_join [chaosBladePath, ''bin'', ''chaos_os'']
      in case getDeployMode DownloadUrl o' m of
           Inl err \<Rightarrow> (sp_FailWithFlags S ParameterLess [FStr ChaosBladeDownloadUrlFlag], w)
         | Inr d \<Rightarrow>
             on_error (ensure_dir K o' chaosBladeBinPath w)
               (\<lambda>e. sp_FailWithFlags S ParameterInvalidBladePathError
                  [FStr ChaosBladePathFlag, FStr chaosBladeBinPath, FErr e])
               (\<lambda>w. on_error (deploy_file K o' (DeployToPod K d) override OperatorChaosBladeBlade bladePath w)
                 (\<lambda>e. sp_FailWithFlags S DeployChaosBladeFailed [FStr bladePath, FErr e])
                 (\<lambda>w. on_error (deploy_file K o' (DeployToPod K d) override OperatorChaosBladeYaml yamlPath w)
                   (\<lambda>e. sp_FailWithFlags S DeployChaosBladeFailed [FStr yamlPath, FErr e])
                   (\<lambda>w. on_error (deploy_file K o' (DeployToPod K d) override
                            (path_join [OperatorChaosBladeBin, ''chaos_os'']) chaosOSPath w)
                     (\<lambda>e. sp_FailWithFlags S DeployChaosBladeFailed [FStr chaosOSPath, FErr e])
                     (\<lambda>w. on_error (deploy_programs K o' (DeployToPod K d) override chaosBladePath
                              (em_ActionPrograms m) w)
                       (\<lambda>e. sp_FailWithFlags S K8sExecFailed [FStr ''copyToPod'', FErr e])
                       (\<lambda>w. (sp_Success S, w)))))))"

lemma on_error_frame:
  "P (snd r) \<Longrightarrow> (\<And>w. P w \<Longrightarrow> P (snd (rest w))) \<Longrightarrow> P (snd (on_error r fail rest))"
  by (auto simp: on_error_def split: prod.splits option.splits)


subsection \<open>The interface of the deployment modes\<close>

text \<open>
  Requests a deployment may send go to the target container. \<open>stable\<close> says that a set of worlds is
  closed under them; \<open>files\<close> is the set of paths that exist in the container.
\<close>

definition to_target :: "DeployOptions \<Rightarrow> ExecRequest \<Rightarrow> bool" where
  "to_target o' req \<longleftrightarrow> er_PodName req = do_PodName o' \<and> er_PodNamespace req = do_Namespace o' \<and>
     er_ContainerName req = do_Container o'"

definition stable :: "'w kube \<Rightarrow> DeployOptions \<Rightarrow> ('w \<Rightarrow> bool) \<Rightarrow> bool" where
  "stable K o' P \<longleftrightarrow> (\<forall>req w. to_target o' req \<longrightarrow> P w \<longrightarrow> P (snd (k_Stream K req w)))"

lemma stableD: "stable K o' P \<Longrightarrow> to_target o' req \<Longrightarrow> P w \<Longrightarrow> P (snd (k_Stream K req w))"
  by (simp add: stable_def)

lemma to_target_request [simp]: "to_target o' (deploy_request o' c i)"
  by (simp add: to_target_def deploy_request_def)

text \<open>A stream that ends with nothing on stderr and no error.\<close>

definition clean_result :: "StreamResult \<Rightarrow> bool" where
  "clean_result r \<longleftrightarrow> trim_space (sr_Err r) = [] \<and> sr_Error r = None"

text \<open>
  What a container does with the requests: files stay, \<open>test -e\<close> succeeds on existing files only,
  a download that answers 200 leaves its file, and \<open>tar\<close> unpacks the stream in the directory after \<open>-C\<close>: the
  entries of an archive made for \<open>dest\<close> begin with the last element of \<open>dest\<close>. \<open>img\<close> are the sources in the
  operator's image whose archives are made without an error and are not empty; of others nothing is said
  (the code ignores the errors of the archive, and a missing source gives an empty one, see theory \<open>Tar\<close>).
\<close>

definition test_law :: "'w kube \<Rightarrow> DeployOptions \<Rightarrow> ('w \<Rightarrow> string set) \<Rightarrow> bool" where
  "test_law K o' files \<longleftrightarrow> (\<forall>dest w.
     clean_result (fst (k_Stream K (deploy_request o' [''test'', ''-e'', dest] None) w)) \<longrightarrow> dest \<in> files w)"

definition keep_law :: "'w kube \<Rightarrow> DeployOptions \<Rightarrow> ('w \<Rightarrow> string set) \<Rightarrow> bool" where
  "keep_law K o' files \<longleftrightarrow> (\<forall>p. stable K o' (\<lambda>w. p \<in> files w))"

definition tar_command :: "string \<Rightarrow> string list" where
  "tar_command dir = [''tar'', ''--no-same-permissions'', ''--no-same-owner'', ''-xmf'', ''-'', ''-C'', dir]"

definition tar_law :: "'w kube \<Rightarrow> DeployOptions \<Rightarrow> string set \<Rightarrow> ('w \<Rightarrow> string set) \<Rightarrow> bool" where
  "tar_law K o' img files \<longleftrightarrow> (\<forall>src dest dir w r w'.
     k_Stream K (deploy_request o' (tar_command dir) (Some (src, dest))) w = (r, w') \<longrightarrow>
     clean_result r \<longrightarrow> src \<in> img \<longrightarrow> path_join [dir, path_base dest] \<in> files w')"

definition curl_law :: "'w kube \<Rightarrow> DeployOptions \<Rightarrow> ('w \<Rightarrow> string set) \<Rightarrow> bool" where
  "curl_law K o' files \<longleftrightarrow> (\<forall>dest url w s w'.
     client_Exec K (deploy_request o' (curl_command dest url) None) False Some Some w = (Some s, w') \<longrightarrow>
     atoi (trim_space s) = Inr 200 \<longrightarrow> dest \<in> files w')"

definition container_laws :: "'w kube \<Rightarrow> DeployOptions \<Rightarrow> string set \<Rightarrow> ('w \<Rightarrow> string set) \<Rightarrow> bool" where
  "container_laws K o' img files \<longleftrightarrow>
     test_law K o' files \<and> keep_law K o' files \<and> tar_law K o' img files \<and> curl_law K o' files"

locale deploy_mode =
  fixes K :: "'w kube" and o' :: DeployOptions
    and deploy :: "string \<Rightarrow> string \<Rightarrow> 'w deploy_step"
    and delivers :: "string set \<Rightarrow> string \<Rightarrow> string \<Rightarrow> bool"
  assumes refuses_empty: "\<exists>e. deploy [] dest w = (Some e, w)"
    and frame: "stable K o' P \<Longrightarrow> P w \<Longrightarrow> P (snd (deploy src dest w))"
    and puts: "container_laws K o' img files \<Longrightarrow> delivers img src dest \<Longrightarrow> deploy src dest w = (None, w') \<Longrightarrow>
      dest \<in> files w'"
begin

lemma check_frame: "stable K o' P \<Longrightarrow> P w \<Longrightarrow> P (snd (CheckFileExists K o' dest w))"
  by (simp add: CheckFileExists_def stableD)

lemma dir_frame: "stable K o' P \<Longrightarrow> P w \<Longrightarrow> P (snd (CreateDir K o' dest w))"
  by (simp add: CreateDir_def stableD)

lemma ensure_frame: "stable K o' P \<Longrightarrow> P w \<Longrightarrow> P (snd (ensure_dir K o' dest w))"
  using check_frame [of P w dest] dir_frame [of P _ dest]
  by (auto simp: ensure_dir_def split: prod.splits option.splits)

lemma file_frame: "stable K o' P \<Longrightarrow> P w \<Longrightarrow> P (snd (deploy_file K o' deploy ov src dest w))"
  using check_frame [of P w dest] frame [of P _ src dest]
  by (auto simp: deploy_file_def split: prod.splits option.splits)

lemma programs_frame:
  "stable K o' P \<Longrightarrow> P w \<Longrightarrow> P (snd (deploy_programs K o' deploy ov path ps w))"
proof (induction ps arbitrary: w)
  case (Cons p ps)
  obtain src dest where "program_files path p = (src, dest)" by (cases "program_files path p")
  then show ?case
    using file_frame [OF Cons.prems, of ov src dest] Cons.IH [OF Cons.prems(1)]
    by (auto split: prod.splits option.splits)
qed simp

text \<open>A file step that succeeds leaves the file, and later steps keep it.\<close>

lemma file_puts:
  assumes L: "container_laws K o' img files" and "delivers img src dest"
    and r: "deploy_file K o' deploy ov src dest w = (None, w')"
  shows "dest \<in> files w'"
proof (cases ov)
  case True
  with r show ?thesis using puts [OF L assms(2)] by (simp add: deploy_file_def)
next
  case False
  obtain e w1 where c: "CheckFileExists K o' dest w = (e, w1)" by (cases "CheckFileExists K o' dest w")
  show ?thesis
  proof (cases e)
    case None
    with c have "clean_result (fst (k_Stream K (deploy_request o' [''test'', ''-e'', dest] None) w))"
      using client_Exec_None [of K _ ErrNew w] by (simp add: CheckFileExists_def clean_result_def) (metis fst_conv)
    then have "dest \<in> files w" using L by (auto simp: container_laws_def test_law_def)
    then have "dest \<in> files w1"
      using check_frame [of "\<lambda>w. dest \<in> files w" w dest] L c by (simp add: container_laws_def keep_law_def)
    with r False None c show ?thesis by (simp add: deploy_file_def)
  next
    case (Some x)
    with r False c show ?thesis using puts [OF L assms(2)] by (simp add: deploy_file_def)
  qed
qed

lemma keeps_files:
  "container_laws K o' img files \<Longrightarrow> stable K o' (\<lambda>w. p \<in> files w)"
  by (simp add: container_laws_def keep_law_def)

lemma programs_put:
  assumes L: "container_laws K o' img files"
  shows "deploy_programs K o' deploy ov path ps w = (None, w') \<Longrightarrow>
    p \<in> set ps \<Longrightarrow> program_files path p = (src, dest) \<Longrightarrow> delivers img src dest \<Longrightarrow> dest \<in> files w'"
proof (induction ps arbitrary: w)
  case (Cons q ps)
  obtain s t where q: "program_files path q = (s, t)" by (cases "program_files path q")
  with Cons.prems(1) obtain w1 where f: "deploy_file K o' deploy ov s t w = (None, w1)"
    and r: "deploy_programs K o' deploy ov path ps w1 = (None, w')"
    by (auto split: prod.splits option.splits)
  show ?case
  proof (cases "p = q")
    case True
    with q Cons.prems(3,4) f have "dest \<in> files w1" using file_puts [OF L] by simp
    with programs_frame [OF keeps_files [OF L], of dest w1 ov path ps] r show ?thesis by simp
  next
    case False
    with Cons show ?thesis using r by simp
  qed
qed simp

end

text \<open>A rooted path of plain elements below a directory other than the root.\<close>

definition rooted :: "string \<Rightarrow> bool" where
  "rooted p \<longleftrightarrow> (\<exists>ds e. p = abs_path (ds @ [e]) \<and> list_all plain_elem (ds @ [e]) \<and> ds \<noteq> [])"

lemma rooted_split:
  assumes "rooted p"
  shows "strip_slash p = p" "path_dir p \<noteq> []" "path_join [path_dir p, path_base p] = p"
proof -
  from assms obtain ds e where p: "p = abs_path (ds @ [e])" "list_all plain_elem ds" "plain_elem e" "ds \<noteq> []"
    by (auto simp: rooted_def)
  have "path_clean p = p" using p by (simp add: path_clean_abs)
  then show "strip_slash p = p" using path_clean_last [of p] by (auto simp: strip_slash_def)
  show "path_dir p \<noteq> []" using p by (simp add: path_dir_abs) (simp add: abs_path_def)
  show "path_join [path_dir p, path_base p] = p"
    using p by (simp add: path_dir_abs path_base_abs path_join_abs)
qed

definition copy_delivers :: "string set \<Rightarrow> string \<Rightarrow> string \<Rightarrow> bool" where
  "copy_delivers img src dest \<longleftrightarrow> src \<in> img \<and> rooted dest"

definition download_delivers :: "string \<Rightarrow> string set \<Rightarrow> string \<Rightarrow> string \<Rightarrow> bool" where
  "download_delivers base img src dest \<longleftrightarrow> \<not> is_archive (download_getUrl base src)"

lemma copy_execute_request [simp]:
  "copy_execute K o' (deploy_request o' c i) w =
     client_Exec K (deploy_request o' c i) True (\<lambda>bytes. Some (ErrNew bytes)) (\<lambda>bytes. None) w"
  by (auto simp: copy_execute_def deploy_request_def Let_def)

interpretation copy: deploy_mode K o' "copy_DeployToPod K o'" copy_delivers
proof unfold_locales
  fix dest w
  show "\<exists>e. copy_DeployToPod K o' [] dest w = (Some e, w)" by (simp add: copy_DeployToPod_def)
next
  fix P w src dest
  assume "stable K o' P" "P w"
  then show "P (snd (copy_DeployToPod K o' src dest w))"
    by (auto simp: copy_DeployToPod_def Let_def stableD)
next
  fix img files src dest w w'
  assume L: "container_laws K o' img files" and d: "copy_delivers img src dest"
    and r: "copy_DeployToPod K o' src dest w = (None, w')"
  from d have root: "src \<in> img" "rooted dest" by (simp_all add: copy_delivers_def)
  let ?req = "deploy_request o' (tar_command (path_dir dest)) (Some (src, dest))"
  from r rooted_split(1,2) [OF root(2)]
  have e: "client_Exec K ?req True (\<lambda>bytes. Some (ErrNew bytes)) (\<lambda>bytes. None) w = (None, w')"
    by (auto simp: copy_DeployToPod_def tar_command_def Let_def split: if_splits)
  have "clean_result (fst (k_Stream K ?req w))"
    using e client_Exec_None [of K ?req ErrNew w] by (simp add: clean_result_def)
  moreover have "snd (k_Stream K ?req w) = w'" using e client_Exec_world [of K ?req True] by (metis snd_conv)
  ultimately have "path_join [path_dir dest, path_base dest] \<in> files w'"
    using L root(1) unfolding container_laws_def tar_law_def by (metis prod.collapse)
  then show "dest \<in> files w'" by (simp add: rooted_split(3) [OF root(2)])
qed

lemma uncompress_frame: "stable K o' P \<Longrightarrow> P w \<Longrightarrow> P (snd (uncompress K o' file w))"
  by (simp add: uncompress_def Let_def split_beta stableD)

interpretation download: deploy_mode K o' "download_DeployToPod base K o'" "download_delivers base"
proof unfold_locales
  fix dest w
  show "\<exists>e. download_DeployToPod base K o' [] dest w = (Some e, w)" by (simp add: download_DeployToPod_def)
next
  fix P w src dest
  assume S: "stable K o' P" and P: "P w"
  have "P (snd (client_Exec K (deploy_request o' c None) False Some Some w))" for c
    using S P by (simp add: stableD)
  then show "P (snd (download_DeployToPod base K o' src dest w))"
    using P uncompress_frame [OF S]
    by (auto simp: download_DeployToPod_def Let_def split_beta split: sum.splits)
next
  fix img files src dest w w'
  assume L: "container_laws K o' img files" and d: "download_delivers base img src dest"
    and r: "download_DeployToPod base K o' src dest w = (None, w')"
  let ?req = "deploy_request o' (curl_command dest (download_getUrl base src)) None"
  obtain s w1 where e: "client_Exec K ?req False Some Some w = (Some s, w1)"
    using curl_answers [of K ?req w] by (metis option.exhaust prod.collapse)
  from r d e have "atoi (trim_space s) = Inr 200 \<and> w1 = w'"
    by (auto simp: download_DeployToPod_def download_delivers_def Let_def split: if_splits sum.splits)
  with e L show "dest \<in> files w'" unfolding container_laws_def curl_law_def by blast
qed

definition mode_delivers :: "DeployMode \<Rightarrow> string set \<Rightarrow> string \<Rightarrow> string \<Rightarrow> bool" where
  "mode_delivers d = (case d of CopyOptions o' \<Rightarrow> copy_delivers | DownloadOptions o' url \<Rightarrow> download_delivers url)"

lemma mode_is_deploy_mode:
  assumes "getDeployMode u o' m = Inr d"
  shows "deploy_mode K o' (DeployToPod K d) (mode_delivers d)"
proof -
  from assms consider "d = CopyOptions o'" | url where "d = DownloadOptions o' url"
    by (auto simp: getDeployMode_def Let_def split: if_splits)
  then show ?thesis
  proof cases
    case 1
    then have "DeployToPod K d = copy_DeployToPod K o'" "mode_delivers d = copy_delivers"
      by (auto simp: DeployToPod_def mode_delivers_def fun_eq_iff)
    then show ?thesis using copy.deploy_mode_axioms by simp
  next
    case 2
    then have "DeployToPod K d = download_DeployToPod url K o'" "mode_delivers d = download_delivers url"
      by (auto simp: DeployToPod_def mode_delivers_def fun_eq_iff)
    then show ?thesis using download.deploy_mode_axioms by simp
  qed
qed

subsection \<open>What a deployment leaves\<close>






lemma deployChaosBlade_frame:
  assumes "stable K (deploy_target obj) P" "P w"
  shows "P (snd (deployChaosBlade S K u m obj ov w))"
proof (cases "getDeployMode u (deploy_target obj) m")
  case (Inl e)
  with assms show ?thesis by (simp add: deployChaosBlade_def Let_def)
next
  case (Inr d)
  note M = mode_is_deploy_mode [OF Inr]
  show ?thesis unfolding deployChaosBlade_def Let_def Inr sum.case
    by (intro on_error_frame [where P = P] deploy_mode.ensure_frame [OF M assms(1)]
        deploy_mode.file_frame [OF M assms(1)] deploy_mode.programs_frame [OF M assms(1)])
      (simp_all add: assms(2))
qed

text \<open>C34. A deployment sends nothing to any other container: whatever the requests to the target
  preserve, the whole deployment preserves, in success and in failure.\<close>

theorem deployment_stays_in_target:
  assumes "stable K (deploy_target obj) P" "P w"
  shows "P (snd (deployChaosBlade S K u m obj ov w))"
  by (rule deployChaosBlade_frame [OF assms])

subsection \<open>Witnesses\<close>

text \<open>
  A container whose world is the list of its files; it knows \<open>test -e\<close>, \<open>mkdir\<close> and the tar stream, and the
  image of the operator has the library only.
\<close>

definition ok_result :: StreamResult where
  "ok_result = \<lparr>sr_Out = [], sr_Err = [], sr_Error = None\<rparr>"

definition no_result :: StreamResult where
  "no_result = \<lparr>sr_Out = [], sr_Err = [], sr_Error = Some ''no''\<rparr>"

definition box_stream :: "ExecRequest \<Rightarrow> string list \<Rightarrow> StreamResult \<times> string list" where
  "box_stream req w =
     (case er_Stdin req of
        Some (src, dest) \<Rightarrow> (ok_result,
          if src = OperatorChaosBladeLib then path_join [last (er_Command req), path_base dest] # w else w)
      | None \<Rightarrow>
          if hd (er_Command req) = ''mkdir'' then (ok_result, w)
          else if hd (er_Command req) = ''test'' \<and> last (er_Command req) \<in> set w then (ok_result, w)
          else (no_result, w))"

definition box_kube :: "string list kube" where
  "box_kube = \<lparr>k_GetPod = (\<lambda>ns n w. (Inl (ErrApi True ''gone''), w)),
     k_GetNode = (\<lambda>n w. (Inl (ErrApi True ''gone''), w)),
     k_ListPods = (\<lambda>ns s w. (Inr [], w)), k_ListNodes = (\<lambda>s w. (Inr [], w)),
     k_UpdatePod = (\<lambda>p w. (None, w)), k_DeletePod = (\<lambda>ns n w. (None, w)),
     k_Stream = box_stream\<rparr>"

lemma trim_space_empty [simp]: "trim_space [] = []"
  by code_simp

lemma trim_space_no [simp]: "trim_space ''no'' = ''no''"
  by code_simp

lemma atoi_no: "\<exists>e. atoi ''no'' = Inl e"
proof -
  have "isl (atoi ''no'')" by code_simp
  then show ?thesis by (simp add: isl_def)
qed

lemma clean_results [simp]: "clean_result ok_result" "\<not> clean_result no_result"
  by (simp_all add: clean_result_def ok_result_def no_result_def)

lemma box_kube_stream [simp]: "k_Stream box_kube = box_stream"
  by (simp add: box_kube_def)

lemma box_laws: "container_laws box_kube o' {OperatorChaosBladeLib} set"
proof -
  have "test_law box_kube o' set"
    by (auto simp: test_law_def box_stream_def deploy_request_def split: if_splits)
  moreover have "keep_law box_kube o' set"
    by (auto simp: keep_law_def stable_def box_stream_def split: option.splits)
  moreover have "tar_law box_kube o' {OperatorChaosBladeLib} set"
    by (auto simp: tar_law_def tar_command_def box_stream_def deploy_request_def)
  moreover have "curl_law box_kube o' set"
    using atoi_no by (auto simp: curl_law_def box_stream_def deploy_request_def curl_command_def
        client_Exec_def no_result_def Let_def)
  ultimately show ?thesis by (simp add: container_laws_def)
qed

definition java_model :: ExpModel where
  "java_model = \<lparr>em_Target = ''jvm'', em_Scope = ''container'', em_ActionName = ''delay'',
     em_ActionFlags = Map.empty, em_ActionPrograms = [''java''], em_ActionProcessHang = False\<rparr>"

definition box_target :: ContainerObjectMeta where
  "box_target = no_meta\<lparr>cm_PodName := ''p'', cm_Namespace := ''d'', cm_ContainerName := ''c''\<rparr>"





lemma path_join_ne [simp]: "e \<noteq> [] \<Longrightarrow> path_join (e # es) \<noteq> []"
  by (auto simp: path_join_def path_clean_def Let_def)









lemma box_stable: "stable box_kube o' (\<lambda>w. ''/opt/chaosblade/blade'' \<in> set w)"
  using box_laws by (simp add: container_laws_def keep_law_def)

lemma deployment_stays_in_target_witness:
  "''/opt/chaosblade/blade'' \<in> set (snd (deployChaosBlade sample_spec box_kube [] java_model box_target
     True [''/opt/chaosblade/blade'']))"
  by (rule deployment_stays_in_target [OF box_stable]) simp

end
