(* ===== verification/Version.thy ===== *)
theory Version
  imports GoStrings "HOL-Library.Product_Lexorder"
begin

section \<open>Version, product and settings (version/version.go, pkg/runtime)\<close>

text \<open>
  The version the operator was built with decides whether the blade tool has the \<open>cri\<close> command; the
  product it was built for decides which image repository is used. Both come from the linker, the
  settings from command line flags, so all are fields of the record \<open>config\<close>. The fields
  \<open>cf_DockerRuntime\<close> and the like of other packages are not here but in the environment of the
  controllers; \<open>cf_OverrideFlag\<close> is the name of a flag of chaosblade-exec-cri.
\<close>

record config =
  cf_Version :: string
  cf_Product :: string
  cf_ToolVersion :: string
  cf_ImageRepository :: string
  cf_PullPolicy :: string
  cf_RegionId :: string
  cf_Environment :: string
  cf_DaemonsetPodNamespace :: string
  cf_DownloadUrl :: string
  cf_OverrideFlag :: string

subsection \<open>The linked-in version\<close>

text \<open>\<open>init\<close>: a combined version overrides version and product, field by field.\<close>

definition Delimiter :: char where "Delimiter = CHR '',''"

definition version_init :: "string \<Rightarrow> string \<times> string \<Rightarrow> string \<times> string" where
  "version_init CombinedVersion vp =
     (if CombinedVersion = [] then vp
      else let fields = go_split Delimiter CombinedVersion;
               version = (if 0 < length fields then fields ! 0 else fst vp);
               product = (if 1 < length fields then fields ! 1 else snd vp)
           in (version, product))"

definition GetShortVersion :: "config \<Rightarrow> string" where
  "GetShortVersion C = cf_Version C @ ''-'' @ cf_Product C"

text \<open>The other values of the linker, and what is reported of all.\<close>

record build_info =
  bi_BuildTime :: string
  bi_GitCommit :: string
  bi_GitBranch :: string
  bi_GoVersion :: string
  bi_Platform :: string

definition GetVersionInfo :: "config \<Rightarrow> build_info \<Rightarrow> (string \<rightharpoonup> string)" where
  "GetVersionInfo C B =
     [''version'' \<mapsto> cf_Version C, ''product'' \<mapsto> cf_Product C, ''buildTime'' \<mapsto> bi_BuildTime B,
      ''gitCommit'' \<mapsto> bi_GitCommit B, ''gitBranch'' \<mapsto> bi_GitBranch B, ''goVersion'' \<mapsto> bi_GoVersion B,
      ''platform'' \<mapsto> bi_Platform B]"

definition GetVersionString :: "config \<Rightarrow> build_info \<Rightarrow> string" where
  "GetVersionString C B =
     ''Version: '' @ cf_Version C @ '', Product: '' @ cf_Product C @ '', BuildTime: '' @ bi_BuildTime B @
     '', GitCommit: '' @ bi_GitCommit B @ '', GitBranch: '' @ bi_GitBranch B @ '', GoVersion: '' @ bi_GoVersion B @
     '', Platform: '' @ bi_Platform B"

lemma version_init_both:
  "CHR '','' \<notin> set v \<Longrightarrow> CHR '','' \<notin> set p \<Longrightarrow> version_init (v @ '','' @ p) vp = (v, p)"
  by (simp add: version_init_def Delimiter_def go_split_append_part)

lemma version_init_only:
  "CHR '','' \<notin> set v \<Longrightarrow> v \<noteq> [] \<Longrightarrow> version_init v (d, p) = (v, p)"
  by (simp add: version_init_def Delimiter_def)

subsection \<open>CheckVerisonHaveCriCommand\<close>

definition criVersion :: string where "criVersion = ''1.5.0''"

definition num_of :: "string \<Rightarrow> int" where
  "num_of s = (case atoi s of Inl e \<Rightarrow> 0 | Inr i \<Rightarrow> i)"

text \<open>The loop; \<open>criA[k]\<close> cannot be out of range because both lists have three elements.\<close>

fun cri_loop :: "string list \<Rightarrow> string list \<Rightarrow> bool" where
  "cri_loop (v # vs) (c # cs) =
     (case atoi v of
        Inl err \<Rightarrow> False
      | Inr vi \<Rightarrow>
          let ci = num_of c
          in if ci = vi then cri_loop vs cs else if vi < ci then False else True)"
| "cri_loop _ _ = True"

definition CheckVerisonHaveCriCommand :: "string \<Rightarrow> bool" where
  "CheckVerisonHaveCriCommand version =
     (let verisonA = go_split CHR ''.'' version; criA = go_split CHR ''.'' criVersion
      in if length verisonA \<noteq> 3 then False else cri_loop verisonA criA)"

lemma criVersion_fields: "go_split CHR ''.'' criVersion = [''1'', ''5'', ''0'']"
  by (simp add: criVersion_def)

lemma num_of_fields: "num_of ''1'' = 1" "num_of ''5'' = 5" "num_of ''0'' = 0"
  by code_simp+

lemma cri_loop_numeric:
  assumes "atoi x = Inr a" "atoi y = Inr b" "atoi z = Inr c"
  shows "cri_loop [x, y, z] [''1'', ''5'', ''0''] \<longleftrightarrow> (1, 5, 0) \<le> (a, b, c)"
  using assms by (auto simp: num_of_fields less_eq_prod_def less_prod_def)

text \<open>C35. For a version of three numbers the check is the lexicographic comparison with 1.5.0.\<close>

theorem cri_command_since:
  assumes "go_split CHR ''.'' v = [x, y, z]" "atoi x = Inr a" "atoi y = Inr b" "atoi z = Inr c"
  shows "CheckVerisonHaveCriCommand v \<longleftrightarrow> (1, 5, 0) \<le> (a, b, c)"
  using cri_loop_numeric [OF assms(2-4)]
  by (simp add: CheckVerisonHaveCriCommand_def criVersion_fields assms(1) Let_def del: cri_loop.simps)

lemma cri_command_since_witness:
  "CheckVerisonHaveCriCommand ''1.10.0'' \<longleftrightarrow> (1, 5, 0) \<le> (1 :: int, 10 :: int, 0 :: int)"
proof -
  have "atoi ''1'' = Inr 1 \<and> atoi ''10'' = Inr 10 \<and> atoi ''0'' = Inr 0"
    by (simp add: atoi_def digits_val_def is_digit_def has_prefix_def)
  then show ?thesis
    by (intro cri_command_since [where x = "''1''" and y = "''10''" and z = "''0''"]) simp_all
qed

text \<open>Anything but three fields has no such command; the default version \<open>unknown\<close> is an instance.\<close>

lemma cri_command_fields: "length (go_split CHR ''.'' v) \<noteq> 3 \<Longrightarrow> \<not> CheckVerisonHaveCriCommand v"
  by (simp add: CheckVerisonHaveCriCommand_def)

subsection \<open>Products and image repositories\<close>

definition AHAS :: string where "AHAS = ''ahas''"
definition Community :: string where "Community = ''community''"

definition ImageRepoForAliyun :: "string \<Rightarrow> string \<Rightarrow> string" where
  "ImageRepoForAliyun RegionId Environment =
     (if RegionId = ''cn-public'' then
        (if Environment = ''prod'' then ''registry.cn-hangzhou.aliyuncs.com/ahascr-public/chaosblade-tool''
         else ''registry.cn-hangzhou.aliyuncs.com/ahas-public/chaosblade-tool'')
      else if Environment = ''prod'' then ''registry-vpc.'' @ RegionId @ ''.aliyuncs.com/ahascr/chaosblade-tool''
      else ''registry-vpc.'' @ RegionId @ ''.aliyuncs.com/ahas/chaosblade-tool'')"

definition ImageRepoForCommunity :: "config \<Rightarrow> string" where
  "ImageRepoForCommunity C = cf_ImageRepository C"

text \<open>
  \<open>chaosblade.Products\<close> as the two packages register it, the constant the product selects, and the
  call \<open>Constant.ImageRepoFunc()\<close>: a product that nobody registered gives a nil constant, and the
  call panics.
\<close>

definition Products :: "string \<rightharpoonup> (config \<Rightarrow> string)" where
  "Products = [AHAS \<mapsto> (\<lambda>C. ImageRepoForAliyun (cf_RegionId C) (cf_Environment C)),
               Community \<mapsto> ImageRepoForCommunity]"

definition Constant :: "config \<Rightarrow> (config \<Rightarrow> string) option" where
  "Constant C = Products (cf_Product C)"

definition image_repo :: "config \<Rightarrow> string go" where
  "image_repo C = do { ImageRepoFunc \<leftarrow> Constant C; Some (ImageRepoFunc C) }"

lemma image_repo_products:
  "cf_Product C = Community \<Longrightarrow> image_repo C = Some (cf_ImageRepository C)"
  "cf_Product C = AHAS \<Longrightarrow> image_repo C = Some (ImageRepoForAliyun (cf_RegionId C) (cf_Environment C))"
  "cf_Product C \<notin> {AHAS, Community} \<Longrightarrow> image_repo C = None"
  by (auto simp: image_repo_def Constant_def Products_def AHAS_def Community_def ImageRepoForCommunity_def)

definition sample_config :: config where
  "sample_config = \<lparr>cf_Version = ''1.8.0'', cf_Product = Community, cf_ToolVersion = ''1.8.0'',
     cf_ImageRepository = ''chaosbladeio/chaosblade-tool'', cf_PullPolicy = ''IfNotPresent'',
     cf_RegionId = [], cf_Environment = [], cf_DaemonsetPodNamespace = ''chaosblade'',
     cf_DownloadUrl = [], cf_OverrideFlag = ''chaosblade-override''\<rparr>"

end
