(* ===== verification/Commands.thy ===== *)
theory Commands
  imports Executor Deploy Version "HOL-Library.Sublist"
begin

section \<open>The commands of an experiment (exec/model/executor.go, executor_copy.go, executor_nsexec.go)\<close>

text \<open>
  From the container metadata in the context the executors compute identifiers: for each target a
  command line of the blade tool, and the container in which to run it. Commands for the \<open>os\<close> and
  \<open>jvm\<close> models of a container run in the target itself, after the tool was deployed there; all others
  run in the pod of the \<open>chaosblade-tool\<close> daemonset on the node of the target. The names of these pods
  are cached in a global variable, \<open>chaosblade.DaemonsetPodNames\<close>, so the world the program works on
  is a record of that variable and the rest.
\<close>

record 'v world =
  wd_Names :: flags
  wd_Ext :: 'v

definition DaemonsetPodName :: string where "DaemonsetPodName = ''chaosblade-tool''"

definition DaemonsetPodLabels :: "(string \<times> string) list" where
  "DaemonsetPodLabels = [(''app'', ''chaosblade-tool'')]"

subsection \<open>The daemonset pod of a node\<close>

definition pod_names :: "Pod list \<Rightarrow> flags" where
  "pod_names pods = foldl (\<lambda>m p. m(pd_NodeName p \<mapsto> pd_Name p)) Map.empty pods"

definition refreshChaosBladeDaemonsetPodNames ::
  "'v world env \<Rightarrow> config \<Rightarrow> 'v world \<Rightarrow> GoErr option \<times> 'v world" where
  "refreshChaosBladeDaemonsetPodNames N C w =
     (case k_ListPods (en_Kube N) (cf_DaemonsetPodNamespace C) (SelSet DaemonsetPodLabels) w of
        (Inl err, w1) \<Rightarrow> (Some err, w1)
      | (Inr pods, w1) \<Rightarrow> (None, w1\<lparr>wd_Names := pod_names pods\<rparr>))"

definition GetChaosBladeDaemonsetPodName ::
  "'v world env \<Rightarrow> config \<Rightarrow> string \<Rightarrow> 'v world \<Rightarrow> (GoErr + string) \<times> 'v world" where
  "GetChaosBladeDaemonsetPodName N C nodeName w =
     (let podName = mget (wd_Names w) nodeName;
          refreshed = (\<lambda>w. case refreshChaosBladeDaemonsetPodNames N C w of
             (Some err, w1) \<Rightarrow> (Inl err, w1)
           | (None, w1) \<Rightarrow> (Inr (mget (wd_Names w1) nodeName), w1))
      in if podName = [] then refreshed w
         else (case k_GetPod (en_Kube N) (cf_DaemonsetPodNamespace C) podName w of
                 (Inr pod, w1) \<Rightarrow> (Inr podName, w1)
               | (Inl err, w1) \<Rightarrow> refreshed w1))"

subsection \<open>Loops over the targets\<close>

text \<open>
  The body of each loop returns an error, which ends the function, or skips the target
  (\<open>continue\<close>), or appends an identifier.
\<close>

type_synonym 'w ident_step =
  "ContainerObjectMeta \<Rightarrow> 'w \<Rightarrow> (GoErr + ExperimentIdentifierInPod option) \<times> 'w"

fun for_targets ::
  "'w ident_step \<Rightarrow> ContainerObjectMeta list \<Rightarrow> 'w \<Rightarrow> (GoErr + ExperimentIdentifierInPod list) \<times> 'w" where
  "for_targets f [] w = (Inr [], w)"
| "for_targets f (obj # objs) w =
     (case f obj w of
        (Inl err, w1) \<Rightarrow> (Inl err, w1)
      | (Inr None, w1) \<Rightarrow> for_targets f objs w1
      | (Inr (Some d), w1) \<Rightarrow>
          (case for_targets f objs w1 of
             (Inl err, w2) \<Rightarrow> (Inl err, w2)
           | (Inr ds, w2) \<Rightarrow> (Inr (d # ds), w2)))"

definition tool_identifier :: "config \<Rightarrow> ContainerObjectMeta \<Rightarrow> string \<Rightarrow> string \<Rightarrow> ExperimentIdentifierInPod" where
  "tool_identifier C obj command podName =
     \<lparr>ei_Meta = obj, ei_Command = command, ei_Error = [], ei_Code = 0,
      ei_ChaosBladePodName = podName, ei_ChaosBladeNamespace = cf_DaemonsetPodNamespace C,
      ei_ChaosBladeContainerName = DaemonsetPodName\<rparr>"

text \<open>
  The daemonset pod comes first; \<open>command\<close> is what the body does with it: \<open>None\<close> skips the target.
\<close>

definition in_tool_pod ::
  "'v world env \<Rightarrow> config \<Rightarrow> (ContainerObjectMeta \<Rightarrow> 'v world \<Rightarrow> string option \<times> 'v world) \<Rightarrow>
     'v world ident_step" where
  "in_tool_pod N C command obj w =
     (case GetChaosBladeDaemonsetPodName N C (cm_NodeName obj) w of
        (Inl err, w1) \<Rightarrow> (Inl err, w1)
      | (Inr podName, w1) \<Rightarrow>
          (case command obj w1 of
             (None, w2) \<Rightarrow> (Inr None, w2)
           | (Some c, w2) \<Rightarrow> (Inr (Some (tool_identifier C obj c podName)), w2)))"

definition words :: "string list \<Rightarrow> string" where
  "words ws = go_join '' '' ws"

definition with_uid :: "string \<Rightarrow> ContainerObjectMeta \<Rightarrow> string" where
  "with_uid command obj = (if cm_Id obj \<noteq> [] then words [command, ''--uid'', cm_Id obj] else command)"

subsection \<open>Commands that run in the target\<close>

definition in_target ::
  "'v world env \<Rightarrow> config \<Rightarrow> ExpModel \<Rightarrow> bool \<Rightarrow> (ContainerObjectMeta \<Rightarrow> string) \<Rightarrow> 'v world ident_step" where
  "in_target N C m override command obj w =
     (let (resp, w1) = deployChaosBlade (en_Spec N) (en_Kube N) (cf_DownloadUrl C) m obj override w;
          d = \<lparr>ei_Meta = obj, ei_Command = command obj, ei_Error = [], ei_Code = 0,
               ei_ChaosBladePodName = [], ei_ChaosBladeNamespace = [], ei_ChaosBladeContainerName = []\<rparr>
      in (Inr (Some (if \<not> rp_Success resp then d\<lparr>ei_Error := rp_Err resp, ei_Code := rp_Code resp\<rparr> else d)), w1))"

definition generateDestroyCommands ::
  "'v world env \<Rightarrow> config \<Rightarrow> ExpModel \<Rightarrow> ContainerObjectMeta list \<Rightarrow> string \<Rightarrow> 'v world \<Rightarrow>
     (GoErr + ExperimentIdentifierInPod list) \<times> 'v world" where
  "generateDestroyCommands N C m objs matchers w =
     (let command = words [getTargetChaosBladeBin m, ''destroy'', em_Target m, em_ActionName m, matchers]
      in for_targets (in_target N C m False (with_uid command)) objs w)"

definition generateCreateCommands ::
  "'v world env \<Rightarrow> config \<Rightarrow> ExpModel \<Rightarrow> ContainerObjectMeta list \<Rightarrow> string \<Rightarrow> 'v world \<Rightarrow>
     (GoErr + ExperimentIdentifierInPod list) \<times> 'v world" where
  "generateCreateCommands N C m objs matchers w =
     (let command = words [getTargetChaosBladeBin m, ''create'', em_Target m, em_ActionName m, matchers];
          chaosBladeOverride = (mget (em_ActionFlags m) (cf_OverrideFlag C) = ''true'')
      in for_targets (in_target N C m chaosBladeOverride (\<lambda>obj. command)) objs w)"

subsection \<open>Commands of the node scope\<close>

definition generateDestroyNodeCommands ::
  "'v world env \<Rightarrow> config \<Rightarrow> ExpModel \<Rightarrow> ContainerObjectMeta list \<Rightarrow> string \<Rightarrow> 'v world \<Rightarrow>
     (GoErr + ExperimentIdentifierInPod list) \<times> 'v world" where
  "generateDestroyNodeCommands N C m objs matchers w =
     (let command = words [getTargetChaosBladeBin m, ''destroy'', em_Target m, em_ActionName m, matchers]
      in for_targets (in_tool_pod N C (\<lambda>obj w. (Some (with_uid command obj), w))) objs w)"

definition generateCreateNodeCommands ::
  "'v world env \<Rightarrow> config \<Rightarrow> ExpModel \<Rightarrow> ContainerObjectMeta list \<Rightarrow> string \<Rightarrow> 'v world \<Rightarrow>
     (GoErr + ExperimentIdentifierInPod list) \<times> 'v world" where
  "generateCreateNodeCommands N C m objs matchers w =
     (let command = words [getTargetChaosBladeBin m, ''create'', em_Target m, em_ActionName m, matchers]
      in for_targets (in_tool_pod N C (\<lambda>obj w. (Some command, w))) objs w)"

definition getNodeExperimentIdentifiers ::
  "'v world env \<Rightarrow> config \<Rightarrow> ExpModel \<Rightarrow> ContainerObjectMeta list \<Rightarrow> string \<Rightarrow> bool \<Rightarrow> 'v world \<Rightarrow>
     (GoErr + ExperimentIdentifierInPod list) \<times> 'v world" where
  "getNodeExperimentIdentifiers N C m objs matchers destroy w =
     (if destroy then generateDestroyNodeCommands N C m objs matchers w
      else generateCreateNodeCommands N C m objs matchers w)"

subsection \<open>Commands of the docker and cri targets\<close>

text \<open>The id of the container as it is now; the loop returns at the first container of that name.\<close>

fun new_container_id :: "'w env \<Rightarrow> string \<Rightarrow> string \<Rightarrow> ContainerStatus list \<Rightarrow> GoErr + string" where
  "new_container_id N podName containerName [] =
     Inl (ErrNew (''cannot find the '' @ containerName @ '' container in '' @ podName @ '' pod''))"
| "new_container_id N podName containerName (st # sts) =
     (if containerName = st_Name st then
        (let (_, containerLongId) = TruncateContainerObjectMetaUid N (st_ContainerID st)
         in if 12 < length containerLongId then Inr (take 12 containerLongId)
            else Inl (ErrNew (''the container '' @ containerLongId @ '' id is illegal'')))
      else new_container_id N podName containerName sts)"

definition getNewContainerIdByPod ::
  "'w env \<Rightarrow> string \<Rightarrow> string \<Rightarrow> string \<Rightarrow> 'w \<Rightarrow> (GoErr + string) \<times> 'w" where
  "getNewContainerIdByPod N podName podNamespace containerName w =
     (case k_GetPod (en_Kube N) podNamespace podName w of
        (Inl err, w1) \<Rightarrow> (Inl err, w1)
      | (Inr pod, w1) \<Rightarrow>
          ((case pd_ContainerStatuses pod of
              None \<Rightarrow> Inl (ErrNew (''cannot find containers in '' @ podName @ '' pod''))
            | Some sts \<Rightarrow> new_container_id N podName containerName sts), w1))"

definition docker_destroy_command ::
  "'w env \<Rightarrow> string \<Rightarrow> bool \<Rightarrow> ContainerObjectMeta \<Rightarrow> 'w \<Rightarrow> string option \<times> 'w" where
  "docker_destroy_command N command isNetworkTarget obj w =
     (if isNetworkTarget then
        (case getNewContainerIdByPod N (cm_PodName obj) (cm_Namespace obj) (cm_ContainerName obj) w of
           (Inl err, w1) \<Rightarrow> (None, w1)
         | (Inr newContainerId, w1) \<Rightarrow> (Some (words [command, ''--container-id'', newContainerId]), w1))
      else (Some (words [with_uid command obj, ''--container-name'', cm_ContainerName obj]), w))"

definition generateDestroyDockerCommands ::
  "'v world env \<Rightarrow> config \<Rightarrow> ExpModel \<Rightarrow> ContainerObjectMeta list \<Rightarrow> string \<Rightarrow> bool \<Rightarrow> 'v world \<Rightarrow>
     (GoErr + ExperimentIdentifierInPod list) \<times> 'v world" where
  "generateDestroyDockerCommands N C m objs matchers isNetworkTarget w =
     (let command = words [getTargetChaosBladeBin m, ''destroy'', ''docker'', em_Target m, em_ActionName m, matchers]
      in for_targets (in_tool_pod N C (docker_destroy_command N command isNetworkTarget)) objs w)"

definition generateCreateDockerCommands ::
  "'v world env \<Rightarrow> config \<Rightarrow> ExpModel \<Rightarrow> ContainerObjectMeta list \<Rightarrow> string \<Rightarrow> 'v world \<Rightarrow>
     (GoErr + ExperimentIdentifierInPod list) \<times> 'v world" where
  "generateCreateDockerCommands N C m objs matchers w =
     (let command = words [getTargetChaosBladeBin m, ''create'', ''docker'', em_Target m, em_ActionName m, matchers]
      in for_targets (in_tool_pod N C
           (\<lambda>obj w. (Some (words [command, ''--container-id'', cm_ContainerId obj]), w))) objs w)"

definition generateDestroyCriCommands ::
  "'v world env \<Rightarrow> config \<Rightarrow> ExpModel \<Rightarrow> ContainerObjectMeta list \<Rightarrow> string \<Rightarrow> 'v world \<Rightarrow>
     (GoErr + ExperimentIdentifierInPod list) \<times> 'v world" where
  "generateDestroyCriCommands N C m objs matchers w =
     (let command = words [getTargetChaosBladeBin m, ''destroy'', ''cri'', em_Target m, em_ActionName m, matchers]
      in for_targets (in_tool_pod N C
           (\<lambda>obj w. (Some (words [with_uid command obj, ''--container-name'', cm_ContainerName obj,
              ''--container-runtime'', cm_ContainerRuntime obj]), w))) objs w)"

definition generateCreateCriCommands ::
  "'v world env \<Rightarrow> config \<Rightarrow> ExpModel \<Rightarrow> ContainerObjectMeta list \<Rightarrow> string \<Rightarrow> 'v world \<Rightarrow>
     (GoErr + ExperimentIdentifierInPod list) \<times> 'v world" where
  "generateCreateCriCommands N C m objs matchers w =
     (let command = words [getTargetChaosBladeBin m, ''create'', ''cri'', em_Target m, em_ActionName m, matchers]
      in for_targets (in_tool_pod N C
           (\<lambda>obj w. (Some (words [command, ''--container-id'', cm_ContainerId obj,
              ''--container-runtime'', cm_ContainerRuntime obj]), w))) objs w)"

text \<open>The network target names the image of the tool; asking for it panics without a product.\<close>

definition network_matchers :: "config \<Rightarrow> bool \<Rightarrow> string \<Rightarrow> string go" where
  "network_matchers C isNetworkTarget matchers =
     (if isNetworkTarget then
        do { repo \<leftarrow> image_repo C;
             Some (words [matchers, ''--image-repo'', repo, ''--image-version'', cf_ToolVersion C]) }
      else Some matchers)"

type_synonym 'v ident_result = "((GoErr + ExperimentIdentifierInPod list) \<times> 'v world) go"

definition getDockerExperimentIdentifiers ::
  "'v world env \<Rightarrow> config \<Rightarrow> ExpModel \<Rightarrow> ContainerObjectMeta list \<Rightarrow> string \<Rightarrow> bool \<Rightarrow> bool \<Rightarrow> 'v world \<Rightarrow>
     'v ident_result" where
  "getDockerExperimentIdentifiers N C m objs matchers destroy isNetworkTarget w =
     do { matchers \<leftarrow> network_matchers C isNetworkTarget matchers;
          Some (if destroy then generateDestroyDockerCommands N C m objs matchers isNetworkTarget w
                else generateCreateDockerCommands N C m objs matchers w) }"

definition getCriExperimentIdentifiers ::
  "'v world env \<Rightarrow> config \<Rightarrow> ExpModel \<Rightarrow> ContainerObjectMeta list \<Rightarrow> string \<Rightarrow> bool \<Rightarrow> bool \<Rightarrow> 'v world \<Rightarrow>
     'v ident_result" where
  "getCriExperimentIdentifiers N C m objs matchers destroy isNetworkTarget w =
     do { matchers \<leftarrow> network_matchers C isNetworkTarget matchers;
          Some (if destroy then generateDestroyCriCommands N C m objs matchers w
                else generateCreateCriCommands N C m objs matchers w) }"

subsection \<open>getExperimentIdentifiers\<close>

definition delete_uid :: "ExpModel \<Rightarrow> ExpModel" where
  "delete_uid m = m\<lparr>em_ActionFlags := (em_ActionFlags m)(''uid'' := None)\<rparr>"

definition flag_is_true :: "ExpModel \<Rightarrow> string \<Rightarrow> bool" where
  "flag_is_true m k = (mget (em_ActionFlags m) k = ''true'')"

text \<open>Whether the container itself is the target, or its network through docker or a sidecar.\<close>

definition container_target :: "ExpModel \<Rightarrow> bool" where
  "container_target m \<longleftrightarrow> em_Target m = ''container'' \<or>
     (em_Target m = ''network'' \<and>
       (flag_is_true m IsDockerNetworkFlag \<or> flag_is_true m UseSidecarContainerNetworkFlag))"

text \<open>\<open>version.Check...() || list[0].ContainerRuntime == "containerd"\<close>, with its short circuit.\<close>

definition use_cri :: "'v world env \<Rightarrow> config \<Rightarrow> ContainerObjectMeta list \<Rightarrow> bool go" where
  "use_cri N C objs =
     (if CheckVerisonHaveCriCommand (cf_Version C) then Some True
      else do { obj \<leftarrow> index_at objs 0; Some (cm_ContainerRuntime obj = en_Containerd N) })"

definition identifiers_for ::
  "'v world env \<Rightarrow> config \<Rightarrow> ExpModel \<Rightarrow> ContainerObjectMeta list \<Rightarrow> string \<Rightarrow> bool \<Rightarrow> 'v world \<Rightarrow>
     'v ident_result" where
  "identifiers_for N C m objs matchers destroy w =
     (if em_Scope m = ''node'' then Some (getNodeExperimentIdentifiers N C m objs matchers destroy w)
      else if container_target m then
        do { cri \<leftarrow> use_cri N C objs;
             if cri then getCriExperimentIdentifiers N C m objs matchers destroy (em_Target m = ''network'') w
             else getDockerExperimentIdentifiers N C m objs matchers destroy (em_Target m = ''network'') w }
      else if destroy then Some (generateDestroyCommands N C m objs matchers w)
      else Some (generateCreateCommands N C m objs matchers w))"

definition getExperimentIdentifiers :: "'v world env \<Rightarrow> config \<Rightarrow> 'v world get_ids" where
  "getExperimentIdentifiers N C ctx m w =
     (let m = delete_uid m
      in do { r \<leftarrow> GetContainerObjectMetaListFromContext ctx;
              case r of
                Inl err \<Rightarrow> Some (Inl err, w)
              | Inr objs \<Rightarrow>
                  do { experimentId \<leftarrow> GetExperimentIdFromContext ctx;
                       identifiers_for N C m objs
                         (sp_ConvertMatchers (en_Spec N) m (GetResourceFlagNames (cf_OverrideFlag C)))
                         (sp_IsDestroy (en_Spec N) ctx) w } })"

subsection \<open>getExperimentIdentifiersWithNsexec\<close>

definition sandbox_labels :: "'w env \<Rightarrow> ContainerObjectMeta \<Rightarrow> GoErr + string list" where
  "sandbox_labels N obj =
     (let labels = [''io.kubernetes.pod.name='' @ cm_PodName obj,
                    ''io.kubernetes.pod.namespace='' @ cm_Namespace obj]
      in if cm_ContainerRuntime obj = en_Docker N then Inr (labels @ [''io.kubernetes.docker.type=podsandbox''])
         else if cm_ContainerRuntime obj = en_Containerd N then Inr (labels @ [''io.cri-containerd.kind=sandbox''])
         else Inl (ErrNew (''unsupported container runtime '' @ cm_ContainerRuntime obj)))"

definition nsexec_command ::
  "'w env \<Rightarrow> ExpModel \<Rightarrow> string \<Rightarrow> bool \<Rightarrow> ContainerObjectMeta \<Rightarrow> GoErr + string" where
  "nsexec_command N m command destroy obj =
     (if em_Target m = ''network'' \<and> destroy \<and> em_ActionName m \<noteq> ''dns'' then
        (case sandbox_labels N obj of
           Inl err \<Rightarrow> Inl err
         | Inr labels \<Rightarrow> Inr (words [command, ''--container-label-selector'', go_join '','' labels,
             ''--container-runtime'', cm_ContainerRuntime obj]))
      else let c = words [command, ''--container-id'', cm_ContainerId obj];
               c = (if em_ActionProcessHang m then words [c, ''--cgroup-root /host-sys/fs/cgroup''] else c);
               c = (if cm_ContainerRuntime obj \<noteq> [] then words [c, ''--container-runtime'', cm_ContainerRuntime obj]
                    else c)
           in Inr (with_uid c obj))"

definition nsexec_identifier ::
  "'v world env \<Rightarrow> config \<Rightarrow> ExpModel \<Rightarrow> string \<Rightarrow> bool \<Rightarrow> 'v world ident_step" where
  "nsexec_identifier N C m command destroy obj w =
     (case nsexec_command N m command destroy obj of
        Inl err \<Rightarrow> (Inl err, w)
      | Inr c \<Rightarrow> in_tool_pod N C (\<lambda>obj w. (Some c, w)) obj w)"

definition nsexec_identifiers ::
  "'v world env \<Rightarrow> config \<Rightarrow> ExpModel \<Rightarrow> ContainerObjectMeta list \<Rightarrow> string \<Rightarrow> bool \<Rightarrow> 'v world \<Rightarrow>
     (GoErr + ExperimentIdentifierInPod list) \<times> 'v world" where
  "nsexec_identifiers N C m objs matchers destroy w =
     (if em_Scope m = ''node'' then getNodeExperimentIdentifiers N C m objs matchers destroy w
      else let command = words [getTargetChaosBladeBin m, (if destroy then ''destroy'' else ''create''), ''cri'',
                                em_Target m, em_ActionName m, matchers]
           in for_targets (nsexec_identifier N C m command destroy) objs w)"

definition getExperimentIdentifiersWithNsexec :: "'v world env \<Rightarrow> config \<Rightarrow> 'v world get_ids" where
  "getExperimentIdentifiersWithNsexec N C ctx m w =
     (let m = delete_uid m
      in do { r \<leftarrow> GetContainerObjectMetaListFromContext ctx;
              case r of
                Inl err \<Rightarrow> Some (Inl err, w)
              | Inr objs \<Rightarrow>
                  do { experimentId \<leftarrow> GetExperimentIdFromContext ctx;
                       Some (nsexec_identifiers N C m objs
                         (sp_ConvertMatchers (en_Spec N) m (GetResourceFlagNames (cf_OverrideFlag C)))
                         (sp_IsDestroy (en_Spec N) ctx) w) } })"

text \<open>The two executors.\<close>

definition ExecCommandInPodExecutor_Exec ::
  "'v world env \<Rightarrow> config \<Rightarrow> (nat \<Rightarrow> nat) \<Rightarrow> 'v world exec_fun" where
  "ExecCommandInPodExecutor_Exec N C = Exec N (getExperimentIdentifiers N C)"

definition CommonExecutor_Exec :: "'v world env \<Rightarrow> config \<Rightarrow> (nat \<Rightarrow> nat) \<Rightarrow> 'v world exec_fun" where
  "CommonExecutor_Exec N C = Exec N (getExperimentIdentifiersWithNsexec N C)"

subsection \<open>What the loops have in common\<close>

text \<open>
  A loop body gives identifiers of its own target. A total body never skips. A guarded body keeps an
  invariant of the world, and its identifiers are good in the sense of the client.
\<close>

locale target_loop =
  fixes f :: "'w ident_step"
  assumes f_meta: "f obj w = (Inr (Some d), w') \<Longrightarrow> ei_Meta d = obj"
begin

lemma loop_cases:
  assumes "for_targets f (obj # objs) w = (Inr ds, w')"
  obtains w1 where "f obj w = (Inr None, w1)" "for_targets f objs w1 = (Inr ds, w')"
  | d w1 es where "f obj w = (Inr (Some d), w1)" "for_targets f objs w1 = (Inr es, w')" "ds = d # es"
  using assms by (auto split: sum.splits option.splits prod.splits)

lemma loop_subseq: "for_targets f objs w = (Inr ds, w') \<Longrightarrow> subseq (map ei_Meta ds) objs"
proof (induction objs arbitrary: w ds)
  case (Cons obj objs)
  from Cons.prems show ?case by (rule loop_cases) (use Cons.IH f_meta in \<open>auto intro: list_emb.intros\<close>)
qed simp

end

locale total_loop = target_loop f for f :: "'w ident_step" +
  assumes f_total: "fst (f obj w) \<noteq> Inr None"
begin

lemma loop_metas: "for_targets f objs w = (Inr ds, w') \<Longrightarrow> map ei_Meta ds = objs"
proof (induction objs arbitrary: w ds)
  case (Cons obj objs)
  from Cons.prems show ?case
    by (rule loop_cases) (use Cons.IH f_meta f_total [of obj w] in auto)
qed simp

end

locale guarded_loop = target_loop f for f :: "'w ident_step" +
  fixes inv :: "'w \<Rightarrow> bool" and good :: "ExperimentIdentifierInPod \<Rightarrow> bool"
  assumes f_inv: "inv w \<Longrightarrow> inv (snd (f obj w))"
    and f_good: "inv w \<Longrightarrow> f obj w = (Inr (Some d), w') \<Longrightarrow> good d"
begin

lemma loop_inv: "inv w \<Longrightarrow> inv (snd (for_targets f objs w))"
proof (induction objs arbitrary: w)
  case (Cons obj objs)
  have "inv (snd (f obj w))" using f_inv Cons.prems .
  then show ?case
    using Cons.IH by (cases "f obj w") (fastforce split: sum.splits option.splits prod.splits)
qed simp

lemma loop_good: "inv w \<Longrightarrow> for_targets f objs w = (Inr ds, w') \<Longrightarrow> \<forall>d \<in> set ds. good d"
proof (induction objs arbitrary: w ds)
  case (Cons obj objs)
  from Cons.prems(2) show ?case
    by (rule loop_cases) (use Cons.IH f_inv [OF Cons.prems(1), of obj] f_good [OF Cons.prems(1)] in auto)
qed simp

end

subsection \<open>The pods of the tool\<close>

text \<open>
  \<open>home\<close> gives the node a daemonset pod runs on: a pod never moves, and its name is not used again on
  another node. The client leaves the program's variable alone.
\<close>

definition keeps_names :: "('v world \<Rightarrow> 'r \<times> 'v world) \<Rightarrow> bool" where
  "keeps_names f \<longleftrightarrow> (\<forall>w. wd_Names (snd (f w)) = wd_Names w)"

definition tool_cluster :: "'v world env \<Rightarrow> config \<Rightarrow> (string \<Rightarrow> string) \<Rightarrow> bool" where
  "tool_cluster N C home \<longleftrightarrow>
     (\<forall>w pods w'. k_ListPods (en_Kube N) (cf_DaemonsetPodNamespace C) (SelSet DaemonsetPodLabels) w = (Inr pods, w') \<longrightarrow>
        (\<forall>p \<in> set pods. home (pd_Name p) = pd_NodeName p)) \<and>
     (\<forall>ns s. keeps_names (k_ListPods (en_Kube N) ns s)) \<and>
     (\<forall>ns n. keeps_names (k_GetPod (en_Kube N) ns n)) \<and>
     (\<forall>r. keeps_names (k_Stream (en_Kube N) r))"

definition cache_ok :: "(string \<Rightarrow> string) \<Rightarrow> 'v world \<Rightarrow> bool" where
  "cache_ok home w \<longleftrightarrow> (\<forall>node name. wd_Names w node = Some name \<longrightarrow> home name = node)"

definition own_node :: "(string \<Rightarrow> string) \<Rightarrow> ExperimentIdentifierInPod \<Rightarrow> bool" where
  "own_node home d \<longleftrightarrow> ei_ChaosBladePodName d = [] \<or> home (ei_ChaosBladePodName d) = cm_NodeName (ei_Meta d)"

definition tools_ok :: "'v world env \<Rightarrow> config \<Rightarrow> (string \<Rightarrow> string) \<Rightarrow> 'v world \<Rightarrow> bool" where
  "tools_ok N C home w \<longleftrightarrow> tool_cluster N C home \<and> cache_ok home w"

lemma pod_names_home:
  "\<forall>p \<in> set pods. home (pd_Name p) = pd_NodeName p \<Longrightarrow> pod_names pods node = Some name \<Longrightarrow> home name = node"
  unfolding pod_names_def by (induction pods rule: rev_induct) (auto split: if_splits)

lemma cache_read: "cache_ok home w \<Longrightarrow> mget (wd_Names w) node = [] \<or> home (mget (wd_Names w) node) = node"
  by (auto simp: cache_ok_def mget_def split: option.splits)

lemma cache_kept: "keeps_names f \<Longrightarrow> cache_ok home (snd (f w)) = cache_ok home w"
  by (simp add: keeps_names_def cache_ok_def)

lemma refresh_ok:
  assumes "tools_ok N C home w"
  shows "tools_ok N C home (snd (refreshChaosBladeDaemonsetPodNames N C w))"
proof -
  let ?l = "k_ListPods (en_Kube N) (cf_DaemonsetPodNamespace C) (SelSet DaemonsetPodLabels)"
  obtain r w1 where l: "?l w = (r, w1)" by (cases "?l w")
  have c: "cache_ok home w1"
    using assms l cache_kept [of ?l home w] by (simp add: tools_ok_def tool_cluster_def)
  show ?thesis
  proof (cases r)
    case (Inl e)
    with assms c l show ?thesis by (simp add: refreshChaosBladeDaemonsetPodNames_def tools_ok_def)
  next
    case (Inr pods)
    then have "\<forall>p \<in> set pods. home (pd_Name p) = pd_NodeName p"
      using assms l unfolding tools_ok_def tool_cluster_def by blast
    from pod_names_home [OF this] have "cache_ok home (w1\<lparr>wd_Names := pod_names pods\<rparr>)"
      by (simp add: cache_ok_def)
    with assms l Inr show ?thesis by (simp add: refreshChaosBladeDaemonsetPodNames_def tools_ok_def)
  qed
qed

lemma daemonset_pod_ok:
  assumes "tools_ok N C home w" and g: "GetChaosBladeDaemonsetPodName N C node w = (r, w')"
  shows "tools_ok N C home w' \<and> (\<forall>name. r = Inr name \<longrightarrow> name = [] \<or> home name = node)"
proof -
  have ref: "tools_ok N C home u \<Longrightarrow>
      (case refreshChaosBladeDaemonsetPodNames N C u of (Some err, w1) \<Rightarrow> (Inl err, w1)
       | (None, w1) \<Rightarrow> (Inr (mget (wd_Names w1) node), w1)) = (r, w') \<Longrightarrow> ?thesis" for u
    using refresh_ok [of N C home u] cache_read [of home w' node]
    by (auto simp: tools_ok_def split: prod.splits option.splits)
  show ?thesis
  proof (cases "mget (wd_Names w) node = []")
    case True
    with g ref [OF assms(1)] show ?thesis by (simp add: GetChaosBladeDaemonsetPodName_def)
  next
    case False
    let ?g = "k_GetPod (en_Kube N) (cf_DaemonsetPodNamespace C) (mget (wd_Names w) node)"
    obtain x w1 where x: "?g w = (x, w1)" by (cases "?g w")
    have w1: "tools_ok N C home w1"
      using assms(1) x cache_kept [of ?g home w] by (simp add: tools_ok_def tool_cluster_def)
    show ?thesis
    proof (cases x)
      case (Inl e)
      with False g x ref [OF w1] show ?thesis by (simp add: GetChaosBladeDaemonsetPodName_def)
    next
      case (Inr pod)
      with False g x w1 cache_read [of home w node] assms(1) show ?thesis
        by (simp add: GetChaosBladeDaemonsetPodName_def tools_ok_def) blast
    qed
  qed
qed

text \<open>A command may read the cluster, not the variable.\<close>

definition reads_only :: "(ContainerObjectMeta \<Rightarrow> 'v world \<Rightarrow> 'a \<times> 'v world) \<Rightarrow> bool" where
  "reads_only command \<longleftrightarrow> (\<forall>obj. keeps_names (command obj))"

lemma reads_only_pure [simp]: "reads_only (\<lambda>obj w. (g obj, w))"
  by (simp add: reads_only_def keeps_names_def)

lemma in_tool_pod_ok:
  assumes "tools_ok N C home w" "reads_only command"
  shows "tools_ok N C home (snd (in_tool_pod N C command obj w)) \<and>
    (in_tool_pod N C command obj w = (Inr (Some d), w') \<longrightarrow> own_node home d)"
proof -
  obtain r w1 where g: "GetChaosBladeDaemonsetPodName N C (cm_NodeName obj) w = (r, w1)"
    by (cases "GetChaosBladeDaemonsetPodName N C (cm_NodeName obj) w")
  note ok = daemonset_pod_ok [OF assms(1) g]
  obtain c w2 where c: "command obj w1 = (c, w2)" by (cases "command obj w1")
  have "tools_ok N C home w2"
    using ok assms(2) c cache_kept [of "command obj" home w1] by (simp add: reads_only_def tools_ok_def)
  with ok c g show ?thesis
    by (auto simp: in_tool_pod_def tool_identifier_def own_node_def split: sum.splits option.splits)
qed

lemma stable_tools:
  assumes "tool_cluster N C home"
  shows "stable (en_Kube N) o' (tools_ok N C home)"
  using assms by (auto simp: stable_def tools_ok_def tool_cluster_def cache_kept)

lemma in_target_ok:
  assumes "tools_ok N C home w"
  shows "tools_ok N C home (snd (in_target N C m ov command obj w)) \<and>
    (in_target N C m ov command obj w = (Inr (Some d), w') \<longrightarrow> own_node home d)"
proof -
  have "tool_cluster N C home" using assms by (simp add: tools_ok_def)
  from deployChaosBlade_frame [OF stable_tools [OF this] assms] show ?thesis
    by (auto simp: in_target_def own_node_def Let_def split_beta)
qed

lemma in_tool_pod_meta: "in_tool_pod N C command obj w = (Inr (Some d), w') \<Longrightarrow> ei_Meta d = obj"
  by (auto simp: in_tool_pod_def tool_identifier_def split: prod.splits sum.splits option.splits)

lemma in_tool_pure_total: "fst (in_tool_pod N C (\<lambda>obj w. (Some (g obj), w)) obj w) \<noteq> Inr None"
  by (auto simp: in_tool_pod_def split: prod.splits sum.splits)

lemma in_tool_pure:
  "tools_ok N C home w \<Longrightarrow> tools_ok N C home (snd (in_tool_pod N C (\<lambda>obj w. (Some (g obj), w)) obj w))"
  "tools_ok N C home w \<Longrightarrow> in_tool_pod N C (\<lambda>obj w. (Some (g obj), w)) obj w = (Inr (Some d), w') \<Longrightarrow>
     own_node home d"
  using in_tool_pod_ok [of N C home w "\<lambda>obj w. (Some (g obj), w)" obj] reads_only_pure [of "\<lambda>obj. Some (g obj)"]
  by blast+

lemma docker_destroy_reads:
  assumes "tool_cluster N C home"
  shows "reads_only (docker_destroy_command N command net)"
proof -
  have "wd_Names w' = wd_Names w" if "k_GetPod (en_Kube N) ns n w = (r, w')" for ns n w r w'
    using assms that by (simp add: tool_cluster_def keeps_names_def) (metis snd_conv)
  then show ?thesis
    by (auto simp: reads_only_def keeps_names_def docker_destroy_command_def getNewContainerIdByPod_def
        split: prod.splits sum.splits)
qed

interpretation docker_destroy: guarded_loop "in_tool_pod N C (docker_destroy_command N command net)"
    "tools_ok N C home" "own_node home"
proof unfold_locales
  fix w :: "'a world" and obj d and w' :: "'a world"
  show "in_tool_pod N C (docker_destroy_command N command net) obj w = (Inr (Some d), w') \<Longrightarrow> ei_Meta d = obj"
    by (rule in_tool_pod_meta)
  have ok: "tools_ok N C home w \<Longrightarrow> reads_only (docker_destroy_command N command net)"
    using docker_destroy_reads tools_ok_def by blast
  show "tools_ok N C home w \<Longrightarrow>
      tools_ok N C home (snd (in_tool_pod N C (docker_destroy_command N command net) obj w))"
    using in_tool_pod_ok ok by blast
  show "tools_ok N C home w \<Longrightarrow>
      in_tool_pod N C (docker_destroy_command N command net) obj w = (Inr (Some d), w') \<Longrightarrow> own_node home d"
    using in_tool_pod_ok ok by blast
qed

interpretation tool_commands: total_loop "in_tool_pod N C (\<lambda>obj w. (Some (g obj), w))"
  by unfold_locales (rule in_tool_pod_meta in_tool_pure_total; assumption?)+

interpretation tool_commands: guarded_loop "in_tool_pod N C (\<lambda>obj w. (Some (g obj), w))"
    "tools_ok N C home" "own_node home"
  by unfold_locales (rule in_tool_pure; assumption)+

interpretation target_commands: total_loop "in_target N C m ov command"
  by unfold_locales (auto simp: in_target_def Let_def split_beta)

interpretation target_commands: guarded_loop "in_target N C m ov command" "tools_ok N C home" "own_node home"
  by unfold_locales (use in_target_ok in blast)+

interpretation nsexec_commands: total_loop "nsexec_identifier N C m command destroy"
  by unfold_locales
    (use in_tool_pod_meta in_tool_pure_total [of N C "\<lambda>_. x" for x] in
      \<open>auto simp: nsexec_identifier_def split: sum.splits\<close>)

interpretation nsexec_commands: guarded_loop "nsexec_identifier N C m command destroy"
    "tools_ok N C home" "own_node home"
  by unfold_locales
    (use in_tool_pure [of N C home _ "\<lambda>_. x" for x] in \<open>auto simp: nsexec_identifier_def split: sum.splits\<close>)

subsection \<open>Properties of the identifiers\<close>

text \<open>The one loop that can skip: destroying the network of a docker container.\<close>

definition may_skip :: "'v world env \<Rightarrow> config \<Rightarrow> ExpModel \<Rightarrow> ContainerObjectMeta list \<Rightarrow> bool \<Rightarrow> bool" where
  "may_skip N C m objs destroy \<longleftrightarrow> em_Scope m \<noteq> ''node'' \<and> container_target m \<and> em_Target m = ''network'' \<and>
     destroy \<and> use_cri N C objs = Some False"

lemmas generators = generateDestroyCommands_def generateCreateCommands_def generateDestroyNodeCommands_def
  generateCreateNodeCommands_def generateCreateDockerCommands_def
  generateDestroyCriCommands_def generateCreateCriCommands_def Let_def

lemma node_metas:
  "getNodeExperimentIdentifiers N C m objs matchers destroy w = (Inr ids, w') \<Longrightarrow> map ei_Meta ids = objs"
  by (auto simp: getNodeExperimentIdentifiers_def generators split: if_splits intro: tool_commands.loop_metas)

lemma docker_metas:
  "generateDestroyDockerCommands N C m objs matchers False w = (Inr ids, w') \<Longrightarrow> map ei_Meta ids = objs"
  by (simp add: generateDestroyDockerCommands_def docker_destroy_command_def [abs_def] Let_def)
    (rule tool_commands.loop_metas)

lemma identifiers_for_metas:
  assumes "identifiers_for N C m objs matchers destroy w = Some (Inr ids, w')"
    and "\<not> may_skip N C m objs destroy"
  shows "map ei_Meta ids = objs"
  using assms
  by (auto simp: identifiers_for_def getCriExperimentIdentifiers_def getDockerExperimentIdentifiers_def
      may_skip_def generators node_metas docker_metas
      split: if_splits Option.bind_splits
      intro: tool_commands.loop_metas target_commands.loop_metas)

lemma nsexec_metas:
  "nsexec_identifiers N C m objs matchers destroy w = (Inr ids, w') \<Longrightarrow> map ei_Meta ids = objs"
  by (auto simp: nsexec_identifiers_def node_metas Let_def split: if_splits intro: nsexec_commands.loop_metas)

lemma docker_destroy_own:
  "tools_ok N C home w \<Longrightarrow> generateDestroyDockerCommands N C m objs matchers net w = (Inr ids, w') \<Longrightarrow>
     subseq (map ei_Meta ids) objs \<and> (\<forall>d \<in> set ids. own_node home d)"
  using docker_destroy.loop_subseq docker_destroy.loop_good
  by (simp add: generateDestroyDockerCommands_def Let_def) blast

lemma node_own:
  "tools_ok N C home w \<Longrightarrow> getNodeExperimentIdentifiers N C m objs matchers destroy w = (Inr ids, w') \<Longrightarrow>
     \<forall>d \<in> set ids. own_node home d"
  by (auto simp: getNodeExperimentIdentifiers_def generators split: if_splits
      dest: tool_commands.loop_good)

lemma identifiers_for_own:
  assumes "tools_ok N C home w" "identifiers_for N C m objs matchers destroy w = Some (Inr ids, w')"
  shows "\<forall>d \<in> set ids. own_node home d"
  using assms
  by (auto simp: identifiers_for_def getCriExperimentIdentifiers_def getDockerExperimentIdentifiers_def
      generators split: if_splits Option.bind_splits
      dest: tool_commands.loop_good target_commands.loop_good node_own docker_destroy_own)

lemma nsexec_own:
  "tools_ok N C home w \<Longrightarrow> nsexec_identifiers N C m objs matchers destroy w = (Inr ids, w') \<Longrightarrow>
     \<forall>d \<in> set ids. own_node home d"
  by (auto simp: nsexec_identifiers_def Let_def split: if_splits dest: nsexec_commands.loop_good node_own)

lemma getIds_cases:
  assumes "getExperimentIdentifiers N C ctx m w = Some (Inr ids, w')"
  obtains objs ms where "GetContainerObjectMetaListFromContext ctx = Some (Inr objs)"
    "identifiers_for N C (delete_uid m) objs ms (sp_IsDestroy (en_Spec N) ctx) w = Some (Inr ids, w')"
  using assms by (auto simp: getExperimentIdentifiers_def Let_def split: Option.bind_splits sum.splits)

lemma nsexecIds_cases:
  assumes "getExperimentIdentifiersWithNsexec N C ctx m w = Some (Inr ids, w')"
  obtains objs ms where "GetContainerObjectMetaListFromContext ctx = Some (Inr objs)"
    "nsexec_identifiers N C (delete_uid m) objs ms (sp_IsDestroy (en_Spec N) ctx) w = (Inr ids, w')"
  using assms by (auto simp: getExperimentIdentifiersWithNsexec_def Let_def split: Option.bind_splits sum.splits)

text \<open>C14. A command that does not run in its target runs on the node of its target: the daemonset pod
  an identifier names is at home on the node in the target's metadata, whether the name came from the
  cache or from the cluster.\<close>

theorem commands_run_on_own_node:
  assumes "tool_cluster N C home" "cache_ok home w"
    and "getExperimentIdentifiers N C ctx m w = Some (Inr ids, w') \<or>
         getExperimentIdentifiersWithNsexec N C ctx m w = Some (Inr ids, w')"
    and "d \<in> set ids" "ei_ChaosBladePodName d \<noteq> []"
  shows "home (ei_ChaosBladePodName d) = cm_NodeName (ei_Meta d)"
proof -
  have ok: "tools_ok N C home w" using assms(1,2) by (simp add: tools_ok_def)
  from assms(3) have "own_node home d"
    using identifiers_for_own [OF ok] nsexec_own [OF ok] assms(4)
    by (auto elim!: getIds_cases nsexecIds_cases)
  with assms(5) show ?thesis by (simp add: own_node_def)
qed

text \<open>What the statuses of an experiment say of their targets, when every target is reported on.\<close>

definition reports :: "spec_lib \<Rightarrow> Ctx \<Rightarrow> ExpModel \<Rightarrow> ContainerObjectMeta list \<Rightarrow> Response \<Rightarrow> bool" where
  "reports S ctx m objs r \<longleftrightarrow> (\<exists>sts ok. rp_Result r = RExp (experiment_status sts ok) \<and>
     mset (map (\<lambda>st. (rs_Kind st, rs_Identifier st)) sts) =
     mset (map (\<lambda>obj. (em_Scope m, GetIdentifier obj)) objs) \<and>
     (sp_IsDestroy S ctx \<longrightarrow> mset (map rs_Id sts) = mset (map cm_Id objs)))"

definition refused :: "Response \<Rightarrow> bool" where
  "refused r \<longleftrightarrow> \<not> rp_Success r \<and> (\<exists>err. rp_Result r = RExp (CreateFailExperimentStatus err (Some [])))"

lemma reportsI:
  assumes "rp_Result r = RExp (experiment_status sts ok)" "map ei_Meta ids = objs"
    and k: "mset (map (key (sp_IsDestroy S ctx)) sts) = mset (map (target_key (sp_IsDestroy S ctx) m) ids)"
  shows "reports S ctx m objs r"
proof -
  have map_k: "mset (map f (map (key (sp_IsDestroy S ctx)) sts)) =
      mset (map f (map (target_key (sp_IsDestroy S ctx) m) ids))" for f :: "_ \<Rightarrow> 'b"
    using k by (metis mset_map)
  have "mset (map (\<lambda>st. (rs_Kind st, rs_Identifier st)) sts) =
      mset (map (\<lambda>obj. (em_Scope m, GetIdentifier obj)) objs)"
    using map_k [of "\<lambda>(a, b, c). (a, b)"] assms(2) by (auto simp: key_def target_key_def comp_def simp flip: mset_map)
  moreover have "mset (map rs_Id sts) = mset (map cm_Id objs)" if "sp_IsDestroy S ctx"
    using map_k [of "\<lambda>(a, b, c). the c"] assms(2) that
    by (auto simp: key_def target_key_def comp_def simp flip: mset_map)
  ultimately show ?thesis using assms(1) unfolding reports_def by blast
qed

lemma Exec_refused:
  assumes "spec_contract (en_Spec N)" "Exec N getIds sched u ctx m w = Some (r, w')"
    and "getIds ctx m w = Some (Inl err, w1)"
  shows "refused r"
  using assms by (auto simp: Exec_def refused_def spec_contractD split: Option.bind_splits)

lemma Exec_getIds: "Exec N getIds sched u ctx m w = Some x \<Longrightarrow> getIds ctx m w \<noteq> None"
  by (auto simp: Exec_def split: Option.bind_splits)

lemma delete_uid_sel [simp]:
  "em_Scope (delete_uid m) = em_Scope m" "em_Target (delete_uid m) = em_Target m"
  "em_ActionName (delete_uid m) = em_ActionName m"
  "em_ActionProcessHang (delete_uid m) = em_ActionProcessHang m"
  by (simp_all add: delete_uid_def)

lemma Exec_reports:
  assumes S: "spec_contract (en_Spec N)" and e: "Exec N getIds sched u ctx m w = Some (r, w')"
    and metas: "\<And>ids w1. getIds ctx m w = Some (Inr ids, w1) \<Longrightarrow> map ei_Meta ids = objs"
  shows "reports (en_Spec N) ctx m objs r \<or> refused r"
proof -
  from Exec_getIds [OF e] obtain x w1 where g: "getIds ctx m w = Some (x, w1)" by auto
  show ?thesis
  proof (cases x)
    case (Inl err)
    with g Exec_refused [OF S e] show ?thesis by simp
  next
    case (Inr ids)
    with Exec_statuses [OF S _ e] g obtain sts ok where "rp_Result r = RExp (experiment_status sts ok)"
      "mset (map (key (sp_IsDestroy (en_Spec N) ctx)) sts) = mset (map (target_key (sp_IsDestroy (en_Spec N) ctx) m) ids)"
      by blast
    with reportsI metas g Inr show ?thesis by blast
  qed
qed

text \<open>C3. Every container in the context is reported on exactly once under every schedule, or the experiment is
  refused as a whole, with an error and no statuses: by the executor of the operating system models always, and by the
  one of the container models except in a destroy of a docker network experiment (\<open>may_skip\<close>). In that case
  the container whose id cannot be read is dropped, and the destroy can report success without it:
  \<open>docker_network_destroy_drops\<close>.\<close>

theorem every_target_reported:
  assumes "spec_contract (en_Spec N)" "GetContainerObjectMetaListFromContext ctx = Some (Inr objs)"
    and "CommonExecutor_Exec N C sched u ctx m w = Some (r, w') \<or>
      (ExecCommandInPodExecutor_Exec N C sched u ctx m w = Some (r, w') \<and>
       \<not> may_skip N C (delete_uid m) objs (sp_IsDestroy (en_Spec N) ctx))"
  shows "reports (en_Spec N) ctx m objs r \<or> refused r"
  using assms(3)
proof
  assume "CommonExecutor_Exec N C sched u ctx m w = Some (r, w')"
  then show ?thesis unfolding CommonExecutor_Exec_def
    by (rule Exec_reports [OF assms(1)]) (use assms(2) nsexec_metas in \<open>auto elim!: nsexecIds_cases\<close>)
next
  assume a: "ExecCommandInPodExecutor_Exec N C sched u ctx m w = Some (r, w') \<and>
       \<not> may_skip N C (delete_uid m) objs (sp_IsDestroy (en_Spec N) ctx)"
  then have "Exec N (getExperimentIdentifiers N C) sched u ctx m w = Some (r, w')"
    by (simp add: ExecCommandInPodExecutor_Exec_def)
  then show ?thesis
    by (rule Exec_reports [OF assms(1)]) (use assms(2) a identifiers_for_metas in \<open>auto elim!: getIds_cases\<close>)
qed

lemma empty_pods_refresh:
  assumes "k_ListPods (en_Kube N) (cf_DaemonsetPodNamespace C) (SelSet DaemonsetPodLabels) w = (Inr pods, w1)"
    and "\<forall>p \<in> set pods. pd_NodeName p \<noteq> node" "mget (wd_Names w) node = []"
  shows "GetChaosBladeDaemonsetPodName N C node w = (Inr [], w1\<lparr>wd_Names := pod_names pods\<rparr>)"
proof -
  have "pod_names pods node = None"
    using assms(2) unfolding pod_names_def by (induction pods rule: rev_induct) auto
  with assms show ?thesis
    by (simp add: GetChaosBladeDaemonsetPodName_def refreshChaosBladeDaemonsetPodNames_def mget_def)
qed

text \<open>When no pod of the tool runs on the node of a target, no error is reported: the identifier has no
  daemonset pod, and so the command runs in the target container itself.\<close>

theorem missing_tool_runs_in_target:
  assumes "k_ListPods (en_Kube N) (cf_DaemonsetPodNamespace C) (SelSet DaemonsetPodLabels) w = (Inr pods, w1)"
    and "\<forall>p \<in> set pods. pd_NodeName p \<noteq> cm_NodeName obj" "mget (wd_Names w) (cm_NodeName obj) = []"
    and "nsexec_command N m command destroy obj = Inr c"
  shows "\<exists>d w'. nsexec_identifier N C m command destroy obj w = (Inr (Some d), w') \<and> ei_Error d = [] \<and>
    exec_target d = (cm_PodName obj, cm_Namespace obj, cm_ContainerName obj)"
  using empty_pods_refresh [OF assms(1-3)] assms(4)
  by (simp add: nsexec_identifier_def in_tool_pod_def tool_identifier_def exec_target_def)

lemma docker_loop_skips:
  assumes "\<forall>ns n w. \<exists>e w'. k_GetPod (en_Kube N) ns n w = (Inl e, w')"
    and "\<forall>w. \<exists>pods w'. k_ListPods (en_Kube N) (cf_DaemonsetPodNamespace C) (SelSet DaemonsetPodLabels) w = (Inr pods, w')"
  shows "\<exists>w'. for_targets (in_tool_pod N C (docker_destroy_command N command True)) objs w = (Inr [], w')"
proof (induction objs arbitrary: w)
  case (Cons obj objs)
  have r: "\<exists>u'. refreshChaosBladeDaemonsetPodNames N C u = (None, u')" for u
    using assms(2) [rule_format, of u] by (auto simp: refreshChaosBladeDaemonsetPodNames_def)
  have "\<exists>name u. GetChaosBladeDaemonsetPodName N C (cm_NodeName obj) w = (Inr name, u)"
  proof (cases "mget (wd_Names w) (cm_NodeName obj) = []")
    case True
    with r [of w] show ?thesis by (auto simp: GetChaosBladeDaemonsetPodName_def)
  next
    case False
    obtain e v where "k_GetPod (en_Kube N) (cf_DaemonsetPodNamespace C) (mget (wd_Names w) (cm_NodeName obj)) w = (Inl e, v)"
      using assms(1) by blast
    with False r [of v] show ?thesis by (auto simp: GetChaosBladeDaemonsetPodName_def)
  qed
  then obtain name u where n: "GetChaosBladeDaemonsetPodName N C (cm_NodeName obj) w = (Inr name, u)" by blast
  obtain e v where "k_GetPod (en_Kube N) (cm_Namespace obj) (cm_PodName obj) u = (Inl e, v)"
    using assms(1) by blast
  with n have "in_tool_pod N C (docker_destroy_command N command True) obj w = (Inr None, v)"
    by (simp add: in_tool_pod_def docker_destroy_command_def getNewContainerIdByPod_def)
  with Cons.IH [of v] show ?case by simp
qed simp

text \<open>Destroying a docker network experiment whose target pods cannot be read drops every target
  silently: nothing is executed, and the experiment is reported as destroyed, with no status at all.\<close>

theorem docker_network_destroy_drops:
  assumes "may_skip N C (delete_uid m) objs (sp_IsDestroy (en_Spec N) ctx)" "image_repo C \<noteq> None"
    and "GetContainerObjectMetaListFromContext ctx = Some (Inr objs)" "GetExperimentIdFromContext ctx \<noteq> None"
    and "\<forall>ns n w. \<exists>e w'. k_GetPod (en_Kube N) ns n w = (Inl e, w')"
    and "\<forall>w. \<exists>pods w'. k_ListPods (en_Kube N) (cf_DaemonsetPodNamespace C) (SelSet DaemonsetPodLabels) w = (Inr pods, w')"
  shows "\<exists>w'. ExecCommandInPodExecutor_Exec N C sched u ctx m w =
    Some (sp_ReturnResultIgnoreCode (en_Spec N) (RExp (CreateSuccessExperimentStatus (Some []))), w')"
proof -
  let ?ms = "sp_ConvertMatchers (en_Spec N) (delete_uid m) (GetResourceFlagNames (cf_OverrideFlag C))"
  obtain ms where ms: "network_matchers C True ?ms = Some ms"
    using assms(2) by (auto simp: network_matchers_def)
  obtain w1 where "generateDestroyDockerCommands N C (delete_uid m) objs ms True w = (Inr [], w1)"
    using docker_loop_skips [OF assms(5,6)] unfolding generateDestroyDockerCommands_def Let_def by blast
  with ms assms(1) have "identifiers_for N C (delete_uid m) objs ?ms (sp_IsDestroy (en_Spec N) ctx) w = Some (Inr [], w1)"
    by (simp add: may_skip_def identifiers_for_def getDockerExperimentIdentifiers_def)
  with assms(3,4) have "getExperimentIdentifiers N C ctx m w = Some (Inr [], w1)"
    by (auto simp: getExperimentIdentifiers_def Let_def)
  from no_targets_succeed [where getIds = "getExperimentIdentifiers N C", OF this assms(4)] show ?thesis
    by (simp add: ExecCommandInPodExecutor_Exec_def)
qed

text \<open>With a tool version that has no \<open>cri\<close> command, a container experiment without targets makes the
  executor panic: it reads the runtime of the first of no containers.\<close>

theorem no_target_panics:
  assumes "container_target (delete_uid m)" "em_Scope m \<noteq> ''node''"
    and "\<not> CheckVerisonHaveCriCommand (cf_Version C)"
    and "GetContainerObjectMetaListFromContext ctx = Some (Inr [])"
  shows "ExecCommandInPodExecutor_Exec N C sched u ctx m w = None"
  using assms
  by (simp add: ExecCommandInPodExecutor_Exec_def Exec_def getExperimentIdentifiers_def Let_def
      identifiers_for_def use_cri_def index_at_def split: Option.bind_splits)

subsection \<open>Witnesses\<close>

definition tool_pod :: Pod where
  "tool_pod = no_pod\<lparr>pd_Name := ''t'', pd_NodeName := ''n''\<rparr>"

definition tool_world :: "unit world" where
  "tool_world = \<lparr>wd_Names = [''n'' \<mapsto> ''t''], wd_Ext = ()\<rparr>"

definition bare_world :: "unit world" where
  "bare_world = \<lparr>wd_Names = Map.empty, wd_Ext = ()\<rparr>"

definition ctx_c :: Ctx where
  "ctx_c = SetContainerObjectMetaListToContext [ExperimentIdKey \<mapsto> CtxStr ''e''] [meta_c]"

definition net_model :: ExpModel where
  "net_model = \<lparr>em_Target = ''network'', em_Scope = ''container'', em_ActionName = ''delay'',
     em_ActionFlags = [IsDockerNetworkFlag \<mapsto> ''true''], em_ActionPrograms = [], em_ActionProcessHang = False\<rparr>"

abbreviation tools :: "Pod list \<Rightarrow> unit world env" where "tools pods \<equiv> sample_env pods"

lemma tool_env_sel [simp]:
  "en_Spec (sample_env ps) = sample_spec" "en_Kube (sample_env ps) = quiet_kube ps"
  "en_Docker (sample_env ps) = ''docker''" "en_Containerd (sample_env ps) = ''containerd''"
  by (simp_all add: sample_env_def)

lemma quiet_tools: "tool_cluster (tools [tool_pod]) C (\<lambda>_. ''n'')"
  by (auto simp: tool_cluster_def quiet_kube_def keeps_names_def tool_pod_def no_pod_def split: option.splits)

lemma ctx_c_sel [simp]:
  "GetContainerObjectMetaListFromContext ctx_c = Some (Inr [meta_c])" "GetExperimentIdFromContext ctx_c = Some ''e''"
  by (simp add: ctx_c_def) (simp add: ctx_c_def GetExperimentIdFromContext_def SetContainerObjectMetaListToContext_def)

lemma ctx_c_create [simp]: "\<not> sp_IsDestroy sample_spec ctx_c"
  using spec_contract_destroy(1) [OF sample_spec_contract]
  by (simp add: ctx_c_def destroy_set_meta_list [OF sample_spec_contract]
      spec_contract_destroy(4) [OF sample_spec_contract])

lemma tool_name: "GetChaosBladeDaemonsetPodName (tools [tool_pod]) C ''n'' tool_world = (Inr ''t'', tool_world)"
  by (simp add: GetChaosBladeDaemonsetPodName_def tool_world_def quiet_kube_def tool_pod_def mget_def Let_def)

lemma tool_ids:
  "\<exists>c. getExperimentIdentifiersWithNsexec (tools [tool_pod]) sample_config ctx_c java_model tool_world =
     Some (Inr [tool_identifier sample_config meta_c c ''t''], tool_world)"
proof -
  have j: "em_Scope java_model = ''container''" "em_Target java_model = ''jvm''"
      "\<not> em_ActionProcessHang java_model" "cm_NodeName meta_c = ''n''"
    by (simp_all add: java_model_def meta_c_def)
  then show ?thesis
    by (simp add: getExperimentIdentifiersWithNsexec_def nsexec_identifiers_def nsexec_identifier_def
        nsexec_command_def in_tool_pod_def tool_name Let_def) blast
qed

lemma commands_run_on_own_node_witness:
  "\<exists>d w'. getExperimentIdentifiersWithNsexec (tools [tool_pod]) sample_config ctx_c java_model tool_world =
     Some (Inr [d], w') \<and> (\<lambda>_. ''n'') (ei_ChaosBladePodName d) = cm_NodeName (ei_Meta d)"
proof -
  obtain c where c: "getExperimentIdentifiersWithNsexec (tools [tool_pod]) sample_config ctx_c java_model tool_world =
     Some (Inr [tool_identifier sample_config meta_c c ''t''], tool_world)"
    using tool_ids by blast
  have "cache_ok (\<lambda>_. ''n'') tool_world" by (simp add: cache_ok_def tool_world_def)
  from commands_run_on_own_node [OF quiet_tools this disjI2 [OF c],
      of "tool_identifier sample_config meta_c c ''t''"] c
  show ?thesis by (simp add: tool_identifier_def)
qed

definition gone_env :: "unit world env" where "gone_env = tools []"

lemma gone_ids:
  "\<exists>d w'. getExperimentIdentifiersWithNsexec gone_env sample_config ctx_c java_model bare_world =
     Some (Inr [d], w') \<and> ei_Meta d = meta_c \<and> ei_ChaosBladePodName d = []"
  by (simp add: getExperimentIdentifiersWithNsexec_def nsexec_identifiers_def nsexec_identifier_def
      nsexec_command_def in_tool_pod_def java_model_def meta_c_def Let_def gone_env_def bare_world_def
      GetChaosBladeDaemonsetPodName_def refreshChaosBladeDaemonsetPodNames_def quiet_kube_def pod_names_def
      tool_identifier_def mget_def)

text \<open>The quiet server answers no command, so nothing it says decodes to a success.\<close>

lemma gone_answers: "create_answers gone_env [d]"
  by (auto simp: create_answers_def command_answer_def client_Exec_def gone_env_def quiet_kube_def sample_spec_def
      Let_def split_beta)

lemma every_target_reported_witness:
  "\<exists>r w'. CommonExecutor_Exec gone_env sample_config (\<lambda>_. 0) ''u'' ctx_c java_model bare_world = Some (r, w') \<and>
     (reports (en_Spec gone_env) ctx_c java_model [meta_c] r \<or> refused r)"
proof -
  obtain d w1 where "getExperimentIdentifiersWithNsexec gone_env sample_config ctx_c java_model bare_world =
     Some (Inr [d], w1)" using gone_ids by blast
  moreover have "create_answers gone_env [d]" by (rule gone_answers)
  ultimately obtain r w' where
    "CommonExecutor_Exec gone_env sample_config (\<lambda>_. 0) ''u'' ctx_c java_model bare_world = Some (r, w')"
    using Exec_returns [where N = gone_env and ctx = ctx_c and ids = "[d]" and ?w1.0 = w1
        and getIds = "getExperimentIdentifiersWithNsexec gone_env sample_config" and m = java_model
        and w = bare_world and u = "''u''" and sched = "\<lambda>_. 0"]
    by (auto simp: CommonExecutor_Exec_def)
  with every_target_reported [OF _ ctx_c_sel(1) disjI1, OF _ this] show ?thesis
    by (auto simp: gone_env_def sample_spec_contract)
qed

lemma missing_tool_runs_in_target_witness:
  "\<exists>d w'. nsexec_identifier gone_env sample_config java_model ''blade'' False meta_c bare_world = (Inr (Some d), w') \<and>
    ei_Error d = [] \<and> exec_target d = (cm_PodName meta_c, cm_Namespace meta_c, cm_ContainerName meta_c)"
  by (rule missing_tool_runs_in_target [where pods = "[]" and ?w1.0 = bare_world])
    (auto simp: gone_env_def quiet_kube_def bare_world_def nsexec_command_def java_model_def Let_def)

definition old_config :: config where "old_config = sample_config\<lparr>cf_Version := ''unknown''\<rparr>"

definition ctx_d :: Ctx where "ctx_d = sp_SetDestroyFlag sample_spec ctx_c ''u''"

lemma ctx_d_id: "GetExperimentIdFromContext ctx_d = Some ''e''"
  using ctx_c_sel(2) spec_contract_destroy(6) [OF sample_spec_contract, of ctx_c "''u''"]
  by (simp add: GetExperimentIdFromContext_def ctx_d_def)

definition docker_meta :: ContainerObjectMeta where
  "docker_meta = meta_c\<lparr>cm_ContainerRuntime := ''docker''\<rparr>"

lemma old_config_cri: "\<not> CheckVerisonHaveCriCommand (cf_Version old_config)"
  by (simp add: old_config_def cri_command_fields)

lemma docker_network_destroy_drops_witness:
  "\<exists>w'. ExecCommandInPodExecutor_Exec gone_env old_config (\<lambda>_. 0) ''u''
      (SetContainerObjectMetaListToContext ctx_d [docker_meta]) net_model bare_world =
    Some (sp_ReturnResultIgnoreCode (en_Spec gone_env) (RExp (CreateSuccessExperimentStatus (Some []))), w')"
proof (rule docker_network_destroy_drops [where objs = "[docker_meta]"])
  have "sp_IsDestroy sample_spec (SetContainerObjectMetaListToContext ctx_d [docker_meta])"
    by (simp add: destroy_set_meta_list [OF sample_spec_contract] ctx_d_def
        spec_contract_destroy(2) [OF sample_spec_contract])
  then show "may_skip gone_env old_config (delete_uid net_model) [docker_meta]
      (sp_IsDestroy (en_Spec gone_env) (SetContainerObjectMetaListToContext ctx_d [docker_meta]))"
    by (simp add: may_skip_def gone_env_def container_target_def flag_is_true_def delete_uid_def net_model_def
        use_cri_def old_config_cri index_at_def docker_meta_def IsDockerNetworkFlag_def mget_def)
  show "image_repo old_config \<noteq> None"
    by (simp add: old_config_def image_repo_products(1) sample_config_def)
  show "GetExperimentIdFromContext (SetContainerObjectMetaListToContext ctx_d [docker_meta]) \<noteq> None"
    by (simp add: ctx_d_id)
qed (auto simp: gone_env_def quiet_kube_def)

lemma no_target_panics_witness:
  "ExecCommandInPodExecutor_Exec gone_env old_config (\<lambda>_. 0) ''u''
     (SetContainerObjectMetaListToContext ctx_d []) net_model bare_world = None"
  by (rule no_target_panics)
    (simp_all add: old_config_cri container_target_def flag_is_true_def delete_uid_def net_model_def
      IsDockerNetworkFlag_def mget_def)

end
