(* ===== verification/Daemonset.thy ===== *)
theory Daemonset
  imports Commands
begin

section \<open>The daemon set of the blade tool (pkg/controller/chaosblade/daemonset.go)\<close>

text \<open>
  The objects the operator makes to run the blade tool on every node, and their creation. The constants of
  the Kubernetes API are written out as the strings they stand for; the fields the code leaves at their zero
  values are not in the records. At this version the only call of \<open>deployChaosBladeTool\<close>, in \<open>add\<close> of
  \<open>controller.go\<close>, is commented out: the daemon set comes from the installation, and what is shown here is
  that the object of the code and the look-up of the tool pods (theory Commands) fit together.
\<close>

record OwnerReference =
  or_APIVersion :: string
  or_Kind :: string
  or_Name :: string
  or_UID :: string
  or_Controller :: "bool option"

record Volume =
  vo_Name :: string
  vo_Path :: string
  vo_Type :: "string option"

record Toleration =
  to_Effect :: string
  to_Operator :: string

record NodeRequirement =
  nr_Key :: string
  nr_Operator :: string
  nr_Values :: "string list"

record PodSpec =
  ps_Containers :: "Container list"
  ps_Affinity :: "NodeRequirement list list"
  ps_DNSPolicy :: string
  ps_HostNetwork :: bool
  ps_HostPID :: bool
  ps_Tolerations :: "Toleration list"
  ps_TerminationGracePeriodSeconds :: "int option"
  ps_SchedulerName :: string
  ps_RestartPolicy :: string
  ps_Volumes :: "Volume list"

record PodTemplateSpec =
  pt_Name :: string
  pt_Labels :: "(string \<times> string) list"
  pt_Spec :: PodSpec

record DaemonSetSpec =
  dp_Selector :: "(string \<times> string) list"
  dp_Template :: PodTemplateSpec
  dp_MinReadySeconds :: int
  dp_UpdateStrategy :: string

record DaemonSet =
  dm_Name :: string
  dm_Namespace :: string
  dm_Labels :: "(string \<times> string) list"
  dm_OwnerReferences :: "OwnerReference list"
  dm_Spec :: DaemonSetSpec

subsection \<open>The objects\<close>

text \<open>The affinity is the list of the terms of the required node selector.\<close>

definition createAffinity :: "NodeRequirement list list" where
  "createAffinity = [[\<lparr>nr_Key = ''type'', nr_Operator = ''NotIn'', nr_Values = [''virtual-kubelet'']\<rparr>]]"

text \<open>The image comes from the product; a product that is not registered makes it panic.\<close>

definition createContainer :: "config \<Rightarrow> Container go" where
  "createContainer C =
     do { repo \<leftarrow> image_repo C;
          Some (no_container
            \<lparr>ct_Name := DaemonsetPodName, ct_Image := repo @ '':'' @ cf_ToolVersion C,
             ct_ImagePullPolicy := cf_PullPolicy C,
             ct_VolumeMounts :=
               [\<lparr>vm_Name = ''docker-socket'', vm_MountPath = ''/var/run/docker.sock'', vm_MountPropagation = None\<rparr>,
                \<lparr>vm_Name = ''chaosblade-db-volume'', vm_MountPath = ''/opt/chaosblade/chaosblade.dat'',
                 vm_MountPropagation = None\<rparr>,
                \<lparr>vm_Name = ''hosts'', vm_MountPath = ''/etc/hosts'', vm_MountPropagation = None\<rparr>],
             ct_Privileged := Some True\<rparr>) }"

definition createPodSpec :: "config \<Rightarrow> PodSpec go" where
  "createPodSpec C =
     do { container \<leftarrow> createContainer C;
          Some \<lparr>ps_Containers = [container], ps_Affinity = createAffinity,
            ps_DNSPolicy = ''ClusterFirstWithHostNet'', ps_HostNetwork = True, ps_HostPID = True,
            ps_Tolerations = [\<lparr>to_Effect = ''NoSchedule'', to_Operator = ''Exists''\<rparr>],
            ps_TerminationGracePeriodSeconds = Some 30, ps_SchedulerName = ''default-scheduler'',
            ps_RestartPolicy = ''Always'',
            ps_Volumes =
              [\<lparr>vo_Name = ''docker-socket'', vo_Path = ''/var/run/docker.sock'', vo_Type = None\<rparr>,
               \<lparr>vo_Name = ''chaosblade-db-volume'', vo_Path = ''/var/run/chaosblade.dat'',
                vo_Type = Some ''FileOrCreate''\<rparr>,
               \<lparr>vo_Name = ''hosts'', vo_Path = ''/etc/hosts'', vo_Type = None\<rparr>]\<rparr> }"

definition createPodTemplateSpec :: "config \<Rightarrow> PodTemplateSpec go" where
  "createPodTemplateSpec C =
     do { ps \<leftarrow> createPodSpec C;
          Some \<lparr>pt_Name = DaemonsetPodName, pt_Labels = DaemonsetPodLabels, pt_Spec = ps\<rparr> }"

definition createDaemonsetSpec :: "config \<Rightarrow> DaemonSetSpec go" where
  "createDaemonsetSpec C =
     do { template \<leftarrow> createPodTemplateSpec C;
          Some \<lparr>dp_Selector = DaemonsetPodLabels, dp_Template = template, dp_MinReadySeconds = 5,
            dp_UpdateStrategy = ''RollingUpdate''\<rparr> }"

subsection \<open>The deployment\<close>

text \<open>
  What is outside: the namespace of the operator, the unstructured object of a deployment (its API version,
  kind, name and uid) and the creation of a daemon set, with the classification of its error.
\<close>

record 'w cluster =
  cl_OperatorNamespace :: "GoErr + string"
  cl_GetDeployment :: "string \<Rightarrow> string \<Rightarrow> 'w \<Rightarrow> (GoErr + string \<times> string \<times> string \<times> string) \<times> 'w"
  cl_CreateDaemonSet :: "DaemonSet \<Rightarrow> 'w \<Rightarrow> GoErr option \<times> 'w"
  cl_IsAlreadyExists :: "GoErr \<Rightarrow> bool"

definition createOwnerReferences :: "'w cluster \<Rightarrow> 'w \<Rightarrow> (GoErr + OwnerReference list) \<times> 'w" where
  "createOwnerReferences K w =
     (case cl_OperatorNamespace K of
        Inl err \<Rightarrow> (Inl err, w)
      | Inr namespace \<Rightarrow>
          (case cl_GetDeployment K namespace ''chaosblade-operator'' w of
             (Inl err, w) \<Rightarrow> (Inl err, w)
           | (Inr (version, kind, name, uid), w) \<Rightarrow>
               (Inr [\<lparr>or_APIVersion = version, or_Kind = kind, or_Name = name, or_UID = uid,
                      or_Controller = Some True\<rparr>], w)))"

definition deployChaosBladeTool :: "config \<Rightarrow> 'w cluster \<Rightarrow> 'w \<Rightarrow> (GoErr option \<times> 'w) go" where
  "deployChaosBladeTool C K w =
     (case createOwnerReferences K w of
        (Inl err, w) \<Rightarrow> Some (Some err, w)
      | (Inr references, w) \<Rightarrow>
          do { ds \<leftarrow> createDaemonsetSpec C;
               Some (case cl_CreateDaemonSet K
                   \<lparr>dm_Name = DaemonsetPodName, dm_Namespace = cf_DaemonsetPodNamespace C,
                    dm_Labels = DaemonsetPodLabels, dm_OwnerReferences = references, dm_Spec = ds\<rparr> w of
                 (Some err, w) \<Rightarrow> (if cl_IsAlreadyExists K err then None else Some err, w)
               | (None, w) \<Rightarrow> (None, w)) })"

subsection \<open>Facts\<close>

text \<open>What is made, for a registered product; every mount of the container is a volume of the pod.\<close>

lemma createDaemonsetSpec_Some:
  assumes "createDaemonsetSpec C = Some ds"
  shows "dp_Selector ds = DaemonsetPodLabels" "pt_Labels (dp_Template ds) = DaemonsetPodLabels"
    "ps_Affinity (pt_Spec (dp_Template ds)) = createAffinity"
    "ps_Tolerations (pt_Spec (dp_Template ds)) = [\<lparr>to_Effect = ''NoSchedule'', to_Operator = ''Exists''\<rparr>]"
  using assms by (auto simp: createDaemonsetSpec_def createPodTemplateSpec_def createPodSpec_def split: Option.bind_splits)

lemma mounts_are_volumes:
  assumes "createPodSpec C = Some ps" "c \<in> set (ps_Containers ps)" "m \<in> set (ct_VolumeMounts c)"
  shows "vm_Name m \<in> vo_Name ` set (ps_Volumes ps)"
  using assms by (auto simp: createPodSpec_def createContainer_def split: Option.bind_splits)

text \<open>An existing daemon set is no error; what is answered otherwise is the answer of the creation.\<close>

lemma deploy_creates:
  assumes "deployChaosBladeTool C K w = Some (None, w')"
  obtains d w1 e where "dm_Name d = DaemonsetPodName" "dm_Namespace d = cf_DaemonsetPodNamespace C"
    "createDaemonsetSpec C = Some (dm_Spec d)" "cl_CreateDaemonSet K d w1 = (e, w')"
    "e = None \<or> cl_IsAlreadyExists K (the e)" "\<exists>ns n. w1 = snd (cl_GetDeployment K ns n w)"
proof -
  from assms obtain refs w1 ds where o: "createOwnerReferences K w = (Inr refs, w1)" "createDaemonsetSpec C = Some ds"
    and r: "(case cl_CreateDaemonSet K
        \<lparr>dm_Name = DaemonsetPodName, dm_Namespace = cf_DaemonsetPodNamespace C,
         dm_Labels = DaemonsetPodLabels, dm_OwnerReferences = refs, dm_Spec = ds\<rparr> w1 of
      (Some err, w) \<Rightarrow> (if cl_IsAlreadyExists K err then None else Some err, w) | (None, w) \<Rightarrow> (None, w)) = (None, w')"
    by (auto simp: deployChaosBladeTool_def split: prod.splits sum.splits Option.bind_splits)
  let ?d = "\<lparr>dm_Name = DaemonsetPodName, dm_Namespace = cf_DaemonsetPodNamespace C,
    dm_Labels = DaemonsetPodLabels, dm_OwnerReferences = refs, dm_Spec = ds\<rparr>"
  have "\<exists>ns n. w1 = snd (cl_GetDeployment K ns n w)"
    using o(1) by (auto simp: createOwnerReferences_def split: sum.splits prod.splits) (metis snd_conv)
  with r o(2) show ?thesis
    by (intro that [of ?d w1 "fst (cl_CreateDaemonSet K ?d w1)"]) (auto split: prod.splits option.splits if_splits)
qed

subsection \<open>The nodes of a daemon set\<close>

text \<open>
  The rules of the scheduler for the objects above: a term of the affinity must hold (\<open>NotIn\<close> also holds for
  a label that is missing), and every taint that forbids scheduling must be tolerated.
\<close>

definition requirement_holds :: "flags \<Rightarrow> NodeRequirement \<Rightarrow> bool" where
  "requirement_holds labels r \<longleftrightarrow> nr_Operator r = ''NotIn'' \<and>
     (case labels (nr_Key r) of None \<Rightarrow> True | Some v \<Rightarrow> v \<notin> set (nr_Values r))"

definition node_accepts :: "PodSpec \<Rightarrow> flags \<Rightarrow> string list \<Rightarrow> bool" where
  "node_accepts ps labels taints \<longleftrightarrow>
     list_ex (list_all (requirement_holds labels)) (ps_Affinity ps) \<and>
     list_all (\<lambda>e. e = ''PreferNoSchedule'' \<or>
       list_ex (\<lambda>t. to_Operator t = ''Exists'' \<and> to_Effect t = e) (ps_Tolerations ps)) taints"

definition has_labels :: "Pod \<Rightarrow> (string \<times> string) list \<Rightarrow> bool" where
  "has_labels p ls \<longleftrightarrow>
     list_all (\<lambda>(k, v). case pd_Labels p of None \<Rightarrow> False | Some m \<Rightarrow> m k = Some v) ls"

text \<open>
  A settled cluster: every daemon set has a pod with the labels of its template on every node that accepts it.
  A server that keeps daemon sets: one that was created is there; when the name is taken, a daemon set of that
  name is there, with whatever spec, and nothing is changed. A client that lists: the pods of the namespace
  with the labels.
\<close>

definition settled :: "('w \<Rightarrow> DaemonSet list) \<Rightarrow> ('w \<Rightarrow> Pod list) \<Rightarrow> (string \<times> flags \<times> string list) list \<Rightarrow> 'w \<Rightarrow> bool" where
  "settled sets pods nodes w \<longleftrightarrow>
     (\<forall>d \<in> set (sets w). \<forall>(n, labels, taints) \<in> set nodes.
        node_accepts (pt_Spec (dp_Template (dm_Spec d))) labels taints \<longrightarrow>
          (\<exists>p \<in> set (pods w). pd_NodeName p = n \<and> pd_Namespace p = dm_Namespace d \<and>
             has_labels p (pt_Labels (dp_Template (dm_Spec d)))))"

definition keeps_sets :: "'w cluster \<Rightarrow> ('w \<Rightarrow> DaemonSet list) \<Rightarrow> bool" where
  "keeps_sets K sets \<longleftrightarrow>
     (\<forall>ns n w. sets (snd (cl_GetDeployment K ns n w)) = sets w) \<and>
     (\<forall>d w w1. cl_CreateDaemonSet K d w = (None, w1) \<longrightarrow> d \<in> set (sets w1)) \<and>
     (\<forall>d w err w1. cl_CreateDaemonSet K d w = (Some err, w1) \<longrightarrow> cl_IsAlreadyExists K err \<longrightarrow> sets w1 = sets w \<and>
        (\<exists>d' \<in> set (sets w). dm_Name d' = dm_Name d \<and> dm_Namespace d' = dm_Namespace d))"

text \<open>A daemon set of the name and namespace of the tool with another spec than the one of the code.\<close>

definition other_tool :: "config \<Rightarrow> DaemonSet \<Rightarrow> bool" where
  "other_tool C d \<longleftrightarrow> dm_Name d = DaemonsetPodName \<and> dm_Namespace d = cf_DaemonsetPodNamespace C \<and>
     createDaemonsetSpec C \<noteq> Some (dm_Spec d)"

text \<open>After a deployment the daemon set of the code is there, or another one of its name was before and still is.\<close>

lemma deployed_or_other:
  assumes "deployChaosBladeTool C K w0 = Some (None, w1)" "keeps_sets K sets"
  shows "(\<exists>d \<in> set (sets w1). dm_Namespace d = cf_DaemonsetPodNamespace C \<and> createDaemonsetSpec C = Some (dm_Spec d)) \<or>
    (sets w1 = sets w0 \<and> (\<exists>d \<in> set (sets w0). other_tool C d))"
proof -
  from assms(1) obtain d w e where d: "dm_Name d = DaemonsetPodName" "dm_Namespace d = cf_DaemonsetPodNamespace C"
    "createDaemonsetSpec C = Some (dm_Spec d)" "cl_CreateDaemonSet K d w = (e, w1)"
    "e = None \<or> cl_IsAlreadyExists K (the e)" "\<exists>ns n. w = snd (cl_GetDeployment K ns n w0)" by (rule deploy_creates)
  show ?thesis
  proof (cases e)
    case None
    with assms(2) d(4) have "d \<in> set (sets w1)" unfolding keeps_sets_def by blast
    with d(2,3) show ?thesis by blast
  next
    case (Some err)
    have "sets w = sets w0" using assms(2) d(6) unfolding keeps_sets_def by auto
    moreover have "sets w1 = sets w \<and> (\<exists>d' \<in> set (sets w). dm_Name d' = dm_Name d \<and> dm_Namespace d' = dm_Namespace d)"
      using assms(2) d(4,5) Some unfolding keeps_sets_def by fastforce
    ultimately obtain d' where "sets w1 = sets w0" "d' \<in> set (sets w0)" "dm_Name d' = DaemonsetPodName"
      "dm_Namespace d' = cf_DaemonsetPodNamespace C" using d(1,2) by metis
    then show ?thesis by (cases "createDaemonsetSpec C = Some (dm_Spec d')") (auto simp: other_tool_def)
  qed
qed

definition lists_pods :: "'w kube \<Rightarrow> ('w \<Rightarrow> Pod list) \<Rightarrow> bool" where
  "lists_pods K pods \<longleftrightarrow> (\<forall>ns ls w. k_ListPods K ns (SelSet ls) w =
     (Inr (filter (\<lambda>p. pd_Namespace p = ns \<and> has_labels p ls) (pods w)), w))"

lemma pod_names_found:
  assumes "p \<in> set pods" "pd_NodeName p = n"
  shows "\<exists>q \<in> set pods. pd_NodeName q = n \<and> mget (pod_names pods) n = pd_Name q"
  using assms
proof (induction pods rule: rev_induct)
  case Nil
  then show ?case by simp
next
  case (snoc q pods)
  then show ?case by (cases "pd_NodeName q = n") (auto simp: pod_names_def mget_def)
qed

text \<open>C16. The tool is found where it was deployed: when the deployment succeeded, its daemon sets are still
  there, and the cluster has settled, the first look-up of a node gives the name of a pod of the tool on that
  node, in the namespace of the tool, for every node that is not virtual and forbids nothing but scheduling;
  unless there was a daemon set of that name with another spec before, which the deployment takes for its
  own and leaves as it is.\<close>

theorem deployed_tool_found:
  assumes "deployChaosBladeTool C K w0 = Some (None, w1)" "keeps_sets K sets" "set (sets w1) \<subseteq> set (sets w)"
    and "settled sets pods nodes w" "lists_pods (en_Kube N) pods" "mget (wd_Names w) n = []"
    and "(n, labels, taints) \<in> set nodes" "labels ''type'' \<noteq> Some ''virtual-kubelet''"
    and "set taints \<subseteq> {''NoSchedule'', ''PreferNoSchedule''}"
  shows "(\<exists>p \<in> set (pods w). fst (GetChaosBladeDaemonsetPodName N C n w) = Inr (pd_Name p) \<and>
      pd_NodeName p = n \<and> pd_Namespace p = cf_DaemonsetPodNamespace C \<and> has_labels p DaemonsetPodLabels) \<or>
    (sets w1 = sets w0 \<and> (\<exists>d \<in> set (sets w0). other_tool C d))"
proof (cases "sets w1 = sets w0 \<and> (\<exists>d \<in> set (sets w0). other_tool C d)")
  case False
  with deployed_or_other [OF assms(1,2)] assms(3) obtain d' where d': "d' \<in> set (sets w)"
    "dm_Namespace d' = cf_DaemonsetPodNamespace C" "createDaemonsetSpec C = Some (dm_Spec d')" by blast
  note spec = createDaemonsetSpec_Some [OF d'(3)]
  have "node_accepts (pt_Spec (dp_Template (dm_Spec d'))) labels taints"
    using assms(8,9) spec(3,4)
    by (auto simp: node_accepts_def createAffinity_def requirement_holds_def list_all_iff split: option.splits)
  with assms(4,7) d'(1) obtain p where "p \<in> set (pods w)" "pd_NodeName p = n" "pd_Namespace p = dm_Namespace d'"
    "has_labels p (pt_Labels (dp_Template (dm_Spec d')))" unfolding settled_def by fastforce
  then have p: "p \<in> set (filter (\<lambda>p. pd_Namespace p = cf_DaemonsetPodNamespace C \<and> has_labels p DaemonsetPodLabels) (pods w))"
    "pd_NodeName p = n" using d'(2) spec(2) by simp_all
  from pod_names_found [OF this] obtain q where
    "q \<in> set (filter (\<lambda>p. pd_Namespace p = cf_DaemonsetPodNamespace C \<and> has_labels p DaemonsetPodLabels) (pods w))"
    "pd_NodeName q = n" "mget (pod_names (filter (\<lambda>p. pd_Namespace p = cf_DaemonsetPodNamespace C \<and>
       has_labels p DaemonsetPodLabels) (pods w))) n = pd_Name q" by blast
  with assms(5,6) show ?thesis
    by (intro disjI1 bexI [of _ q]) (simp_all add: GetChaosBladeDaemonsetPodName_def refreshChaosBladeDaemonsetPodNames_def
        lists_pods_def Let_def)
qed simp

subsection \<open>Witness\<close>

text \<open>A cluster of one node \<open>n\<close>, whose state is the list of its daemon sets; each has its pod there.\<close>

definition set_pods :: "DaemonSet list world \<Rightarrow> Pod list" where
  "set_pods w = map (\<lambda>d. no_pod\<lparr>pd_Name := ''chaosblade-tool-1'', pd_Namespace := dm_Namespace d,
     pd_NodeName := ''n'', pd_Labels := Some (map_of (pt_Labels (dp_Template (dm_Spec d))))\<rparr>) (wd_Ext w)"

definition set_cluster :: "DaemonSet list world cluster" where
  "set_cluster = \<lparr>cl_OperatorNamespace = Inr ''chaosblade'',
     cl_GetDeployment = (\<lambda>ns n w. (Inr (''apps/v1'', ''Deployment'', n, ''u''), w)),
     cl_CreateDaemonSet = (\<lambda>d w. if list_ex (\<lambda>d'. dm_Name d' = dm_Name d \<and> dm_Namespace d' = dm_Namespace d) (wd_Ext w)
       then (Some (ErrNew ''already exists''), w) else (None, w\<lparr>wd_Ext := d # wd_Ext w\<rparr>)),
     cl_IsAlreadyExists = (\<lambda>e. e = ErrNew ''already exists'')\<rparr>"

definition set_env :: "DaemonSet list world env" where
  "set_env = sample_env []\<lparr>en_Kube := quiet_kube []\<lparr>k_ListPods := (\<lambda>ns s w.
     (Inr (case s of SelSet ls \<Rightarrow> filter (\<lambda>p. pd_Namespace p = ns \<and> has_labels p ls) (set_pods w) | _ \<Rightarrow> []), w))\<rparr>\<rparr>"

definition set_world :: "DaemonSet list world" where
  "set_world = snd (the (deployChaosBladeTool sample_config set_cluster \<lparr>wd_Names = Map.empty, wd_Ext = []\<rparr>))"

lemma set_deployed:
  "deployChaosBladeTool sample_config set_cluster \<lparr>wd_Names = Map.empty, wd_Ext = []\<rparr> = Some (None, set_world)"
  "wd_Names set_world = Map.empty" "\<exists>d. wd_Ext set_world = [d] \<and> createDaemonsetSpec sample_config = Some (dm_Spec d)"
  by (simp_all add: set_world_def deployChaosBladeTool_def createOwnerReferences_def set_cluster_def
      createDaemonsetSpec_def createPodTemplateSpec_def createPodSpec_def createContainer_def sample_config_def
      image_repo_products)

lemma deployed_tool_found_witness:
  "fst (GetChaosBladeDaemonsetPodName set_env sample_config ''n'' set_world) = Inr ''chaosblade-tool-1''"
proof -
  obtain d where d: "wd_Ext set_world = [d]" "createDaemonsetSpec sample_config = Some (dm_Spec d)"
    using set_deployed(3) by blast
  have labels: "pt_Labels (dp_Template (dm_Spec d)) = DaemonsetPodLabels"
    by (rule createDaemonsetSpec_Some(2) [OF d(2)])
  have K: "keeps_sets set_cluster wd_Ext"
    by (auto simp: keeps_sets_def set_cluster_def list_ex_iff split: if_splits)
  have "(\<exists>p \<in> set (set_pods set_world).
      fst (GetChaosBladeDaemonsetPodName set_env sample_config ''n'' set_world) = Inr (pd_Name p) \<and>
      pd_NodeName p = ''n'' \<and> pd_Namespace p = cf_DaemonsetPodNamespace sample_config \<and> has_labels p DaemonsetPodLabels) \<or>
    (wd_Ext set_world = wd_Ext \<lparr>wd_Names = Map.empty, wd_Ext = [] :: DaemonSet list\<rparr> \<and>
     (\<exists>d \<in> set (wd_Ext \<lparr>wd_Names = Map.empty, wd_Ext = [] :: DaemonSet list\<rparr>). other_tool sample_config d))"
    by (rule deployed_tool_found [OF set_deployed(1) K, where nodes = "[(''n'', Map.empty, [''NoSchedule''])]"
          and labels = Map.empty and taints = "[''NoSchedule'']"])
      (simp_all add: settled_def d labels set_pods_def lists_pods_def set_env_def
        set_deployed(2) has_labels_def DaemonsetPodLabels_def)
  then show ?thesis by (auto simp: set_pods_def d)
qed

end
