(* ===== verification/HookFs.thy ===== *)
theory HookFs
  imports Types GoPath
begin

section \<open>The fault-injecting file system (pkg/hookfs)\<close>

text \<open>
  A sidecar mounts a FUSE file system over a volume of the pod. Before each file operation the hook
  looks the operation up in a table of injected faults and may delay it or make it fail. An HTTP server
  in the same process fills the table (\<open>/inject\<close>) and clears it (\<open>/recover\<close>); the operator is its
  client. The table is the \<open>sync.Map\<close> \<open>injectFaultCache\<close>; its \<open>Store\<close>, \<open>Load\<close> and \<open>Delete\<close> are
  atomic, and a handler is modelled as one uninterrupted run. FUSE, the HTTP library and JSON are outside.
\<close>

type_synonym fault_table = "string \<rightharpoonup> InjectMessage"

subsection \<open>The hook points (types.go)\<close>

definition defaultHookPoints :: "string list" where
  "defaultHookPoints =
     [''read'', ''write'', ''mkdir'', ''rmdir'', ''opendir'', ''fsync'', ''flush'', ''release'',
      ''truncate'', ''getattr'', ''chown'', ''utimens'', ''allocate'', ''getlk'', ''setlk'', ''setlkw'',
      ''statfs'', ''readlink'', ''symlink'', ''create'', ''access'', ''link'', ''mknod'', ''rename'',
      ''unlink'', ''getxattr'', ''listxattr'', ''removexattr'', ''setxattr'']"

definition InjectPath :: string where "InjectPath = ''/inject''"
definition RecoverPath :: string where "RecoverPath = ''/recover''"

subsection \<open>The server (server.go)\<close>

record HttpReply =
  hr_Code :: int
  hr_Text :: string

text \<open>The body of the request is what \<open>json.Decode\<close> makes of it.\<close>

definition InjectHandler :: "GoErr + InjectMessage \<Rightarrow> fault_table \<Rightarrow> HttpReply \<times> fault_table" where
  "InjectHandler body cache =
     (case body of
        Inl err \<Rightarrow> (\<lparr>hr_Code = 400, hr_Text = ''Cannot Decode Request Message''\<rparr>, cache)
      | Inr injectMsg \<Rightarrow> (\<lparr>hr_Code = 200, hr_Text = ''success''\<rparr>,
          foldl (\<lambda>c method. c(method \<mapsto> injectMsg)) cache (im_Methods injectMsg)))"

definition RecoverHandler :: "fault_table \<Rightarrow> HttpReply \<times> fault_table" where
  "RecoverHandler cache =
     (\<lparr>hr_Code = 200, hr_Text = ''success''\<rparr>, foldl (\<lambda>c method. c(method := None)) cache defaultHookPoints)"

subsection \<open>doInjectFault (hook.go)\<close>

text \<open>
  \<open>intn n\<close> is the answer of \<open>rand.Intn(n)\<close>. The result is the error number, and the time slept, in
  milliseconds.
\<close>

definition probab :: "(int \<Rightarrow> int) \<Rightarrow> 32 word \<Rightarrow> bool" where
  "probab intn percentage \<longleftrightarrow> intn 99 < uint percentage"

definition randomErrno :: "(int \<Rightarrow> int) \<Rightarrow> int" where
  "randomErrno intn = intn (0x36 - 0x7) + 0x7"

type_synonym fault = "int option \<times> 32 word"

definition no_fault :: fault where "no_fault = (None, 0)"

definition inject_effect :: "(int \<Rightarrow> int) \<Rightarrow> InjectMessage \<Rightarrow> fault" where
  "inject_effect intn faultMsg =
     (if im_Errno faultMsg \<noteq> 0 then Some (uint (im_Errno faultMsg))
      else if im_Random faultMsg then Some (randomErrno intn)
      else None, im_Delay faultMsg)"

definition doInjectFault ::
  "(int \<Rightarrow> int) \<Rightarrow> string \<Rightarrow> fault_table \<Rightarrow> string \<Rightarrow> string \<Rightarrow> fault" where
  "doInjectFault intn MountPoint cache relativePath method =
     (case cache method of
        None \<Rightarrow> no_fault
      | Some faultMsg \<Rightarrow>
          if im_Path faultMsg \<noteq> [] \<and> \<not> has_prefix (path_join [MountPoint, relativePath]) (im_Path faultMsg)
          then no_fault
          else if 0 < im_Percent faultMsg \<and> \<not> probab intn (im_Percent faultMsg) then no_fault
          else inject_effect intn faultMsg)"

subsection \<open>The hooks (hook.go)\<close>

text \<open>
  A hook before an operation answers whether the operation is replaced and with which error; the time it
  slept is kept beside. A hook with two paths asks for the second only when the first gave no error.
\<close>

record hook =
  hk_MountPoint :: string
  hk_Cache :: fault_table
  hk_Intn :: "int \<Rightarrow> int"

type_synonym answer = "bool \<times> int option \<times> 32 word list"

definition pre_hook :: "hook \<Rightarrow> string \<Rightarrow> string \<Rightarrow> answer" where
  "pre_hook h path method =
     (let (err, delay) = doInjectFault (hk_Intn h) (hk_MountPoint h) (hk_Cache h) path method
      in (err \<noteq> None, err, [delay]))"

definition pre_hook2 :: "hook \<Rightarrow> hook \<Rightarrow> string \<Rightarrow> string \<Rightarrow> string \<Rightarrow> answer" where
  "pre_hook2 h h' path1 path2 method =
     (case pre_hook h path1 method of
        (True, err, ds) \<Rightarrow> (True, err, ds)
      | (False, _, ds) \<Rightarrow> (case pre_hook h' path2 method of (hooked, err, ds') \<Rightarrow> (hooked, err, ds @ ds')))"

definition PreOpen :: "hook \<Rightarrow> string \<Rightarrow> answer" where "PreOpen h path = pre_hook h path ''open''"
definition PreRead :: "hook \<Rightarrow> string \<Rightarrow> answer" where "PreRead h path = pre_hook h path ''read''"
definition PreWrite :: "hook \<Rightarrow> string \<Rightarrow> answer" where "PreWrite h path = pre_hook h path ''write''"
definition PreMkdir :: "hook \<Rightarrow> string \<Rightarrow> answer" where "PreMkdir h path = pre_hook h path ''mkdir''"
definition PreRmdir :: "hook \<Rightarrow> string \<Rightarrow> answer" where "PreRmdir h path = pre_hook h path ''rmdir''"
definition PreOpenDir :: "hook \<Rightarrow> string \<Rightarrow> answer" where "PreOpenDir h path = pre_hook h path ''opendir''"
definition PreFsync :: "hook \<Rightarrow> string \<Rightarrow> answer" where "PreFsync h path = pre_hook h path ''fsync''"
definition PreFlush :: "hook \<Rightarrow> string \<Rightarrow> answer" where "PreFlush h path = pre_hook h path ''flush''"
definition PreTruncate :: "hook \<Rightarrow> string \<Rightarrow> answer" where "PreTruncate h path = pre_hook h path ''truncate''"
definition PreGetAttr :: "hook \<Rightarrow> string \<Rightarrow> answer" where "PreGetAttr h path = pre_hook h path ''getattr''"
definition PreChown :: "hook \<Rightarrow> string \<Rightarrow> answer" where "PreChown h path = pre_hook h path ''chown''"
definition PreChmod :: "hook \<Rightarrow> string \<Rightarrow> answer" where "PreChmod h path = pre_hook h path ''chmod''"
definition PreUtimens :: "hook \<Rightarrow> string \<Rightarrow> answer" where "PreUtimens h path = pre_hook h path ''utimens''"
definition PreAllocate :: "hook \<Rightarrow> string \<Rightarrow> answer" where "PreAllocate h path = pre_hook h path ''allocate''"
definition PreGetLk :: "hook \<Rightarrow> string \<Rightarrow> answer" where "PreGetLk h path = pre_hook h path ''getlk''"
definition PreSetLk :: "hook \<Rightarrow> string \<Rightarrow> answer" where "PreSetLk h path = pre_hook h path ''setlk''"
definition PreSetLkw :: "hook \<Rightarrow> string \<Rightarrow> answer" where "PreSetLkw h path = pre_hook h path ''setlkw''"
definition PreStatFs :: "hook \<Rightarrow> string \<Rightarrow> answer" where "PreStatFs h path = pre_hook h path ''statfs''"
definition PreReadlink :: "hook \<Rightarrow> string \<Rightarrow> answer" where "PreReadlink h name = pre_hook h name ''readlink''"
definition PreCreate :: "hook \<Rightarrow> string \<Rightarrow> answer" where "PreCreate h name = pre_hook h name ''create''"
definition PreAccess :: "hook \<Rightarrow> string \<Rightarrow> answer" where "PreAccess h name = pre_hook h name ''access''"
definition PreMknod :: "hook \<Rightarrow> string \<Rightarrow> answer" where "PreMknod h name = pre_hook h name ''mknod''"
definition PreUnlink :: "hook \<Rightarrow> string \<Rightarrow> answer" where "PreUnlink h name = pre_hook h name ''unlink''"
definition PreGetXAttr :: "hook \<Rightarrow> string \<Rightarrow> answer" where "PreGetXAttr h name = pre_hook h name ''getxattr''"
definition PreListXAttr :: "hook \<Rightarrow> string \<Rightarrow> answer" where "PreListXAttr h name = pre_hook h name ''listxattr''"
definition PreRemoveXAttr :: "hook \<Rightarrow> string \<Rightarrow> answer" where "PreRemoveXAttr h name = pre_hook h name ''removexattr''"
definition PreSetXAttr :: "hook \<Rightarrow> string \<Rightarrow> answer" where "PreSetXAttr h name = pre_hook h name ''setxattr''"

text \<open>The error of a release is ignored. In the two-path hooks the state may change between the calls.\<close>

definition PreRelease :: "hook \<Rightarrow> string \<Rightarrow> answer" where
  "PreRelease h path = (case pre_hook h path ''release'' of (_, _, ds) \<Rightarrow> (False, None, ds))"

definition PreSymlink :: "hook \<Rightarrow> hook \<Rightarrow> string \<Rightarrow> string \<Rightarrow> answer" where
  "PreSymlink h h' value linkName = pre_hook2 h h' value linkName ''symlink''"

definition PreLink :: "hook \<Rightarrow> hook \<Rightarrow> string \<Rightarrow> string \<Rightarrow> answer" where
  "PreLink h h' oldName newName = pre_hook2 h h' oldName newName ''link''"

definition PreRename :: "hook \<Rightarrow> hook \<Rightarrow> string \<Rightarrow> string \<Rightarrow> answer" where
  "PreRename h h' oldName newName = pre_hook2 h h' oldName newName ''rename''"

text \<open>
  A hook after an operation is told the answer of the real file system (and, for a read, what was read) and
  what its counterpart before the operation left in the context, which is nothing. It may replace the answer,
  and never does.
\<close>

datatype ChaosbladeHookContext = ChaosbladeHookContext

definition PostOpen :: "32 word \<Rightarrow> ChaosbladeHookContext \<Rightarrow> bool \<times> int option" where
  "PostOpen realRetCode prehookCtx = (False, None)"
definition PostRead :: "32 word \<Rightarrow> string \<Rightarrow> ChaosbladeHookContext \<Rightarrow> string option \<times> bool \<times> int option" where
  "PostRead realRetCode realBuf prehookCtx = (None, False, None)"
definition PostWrite :: "32 word \<Rightarrow> ChaosbladeHookContext \<Rightarrow> bool \<times> int option" where
  "PostWrite realRetCode prehookCtx = (False, None)"
definition PostMkdir :: "32 word \<Rightarrow> ChaosbladeHookContext \<Rightarrow> bool \<times> int option" where
  "PostMkdir realRetCode prehookCtx = (False, None)"
definition PostRmdir :: "32 word \<Rightarrow> ChaosbladeHookContext \<Rightarrow> bool \<times> int option" where
  "PostRmdir realRetCode prehookCtx = (False, None)"
definition PostOpenDir :: "32 word \<Rightarrow> ChaosbladeHookContext \<Rightarrow> bool \<times> int option" where
  "PostOpenDir realRetCode prehookCtx = (False, None)"
definition PostFsync :: "32 word \<Rightarrow> ChaosbladeHookContext \<Rightarrow> bool \<times> int option" where
  "PostFsync realRetCode prehookCtx = (False, None)"
definition PostFlush :: "32 word \<Rightarrow> ChaosbladeHookContext \<Rightarrow> bool \<times> int option" where
  "PostFlush realRetCode prehookCtx = (False, None)"
definition PostRelease :: "ChaosbladeHookContext \<Rightarrow> bool" where "PostRelease prehookCtx = False"
definition PostTruncate :: "32 word \<Rightarrow> ChaosbladeHookContext \<Rightarrow> bool \<times> int option" where
  "PostTruncate realRetCode prehookCtx = (False, None)"
definition PostGetAttr :: "32 word \<Rightarrow> ChaosbladeHookContext \<Rightarrow> bool \<times> int option" where
  "PostGetAttr realRetCode prehookCtx = (False, None)"
definition PostChown :: "32 word \<Rightarrow> ChaosbladeHookContext \<Rightarrow> bool \<times> int option" where
  "PostChown realRetCode prehookCtx = (False, None)"
definition PostChmod :: "32 word \<Rightarrow> ChaosbladeHookContext \<Rightarrow> bool \<times> int option" where
  "PostChmod realRetCode prehookCtx = (False, None)"
definition PostUtimens :: "32 word \<Rightarrow> ChaosbladeHookContext \<Rightarrow> bool \<times> int option" where
  "PostUtimens realRetCode prehookCtx = (False, None)"
definition PostAllocate :: "32 word \<Rightarrow> ChaosbladeHookContext \<Rightarrow> bool \<times> int option" where
  "PostAllocate realRetCode prehookCtx = (False, None)"
definition PostGetLk :: "32 word \<Rightarrow> ChaosbladeHookContext \<Rightarrow> bool \<times> int option" where
  "PostGetLk realRetCode prehookCtx = (False, None)"
definition PostSetLk :: "32 word \<Rightarrow> ChaosbladeHookContext \<Rightarrow> bool \<times> int option" where
  "PostSetLk realRetCode prehookCtx = (False, None)"
definition PostSetLkw :: "32 word \<Rightarrow> ChaosbladeHookContext \<Rightarrow> bool \<times> int option" where
  "PostSetLkw realRetCode prehookCtx = (False, None)"
definition PostStatFs :: "ChaosbladeHookContext \<Rightarrow> bool \<times> int option" where
  "PostStatFs prehookCtx = (False, None)"
definition PostReadlink :: "32 word \<Rightarrow> ChaosbladeHookContext \<Rightarrow> bool \<times> int option" where
  "PostReadlink realRetCode prehookCtx = (False, None)"
definition PostSymlink :: "32 word \<Rightarrow> ChaosbladeHookContext \<Rightarrow> bool \<times> int option" where
  "PostSymlink realRetCode prehookCtx = (False, None)"
definition PostCreate :: "32 word \<Rightarrow> ChaosbladeHookContext \<Rightarrow> bool \<times> int option" where
  "PostCreate realRetCode prehookCtx = (False, None)"
definition PostAccess :: "32 word \<Rightarrow> ChaosbladeHookContext \<Rightarrow> bool \<times> int option" where
  "PostAccess realRetCode prehookCtx = (False, None)"
definition PostLink :: "32 word \<Rightarrow> ChaosbladeHookContext \<Rightarrow> bool \<times> int option" where
  "PostLink realRetCode prehookCtx = (False, None)"
definition PostMknod :: "32 word \<Rightarrow> ChaosbladeHookContext \<Rightarrow> bool \<times> int option" where
  "PostMknod realRetCode prehookCtx = (False, None)"
definition PostRename :: "32 word \<Rightarrow> ChaosbladeHookContext \<Rightarrow> bool \<times> int option" where
  "PostRename realRetCode prehookCtx = (False, None)"
definition PostUnlink :: "32 word \<Rightarrow> ChaosbladeHookContext \<Rightarrow> bool \<times> int option" where
  "PostUnlink realRetCode prehookCtx = (False, None)"
definition PostGetXAttr :: "32 word \<Rightarrow> ChaosbladeHookContext \<Rightarrow> bool \<times> int option" where
  "PostGetXAttr realRetCode prehookCtx = (False, None)"
definition PostListXAttr :: "32 word \<Rightarrow> ChaosbladeHookContext \<Rightarrow> bool \<times> int option" where
  "PostListXAttr realRetCode prehookCtx = (False, None)"
definition PostRemoveXAttr :: "32 word \<Rightarrow> ChaosbladeHookContext \<Rightarrow> bool \<times> int option" where
  "PostRemoveXAttr realRetCode prehookCtx = (False, None)"
definition PostSetXAttr :: "32 word \<Rightarrow> ChaosbladeHookContext \<Rightarrow> bool \<times> int option" where
  "PostSetXAttr realRetCode prehookCtx = (False, None)"

subsection \<open>The client (client.go)\<close>

text \<open>
  What the client calls: \<open>json.Marshal\<close>, \<open>util.PostCurl\<close> (text, error, code), and the making and
  sending of a GET request, whose answer is a code and what reading the body gives.
\<close>

record 'w net =
  nt_Marshal :: "InjectMessage \<Rightarrow> GoErr + string"
  nt_PostCurl :: "string \<Rightarrow> string \<Rightarrow> string \<Rightarrow> 'w \<Rightarrow> (string \<times> GoErr option \<times> int) \<times> 'w"
  nt_NewRequest :: "string \<Rightarrow> GoErr option"
  nt_Do :: "string \<Rightarrow> 'w \<Rightarrow> (GoErr + int \<times> (GoErr + string)) \<times> 'w"

definition InjectFault :: "'w net \<Rightarrow> string \<Rightarrow> InjectMessage \<Rightarrow> 'w \<Rightarrow> GoErr option \<times> 'w" where
  "InjectFault H addr injectMsg w =
     (let url = ''http://'' @ addr @ InjectPath
      in case nt_Marshal H injectMsg of
           Inl err \<Rightarrow> (Some err, w)
         | Inr body \<Rightarrow>
             (let ((result, err, code), w1) = nt_PostCurl H url body ''application/json'' w
              in (if err \<noteq> None then err
                  else if code \<noteq> 200 then Some (ErrNew result) else None, w1)))"

definition Revoke :: "'w net \<Rightarrow> string \<Rightarrow> 'w \<Rightarrow> GoErr option \<times> 'w" where
  "Revoke H addr w =
     (let url = ''http://'' @ addr @ RecoverPath
      in case nt_NewRequest H url of
           Some err \<Rightarrow> (Some err, w)
         | None \<Rightarrow>
             (case nt_Do H url w of
                (Inl err, w1) \<Rightarrow> (Some err, w1)
              | (Inr (code, body), w1) \<Rightarrow>
                  ((case body of
                      Inl err \<Rightarrow> Some err
                    | Inr result \<Rightarrow> if code \<noteq> 200 then Some (ErrNew result) else None), w1)))"

subsection \<open>The fault table as an interface\<close>

text \<open>
  What the hooks rely on: an injection sets the fault of its methods and of no other, a recovery
  removes the faults of the recovered points and of no other.
\<close>

locale fault_store =
  fixes lookup :: "'s \<Rightarrow> string \<Rightarrow> InjectMessage option"
    and inject :: "InjectMessage \<Rightarrow> 's \<Rightarrow> 's"
    and recover :: "'s \<Rightarrow> 's"
    and points :: "string set"
  assumes lookup_inject: "lookup (inject msg s) m = (if m \<in> set (im_Methods msg) then Some msg else lookup s m)"
    and lookup_recover: "lookup (recover s) m = (if m \<in> points then None else lookup s m)"
begin

text \<open>The requests so far, the latest first; \<open>None\<close> is a recovery.\<close>

fun after :: "'s \<Rightarrow> InjectMessage option list \<Rightarrow> 's" where
  "after s [] = s"
| "after s (None # rs) = recover (after s rs)"
| "after s (Some msg # rs) = inject msg (after s rs)"

fun expected :: "InjectMessage option list \<Rightarrow> string \<Rightarrow> InjectMessage option" where
  "expected [] m = None"
| "expected (None # rs) m = (if m \<in> points then None else expected rs m)"
| "expected (Some msg # rs) m = (if m \<in> set (im_Methods msg) then Some msg else expected rs m)"

lemma lookup_after: "(\<And>m. lookup s m = None) \<Longrightarrow> lookup (after s rs) m = expected rs m"
  by (induction s rs rule: after.induct) (auto simp: lookup_inject lookup_recover)

text \<open>A point that is never recovered keeps the fault of the last injection that names it.\<close>

lemma not_recovered:
  "m \<notin> points \<Longrightarrow> m \<in> set (im_Methods msg) \<Longrightarrow>
     (\<And>r. Some r \<in> set rs \<Longrightarrow> m \<notin> set (im_Methods r)) \<Longrightarrow> expected (rs @ [Some msg]) m = Some msg"
  by (induction rs "m" rule: expected.induct) auto

text \<open>After a recovery of its point a fault is gone until an injection names it again.\<close>

lemma recovered:
  "m \<in> points \<Longrightarrow> (\<And>r. Some r \<in> set rs \<Longrightarrow> m \<notin> set (im_Methods r)) \<Longrightarrow> expected (rs @ None # qs) m = None"
  by (induction rs "m" rule: expected.induct) auto

end

lemma foldl_store: "foldl (\<lambda>c k. c(k \<mapsto> v)) c ks m = (if m \<in> set ks then Some v else c m)"
  by (induction ks arbitrary: c) auto

lemma foldl_delete: "foldl (\<lambda>c k. c(k := None)) c ks m = (if m \<in> set ks then None else c m)"
  by (induction ks arbitrary: c) auto

definition server_inject :: "InjectMessage \<Rightarrow> fault_table \<Rightarrow> fault_table" where
  "server_inject msg cache = snd (InjectHandler (Inr msg) cache)"

definition server_recover :: "fault_table \<Rightarrow> fault_table" where
  "server_recover cache = snd (RecoverHandler cache)"

interpretation faults: fault_store "\<lambda>cache. cache" server_inject server_recover "set defaultHookPoints"
  by unfold_locales
    (simp_all add: server_inject_def server_recover_def InjectHandler_def RecoverHandler_def
      foldl_store foldl_delete)

text \<open>A request as the server sees it: a body it can or cannot decode, or a recovery.\<close>

datatype request = Inject "GoErr + InjectMessage" | Recover

definition serve :: "request \<Rightarrow> fault_table \<Rightarrow> HttpReply \<times> fault_table" where
  "serve r cache = (case r of Inject body \<Rightarrow> InjectHandler body cache | Recover \<Rightarrow> RecoverHandler cache)"

fun served :: "request list \<Rightarrow> fault_table" where
  "served [] = Map.empty"
| "served (r # rs) = snd (serve r (served rs))"

text \<open>
  The reference, written without the list of the hook points: the fault an operation has after the
  requests, the latest first. An injection that could be decoded sets the fault of its methods; a recovery
  removes the faults of all operations except \<open>open\<close> and \<open>chmod\<close>, which the code forgets.
\<close>

fun active :: "request list \<Rightarrow> string \<Rightarrow> InjectMessage option" where
  "active [] m = None"
| "active (Recover # rs) m = (if m = ''open'' \<or> m = ''chmod'' then active rs m else None)"
| "active (Inject (Inl e) # rs) m = active rs m"
| "active (Inject (Inr msg) # rs) m = (if m \<in> set (im_Methods msg) then Some msg else active rs m)"

text \<open>What a fault does to an operation on a path: none, or a rule for other paths, or a percentage that
  does not hit, and the operation goes on.\<close>

definition rule_matches :: "string \<Rightarrow> InjectMessage \<Rightarrow> string \<Rightarrow> bool" where
  "rule_matches MountPoint msg path \<longleftrightarrow>
     im_Path msg = [] \<or> has_prefix (path_join [MountPoint, path]) (im_Path msg)"

definition strike :: "(int \<Rightarrow> int) \<Rightarrow> string \<Rightarrow> InjectMessage option \<Rightarrow> string \<Rightarrow> fault" where
  "strike intn mp f p =
     (case f of
        None \<Rightarrow> no_fault
      | Some msg \<Rightarrow>
          if rule_matches mp msg p \<and> (im_Percent msg = 0 \<or> probab intn (im_Percent msg))
          then inject_effect intn msg else no_fault)"

text \<open>The operations with one path and their hooks, and those with two.\<close>

definition path_hooks :: "(string \<times> (hook \<Rightarrow> string \<Rightarrow> answer)) list" where
  "path_hooks =
     [(''open'', PreOpen), (''read'', PreRead), (''write'', PreWrite), (''mkdir'', PreMkdir),
      (''rmdir'', PreRmdir), (''opendir'', PreOpenDir), (''fsync'', PreFsync), (''flush'', PreFlush),
      (''truncate'', PreTruncate), (''getattr'', PreGetAttr), (''chown'', PreChown), (''chmod'', PreChmod),
      (''utimens'', PreUtimens), (''allocate'', PreAllocate), (''getlk'', PreGetLk), (''setlk'', PreSetLk),
      (''setlkw'', PreSetLkw), (''statfs'', PreStatFs), (''readlink'', PreReadlink), (''create'', PreCreate),
      (''access'', PreAccess), (''mknod'', PreMknod), (''unlink'', PreUnlink), (''getxattr'', PreGetXAttr),
      (''listxattr'', PreListXAttr), (''removexattr'', PreRemoveXAttr), (''setxattr'', PreSetXAttr)]"

definition link_hooks :: "(string \<times> (hook \<Rightarrow> hook \<Rightarrow> string \<Rightarrow> string \<Rightarrow> answer)) list" where
  "link_hooks = [(''symlink'', PreSymlink), (''link'', PreLink), (''rename'', PreRename)]"

definition operations :: "string set" where
  "operations = fst ` set path_hooks \<union> fst ` set link_hooks \<union> {''release''}"

lemmas hooks_def =
  PreOpen_def PreRead_def PreWrite_def PreMkdir_def PreRmdir_def PreOpenDir_def PreFsync_def PreFlush_def
  PreTruncate_def PreGetAttr_def PreChown_def PreChmod_def PreUtimens_def PreAllocate_def PreGetLk_def
  PreSetLk_def PreSetLkw_def PreStatFs_def PreReadlink_def PreCreate_def PreAccess_def PreMknod_def
  PreUnlink_def PreGetXAttr_def PreListXAttr_def PreRemoveXAttr_def PreSetXAttr_def

lemma path_hook: "(m, H) \<in> set path_hooks \<Longrightarrow> H h p = pre_hook h p m"
  by (auto simp: path_hooks_def hooks_def)

lemma link_hook: "(m, H) \<in> set link_hooks \<Longrightarrow> H h h' p q = pre_hook2 h h' p q m"
  by (auto simp: link_hooks_def PreSymlink_def PreLink_def PreRename_def)

lemma path_hook_snd: "x \<in> set path_hooks \<Longrightarrow> snd x h p = pre_hook h p (fst x)"
  using path_hook [of "fst x" "snd x"] by simp

lemma link_hook_snd: "x \<in> set link_hooks \<Longrightarrow> snd x h h' p q = pre_hook2 h h' p q (fst x)"
  using link_hook [of "fst x" "snd x"] by simp

text \<open>What the requests do to the table: one that cannot be decoded does nothing.\<close>

fun applied :: "request list \<Rightarrow> InjectMessage option list" where
  "applied [] = []"
| "applied (Recover # rs) = None # applied rs"
| "applied (Inject (Inl e) # rs) = applied rs"
| "applied (Inject (Inr msg) # rs) = Some msg # applied rs"

lemma serve_simps:
  "snd (serve Recover cache) = server_recover cache" "snd (serve (Inject (Inr msg)) cache) = server_inject msg cache"
  "snd (serve (Inject (Inl e)) cache) = cache"
  by (simp_all add: serve_def server_inject_def server_recover_def InjectHandler_def)

lemma served_after: "served rs = faults.after Map.empty (applied rs)"
  by (induction rs rule: applied.induct) (simp_all only: served.simps applied.simps faults.after.simps serve_simps)

text \<open>The list of the hook points holds every operation but two.\<close>

lemma recovered_operation:
  "m \<in> operations \<Longrightarrow> m \<in> set defaultHookPoints \<longleftrightarrow> m \<noteq> ''open'' \<and> m \<noteq> ''chmod''"
  by (auto simp: operations_def path_hooks_def link_hooks_def defaultHookPoints_def)

lemma active_expected: "m \<in> operations \<Longrightarrow> active rs m = faults.expected (applied rs) m"
  by (induction rs rule: applied.induct) (simp_all add: recovered_operation)

lemma served_active: "m \<in> operations \<Longrightarrow> served rs m = active rs m"
  unfolding served_after active_expected by (rule faults.lookup_after) simp

lemma doInjectFault_strike: "doInjectFault intn mp cache p m = strike intn mp (cache m) p"
  by (auto simp: doInjectFault_def strike_def rule_matches_def word_gt_0 split: option.splits)

definition hook_after :: "request list \<Rightarrow> string \<Rightarrow> (int \<Rightarrow> int) \<Rightarrow> hook" where
  "hook_after rs mp intn = \<lparr>hk_MountPoint = mp, hk_Cache = served rs, hk_Intn = intn\<rparr>"

definition answer_of :: "fault \<Rightarrow> answer" where
  "answer_of f = (fst f \<noteq> None, fst f, [snd f])"

lemma pre_hook_after:
  "m \<in> operations \<Longrightarrow> pre_hook (hook_after rs mp intn) p m = answer_of (strike intn mp (active rs m) p)"
  by (simp add: pre_hook_def hook_after_def doInjectFault_strike served_active answer_of_def split_beta)

subsection \<open>Properties\<close>

text \<open>C20. After any sequence of requests every hook answers by the fault its operation then has: the one
  of the latest injection that names the operation and could be decoded, unless a recovery came later and
  the operation is neither \<open>open\<close> nor \<open>chmod\<close>, whose faults no recovery removes. A hook with one path
  replaces the operation by the error of the fault and sleeps its delay; the hook of a release sleeps and
  drops the error; a hook with two paths asks for the second, perhaps after further requests, when the
  first gave no error.\<close>

theorem server_follows_history:
  "(\<forall>(m, H) \<in> set path_hooks. H (hook_after rs mp intn) p = answer_of (strike intn mp (active rs m) p)) \<and>
   PreRelease (hook_after rs mp intn) p = (False, None, [snd (strike intn mp (active rs ''release'') p)]) \<and>
   (\<forall>(m, H) \<in> set link_hooks. H (hook_after rs mp intn) (hook_after rs' mp intn') p q =
      (let f = strike intn mp (active rs m) p; g = strike intn' mp (active rs' m) q
       in if fst f \<noteq> None then answer_of f else (fst g \<noteq> None, fst g, [snd f, snd g])))"
proof (intro conjI ballI)
  fix x assume x: "x \<in> set path_hooks"
  then have "fst x \<in> operations" by (simp add: operations_def)
  with x show "case x of (m, H) \<Rightarrow> H (hook_after rs mp intn) p = answer_of (strike intn mp (active rs m) p)"
    by (auto simp: path_hook pre_hook_after)
next
  show "PreRelease (hook_after rs mp intn) p = (False, None, [snd (strike intn mp (active rs ''release'') p)])"
    by (simp add: PreRelease_def pre_hook_after operations_def answer_of_def)
next
  fix x assume x: "x \<in> set link_hooks"
  then have "fst x \<in> operations" by (simp add: operations_def)
  with x show "case x of (m, H) \<Rightarrow> H (hook_after rs mp intn) (hook_after rs' mp intn') p q =
      (let f = strike intn mp (active rs m) p; g = strike intn' mp (active rs' m) q
       in if fst f \<noteq> None then answer_of f else (fst g \<noteq> None, fst g, [snd f, snd g]))"
    by (auto simp: link_hook pre_hook2_def pre_hook_after answer_of_def Let_def)
qed

lemma doInjectFault_Some:
  "cache m = Some msg \<Longrightarrow> doInjectFault intn mp cache p m =
     (if \<not> rule_matches mp msg p then no_fault
      else if 0 < im_Percent msg \<and> \<not> probab intn (im_Percent msg) then no_fault
      else inject_effect intn msg)"
  by (auto simp: doInjectFault_def rule_matches_def)

lemma below_card: "p \<ge> 0 \<Longrightarrow> card {r \<in> {0..<99 :: int}. r < p} = nat (min p 99)"
proof -
  have "{r \<in> {0..<99}. r < p} = {0..<min p 99}" by auto
  then show ?thesis by simp
qed

text \<open>How often a matching fault with an error number strikes, out of the 99 answers the random
  source can give: always without a percentage, and otherwise as many times as the percentage
  says, so 99 percent is always too.\<close>

theorem percent_odds:
  assumes "cache m = Some msg" "rule_matches mp msg p" "im_Errno msg \<noteq> 0"
  shows "card {r \<in> {0..<99}. doInjectFault (\<lambda>_. r) mp cache p m \<noteq> no_fault} =
    (if im_Percent msg = 0 then 99 else min (unat (im_Percent msg)) 99)"
proof -
  have e: "inject_effect intn msg \<noteq> no_fault" for intn
    using assms(3) by (simp add: inject_effect_def no_fault_def)
  have "{r \<in> {0..<99}. doInjectFault (\<lambda>_. r) mp cache p m \<noteq> no_fault} =
      (if im_Percent msg = 0 then {0..<99} else {r \<in> {0..<99}. r < uint (im_Percent msg)})"
    using e assms(2) by (auto simp: doInjectFault_Some [of cache m msg, OF assms(1)] probab_def word_gt_0)
  moreover have "nat (min (uint (im_Percent msg)) 99) = min (unat (im_Percent msg)) 99"
    unfolding unat_eq_nat_uint by arith
  moreover have "card {r \<in> {0..<99}. r < uint (im_Percent msg)} = nat (min (uint (im_Percent msg)) 99)"
    by (rule below_card) simp
  ultimately show ?thesis by (simp del: atLeastLessThan_iff)
qed

text \<open>A recovery does not reach two of the hook points: a fault of \<open>open\<close> (or \<open>chmod\<close>) still strikes
  after it.\<close>

theorem recover_leaves_open:
  assumes "m = ''open'' \<or> m = ''chmod''" "m \<in> set (im_Methods msg)"
  shows "doInjectFault intn mp (snd (RecoverHandler (snd (InjectHandler (Inr msg) cache)))) p m =
    doInjectFault intn mp [m \<mapsto> msg] p m"
proof -
  have "m \<notin> set defaultHookPoints" using assms(1) by (auto simp: defaultHookPoints_def)
  then have "snd (RecoverHandler (snd (InjectHandler (Inr msg) cache))) m = Some msg"
    using assms(2) by (simp add: RecoverHandler_def InjectHandler_def foldl_store foldl_delete)
  then show ?thesis by (simp add: doInjectFault_Some)
qed

text \<open>
  A network that delivers to the server at an address: the world is the fault table, and decoding
  gives back what was encoded.
\<close>

definition delivers_to :: "fault_table net \<Rightarrow> string \<Rightarrow> InjectMessage \<Rightarrow> bool" where
  "delivers_to H addr msg \<longleftrightarrow>
     (\<exists>body. nt_Marshal H msg = Inr body \<and> (\<forall>w.
        nt_PostCurl H (''http://'' @ addr @ InjectPath) body ''application/json'' w =
          (case InjectHandler (Inr msg) w of (r, w1) \<Rightarrow> ((hr_Text r, None, hr_Code r), w1)))) \<and>
     nt_NewRequest H (''http://'' @ addr @ RecoverPath) = None \<and>
     (\<forall>w. nt_Do H (''http://'' @ addr @ RecoverPath) w =
        (case RecoverHandler w of (r, w1) \<Rightarrow> (Inr (hr_Code r, Inr (hr_Text r)), w1)))"

lemma InjectFault_delivered:
  "delivers_to H addr msg \<Longrightarrow> InjectFault H addr msg w = (None, server_inject msg w)"
  by (auto simp: delivers_to_def InjectFault_def InjectHandler_def server_inject_def)

lemma Revoke_delivered:
  assumes "delivers_to H addr msg"
  shows "Revoke H addr w = (None, server_recover w)"
  using assms by (simp add: Revoke_def delivers_to_def RecoverHandler_def server_recover_def)

text \<open>Injecting and revoking over such a network both succeed, the injected fault is in force in
  between, and afterwards no recovered hook point has a fault while the others are as the injection left
  them.\<close>

theorem inject_then_revoke:
  assumes "delivers_to H addr msg" "InjectFault H addr msg w = (e1, w1)" "Revoke H addr w1 = (e2, w2)"
  shows "e1 = None \<and> e2 = None \<and> (\<forall>m \<in> set (im_Methods msg). w1 m = Some msg) \<and>
    (\<forall>m. w2 m = (if m \<in> set defaultHookPoints then None else w1 m))"
  using assms(2,3) faults.lookup_inject [of msg w] faults.lookup_recover [of w1]
  by (auto simp: InjectFault_delivered [OF assms(1)] Revoke_delivered [OF assms(1)])

subsection \<open>Witnesses\<close>

definition msg_open :: InjectMessage where
  "msg_open = \<lparr>im_Methods = [''open'', ''read''], im_Path = ''/home'', im_Delay = 0, im_Percent = 60,
     im_Random = False, im_Errno = 28\<rparr>"

text \<open>After an injection and a recovery an open still fails and a read goes on; before the recovery a
  read failed too.\<close>

lemma server_follows_history_witness:
  "PreOpen (hook_after [Recover, Inject (Inr (msg_open\<lparr>im_Percent := 0\<rparr>))] ''/home'' (\<lambda>_. 0)) ''x'' =
     (True, Some 28, [0]) \<and>
   PreRead (hook_after [Recover, Inject (Inr (msg_open\<lparr>im_Percent := 0\<rparr>))] ''/home'' (\<lambda>_. 0)) ''x'' =
     (False, None, [0]) \<and>
   PreRead (hook_after [Inject (Inr (msg_open\<lparr>im_Percent := 0\<rparr>))] ''/home'' (\<lambda>_. 0)) ''x'' = (True, Some 28, [0])"
proof -
  have o: "(''open'', PreOpen) \<in> set path_hooks" and r: "(''read'', PreRead) \<in> set path_hooks"
    by (simp_all add: path_hooks_def)
  have j: "rule_matches ''/home'' (msg_open\<lparr>im_Percent := 0\<rparr>) ''x''"
    unfolding rule_matches_def msg_open_def by code_simp
  note h = bspec [OF conjunct1 [OF server_follows_history], simplified split_def]
  have "PreOpen (hook_after [Recover, Inject (Inr (msg_open\<lparr>im_Percent := 0\<rparr>))] ''/home'' (\<lambda>_. 0)) ''x'' =
     (True, Some 28, [0])"
    by (subst h [OF o, simplified]) (use j in \<open>simp add: msg_open_def answer_of_def strike_def inject_effect_def\<close>)
  moreover have "PreRead (hook_after [Recover, Inject (Inr (msg_open\<lparr>im_Percent := 0\<rparr>))] ''/home'' (\<lambda>_. 0)) ''x'' =
     (False, None, [0])"
    by (subst h [OF r, simplified]) (simp add: answer_of_def strike_def no_fault_def)
  moreover have "PreRead (hook_after [Inject (Inr (msg_open\<lparr>im_Percent := 0\<rparr>))] ''/home'' (\<lambda>_. 0)) ''x'' =
     (True, Some 28, [0])"
    by (subst h [OF r, simplified]) (use j in \<open>simp add: msg_open_def answer_of_def strike_def inject_effect_def\<close>)
  ultimately show ?thesis by blast
qed

lemma percent_odds_witness:
  "card {r \<in> {0..<99}. doInjectFault (\<lambda>_. r) ''/home'' [''read'' \<mapsto> msg_open] ''x'' ''read'' \<noteq> no_fault} =
    (if im_Percent msg_open = 0 then 99 else min (unat (im_Percent msg_open)) 99)"
proof (rule percent_odds)
  show "rule_matches ''/home'' msg_open ''x''" unfolding rule_matches_def msg_open_def by code_simp
qed (simp_all add: msg_open_def)

lemma recover_leaves_open_witness:
  "doInjectFault (\<lambda>_. 0) ''/home'' (snd (RecoverHandler (snd (InjectHandler (Inr msg_open) Map.empty)))) ''x'' ''open'' =
   doInjectFault (\<lambda>_. 0) ''/home'' [''open'' \<mapsto> msg_open] ''x'' ''open''"
  by (rule recover_leaves_open) (simp_all add: msg_open_def)

definition local_net :: "InjectMessage \<Rightarrow> fault_table net" where
  "local_net msg = \<lparr>nt_Marshal = (\<lambda>msg. Inr ''{}''),
     nt_PostCurl = (\<lambda>url body c w. ((''success'', None, 200), server_inject msg w)),
     nt_NewRequest = (\<lambda>url. None),
     nt_Do = (\<lambda>url w. (Inr (200, Inr ''success''), server_recover w))\<rparr>"

lemma local_net_delivers: "delivers_to (local_net msg) addr msg"
  by (simp add: delivers_to_def local_net_def InjectHandler_def RecoverHandler_def server_inject_def
      server_recover_def)

lemma inject_then_revoke_witness:
  "InjectFault (local_net msg_open) ''a:1'' msg_open Map.empty = (None, server_inject msg_open Map.empty) \<and>
   snd (Revoke (local_net msg_open) ''a:1'' (server_inject msg_open Map.empty)) ''read'' = None"
proof -
  obtain e1 w1 where 1: "InjectFault (local_net msg_open) ''a:1'' msg_open Map.empty = (e1, w1)"
    by (cases "InjectFault (local_net msg_open) ''a:1'' msg_open Map.empty")
  obtain e2 w2 where 2: "Revoke (local_net msg_open) ''a:1'' w1 = (e2, w2)" by (cases "Revoke (local_net msg_open) ''a:1'' w1")
  from inject_then_revoke [OF local_net_delivers 1 2] have "w2 ''read'' = None"
    by (simp add: defaultHookPoints_def)
  with 1 2 show ?thesis using InjectFault_delivered [OF local_net_delivers [of msg_open "''a:1''"], of Map.empty] by auto
qed

end
