(* ===== verification/Mutator.thy ===== *)
theory Mutator
  imports K8s GoPath Version
begin

section \<open>The pod webhook (pkg/webhook/pod/mutator.go)\<close>

text \<open>
  The admission webhook puts the sidecar with the fault-injecting file system into pods that ask for it
  by two annotations. A pod that has it already is left alone.
\<close>

definition SidecarName :: string where "SidecarName = ''chaosblade-fuse''"
definition FuseServerPortName :: string where "FuseServerPortName = ''fuse-port''"
definition inject_volume :: string where "inject_volume = ''chaosblade/inject-volume''"
definition inject_subpath :: string where "inject_subpath = ''chaosblade/inject-volume-subpath''"

record webhook =
  wh_FuseServerPort :: int
  wh_SidecarImage :: string

definition GetSidecarImage :: "config \<Rightarrow> webhook \<Rightarrow> string" where
  "GetSidecarImage C W =
     (if wh_SidecarImage W \<noteq> [] then wh_SidecarImage W
      else case Constant C of
             Some ImageRepoFunc \<Rightarrow> ImageRepoFunc C @ '':'' @ cf_Version C
           | None \<Rightarrow> cf_ImageRepository C @ '':'' @ cf_Version C)"

text \<open>The loop over the mounts: the last one of that name wins, an unsuitable one ends the function.\<close>

fun target_mount :: "string \<Rightarrow> VolumeMount list \<Rightarrow> VolumeMount option \<Rightarrow> GoErr + VolumeMount option" where
  "target_mount name [] target = Inr target"
| "target_mount name (v # vs) target =
     (if vm_Name v = name then
        (case vm_MountPropagation v of
           None \<Rightarrow> Inl (ErrNew ''target volume mount propagation must be HostToContainer or Bidirectional'')
         | Some p \<Rightarrow>
             if p \<noteq> ''HostToContainer'' \<and> p \<noteq> ''Bidirectional''
             then Inl (ErrNew ''target volume mount propagation is not support'')
             else target_mount name vs (Some (v\<lparr>vm_MountPropagation := Some ''Bidirectional''\<rparr>)))
      else target_mount name vs target)"

definition mount_point :: "string \<Rightarrow> string \<Rightarrow> string" where
  "mount_point MountPath subpath = path_join [MountPath, subpath]"

definition original_dir :: "string \<Rightarrow> string \<Rightarrow> string" where
  "original_dir MountPath subpath =
     (if mount_point MountPath subpath = MountPath
      then path_join [path_dir MountPath, ''fuse-'' @ path_base MountPath]
      else path_join [MountPath, ''fuse-'' @ subpath])"

definition sidecar_container :: "config \<Rightarrow> webhook \<Rightarrow> VolumeMount \<Rightarrow> string \<Rightarrow> Container" where
  "sidecar_container C W v subpath =
     \<lparr>ct_Name = SidecarName, ct_Image = GetSidecarImage C W, ct_ImagePullPolicy = ''Always'',
      ct_Command = [''/opt/chaosblade/bin/chaos_fuse''],
      ct_Args = [''--address=:'' @ show_int (wh_FuseServerPort W),
                 ''--mountpoint='' @ mount_point (vm_MountPath v) subpath,
                 ''--original='' @ original_dir (vm_MountPath v) subpath],
      ct_Requests = [(''cpu'', ''100m''), (''memory'', ''50Mi'')],
      ct_Limits = [(''cpu'', ''100m''), (''memory'', ''50Mi'')],
      ct_Ports = [(FuseServerPortName, wh_FuseServerPort W)],
      ct_Privileged = Some True, ct_RunAsUser = Some 0, ct_VolumeMounts = [v]\<rparr>"

text \<open>
  The result is the error and the pod as it is then; a pod without containers makes it panic. A target
  mount without a name is the zero value, which the code takes for none.
\<close>

definition mutatePodsFn :: "config \<Rightarrow> webhook \<Rightarrow> Pod \<Rightarrow> (GoErr option \<times> Pod) go" where
  "mutatePodsFn C W pod =
     (case pd_Annotations pod of
        None \<Rightarrow> Some (None, pod)
      | Some ann \<Rightarrow>
     (case ann inject_volume of
        None \<Rightarrow> Some (None, pod)
      | Some volume \<Rightarrow>
     (case ann inject_subpath of
        None \<Rightarrow> Some (None, pod)
      | Some subpath \<Rightarrow>
          if list_ex (\<lambda>c. ct_Name c = SidecarName) (pd_Containers pod) then Some (None, pod)
          else
            do { c \<leftarrow> index_at (pd_Containers pod) 0;
                 case target_mount volume (ct_VolumeMounts c) None of
                   Inl err \<Rightarrow> Some (Some err, pod)
                 | Inr None \<Rightarrow> Some (Some (ErrNew (''pod has no volume mount '' @ volume)), pod)
                 | Inr (Some v) \<Rightarrow>
                     if vm_Name v = [] then Some (Some (ErrNew (''pod has no volume mount '' @ volume)), pod)
                     else Some (None, pod\<lparr>pd_Containers := [sidecar_container C W v subpath, c]\<rparr>) })))"

text \<open>The handler: the answers of the admission library, and JSON as two functions.\<close>

datatype AdmissionResponse = Errored int GoErr | Allowed string | PatchFrom string string

definition Handle ::
  "config \<Rightarrow> webhook \<Rightarrow> (GoErr + Pod) \<Rightarrow> (Pod \<Rightarrow> GoErr + string) \<Rightarrow> AdmissionResponse go" where
  "Handle C W decoded marshal =
     (case decoded of
        Inl err \<Rightarrow> Some (Errored 400 err)
      | Inr pod \<Rightarrow>
          do { (err, patchPod) \<leftarrow> mutatePodsFn C W pod;
               case err of
                 Some e \<Rightarrow> Some (Errored 500 e)
               | None \<Rightarrow>
                   (case marshal pod of
                      Inl e \<Rightarrow> Some (Allowed [])
                    | Inr originalBytes \<Rightarrow>
                        Some (PatchFrom originalBytes
                          (case marshal patchPod of Inl e \<Rightarrow> [] | Inr expectedBytes \<Rightarrow> expectedBytes))) })"

subsection \<open>Facts\<close>

lemma target_mount_Some:
  "target_mount name vs t = Inr (Some v) \<Longrightarrow>
     t = Some v \<or> (\<exists>u \<in> set vs. vm_Name u = name \<and> v = u\<lparr>vm_MountPropagation := Some ''Bidirectional''\<rparr>)"
  by (induction name vs t rule: target_mount.induct) (auto split: if_splits option.splits)

lemma sidecar_sel [simp]: "ct_Name (sidecar_container C W v s) = SidecarName"
  by (simp add: sidecar_container_def)

text \<open>A pod that was changed asked for it, had no sidecar, and has it now.\<close>

lemma mutated_cases:
  assumes "mutatePodsFn C W pod = Some (e, pod')"
  obtains "pod' = pod" "e \<noteq> None \<or> mutatePodsFn C W pod' = Some (None, pod')"
  | c cs ann volume subpath v u where
      "pd_Containers pod = c # cs" "pd_Annotations pod = Some ann"
      "ann inject_volume = Some volume" "ann inject_subpath = Some subpath"
      "u \<in> set (ct_VolumeMounts c)" "vm_Name u = volume"
      "v = u\<lparr>vm_MountPropagation := Some ''Bidirectional''\<rparr>" "e = None"
      "\<forall>d \<in> set (c # cs). ct_Name d \<noteq> SidecarName"
      "pod' = pod\<lparr>pd_Containers := [sidecar_container C W v subpath, c]\<rparr>"
proof (cases "pod' = pod")
  case True
  then show ?thesis using assms that(1) by (cases e) auto
next
  case False
  with assms obtain ann volume subpath c v where
    a: "pd_Annotations pod = Some ann" "ann inject_volume = Some volume" "ann inject_subpath = Some subpath"
      "\<not> list_ex (\<lambda>c. ct_Name c = SidecarName) (pd_Containers pod)" "index_at (pd_Containers pod) 0 = Some c"
      "target_mount volume (ct_VolumeMounts c) None = Inr (Some v)" "e = None"
      "pod' = pod\<lparr>pd_Containers := [sidecar_container C W v subpath, c]\<rparr>"
    by (auto simp: mutatePodsFn_def split: option.splits if_splits Option.bind_splits sum.splits)
  from a(5) obtain cs where cs: "pd_Containers pod = c # cs"
    by (cases "pd_Containers pod") (auto simp: index_at_def split: if_splits)
  from target_mount_Some [OF a(6)] obtain u where "u \<in> set (ct_VolumeMounts c)" "vm_Name u = volume"
    "v = u\<lparr>vm_MountPropagation := Some ''Bidirectional''\<rparr>" by auto
  with a cs show ?thesis by (intro that(2) [of c cs ann volume subpath u v]) (auto simp: list_ex_iff)
qed

subsection \<open>Properties\<close>

text \<open>C29. The webhook is idempotent: what it admits is not changed by another run.\<close>

theorem webhook_idempotent:
  assumes "mutatePodsFn C W pod = Some (None, pod')"
  shows "mutatePodsFn C W pod' = Some (None, pod')"
  using assms
proof (rule mutated_cases)
  assume "pod' = pod"
  with assms show ?thesis by simp
next
  fix c cs ann volume subpath v u
  assume "pd_Annotations pod = Some ann" "ann inject_volume = Some volume" "ann inject_subpath = Some subpath"
    "pod' = pod\<lparr>pd_Containers := [sidecar_container C W v subpath, c]\<rparr>"
  then show ?thesis by (simp add: mutatePodsFn_def)
qed

text \<open>A pod with more than one container loses all but the first: the webhook puts the sidecar
  beside the first container and drops the others.\<close>

theorem webhook_drops_containers:
  assumes "mutatePodsFn C W pod = Some (None, pod')" "pod' \<noteq> pod"
  shows "\<exists>s. pd_Containers pod' = [s, hd (pd_Containers pod)] \<and> ct_Name s = SidecarName \<and>
    (\<forall>d \<in> set (tl (pd_Containers pod)). d \<noteq> hd (pd_Containers pod) \<longrightarrow> d \<notin> set (pd_Containers pod'))"
  using assms(1)
proof (rule mutated_cases)
  assume "pod' = pod"
  with assms(2) show ?thesis by simp
next
  fix c cs ann volume subpath v u
  assume c: "pd_Containers pod = c # cs" "\<forall>d \<in> set (c # cs). ct_Name d \<noteq> SidecarName"
    and p: "pod' = pod\<lparr>pd_Containers := [sidecar_container C W v subpath, c]\<rparr>"
  then show ?thesis by (intro exI [of _ "sidecar_container C W v subpath"]) auto
qed

lemma fuse_plain: "plain_elem e \<Longrightarrow> plain_elem (''fuse-'' @ e)"
  by (simp add: plain_elem_def)

lemma fuse_join: "''fuse-'' @ go_join ''/'' (e # es) = go_join ''/'' ((''fuse-'' @ e) # es)"
  by (cases es) simp_all

text \<open>In the volume, the mount point of the sidecar and the directory it reads from are two different
  entries: for a mounted directory \<open>/d1/../dn\<close> and a subpath of plain elements, the second has the same
  elements with \<open>fuse-\<close> before the first element of the subpath.\<close>

theorem sidecar_paths_differ:
  assumes "list_all plain_elem ds" "ds \<noteq> []" "list_all plain_elem (e # es)"
  shows "mount_point (abs_path ds) (go_join ''/'' (e # es)) = abs_path (ds @ e # es) \<and>
    original_dir (abs_path ds) (go_join ''/'' (e # es)) = abs_path (ds @ (''fuse-'' @ e) # es) \<and>
    mount_point (abs_path ds) (go_join ''/'' (e # es)) \<noteq> original_dir (abs_path ds) (go_join ''/'' (e # es))"
proof -
  have f: "list_all plain_elem ((''fuse-'' @ e) # es)" using assms(3) fuse_plain [of e] by simp
  have m: "mount_point (abs_path ds) (go_join ''/'' (e # es)) = abs_path (ds @ e # es)"
    unfolding mount_point_def by (rule path_join_subpath [OF assms])
  have "mount_point (abs_path ds) (go_join ''/'' (e # es)) \<noteq> abs_path ds"
    unfolding m using abs_path_inj [of "ds @ e # es" ds] assms by auto
  then have o': "original_dir (abs_path ds) (go_join ''/'' (e # es)) = abs_path (ds @ (''fuse-'' @ e) # es)"
    unfolding original_dir_def fuse_join path_join_subpath [OF assms(1,2) f] by simp
  have "abs_path (ds @ e # es) \<noteq> abs_path (ds @ (''fuse-'' @ e) # es)"
    using abs_path_inj [of "ds @ e # es" "ds @ (''fuse-'' @ e) # es"] assms f by auto
  with m o' show ?thesis by simp
qed

subsection \<open>Witnesses\<close>

definition data_mount :: VolumeMount where
  "data_mount = \<lparr>vm_Name = ''data'', vm_MountPath = ''/home'', vm_MountPropagation = Some ''HostToContainer''\<rparr>"

definition data_pod :: Pod where
  "data_pod = no_pod\<lparr>pd_Annotations := Some [inject_volume \<mapsto> ''data'', inject_subpath \<mapsto> ''logs''],
     pd_Containers := [no_container\<lparr>ct_Name := ''app'', ct_VolumeMounts := [data_mount]\<rparr>,
       no_container\<lparr>ct_Name := ''helper''\<rparr>]\<rparr>"

definition sample_webhook :: webhook where
  "sample_webhook = \<lparr>wh_FuseServerPort = 65534, wh_SidecarImage = ''tool:1''\<rparr>"

definition data_pod' :: Pod where
  "data_pod' = data_pod\<lparr>pd_Containers := [sidecar_container sample_config sample_webhook
     (data_mount\<lparr>vm_MountPropagation := Some ''Bidirectional''\<rparr>) ''logs'',
     no_container\<lparr>ct_Name := ''app'', ct_VolumeMounts := [data_mount]\<rparr>]\<rparr>"

lemma data_pod_mutated: "mutatePodsFn sample_config sample_webhook data_pod = Some (None, data_pod')"
  by (simp add: mutatePodsFn_def data_pod'_def data_pod_def data_mount_def no_pod_def no_container_def
      inject_volume_def inject_subpath_def SidecarName_def index_at_def)

lemma webhook_idempotent_witness:
  "mutatePodsFn sample_config sample_webhook data_pod' = Some (None, data_pod')"
  by (rule webhook_idempotent [OF data_pod_mutated])

lemma webhook_drops_containers_witness:
  "\<exists>s. pd_Containers data_pod' = [s, hd (pd_Containers data_pod)] \<and> ct_Name s = SidecarName \<and>
    (\<forall>d \<in> set (tl (pd_Containers data_pod)). d \<noteq> hd (pd_Containers data_pod) \<longrightarrow> d \<notin> set (pd_Containers data_pod'))"
  by (rule webhook_drops_containers [OF data_pod_mutated])
    (simp add: data_pod'_def data_pod_def SidecarName_def sidecar_container_def no_container_def no_pod_def)

lemma sidecar_paths_differ_witness:
  "mount_point (abs_path [''home'']) (go_join ''/'' [''logs'', ''app'']) = abs_path [''home'', ''logs'', ''app''] \<and>
   original_dir (abs_path [''home'']) (go_join ''/'' [''logs'', ''app'']) = abs_path [''home'', ''fuse-logs'', ''app'']"
  using sidecar_paths_differ [of "[''home'']" "''logs''" "[''app'']"] by (simp add: plain_elem_def)

end
