(* ===== verification/PodActions.thy ===== *)
theory PodActions
  imports Controllers HookFs Mutator
begin

section \<open>The actions of the pod target (exec/pod/delete.go, failexp.go, fsexp.go)\<close>

text \<open>
  Three actions that need no blade tool: deleting pods, breaking the image of their containers, and
  injecting file system faults through the sidecar. Each is an executor with a create and a destroy
  branch over the container metadata in the context. A loop over the targets gives for each target at
  most one status, and whether it counts as a success.
\<close>

definition base_exec_by ::
  "'w env \<Rightarrow> (string \<Rightarrow> Ctx \<Rightarrow> ExpModel \<Rightarrow> 'w \<Rightarrow> (Response \<times> 'w) go) \<Rightarrow>
     (string \<Rightarrow> Ctx \<Rightarrow> ExpModel \<Rightarrow> 'w \<Rightarrow> (Response \<times> 'w) go) \<Rightarrow> 'w exec_fun" where
  "base_exec_by N create destroy uid ctx m w =
     (if sp_IsDestroy (en_Spec N) ctx then destroy uid ctx m w else create uid ctx m w)"

definition no_targets :: "spec_lib \<Rightarrow> Response" where
  "no_targets S = sp_FailWithResult S ContainerInContextNotFound
     (RExp (CreateFailExperimentStatus (sp_Msg S ContainerInContextNotFound) (Some []))) []"

definition action_result :: "spec_lib \<Rightarrow> (ResourceStatus option \<times> bool) list \<Rightarrow> Response" where
  "action_result S rs =
     (let statuses = List.map_filter fst rs; success = list_ex snd rs
      in sp_ReturnResultIgnoreCode S (RExp
           (if success then CreateSuccessExperimentStatus (Some statuses)
            else CreateFailExperimentStatus ''see resStatuses for details'' (Some statuses))))"

definition destroy_result :: "spec_lib \<Rightarrow> (ResourceStatus option \<times> bool) list \<Rightarrow> Response" where
  "destroy_result S rs =
     sp_ReturnResultIgnoreCode S (RExp (CreateDestroyedExperimentStatus (Some (List.map_filter fst rs))))"

definition pod_status :: "ContainerObjectMeta \<Rightarrow> ResourceStatus" where
  "pod_status c = no_status\<lparr>rs_Kind := PodKind, rs_Identifier := GetIdentifier c\<rparr>"

definition exec_failed :: "spec_lib \<Rightarrow> string \<Rightarrow> GoErr \<Rightarrow> ResourceStatus \<Rightarrow> ResourceStatus" where
  "exec_failed S what err status =
     CreateFailResourceStatus status (sp_Sprintf S K8sExecFailed [FStr what, FErr err]) (sp_Code S K8sExecFailed)"

type_synonym 'w target_action =
  "ContainerObjectMeta \<Rightarrow> 'w \<Rightarrow> ((ResourceStatus option \<times> bool) \<times> 'w) go"

text \<open>Running a body over the targets of the context.\<close>

definition run_targets ::
  "Response \<Rightarrow> 'w target_action \<Rightarrow> ((ResourceStatus option \<times> bool) list \<Rightarrow> Response) \<Rightarrow>
     Ctx \<Rightarrow> 'w \<Rightarrow> (Response \<times> 'w) go" where
  "run_targets none body result ctx w =
     do { r \<leftarrow> GetContainerObjectMetaListFromContext ctx;
          case r of
            Inl err \<Rightarrow> Some (none, w)
          | Inr metas \<Rightarrow>
              do { (rs, w1) \<leftarrow> mapM_w body metas w; Some (result rs, w1) } }"

subsection \<open>Readiness\<close>

definition isPodReady :: "Pod \<Rightarrow> bool" where
  "isPodReady pod \<longleftrightarrow>
     (if pd_DeletionTimestamp pod \<noteq> None then False
      else list_ex (\<lambda>(ctype, cstatus). ctype = ''Ready'' \<and> cstatus = ''True'') (pd_Conditions pod))"

subsection \<open>delete\<close>

text \<open>The experiment id is read from the context only to log an error.\<close>

definition delete_one :: "'w env \<Rightarrow> Ctx \<Rightarrow> 'w target_action" where
  "delete_one N ctx meta w =
     (let S = en_Spec N;
          status = no_status\<lparr>rs_Kind := PodKind,
            rs_Identifier := cm_Namespace meta @ ''/'' @ cm_NodeName meta @ ''/'' @ cm_PodName meta\<rparr>
      in case k_DeletePod (en_Kube N) (cm_Namespace meta) (cm_PodName meta) w of
           (Some err, w1) \<Rightarrow>
             do { experimentId \<leftarrow> GetExperimentIdFromContext ctx;
                  Some ((Some (CreateFailResourceStatus status (sp_ErrText S err) (sp_Code S K8sExecFailed)), False), w1) }
         | (None, w1) \<Rightarrow> Some ((Some (CreateSuccessResourceStatus status), True), w1))"

definition delete_create :: "'w env \<Rightarrow> 'w exec_fun" where
  "delete_create N uid ctx m w = run_targets (no_targets (en_Spec N)) (delete_one N ctx) (action_result (en_Spec N)) ctx w"

definition undelete_one :: "'w target_action" where
  "undelete_one c w = Some ((Some (no_status\<lparr>rs_Id := cm_Id c, rs_Kind := PodKind, rs_State := DestroyedState,
     rs_Success := True, rs_Identifier := GetIdentifier c\<rparr>), True), w)"

definition delete_destroy :: "'w env \<Rightarrow> 'w exec_fun" where
  "delete_destroy N uid ctx m w = run_targets (no_targets (en_Spec N)) undelete_one (destroy_result (en_Spec N)) ctx w"

definition DeletePodActionExecutor_Exec :: "'w env \<Rightarrow> 'w exec_fun" where
  "DeletePodActionExecutor_Exec N = base_exec_by N (delete_create N) (delete_destroy N)"

subsection \<open>fail\<close>

definition isAnnotationExist :: "flags \<Rightarrow> string \<Rightarrow> bool" where
  "isAnnotationExist annotation key \<longleftrightarrow> annotation key \<noteq> None"

definition fail_key :: "Container \<Rightarrow> string" where
  "fail_key c = ''failPod'' @ ''-'' @ ct_Name c"

fun fail_containers :: "Container list \<Rightarrow> flags option \<Rightarrow> Container list \<times> flags option" where
  "fail_containers [] annotations = ([], annotations)"
| "fail_containers (c # cs) annotations =
     (let key = fail_key c;
          ann = (case annotations of None \<Rightarrow> Map.empty | Some ann \<Rightarrow> ann)
      in if isAnnotationExist ann key
         then (let (cs', ann') = fail_containers cs (Some ann) in (c # cs', ann'))
         else (let (cs', ann') = fail_containers cs (Some (ann(key \<mapsto> ct_Image c)))
               in (c\<lparr>ct_Image := ct_Image c @ ''-fault-injection''\<rparr> # cs', ann')))"

definition failed_pod :: "Pod \<Rightarrow> Pod" where
  "failed_pod pod =
     (let (cs, ann) = fail_containers (pd_Containers pod) (pd_Annotations pod)
      in pod\<lparr>pd_Containers := cs, pd_Annotations := ann\<rparr>)"

definition failPod :: "'w env \<Rightarrow> Pod \<Rightarrow> 'w \<Rightarrow> GoErr option \<times> 'w" where
  "failPod N pod w = k_UpdatePod (en_Kube N) (failed_pod pod) w"

text \<open>A failed read leaves the pod object empty, and the body goes on with it.\<close>

definition fail_one :: "'w env \<Rightarrow> 'w target_action" where
  "fail_one N c w =
     (let S = en_Spec N;
          (r, w1) = k_GetPod (en_Kube N) (cm_Namespace c) (cm_PodName c) w;
          (status, pod) = (case r of
             Inl err \<Rightarrow> (exec_failed S ''get'' err (pod_status c), no_pod)
           | Inr pod \<Rightarrow> (pod_status c, pod))
      in Some (if \<not> isPodReady pod then
             ((Some (CreateFailResourceStatus status (sp_Sprintf S PodNotReady [FStr (cm_PodName c)])
                (sp_Code S PodNotReady)), False), w1)
           else (case failPod N pod w1 of
                   (Some err, w2) \<Rightarrow> ((Some (exec_failed S ''update'' err status), False), w2)
                 | (None, w2) \<Rightarrow> ((Some (CreateSuccessResourceStatus status), True), w2))))"

definition fail_create :: "'w env \<Rightarrow> 'w exec_fun" where
  "fail_create N uid ctx m w =
     do { experimentId \<leftarrow> GetExperimentIdFromContext ctx;
          run_targets (no_targets (en_Spec N)) (fail_one N) (action_result (en_Spec N)) ctx w }"

text \<open>The statuses made here are not kept.\<close>

definition unfail_one :: "'w env \<Rightarrow> 'w target_action" where
  "unfail_one N c w =
     (case k_GetPod (en_Kube N) (cm_Namespace c) (cm_PodName c) w of
        (Inl err, w1) \<Rightarrow> Some ((None, False), w1)
      | (Inr pod, w1) \<Rightarrow>
          (case k_DeletePod (en_Kube N) (pd_Namespace pod) (pd_Name pod) w1 of
             (err, w2) \<Rightarrow> Some ((None, False), w2)))"

definition fail_destroy :: "'w env \<Rightarrow> 'w exec_fun" where
  "fail_destroy N uid ctx m w =
     do { r \<leftarrow> GetContainerObjectMetaListFromContext ctx;
          experimentId \<leftarrow> GetExperimentIdFromContext ctx;
          run_targets (no_targets (en_Spec N)) (unfail_one N) (destroy_result (en_Spec N)) ctx w }"

definition FailPodActionExecutor_Exec :: "'w env \<Rightarrow> 'w exec_fun" where
  "FailPodActionExecutor_Exec N = base_exec_by N (fail_create N) (fail_destroy N)"

subsection \<open>IO\<close>

fun first_port :: "string \<Rightarrow> (string \<times> int) list \<Rightarrow> int option" where
  "first_port portName [] = None"
| "first_port portName ((name, port) # ps) = (if name = portName then Some port else first_port portName ps)"

fun getContainerPort :: "string \<Rightarrow> Container list \<Rightarrow> GoErr + int" where
  "getContainerPort portName [] = Inl (ErrNew ''can not found fuse-server container port '')"
| "getContainerPort portName (c # cs) =
     (case first_port portName (ct_Ports c) of
        Some port \<Rightarrow> Inr port
      | None \<Rightarrow> getContainerPort portName cs)"

text \<open>The client is the address of the server.\<close>

definition getChaosfsClient :: "Pod \<Rightarrow> GoErr + string" where
  "getChaosfsClient pod =
     (case getContainerPort FuseServerPortName (pd_Containers pod) of
        Inl err \<Rightarrow> Inl err
      | Inr port \<Rightarrow> Inr (pd_PodIP pod @ '':'' @ show_int port))"

text \<open>An optional number of the experiment, zero when it is not given; \<open>Inl\<close> is the failed status.\<close>

definition int_flag :: "spec_lib \<Rightarrow> flags \<Rightarrow> string \<Rightarrow> ResourceStatus \<Rightarrow> ResourceStatus + int" where
  "int_flag S flags name status =
     (case flags name of
        None \<Rightarrow> Inr 0
      | Some s \<Rightarrow>
          if s = [] then Inr 0
          else (case atoi s of
                  Inl err \<Rightarrow> Inl (CreateFailResourceStatus status
                    (sp_Sprintf S ParameterIllegal [FStr name, FStr s, FErr (ErrNum err)]) (sp_Code S ParameterIllegal))
                | Inr i \<Rightarrow> Inr i))"

definition io_request :: "spec_lib \<Rightarrow> flags \<Rightarrow> ResourceStatus \<Rightarrow> ResourceStatus + InjectMessage" where
  "io_request S flags status =
     (let methods = mget flags ''method''
      in if flags ''method'' = None \<and> methods \<noteq> [] then
           Inl (CreateFailResourceStatus status (sp_Sprintf S ParameterLess [FStr ''method'']) (sp_Code S ParameterLess))
         else (case int_flag S flags ''delay'' status of
             Inl st \<Rightarrow> Inl st
           | Inr delay \<Rightarrow> (case int_flag S flags ''percent'' status of
               Inl st \<Rightarrow> Inl st
             | Inr percent \<Rightarrow> (case int_flag S flags ''errno'' status of
                 Inl st \<Rightarrow> Inl st
               | Inr errno \<Rightarrow>
                   Inr \<lparr>im_Methods = go_split CHR '','' methods, im_Path = mget flags ''path'',
                        im_Delay = word_of_int delay, im_Percent = word_of_int percent,
                        im_Random = (flags ''random'' = Some ''true''), im_Errno = word_of_int errno\<rparr>))))"

definition io_one :: "'w env \<Rightarrow> 'w net \<Rightarrow> flags \<Rightarrow> 'w target_action" where
  "io_one N H flags c w =
     (let S = en_Spec N; status = pod_status c
      in case k_GetPod (en_Kube N) (cm_Namespace c) (cm_PodName c) w of
           (Inl err, w1) \<Rightarrow> Some ((Some (exec_failed S ''get'' err status), False), w1)
         | (Inr pod, w1) \<Rightarrow>
             if \<not> isPodReady pod then
               Some ((Some (CreateFailResourceStatus status (sp_Msg S PodNotReady) (sp_Code S PodNotReady)), False), w1)
             else (case io_request S flags status of
                 Inl st \<Rightarrow> Some ((Some st, False), w1)
               | Inr request \<Rightarrow>
                   (case getChaosfsClient pod of
                      Inl err \<Rightarrow> Some ((Some (CreateFailResourceStatus status
                         (sp_Sprintf S ChaosfsClientFailed [FStr (pd_Name pod), FErr err])
                         (sp_Code S ChaosfsClientFailed)), False), w1)
                    | Inr addr \<Rightarrow>
                        (case InjectFault H addr request w1 of
                           (Some err, w2) \<Rightarrow> Some ((Some (CreateFailResourceStatus status
                              (sp_Sprintf S ChaosfsInjectFailed [FStr (pd_Name pod), FMsg request, FErr err])
                              (sp_Code S ChaosfsInjectFailed)), False), w2)
                         | (None, w2) \<Rightarrow> Some ((Some (CreateSuccessResourceStatus status), True), w2)))))"

definition io_create :: "'w env \<Rightarrow> 'w net \<Rightarrow> 'w exec_fun" where
  "io_create N H uid ctx m w =
     (let S = en_Spec N;
          none = sp_FailWithFlags S ContainerInContextNotFound
            [FStatus (CreateFailExperimentStatus (sp_Msg S ContainerInContextNotFound) (Some []))]
      in do { r \<leftarrow> GetContainerObjectMetaListFromContext ctx;
              experimentId \<leftarrow> GetExperimentIdFromContext ctx;
              run_targets none (io_one N H (em_ActionFlags m)) (action_result (en_Spec N)) ctx w })"

definition unio_one :: "'w env \<Rightarrow> 'w net \<Rightarrow> 'w target_action" where
  "unio_one N H c w =
     (let S = en_Spec N; status = pod_status c
      in case k_GetPod (en_Kube N) (cm_Namespace c) (cm_PodName c) w of
           (Inl err, w1) \<Rightarrow> Some ((None, False), w1)
         | (Inr pod, w1) \<Rightarrow>
             if \<not> isPodReady pod then Some ((None, False), w1)
             else (case getChaosfsClient pod of
                 Inl err \<Rightarrow> Some ((Some (CreateFailResourceStatus status
                    (sp_Sprintf S ChaosfsClientFailed [FStr (pd_Name pod), FErr err])
                    (sp_Code S ChaosfsClientFailed)), False), w1)
               | Inr addr \<Rightarrow>
                   (case Revoke H addr w1 of
                      (Some err, w2) \<Rightarrow> Some ((Some (CreateFailResourceStatus status
                         (sp_Sprintf S ChaosfsRecoverFailed [FStr (pd_Name pod), FErr err])
                         (sp_Code S ChaosfsRecoverFailed)), False), w2)
                    | (None, w2) \<Rightarrow> Some ((None, False), w2))))"

definition io_destroy :: "'w env \<Rightarrow> 'w net \<Rightarrow> 'w exec_fun" where
  "io_destroy N H uid ctx m w =
     do { r \<leftarrow> GetContainerObjectMetaListFromContext ctx;
          experimentId \<leftarrow> GetExperimentIdFromContext ctx;
          run_targets (no_targets (en_Spec N)) (unio_one N H) (destroy_result (en_Spec N)) ctx w }"

definition PodIOActionExecutor_Exec :: "'w env \<Rightarrow> 'w net \<Rightarrow> 'w exec_fun" where
  "PodIOActionExecutor_Exec N H = base_exec_by N (io_create N H) (io_destroy N H)"

subsection \<open>Facts\<close>

lemma run_targets_ok:
  assumes "exp_result none" "\<And>rs. exp_result (result rs)"
    and "run_targets none body result ctx w = Some (r, w')"
  shows "exp_result r"
  using assms by (auto simp: run_targets_def split: Option.bind_splits sum.splits)

lemma results_ok:
  assumes "spec_contract S"
  shows "exp_result (no_targets S)" "exp_result (action_result S rs)" "exp_result (destroy_result S rs)"
    "exp_result (sp_FailWithFlags S c fs)"
  by (simp_all add: exp_result_def no_targets_def action_result_def destroy_result_def Let_def
      spec_contractD [OF assms])

lemma pod_executors_ok:
  assumes "spec_contract (en_Spec N)"
  shows "exec_ok (DeletePodActionExecutor_Exec N)" "exec_ok (FailPodActionExecutor_Exec N)"
    "exec_ok (PodIOActionExecutor_Exec N H)"
  unfolding exec_ok_def DeletePodActionExecutor_Exec_def FailPodActionExecutor_Exec_def
    PodIOActionExecutor_Exec_def base_exec_by_def delete_create_def delete_destroy_def fail_create_def
    fail_destroy_def io_create_def io_destroy_def Let_def
  by (auto split: if_splits Option.bind_splits
      dest: run_targets_ok [OF results_ok(1) [OF assms] results_ok(2) [OF assms]]
        run_targets_ok [OF results_ok(1) [OF assms] results_ok(3) [OF assms]]
        run_targets_ok [OF results_ok(4) [OF assms] results_ok(2) [OF assms]])

text \<open>What failing the containers of a pod does to the keys.\<close>

lemma fail_containers_noop:
  "\<forall>c \<in> set cs. m (fail_key c) \<noteq> None \<Longrightarrow> fail_containers cs (Some m) = (cs, Some m)"
  by (induction cs) (auto simp: isAnnotationExist_def Let_def)

lemma fail_containers_grow:
  "fail_containers cs (Some m) = (cs', a) \<Longrightarrow>
     map fail_key cs' = map fail_key cs \<and>
     (\<exists>m'. a = Some m' \<and> m \<subseteq>\<^sub>m m' \<and> (\<forall>c \<in> set cs. m' (fail_key c) \<noteq> None))"
proof (induction cs arbitrary: m cs' a)
  case Nil
  then show ?case by (auto simp: map_le_def)
next
  case (Cons c cs)
  let ?m = "if m (fail_key c) \<noteq> None then m else m(fail_key c \<mapsto> ct_Image c)"
  obtain ds b where r: "fail_containers cs (Some ?m) = (ds, b)" by (cases "fail_containers cs (Some ?m)")
  from Cons.IH [OF this] obtain m' where IH: "map fail_key ds = map fail_key cs" "b = Some m'" "?m \<subseteq>\<^sub>m m'"
    "\<forall>c \<in> set cs. m' (fail_key c) \<noteq> None" by blast
  have k: "?m (fail_key c) \<noteq> None" by simp
  then have "m' (fail_key c) \<noteq> None" using IH(3) by (metis domIff map_le_implies_dom_le subsetD)
  moreover have "m \<subseteq>\<^sub>m ?m" by (auto simp: map_le_def)
  then have "m \<subseteq>\<^sub>m m'" using IH(3) by (rule map_le_trans)
  moreover have "a = b" "map fail_key cs' = fail_key c # map fail_key ds"
    using Cons.prems r by (auto simp: isAnnotationExist_def fail_key_def Let_def split: if_splits prod.splits)
  ultimately show ?case using IH by auto
qed

lemma fail_containers_None: "cs \<noteq> [] \<Longrightarrow> fail_containers cs None = fail_containers cs (Some Map.empty)"
  by (cases cs) simp_all

lemma fail_containers_again:
  "fail_containers cs a = (cs', a') \<Longrightarrow> fail_containers cs' a' = (cs', a')"
proof -
  have some: "fail_containers cs (Some m) = (cs', a') \<Longrightarrow> ?thesis" for m
  proof -
    assume "fail_containers cs (Some m) = (cs', a')"
    from fail_containers_grow [OF this] obtain m' where "map fail_key cs' = map fail_key cs" "a' = Some m'"
      "\<forall>c \<in> set cs. m' (fail_key c) \<noteq> None" by blast
    moreover from this have "\<forall>c \<in> set cs'. m' (fail_key c) \<noteq> None"
      by (metis (no_types, lifting) image_eqI image_iff list.set_map)
    ultimately show ?thesis by (simp add: fail_containers_noop)
  qed
  assume "fail_containers cs a = (cs', a')"
  then show ?thesis
    using some by (cases "cs = []"; cases a) (auto simp: fail_containers_None)
qed

subsection \<open>Properties\<close>

text \<open>Failing a pod is idempotent: a pod that was failed once is not changed by failing it again, so
  no image gets the suffix twice and the recorded images stay the original ones.\<close>

theorem fail_pod_idempotent: "failed_pod (failed_pod pod) = failed_pod pod"
  using fail_containers_again [of "pd_Containers pod" "pd_Annotations pod"]
  by (cases "fail_containers (pd_Containers pod) (pd_Annotations pod)") (simp add: failed_pod_def)

lemma fail_key_inj: "fail_key c = fail_key d \<longleftrightarrow> ct_Name c = ct_Name d"
  by (simp add: fail_key_def)

lemma fail_containers_restorable:
  "distinct (map ct_Name cs) \<Longrightarrow> \<forall>c \<in> set cs. m (fail_key c) = None \<Longrightarrow>
     fail_containers cs (Some m) = (cs', a) \<Longrightarrow>
     cs' = map (\<lambda>c. c\<lparr>ct_Image := ct_Image c @ ''-fault-injection''\<rparr>) cs \<and>
     (\<exists>m'. a = Some m' \<and> (\<forall>c \<in> set cs. m' (fail_key c) = Some (ct_Image c)) \<and> m \<subseteq>\<^sub>m m')"
proof (induction cs arbitrary: m cs' a)
  case Nil
  then show ?case by (auto simp: map_le_def)
next
  case (Cons c cs)
  let ?m = "m(fail_key c \<mapsto> ct_Image c)"
  obtain ds b where r: "fail_containers cs (Some ?m) = (ds, b)" by (cases "fail_containers cs (Some ?m)")
  have "ct_Name d \<noteq> ct_Name c" if "d \<in> set cs" for d
    using Cons.prems(1) that by (metis distinct.simps(2) image_eqI list.set_map list.simps(9))
  then have "\<forall>d \<in> set cs. ?m (fail_key d) = None"
    using Cons.prems(2) by (simp add: fail_key_inj)
  from Cons.IH [OF _ this r] Cons.prems(1) obtain m' where IH:
    "ds = map (\<lambda>c. c\<lparr>ct_Image := ct_Image c @ ''-fault-injection''\<rparr>) cs" "b = Some m'"
    "\<forall>c \<in> set cs. m' (fail_key c) = Some (ct_Image c)" "?m \<subseteq>\<^sub>m m'"
    unfolding distinct.simps list.map by blast
  have "m' (fail_key c) = Some (ct_Image c)" using IH(4) by (simp add: map_le_def)
  moreover have "m \<subseteq>\<^sub>m ?m" using Cons.prems(2) by (auto simp: map_le_def)
  then have "m \<subseteq>\<^sub>m m'" using IH(4) by (rule map_le_trans)
  moreover have "cs' = c\<lparr>ct_Image := ct_Image c @ ''-fault-injection''\<rparr> # ds" "a = b"
    using Cons.prems(2,3) r by (auto simp: isAnnotationExist_def Let_def)
  ultimately show ?case using IH by auto
qed

text \<open>C30. Failing a pod loses nothing: every container gets the suffix on its image, the annotations keep
  each original image under the key of its container, and every annotation that was there stays.\<close>

theorem fail_pod_restorable:
  assumes "distinct (map ct_Name (pd_Containers pod))" "pd_Containers pod \<noteq> []"
    and "\<forall>c \<in> set (pd_Containers pod). \<forall>m. pd_Annotations pod = Some m \<longrightarrow> m (fail_key c) = None"
  shows "pd_Containers (failed_pod pod) =
      map (\<lambda>c. c\<lparr>ct_Image := ct_Image c @ ''-fault-injection''\<rparr>) (pd_Containers pod) \<and>
    (\<exists>m'. pd_Annotations (failed_pod pod) = Some m' \<and>
      (\<forall>c \<in> set (pd_Containers pod). m' (fail_key c) = Some (ct_Image c)) \<and>
      (\<forall>m. pd_Annotations pod = Some m \<longrightarrow> m \<subseteq>\<^sub>m m'))"
proof -
  let ?m = "case pd_Annotations pod of None \<Rightarrow> Map.empty | Some m \<Rightarrow> m"
  obtain cs a where r: "fail_containers (pd_Containers pod) (Some ?m) = (cs, a)"
    by (cases "fail_containers (pd_Containers pod) (Some ?m)")
  have e: "fail_containers (pd_Containers pod) (pd_Annotations pod) = (cs, a)"
    using r fail_containers_None [OF assms(2)] by (simp split: option.splits)
  have "\<forall>c \<in> set (pd_Containers pod). ?m (fail_key c) = None"
    using assms(3) by (auto split: option.splits)
  from fail_containers_restorable [OF assms(1) this r] e show ?thesis
    by (auto simp: failed_pod_def)
qed

text \<open>Destroying a pod failure reports a destroyed experiment without any status, whatever the client
  answers: failed reads and failed deletions are not seen in the result.\<close>

theorem fail_destroy_hides_errors:
  assumes "spec_contract (en_Spec N)" "sp_IsDestroy (en_Spec N) ctx"
    and "GetContainerObjectMetaListFromContext ctx = Some (Inr metas)"
    and "GetExperimentIdFromContext ctx \<noteq> None"
  shows "\<exists>r w'. FailPodActionExecutor_Exec N uid ctx m w = Some (r, w') \<and>
    rp_Result r = RExp (CreateDestroyedExperimentStatus (Some []))"
proof -
  have step: "\<exists>u'. unfail_one N c u = Some ((None, False), u')" for c u
    by (auto simp: unfail_one_def split: prod.splits sum.splits)
  have "\<exists>u' rs. mapM_w (unfail_one N) cs u = Some (rs, u') \<and> List.map_filter fst rs = []" for cs u
  proof (induction cs arbitrary: u)
    case (Cons c cs)
    obtain u1 where "unfail_one N c u = Some ((None, False), u1)" using step by blast
    moreover obtain u2 rs where "mapM_w (unfail_one N) cs u1 = Some (rs, u2)" "List.map_filter fst rs = []"
      using Cons.IH by blast
    ultimately show ?case by (simp add: map_filter_simps)
  qed (simp add: map_filter_simps)
  then obtain w' rs where "mapM_w (unfail_one N) metas w = Some (rs, w')" "List.map_filter fst rs = []" by blast
  with assms show ?thesis
    by (auto simp: FailPodActionExecutor_Exec_def base_exec_by_def fail_destroy_def run_targets_def
        destroy_result_def spec_contractD [OF assms(1)])
qed

lemma io_request_Inr:
  assumes "io_request S flags status = Inr req"
  obtains delay percent errno where
    "int_flag S flags ''delay'' status = Inr delay" "int_flag S flags ''percent'' status = Inr percent"
    "int_flag S flags ''errno'' status = Inr errno"
    "req = \<lparr>im_Methods = go_split CHR '','' (mget flags ''method''), im_Path = mget flags ''path'',
       im_Delay = word_of_int delay, im_Percent = word_of_int percent,
       im_Random = (flags ''random'' = Some ''true''), im_Errno = word_of_int errno\<rparr>"
  using assms by (auto simp: io_request_def Let_def split: if_splits sum.splits)

lemma int_flag_given:
  assumes "int_flag S flags k status = Inr i" "flags k = Some s" "atoi s = Inr j"
  shows "i = j"
proof -
  from assms(3) have "s \<noteq> []" by auto
  with assms show ?thesis by (simp add: int_flag_def)
qed

text \<open>The numbers of an IO experiment are not checked for range but taken modulo 2 to the 32nd: a
  percentage of 4294967296 is sent as 0, which means always, and a delay of -1 as 4294967295.\<close>

theorem io_numbers_wrap:
  assumes "io_request S flags status = Inr req"
    and "flags ''percent'' = Some s" "atoi s = Inr percent"
    and "flags ''delay'' = Some t" "atoi t = Inr delay"
  shows "uint (im_Percent req) = percent mod 2 ^ 32 \<and> uint (im_Delay req) = delay mod 2 ^ 32"
proof -
  obtain d p e where r: "int_flag S flags ''delay'' status = Inr d" "int_flag S flags ''percent'' status = Inr p"
    "im_Percent req = word_of_int p" "im_Delay req = word_of_int d"
    by (rule io_request_Inr [OF assms(1)]) simp
  have "d = delay" "p = percent"
    using int_flag_given [OF r(1) assms(4,5)] int_flag_given [OF r(2) assms(2,3)] by simp_all
  with r(3,4) show ?thesis by (simp add: uint_word_of_int)
qed

text \<open>An IO experiment without a method is not refused: it injects a fault for a method without a
  name, which no hook has.\<close>

theorem io_without_method:
  assumes "flags ''method'' = None" "io_request S flags status = r"
    and "int_flag S flags ''delay'' status = Inr delay" "int_flag S flags ''percent'' status = Inr percent"
    and "int_flag S flags ''errno'' status = Inr errno"
  shows "\<exists>req. r = Inr req \<and> im_Methods req = [[]] \<and>
    (\<forall>m cache. m \<noteq> [] \<longrightarrow> server_inject req cache m = cache m)"
  using assms by (auto simp: io_request_def mget_def server_inject_def InjectHandler_def)

subsection \<open>Witnesses\<close>

definition web_container :: Container where
  "web_container = no_container\<lparr>ct_Name := ''web'', ct_Image := ''nginx:1''\<rparr>"

definition web_pod :: Pod where
  "web_pod = no_pod\<lparr>pd_Name := ''w'', pd_Containers := [web_container]\<rparr>"

lemma fail_pod_restorable_witness:
  "map ct_Image (pd_Containers (failed_pod web_pod)) = [''nginx:1-fault-injection''] \<and>
   label_of (pd_Annotations (failed_pod web_pod)) ''failPod-web'' = ''nginx:1''"
proof -
  have "pd_Containers (failed_pod web_pod) =
      map (\<lambda>c. c\<lparr>ct_Image := ct_Image c @ ''-fault-injection''\<rparr>) (pd_Containers web_pod) \<and>
    (\<exists>m'. pd_Annotations (failed_pod web_pod) = Some m' \<and>
      (\<forall>c \<in> set (pd_Containers web_pod). m' (fail_key c) = Some (ct_Image c)) \<and>
      (\<forall>m. pd_Annotations web_pod = Some m \<longrightarrow> m \<subseteq>\<^sub>m m'))"
    by (rule fail_pod_restorable) (simp_all add: web_pod_def no_pod_def)
  then show ?thesis
    by (auto simp: web_pod_def web_container_def no_pod_def fail_key_def label_of_def mget_def)
qed

definition ctx_u :: Ctx where
  "ctx_u = SetContainerObjectMetaListToContext (SetExperimentIdToContext
     (sp_SetDestroyFlag sample_spec Map.empty ''u'') ''e'') [meta_c]"

lemma ctx_u_destroy: "sp_IsDestroy sample_spec ctx_u"
  by (simp add: ctx_u_def destroy_set_meta_list [OF sample_spec_contract] SetExperimentIdToContext_def
      spec_contract_destroy [OF sample_spec_contract])

lemma fail_destroy_hides_errors_witness:
  "\<exists>r w'. FailPodActionExecutor_Exec (sample_env [] :: unit env) ''u'' ctx_u
      (ExtractExpModelFromExperimentSpec spec_x) () = Some (r, w') \<and>
    rp_Result r = RExp (CreateDestroyedExperimentStatus (Some []))"
  by (rule fail_destroy_hides_errors [where metas = "[meta_c]"])
    (simp_all add: sample_env_def sample_spec_contract ctx_u_destroy, simp_all add: ctx_u_def)

definition io_flags :: flags where
  "io_flags = [''percent'' \<mapsto> ''4294967296'', ''delay'' \<mapsto> ''-1'', ''method'' \<mapsto> ''read'']"

lemma io_atoi: "atoi ''4294967296'' = Inr 4294967296" "atoi ''-1'' = Inr (- 1)"
  by (simp_all add: atoi_def has_prefix_def digits_val_def is_digit_def)

lemma io_numbers_wrap_witness:
  "\<exists>req. io_request sample_spec io_flags no_status = Inr req \<and> uint (im_Percent req) = 0 \<and>
     uint (im_Delay req) = 4294967295"
proof -
  obtain req where r: "io_request sample_spec io_flags no_status = Inr req"
    by (simp add: io_request_def int_flag_def io_flags_def io_atoi mget_def)
  from io_numbers_wrap [OF this, where s = "''4294967296''" and t = "''-1''"] r show ?thesis
    by (simp add: io_flags_def io_atoi)
qed

lemma io_without_method_witness:
  "\<exists>req. io_request sample_spec Map.empty no_status = Inr req \<and> im_Methods req = [[]]"
proof -
  have "\<exists>req. io_request sample_spec Map.empty no_status = Inr req \<and> im_Methods req = [[]] \<and>
    (\<forall>m cache. m \<noteq> [] \<longrightarrow> server_inject req cache m = cache m)"
    by (rule io_without_method [where delay = 0 and percent = 0 and errno = 0 and flags = Map.empty])
      (simp_all add: int_flag_def)
  then show ?thesis by blast
qed


subsection \<open>The sidecar and the IO action together\<close>

text \<open>What the webhook puts in, the IO action finds: in a pod it has changed, the client of the IO action
  is directed to the port the sidecar listens on.\<close>

theorem sidecar_is_found:
  assumes "mutatePodsFn C W pod = Some (None, pod')" "pod' \<noteq> pod"
  shows "getChaosfsClient pod' = Inr (pd_PodIP pod @ '':'' @ show_int (wh_FuseServerPort W)) \<and>
    (\<exists>s \<in> set (pd_Containers pod'). ''--address=:'' @ show_int (wh_FuseServerPort W) \<in> set (ct_Args s))"
  using assms(1)
proof (rule mutated_cases)
  assume "pod' = pod"
  with assms(2) show ?thesis by simp
next
  fix c cs ann volume subpath v u
  assume "pod' = pod\<lparr>pd_Containers := [sidecar_container C W v subpath, c]\<rparr>"
  then show ?thesis by (simp add: getChaosfsClient_def sidecar_container_def)
qed

lemma sidecar_is_found_witness:
  "getChaosfsClient data_pod' = Inr (pd_PodIP data_pod @ '':'' @ show_int (wh_FuseServerPort sample_webhook))"
  by (rule sidecar_is_found [OF data_pod_mutated, THEN conjunct1])
    (simp add: data_pod'_def data_pod_def SidecarName_def sidecar_container_def no_container_def no_pod_def)

text \<open>C21. From the experiment to the file system: an IO experiment with an error number and no percentage,
  on a ready pod whose sidecar is reachable, succeeds, and from then on the hooks of its methods, asked for
  a path under the experiment's path, replace the operation by that error after the experiment's delay,
  whatever the random source says. So does a hook with two paths when either is under it. The one exception
  is the method \<open>release\<close>, whose hook sleeps the delay and lets the operation go on.\<close>

theorem io_experiment_strikes:
  assumes pod: "k_GetPod (en_Kube N) (cm_Namespace c) (cm_PodName c) w = (Inr pod, w)"
    and ready: "isPodReady pod" and client: "getChaosfsClient pod = Inr addr"
    and req: "io_request (en_Spec N) flags (pod_status c) = Inr req"
    and net: "delivers_to H addr req"
    and meth: "m \<in> set (go_split CHR '','' (mget flags ''method''))"
    and errno: "flags ''errno'' = Some e" "atoi e = Inr n" "0 < n" "n < 2 ^ 32"
    and percent: "flags ''percent'' = None"
    and path: "has_prefix (path_join [mp, path]) (mget flags ''path'')"
  shows "\<exists>cache. io_one N H flags c w = Some ((Some (CreateSuccessResourceStatus (pod_status c)), True), cache) \<and>
    (\<forall>intn. let h = \<lparr>hk_MountPoint = mp, hk_Cache = cache, hk_Intn = intn\<rparr> in
       (\<forall>(m', hook) \<in> set path_hooks. m' = m \<longrightarrow> hook h path = (True, Some n, [im_Delay req])) \<and>
       (\<forall>(m', hook) \<in> set link_hooks. m' = m \<longrightarrow>
          (\<forall>q. hook h h path q = (True, Some n, [im_Delay req]) \<and>
               fst (hook h h q path) \<and> fst (snd (hook h h q path)) = Some n)) \<and>
       (m = ''release'' \<longrightarrow> PreRelease h path = (False, None, [im_Delay req])))"
proof -
  obtain d p k where r: "int_flag (en_Spec N) flags ''percent'' (pod_status c) = Inr p"
    "int_flag (en_Spec N) flags ''errno'' (pod_status c) = Inr k"
    "req = \<lparr>im_Methods = go_split CHR '','' (mget flags ''method''), im_Path = mget flags ''path'',
       im_Delay = word_of_int d, im_Percent = word_of_int p,
       im_Random = (flags ''random'' = Some ''true''), im_Errno = word_of_int k\<rparr>"
    by (rule io_request_Inr [OF req]) simp
  have k: "k = n" by (rule int_flag_given [OF r(2) errno(1,2)])
  have p: "p = 0" using r(1) percent by (simp add: int_flag_def)
  have e: "uint (im_Errno req) = n" using errno(3,4) k r(3) by (simp add: uint_word_of_int)
  then have nz: "im_Errno req \<noteq> 0" using errno(3) by auto
  have "io_one N H flags c w = Some ((Some (CreateSuccessResourceStatus (pod_status c)), True), server_inject req w)"
    using pod ready client req by (simp add: io_one_def InjectFault_delivered [OF net])
  moreover have m: "server_inject req w m = Some req"
    using meth r(3) faults.lookup_inject [of req w m] by simp
  have hit: "doInjectFault intn mp (server_inject req w) path m = (Some n, im_Delay req)" for intn
    using m path nz e r(3) p by (simp add: doInjectFault_Some rule_matches_def inject_effect_def)
  have other: "fst (doInjectFault intn mp (server_inject req w) q m) \<in> {None, Some n}" for intn q
    using m nz e r(3) p by (simp add: doInjectFault_Some inject_effect_def no_fault_def)
  let ?h = "\<lambda>intn. \<lparr>hk_MountPoint = mp, hk_Cache = server_inject req w, hk_Intn = intn\<rparr>"
  have pre: "pre_hook (?h intn) path m = (True, Some n, [im_Delay req])" for intn
    by (simp add: pre_hook_def hit)
  have pre2: "pre_hook2 (?h intn) (?h intn) path q m = (True, Some n, [im_Delay req])"
    "fst (pre_hook2 (?h intn) (?h intn) q path m)"
    "fst (snd (pre_hook2 (?h intn) (?h intn) q path m)) = Some n" for intn q
  proof -
    obtain ds where "pre_hook (?h intn) q m = (False, None, ds) \<or> pre_hook (?h intn) q m = (True, Some n, ds)"
      using other [of intn q] by (auto simp: pre_hook_def split_beta)
    then show "fst (pre_hook2 (?h intn) (?h intn) q path m)"
      "fst (snd (pre_hook2 (?h intn) (?h intn) q path m)) = Some n"
      by (auto simp: pre_hook2_def pre)
  qed (simp_all add: pre_hook2_def pre)
  have "\<forall>intn. let h = ?h intn in
       (\<forall>(m', hook) \<in> set path_hooks. m' = m \<longrightarrow> hook h path = (True, Some n, [im_Delay req])) \<and>
       (\<forall>(m', hook) \<in> set link_hooks. m' = m \<longrightarrow>
          (\<forall>q. hook h h path q = (True, Some n, [im_Delay req]) \<and>
               fst (hook h h q path) \<and> fst (snd (hook h h q path)) = Some n)) \<and>
       (m = ''release'' \<longrightarrow> PreRelease h path = (False, None, [im_Delay req]))"
    unfolding Let_def split_beta
    by (intro allI conjI ballI impI)
      (use pre pre2 in \<open>simp_all add: path_hook_snd link_hook_snd PreRelease_def\<close>)
  ultimately show ?thesis by blast
qed

definition serving_pod :: Pod where
  "serving_pod = data_pod'\<lparr>pd_Name := ''c'', pd_Conditions := [(''Ready'', ''True'')], pd_PodIP := ''10.0.0.1''\<rparr>"

definition read_flags :: flags where
  "read_flags = [''method'' \<mapsto> ''open,read'', ''path'' \<mapsto> ''/home'', ''errno'' \<mapsto> ''28'']"

definition msg_full :: InjectMessage where
  "msg_full = \<lparr>im_Methods = [''open'', ''read''], im_Path = ''/home'', im_Delay = 0, im_Percent = 0,
     im_Random = False, im_Errno = 28\<rparr>"

lemma read_flags_split: "go_split CHR '','' ''open,read'' = [''open'', ''read'']" by code_simp
lemma read_flags_atoi: "atoi ''28'' = Inr 28" by (simp add: atoi_def has_prefix_def digits_val_def is_digit_def)

lemma io_experiment_strikes_witness:
  "\<exists>cache. io_one (sample_env [serving_pod] :: fault_table env) (local_net msg_full) read_flags meta_c Map.empty =
      Some ((Some (CreateSuccessResourceStatus (pod_status meta_c)), True), cache) \<and>
    (\<forall>intn. PreRead \<lparr>hk_MountPoint = ''/home/logs'', hk_Cache = cache, hk_Intn = intn\<rparr> ''a.log'' =
      (True, Some 28, [0]))"
proof -
  have net: "delivers_to (local_net msg_full) (''10.0.0.1:'' @ show_int 65534) msg_full" by (rule local_net_delivers)
  have client: "getChaosfsClient serving_pod = Inr (''10.0.0.1:'' @ show_int 65534)"
    by (simp add: getChaosfsClient_def serving_pod_def data_pod'_def sidecar_container_def sample_webhook_def)
  have req: "io_request (en_Spec (sample_env [serving_pod] :: fault_table env)) read_flags (pod_status meta_c) =
      Inr msg_full"
    by (simp add: io_request_def int_flag_def read_flags_def read_flags_atoi mget_def read_flags_split msg_full_def)
  have path: "has_prefix (path_join [''/home/logs'', ''a.log'']) (mget read_flags ''path'')"
    unfolding mget_def read_flags_def by code_simp
  have ready: "isPodReady serving_pod"
    by (simp add: isPodReady_def serving_pod_def data_pod'_def data_pod_def no_pod_def)
  have pod: "k_GetPod (en_Kube (sample_env [serving_pod] :: fault_table env)) (cm_Namespace meta_c)
      (cm_PodName meta_c) Map.empty = (Inr serving_pod, Map.empty)"
    by (simp add: sample_env_def quiet_kube_def meta_c_def serving_pod_def)
  have flags: "''read'' \<in> set (go_split CHR '','' (mget read_flags ''method''))"
    "read_flags ''errno'' = Some ''28''" "read_flags ''percent'' = None"
    by (simp_all add: read_flags_def mget_def read_flags_split)
  obtain cache where run: "io_one (sample_env [serving_pod] :: fault_table env) (local_net msg_full) read_flags meta_c
      Map.empty = Some ((Some (CreateSuccessResourceStatus (pod_status meta_c)), True), cache)"
    and hooks: "\<And>intn. \<forall>(m', hook) \<in> set path_hooks. m' = ''read'' \<longrightarrow>
      hook \<lparr>hk_MountPoint = ''/home/logs'', hk_Cache = cache, hk_Intn = intn\<rparr> ''a.log'' =
        (True, Some 28, [im_Delay msg_full])"
    using io_experiment_strikes [OF pod ready client req net flags(1,2) read_flags_atoi _ _ flags(3) path]
    by (auto simp: Let_def)
  have "(''read'', PreRead) \<in> set path_hooks" by (simp add: path_hooks_def)
  with hooks have "PreRead \<lparr>hk_MountPoint = ''/home/logs'', hk_Cache = cache, hk_Intn = intn\<rparr> ''a.log'' =
      (True, Some 28, [0])" for intn
    by (fastforce simp: msg_full_def)
  with run show ?thesis by blast
qed

end
