(* ===== verification/HookServer.thy ===== *)
theory HookServer
  imports PodActions
begin

unbundle bit_operations_syntax

section \<open>The process of the sidecar (cmd/hookfs/main.go, Start of pkg/hookfs/server.go)\<close>

text \<open>
  The sidecar runs one process: it reads three flags, serves the fault table over HTTP in a goroutine, and
  mounts the fault-injecting file system. FUSE, the operating system and the HTTP library are outside the
  program.
\<close>

subsection \<open>The flags of the process (flag.Parse of the standard library)\<close>

record fuse_flags =
  ff_address :: string
  ff_original :: string
  ff_mountpoint :: string

definition fuse_defaults :: fuse_flags where
  "fuse_defaults = \<lparr>ff_address = '':65534'', ff_original = [], ff_mountpoint = []\<rparr>"

text \<open>
  Setting a flag; \<open>lib\<close> tells which other flags the linked libraries register, and whether they are
  boolean. An unknown flag is an error.
\<close>

datatype flag_kind = Own "string \<Rightarrow> fuse_flags \<Rightarrow> fuse_flags" | Lib bool

definition flag_named :: "(string \<Rightarrow> bool option) \<Rightarrow> string \<Rightarrow> flag_kind option" where
  "flag_named lib name =
     (if name = ''address'' then Some (Own (\<lambda>v F. F\<lparr>ff_address := v\<rparr>))
      else if name = ''original'' then Some (Own (\<lambda>v F. F\<lparr>ff_original := v\<rparr>))
      else if name = ''mountpoint'' then Some (Own (\<lambda>v F. F\<lparr>ff_mountpoint := v\<rparr>))
      else map_option Lib (lib name))"

fun set_flag :: "flag_kind \<Rightarrow> string \<Rightarrow> fuse_flags \<Rightarrow> fuse_flags" where
  "set_flag (Own f) v F = f v F"
| "set_flag (Lib b) v F = F"

text \<open>
  The name and, after the first \<open>=\<close> that is not its first character, the value. \<open>None\<close> is bad syntax.
\<close>

definition flag_parts :: "string \<Rightarrow> (string \<times> string option) option" where
  "flag_parts s =
     (if s = [] \<or> hd s = CHR ''-'' \<or> hd s = CHR ''='' then None
      else Some (takeWhile (\<lambda>c. c \<noteq> CHR ''='') s,
             (case dropWhile (\<lambda>c. c \<noteq> CHR ''='') s of [] \<Rightarrow> None | c # v \<Rightarrow> Some v)))"

text \<open>The text of an argument after its one or two minus signs; \<open>None\<close> when it ends the flags.\<close>

definition flag_text :: "string \<Rightarrow> string option" where
  "flag_text s =
     (if length s < 2 \<or> hd s \<noteq> CHR ''-'' then None
      else if s ! 1 = CHR ''-'' then (if length s = 2 then None else Some (drop 2 s))
      else Some (drop 1 s))"

text \<open>
  The arguments one by one: a flag without \<open>=\<close> takes the next argument unless it is boolean. An error ends
  the process.
\<close>

fun flag_parse :: "(string \<Rightarrow> bool option) \<Rightarrow> string list \<Rightarrow> fuse_flags \<Rightarrow> string + fuse_flags" where
  "flag_parse lib [] F = Inr F"
| "flag_parse lib (s # args) F =
     (case flag_text s of
        None \<Rightarrow> Inr F
      | Some t \<Rightarrow>
          (case flag_parts t of
             None \<Rightarrow> Inl ''bad flag syntax''
           | Some (name, value) \<Rightarrow>
               (case flag_named lib name of
                  None \<Rightarrow> Inl ''flag provided but not defined''
                | Some k \<Rightarrow>
                    (case value of
                       Some v \<Rightarrow> flag_parse lib args (set_flag k v F)
                     | None \<Rightarrow>
                         if k = Lib True then flag_parse lib args F
                         else (case args of
                            [] \<Rightarrow> Inl ''flag needs an argument''
                          | v # rest \<Rightarrow> flag_parse lib rest (set_flag k v F))))))"

subsection \<open>The HTTP server (Start)\<close>

text \<open>
  What the \<open>select\<close> of a waiting loop receives, in order: the stop of the process, or what the goroutine
  that serves has to report. \<open>None\<close> as a result is a loop that still waits. \<open>shutdown\<close> is
  \<open>server.Shutdown\<close>.
\<close>

datatype signal = Stop | Report "GoErr option"

type_synonym outcome = "GoErr option option"

fun Start :: "GoErr option \<Rightarrow> signal list \<Rightarrow> outcome" where
  "Start shutdown [] = None"
| "Start shutdown (Stop # ss) = Some shutdown"
| "Start shutdown (Report (Some err) # ss) = Some (Some err)"
| "Start shutdown (Report None # ss) = Start shutdown ss"

subsection \<open>startFuseServer\<close>

text \<open>
  The operating system and the FUSE library. \<open>os_NewHookFs\<close> gets the original directory, the mount point
  and the mount point of the hook, which decides where faults strike.
\<close>

record 'w os =
  os_ErrText :: "GoErr \<Rightarrow> string"
  os_IsExist :: "string \<Rightarrow> 'w \<Rightarrow> bool"
  os_MkdirAll :: "string \<Rightarrow> nat \<Rightarrow> 'w \<Rightarrow> GoErr option \<times> 'w"
  os_NewHookFs :: "string \<Rightarrow> string \<Rightarrow> string \<Rightarrow> 'w \<Rightarrow> GoErr option \<times> 'w"
  os_Run :: "string list \<Rightarrow> 'w \<Rightarrow> GoErr option \<times> 'w"

definition fuse_dir_mode :: nat where "fuse_dir_mode = 755"

definition fuse_directory :: "'w os \<Rightarrow> string \<Rightarrow> string \<Rightarrow> 'w \<Rightarrow> GoErr option \<times> 'w" where
  "fuse_directory S what dir w =
     (if os_IsExist S dir w then (None, w)
      else case os_MkdirAll S dir fuse_dir_mode w of
             (Some err, w1) \<Rightarrow> (Some (ErrNew (''create '' @ what @ '' directory error, '' @ os_ErrText S err)), w1)
           | (None, w1) \<Rightarrow> (None, w1))"

text \<open>
  The waiting loop. On a stop the file system is unmounted, and the result is the error variable of the
  enclosing function, which is nil there: the one of the command is another variable.
\<close>

fun fuse_loop :: "'w os \<Rightarrow> string \<Rightarrow> signal list \<Rightarrow> 'w \<Rightarrow> outcome \<times> 'w" where
  "fuse_loop S mountpoint [] w = (None, w)"
| "fuse_loop S mountpoint (Stop # ss) w = (Some None, snd (os_Run S [''fusermount'', ''-zu'', mountpoint] w))"
| "fuse_loop S mountpoint (Report (Some err) # ss) w = (Some (Some err), w)"
| "fuse_loop S mountpoint (Report None # ss) w = fuse_loop S mountpoint ss w"

definition startFuseServer :: "'w os \<Rightarrow> fuse_flags \<Rightarrow> signal list \<Rightarrow> 'w \<Rightarrow> outcome \<times> 'w" where
  "startFuseServer S F ss w =
     (case fuse_directory S ''original'' (ff_original F) w of
        (Some err, w) \<Rightarrow> (Some (Some err), w)
      | (None, w) \<Rightarrow>
     (case fuse_directory S ''mountpoint'' (ff_mountpoint F) w of
        (Some err, w) \<Rightarrow> (Some (Some err), w)
      | (None, w) \<Rightarrow>
     (case os_NewHookFs S (ff_original F) (ff_mountpoint F) (ff_mountpoint F) w of
        (Some err, w) \<Rightarrow> (Some (Some (ErrNew (''create hookfs error, '' @ os_ErrText S err))), w)
      | (None, w) \<Rightarrow> fuse_loop S (ff_mountpoint F) ss w)))"

text \<open>The hook of the process, over the fault table and the random source.\<close>

definition process_hook :: "fuse_flags \<Rightarrow> (int \<Rightarrow> int) \<Rightarrow> fault_table \<Rightarrow> hook" where
  "process_hook F rnd cache = \<lparr>hk_MountPoint = ff_mountpoint F, hk_Cache = cache, hk_Intn = rnd\<rparr>"

subsection \<open>main\<close>

text \<open>
  The HTTP server runs in a goroutine whose result is dropped, so the process ends with the flags or with the
  FUSE server: \<open>FuseFatal\<close> is the exit after an error, \<open>FuseRuns\<close> a process that still waits.
\<close>

datatype fuse_exit = BadFlags string | FuseFatal GoErr | FuseDone | FuseRuns

definition hookfs_main ::
  "(string \<Rightarrow> bool option) \<Rightarrow> 'w os \<Rightarrow> string list \<Rightarrow> signal list \<Rightarrow> 'w \<Rightarrow> fuse_exit \<times> 'w" where
  "hookfs_main lib S args ss w =
     (case flag_parse lib args fuse_defaults of
        Inl msg \<Rightarrow> (BadFlags msg, w)
      | Inr F \<Rightarrow>
          (case startFuseServer S F ss w of
             (None, w) \<Rightarrow> (FuseRuns, w)
           | (Some None, w) \<Rightarrow> (FuseDone, w)
           | (Some (Some err), w) \<Rightarrow> (FuseFatal err, w)))"

subsection \<open>Facts\<close>

text \<open>An argument \<open>--name=value\<close> sets the flag, whatever the value contains.\<close>

lemma flag_parse_set:
  assumes "n \<noteq> []" "hd n \<noteq> CHR ''-''" "CHR ''='' \<notin> set n" "flag_named lib n = Some k"
  shows "flag_parse lib ((''--'' @ n @ ''='' @ v) # args) F = flag_parse lib args (set_flag k v F)"
proof -
  have "hd n \<noteq> CHR ''=''" using assms(1,3) by (cases n) auto
  moreover have "\<forall>c \<in> set n. c \<noteq> CHR ''=''" using assms(3) by auto
  then have "takeWhile (\<lambda>c. c \<noteq> CHR ''='') (n @ ''='' @ v) = n"
    and "dropWhile (\<lambda>c. c \<noteq> CHR ''='') (n @ ''='' @ v) = ''='' @ v" by simp_all
  ultimately have "flag_parts (n @ ''='' @ v) = Some (n, Some v)"
    using assms(1,2) by (simp add: flag_parts_def)
  moreover have "flag_text (''--'' @ n @ ''='' @ v) = Some (n @ ''='' @ v)"
    using assms(1) by (cases n) (simp_all add: flag_text_def)
  ultimately show ?thesis using assms(4) by simp
qed

text \<open>The loop ends without an error only on a stop.\<close>

lemma fuse_loop_nil: "fuse_loop S mp ss w = (Some None, w') \<Longrightarrow> Stop \<in> set ss"
  by (induction S mp ss w rule: fuse_loop.induct) auto

lemma startFuseServer_nil: "startFuseServer S F ss w = (Some None, w') \<Longrightarrow> Stop \<in> set ss"
  by (auto simp: startFuseServer_def dest: fuse_loop_nil split: prod.splits option.splits)

text \<open>The mode is decimal: the owner may not read the directories that are made.\<close>

lemma fuse_dir_unreadable: "fuse_dir_mode AND (4 * 8 * 8) = 0" "fuse_dir_mode AND (2 * 8 * 8) \<noteq> 0"
  by (simp_all add: fuse_dir_mode_def)

subsection \<open>The sidecar and its process\<close>

text \<open>The process the webhook starts: what it reads from its command line.\<close>

definition sidecar_flags :: "webhook \<Rightarrow> string \<Rightarrow> string \<Rightarrow> fuse_flags" where
  "sidecar_flags W dir subpath =
     \<lparr>ff_address = '':'' @ show_int (wh_FuseServerPort W), ff_original = original_dir dir subpath,
      ff_mountpoint = mount_point dir subpath\<rparr>"

lemma sidecar_args:
  "flag_parse lib (ct_Args (sidecar_container C W v subpath)) fuse_defaults =
     Inr (sidecar_flags W (vm_MountPath v) subpath)"
proof -
  have own: "flag_named lib ''address'' = Some (Own (\<lambda>v F. F\<lparr>ff_address := v\<rparr>))"
    "flag_named lib ''original'' = Some (Own (\<lambda>v F. F\<lparr>ff_original := v\<rparr>))"
    "flag_named lib ''mountpoint'' = Some (Own (\<lambda>v F. F\<lparr>ff_mountpoint := v\<rparr>))"
    by (simp_all add: flag_named_def)
  have "flag_parse lib ((''--address='' @ a) # args) F = flag_parse lib args (F\<lparr>ff_address := a\<rparr>)"
    "flag_parse lib ((''--mountpoint='' @ a) # args) F = flag_parse lib args (F\<lparr>ff_mountpoint := a\<rparr>)"
    "flag_parse lib ((''--original='' @ a) # args) F = flag_parse lib args (F\<lparr>ff_original := a\<rparr>)" for a args F
    using flag_parse_set [OF _ _ _ own(1), of a args F] flag_parse_set [OF _ _ _ own(2), of a args F]
      flag_parse_set [OF _ _ _ own(3), of a args F] by (simp_all del: flag_parse.simps(2))
  note step = this
  have "''--address=:'' @ a = ''--address='' @ ('':'' @ a)" for a by simp
  then show ?thesis
    by (simp only: sidecar_container_def Container.simps step flag_parse.simps(1))
      (simp add: sidecar_flags_def fuse_defaults_def)
qed

text \<open>The process of a sidecar ends without an error only when it is stopped.\<close>

lemma sidecar_process:
  assumes "hookfs_main lib S (ct_Args (sidecar_container C W v subpath)) ss w = (x, w')"
  shows "(\<forall>msg. x \<noteq> BadFlags msg) \<and> (x = FuseDone \<longrightarrow> Stop \<in> set ss)"
  using assms startFuseServer_nil [of S "sidecar_flags W (vm_MountPath v) subpath" ss w w']
  by (auto simp: hookfs_main_def sidecar_args split: prod.splits option.splits)

text \<open>C22. From the admission of a pod to its files: when the webhook has changed a pod, the process of its
  sidecar reads flags without an error, it listens where the IO action looks for it, and a fault with a
  path strikes a file exactly when the path under which the application opens the file begins with the one
  of the fault.\<close>

theorem sidecar_faults_app_files:
  assumes "mutatePodsFn C W pod = Some (None, pod')" "pod' \<noteq> pod"
    and "pd_Annotations pod = Some ann" "ann inject_volume = Some volume"
    and "ann inject_subpath = Some (go_join ''/'' (e # es))"
    and "\<forall>u \<in> set (ct_VolumeMounts (hd (pd_Containers pod))). vm_Name u = volume \<longrightarrow> vm_MountPath u = abs_path ds"
    and "list_all plain_elem ds" "ds \<noteq> []" "list_all plain_elem (e # es)" "list_all plain_elem (f # fs)"
    and "cache m = Some msg" "im_Path msg \<noteq> []" "im_Percent msg = 0" "im_Errno msg \<noteq> 0"
  shows "\<exists>F. flag_parse lib (ct_Args (hd (pd_Containers pod'))) fuse_defaults = Inr F \<and>
    getChaosfsClient pod' = Inr (pd_PodIP pod' @ ff_address F) \<and>
    fst (doInjectFault rnd (hk_MountPoint (process_hook F rnd cache)) cache (go_join ''/'' (f # fs)) m) =
      (if has_prefix (abs_path (ds @ e # es @ f # fs)) (im_Path msg) then Some (uint (im_Errno msg)) else None)"
  using assms(1)
proof (rule mutated_cases)
  assume "pod' = pod"
  with assms(2) show ?thesis by simp
next
  fix c cs ann' volume' subpath v u
  assume c: "pd_Containers pod = c # cs" "pd_Annotations pod = Some ann'" "ann' inject_volume = Some volume'"
      "ann' inject_subpath = Some subpath" "u \<in> set (ct_VolumeMounts c)" "vm_Name u = volume'"
      "v = u\<lparr>vm_MountPropagation := Some ''Bidirectional''\<rparr>"
    and p: "pod' = pod\<lparr>pd_Containers := [sidecar_container C W v subpath, c]\<rparr>"
  have s: "subpath = go_join ''/'' (e # es)" and v: "vm_MountPath v = abs_path ds"
    using assms(3-6) c by auto
  let ?F = "sidecar_flags W (vm_MountPath v) subpath"
  have "ff_mountpoint ?F = abs_path (ds @ e # es)"
    unfolding s v sidecar_flags_def mount_point_def using path_join_subpath [OF assms(7-9)] by simp
  then have "path_join [ff_mountpoint ?F, go_join ''/'' (f # fs)] = abs_path (ds @ e # es @ f # fs)"
    using path_join_subpath [of "ds @ e # es" f fs] assms(7-10) by simp
  moreover have "flag_parse lib (ct_Args (hd (pd_Containers pod'))) fuse_defaults = Inr ?F"
    unfolding p using sidecar_args by simp
  moreover have "getChaosfsClient pod' = Inr (pd_PodIP pod' @ ff_address ?F)"
    unfolding p by (simp add: getChaosfsClient_def sidecar_container_def sidecar_flags_def)
  ultimately show ?thesis using assms(11-14)
    by (intro exI [of _ ?F]) (simp add: process_hook_def doInjectFault_def inject_effect_def no_fault_def)
qed

subsection \<open>Witnesses\<close>

definition write_fault :: InjectMessage where
  "write_fault = \<lparr>im_Methods = [''write''], im_Path = ''/home/logs/app'', im_Delay = 0, im_Percent = 0,
     im_Random = False, im_Errno = 28\<rparr>"

lemma sidecar_faults_app_files_witness:
  "\<exists>F. flag_parse Map.empty (ct_Args (hd (pd_Containers data_pod'))) fuse_defaults = Inr F \<and>
    fst (doInjectFault (\<lambda>n. 0) (ff_mountpoint F) [''write'' \<mapsto> write_fault] ''app/db'' ''write'') = Some 28"
proof -
  let ?cache = "[''write'' \<mapsto> write_fault]"
  have "\<exists>F. flag_parse Map.empty (ct_Args (hd (pd_Containers data_pod'))) fuse_defaults = Inr F \<and>
    getChaosfsClient data_pod' = Inr (pd_PodIP data_pod' @ ff_address F) \<and>
    fst (doInjectFault (\<lambda>n. 0) (hk_MountPoint (process_hook F (\<lambda>n. 0) ?cache)) ?cache
        (go_join ''/'' (''app'' # [''db''])) ''write'') =
      (if has_prefix (abs_path ([''home''] @ ''logs'' # [] @ ''app'' # [''db''])) (im_Path write_fault)
       then Some (uint (im_Errno write_fault)) else None)"
    by (rule sidecar_faults_app_files [OF data_pod_mutated, where ann = "[inject_volume \<mapsto> ''data'', inject_subpath \<mapsto> ''logs'']"
          and volume = "''data''" and ds = "[''home'']" and e = "''logs''" and es = "[]"
          and f = "''app''" and fs = "[''db'']"])
      (simp_all add: data_pod'_def data_pod_def data_mount_def no_pod_def no_container_def write_fault_def
        plain_elem_def abs_path_def inject_volume_def inject_subpath_def)
  moreover have "has_prefix (abs_path ([''home''] @ ''logs'' # [] @ ''app'' # [''db''])) (im_Path write_fault)"
    by (simp add: write_fault_def abs_path_def has_prefix_def)
  ultimately show ?thesis by (auto simp: process_hook_def write_fault_def)
qed

end
