(* ===== verification/Registry.thy ===== *)
theory Registry
  imports PodActions Commands Dispatch
begin

section \<open>The models each scope registers (exec/node, exec/pod, exec/container)\<close>

text \<open>
  What is in the registry of a scope, and so which executor runs an experiment. The models of the
  operating system, of containers and of the JVM come from other repositories: they are arguments, as
  are the two functions of the spec library that put an executor and flags into a model. A model is a
  pointer in the code, so what is put into it is seen in every list that holds it.
\<close>

record 'e spec_pkgs =
  pk_Cpu :: "'e CommandSpec"
  pk_Network :: "'e CommandSpec"
  pk_Process :: "'e CommandSpec"
  pk_Disk :: "'e CommandSpec"
  pk_Mem :: "'e CommandSpec"
  pk_File :: "'e CommandSpec"
  pk_Script :: "'e CommandSpec"
  pk_Container :: "'e CommandSpec"
  pk_ParseSpecs :: "string \<Rightarrow> GoErr + 'e CommandSpec list"
  pk_AddExecutor :: "'e \<Rightarrow> 'e CommandSpec \<Rightarrow> 'e CommandSpec"
  pk_AddFlags :: "string list \<Rightarrow> 'e CommandSpec \<Rightarrow> 'e CommandSpec"
  pk_SSHFlags :: "string list"
  pk_JvmSpecPath :: string

text \<open>
  The documented behaviour of the two functions: the executor of every action becomes the given one, the
  flags are added at the end, and the name and the actions stay.
\<close>

definition pkgs_contract :: "'e spec_pkgs \<Rightarrow> bool" where
  "pkgs_contract P \<longleftrightarrow>
     (\<forall>e c. cs_Name (pk_AddExecutor P e c) = cs_Name c \<and>
        cs_Actions (pk_AddExecutor P e c) = map_option (map (\<lambda>a. a\<lparr>ac_Executor := e\<rparr>)) (cs_Actions c)) \<and>
     (\<forall>fs c. cs_Name (pk_AddFlags P fs c) = cs_Name c \<and> cs_Actions (pk_AddFlags P fs c) = cs_Actions c \<and>
        cs_Flags (pk_AddFlags P fs c) = cs_Flags c @ fs)"

text \<open>The models of the operating system (exec/model/osexp.go).\<close>

definition NewOSSubResourceModelSpec :: "'e spec_pkgs \<Rightarrow> 'e CommandSpec list" where
  "NewOSSubResourceModelSpec P =
     [pk_Cpu P, pk_Network P, pk_Process P, pk_Disk P, pk_Mem P, pk_File P, pk_Script P]"

text \<open>The models of the JVM, from a file (exec/container/application.go).\<close>

definition getJvmModels :: "config \<Rightarrow> 'e spec_pkgs \<Rightarrow> 'e CommandSpec list" where
  "getJvmModels C P =
     (let file = ''chaosblade-jvm-spec-'' @ cf_Version C @ ''.yaml'';
          jvmSpecFile = (if pk_JvmSpecPath P \<noteq> [] then pk_JvmSpecPath P @ ''/'' @ file
                         else path_join [OperatorChaosBladeYaml, file])
      in case pk_ParseSpecs P jvmSpecFile of
           Inl err \<Rightarrow> []
         | Inr models \<Rightarrow> models)"

subsection \<open>The models of the repository itself\<close>

definition NewDeletePodActionSpec :: "'w env \<Rightarrow> 'w exec_fun Action" where
  "NewDeletePodActionSpec N =
     \<lparr>ac_Name = ''delete'', ac_Aliases = [], ac_Matchers = [], ac_Flags = [''random''], ac_Programs = [],
      ac_Executor = DeletePodActionExecutor_Exec N\<rparr>"

definition NewPodIOActionSpec :: "'w env \<Rightarrow> 'w net \<Rightarrow> 'w exec_fun Action" where
  "NewPodIOActionSpec N H =
     \<lparr>ac_Name = ''IO'', ac_Aliases = [], ac_Matchers = [''method'', ''delay''],
      ac_Flags = [''path'', ''random'', ''percent'', ''errno''], ac_Programs = [],
      ac_Executor = PodIOActionExecutor_Exec N H\<rparr>"

definition NewFailPodActionSpec :: "'w env \<Rightarrow> 'w exec_fun Action" where
  "NewFailPodActionSpec N =
     \<lparr>ac_Name = ''fail'', ac_Aliases = [], ac_Matchers = [], ac_Flags = [[]], ac_Programs = [],
      ac_Executor = FailPodActionExecutor_Exec N\<rparr>"

definition pod_NewSelfExpModelCommandSpec :: "'w env \<Rightarrow> 'w net \<Rightarrow> 'w exec_fun CommandSpec" where
  "pod_NewSelfExpModelCommandSpec N H =
     \<lparr>cs_Name = ''pod'', cs_Flags = [],
      cs_Actions = Some [NewDeletePodActionSpec N, NewPodIOActionSpec N H, NewFailPodActionSpec N]\<rparr>"

definition node_NewSelfExpModelCommandSpec :: "'e CommandSpec" where
  "node_NewSelfExpModelCommandSpec = \<lparr>cs_Name = ''node'', cs_Flags = [], cs_Actions = Some []\<rparr>"

subsection \<open>The registries\<close>

text \<open>
  The schedule of an execution is fixed by the argument \<open>sched\<close>. The node scope makes its own model but
  registers the others only.
\<close>

definition node_NewResourceModelSpec ::
  "'v world env \<Rightarrow> config \<Rightarrow> (nat \<Rightarrow> nat) \<Rightarrow> 'v world exec_fun spec_pkgs \<Rightarrow> 'v world exec_fun Registry" where
  "node_NewResourceModelSpec N C sched P =
     (let osModelSpecs = map (pk_AddExecutor P (CommonExecutor_Exec N C sched)) (NewOSSubResourceModelSpec P);
          expModelSpecs = osModelSpecs @ [node_NewSelfExpModelCommandSpec];
          expModelSpecs = map (pk_AddFlags P node_getResourceFlags) expModelSpecs;
          expModelSpecs = map (pk_AddFlags P (pk_SSHFlags P)) expModelSpecs
      in RegisterExpModels Map.empty (take (length osModelSpecs) expModelSpecs))"

definition pod_NewResourceModelSpec ::
  "'v world env \<Rightarrow> config \<Rightarrow> (nat \<Rightarrow> nat) \<Rightarrow> 'v world net \<Rightarrow> 'v world exec_fun spec_pkgs \<Rightarrow>
     'v world exec_fun Registry" where
  "pod_NewResourceModelSpec N C sched H P =
     (let osExpModels = map (pk_AddExecutor P (CommonExecutor_Exec N C sched)) (NewOSSubResourceModelSpec P);
          expModels = osExpModels @ [pod_NewSelfExpModelCommandSpec N H]
      in RegisterExpModels Map.empty
           (map (pk_AddFlags P (pod_getResourceFlags (cf_OverrideFlag C))) expModels))"

definition container_NewResourceModelSpec ::
  "'v world env \<Rightarrow> config \<Rightarrow> (nat \<Rightarrow> nat) \<Rightarrow> 'v world exec_fun spec_pkgs \<Rightarrow> 'v world exec_fun Registry" where
  "container_NewResourceModelSpec N C sched P =
     (let specs = pk_Container P # getJvmModels C P;
          specs = map (pk_AddExecutor P (ExecCommandInPodExecutor_Exec N C sched)) specs;
          osSpecs = map (pk_AddExecutor P (CommonExecutor_Exec N C sched)) (NewOSSubResourceModelSpec P)
      in RegisterExpModels Map.empty
           (map (pk_AddFlags P (container_getResourceFlags (cf_OverrideFlag C))) (specs @ osSpecs)))"

definition registry_of ::
  "'v world env \<Rightarrow> config \<Rightarrow> (nat \<Rightarrow> nat) \<Rightarrow> 'v world net \<Rightarrow> 'v world exec_fun spec_pkgs \<Rightarrow> string \<Rightarrow>
     'v world exec_fun Registry" where
  "registry_of N C sched H P scope =
     (if scope = ''node'' then node_NewResourceModelSpec N C sched P
      else if scope = ''pod'' then pod_NewResourceModelSpec N C sched H P
      else if scope = ''container'' then container_NewResourceModelSpec N C sched P
      else Map.empty)"

text \<open>The executor of the operator: the dispatcher over the three registries.\<close>

definition operator_executor ::
  "'v world env \<Rightarrow> config \<Rightarrow> (nat \<Rightarrow> nat) \<Rightarrow> 'v world net \<Rightarrow> 'v world exec_fun spec_pkgs \<Rightarrow> 'v world executor" where
  "operator_executor N C sched H P = dispatcher N (registry_of N C sched H P)"

subsection \<open>What is found in a registry\<close>

lemma find_rev_append:
  "find P (rev (xs @ ys)) = (case find P (rev ys) of None \<Rightarrow> find P (rev xs) | Some y \<Rightarrow> Some y)"
proof -
  have "find P (zs @ us) = (case find P zs of None \<Rightarrow> find P us | Some y \<Rightarrow> Some y)" for zs us
    by (induction zs) auto
  then show ?thesis by simp
qed

lemma find_rev_Some: "find P (rev xs) = Some x \<Longrightarrow> x \<in> set xs \<and> P x"
  by (metis find_Some_iff nth_mem set_rev)

lemma find_rev_None: "find P (rev xs) = None \<longleftrightarrow> (\<forall>x \<in> set xs. \<not> P x)"
  by (auto simp: find_None_iff)

lemma found_action:
  assumes "GetExpActionModelSpec reg t n = Some a"
  shows "\<exists>c as. reg t = Some c \<and> cs_Actions c = Some as \<and> a \<in> set as"
  using assms by (auto simp: GetExpActionModelSpec_def split: option.splits dest: find_action_Some)

text \<open>A model with an executor and flags put in.\<close>

definition fitted :: "'e spec_pkgs \<Rightarrow> 'e \<Rightarrow> 'e CommandSpec \<Rightarrow> 'e CommandSpec \<Rightarrow> bool" where
  "fitted P e c d \<longleftrightarrow> cs_Name d = cs_Name c \<and>
     cs_Actions d = map_option (map (\<lambda>a. a\<lparr>ac_Executor := e\<rparr>)) (cs_Actions c)"

lemma fitted_add:
  assumes "pkgs_contract P"
  shows "fitted P e c (pk_AddFlags P fs (pk_AddExecutor P e c))"
    and "fitted P e c (pk_AddFlags P gs (pk_AddFlags P fs (pk_AddExecutor P e c)))"
  using assms by (simp_all add: fitted_def pkgs_contract_def)

lemma fitted_name: "fitted P e c d \<Longrightarrow> cs_Name d = cs_Name c"
  by (simp add: fitted_def)

lemma fitted_found:
  assumes "\<And>c. fitted P e c (g c)" "find (\<lambda>c. cs_Name c = t) (rev (map g ms)) = Some d"
  shows "\<exists>c \<in> set ms. cs_Name c = t \<and> fitted P e c d"
proof -
  from find_rev_Some [OF assms(2)] obtain c where c: "c \<in> set ms" "d = g c" "cs_Name d = t" by auto
  with assms(1) [of c] fitted_name [OF assms(1), of c] show ?thesis by auto
qed

lemma fitted_not_found:
  assumes "\<And>c. fitted P e c (g c)" "find (\<lambda>c. cs_Name c = t) (rev (map g ms)) = None"
  shows "t \<notin> cs_Name ` set ms"
  using assms(2) fitted_name [OF assms(1)] unfolding find_rev_None by auto

lemma fitted_action:
  "fitted P e c d \<Longrightarrow> cs_Actions d = Some as \<Longrightarrow> a \<in> set as \<Longrightarrow> ac_Executor a = e"
  by (cases "cs_Actions c") (auto simp: fitted_def)

abbreviation os_names :: "'e spec_pkgs \<Rightarrow> string set" where
  "os_names P \<equiv> cs_Name ` set (NewOSSubResourceModelSpec P)"

lemma add_flags_sel:
  "pkgs_contract P \<Longrightarrow> cs_Name (pk_AddFlags P fs c) = cs_Name c"
  "pkgs_contract P \<Longrightarrow> cs_Actions (pk_AddFlags P fs c) = cs_Actions c"
  by (simp_all add: pkgs_contract_def)

lemma node_lookup:
  assumes "pkgs_contract P" "node_NewResourceModelSpec N C sched P t = Some d"
  shows "\<exists>c \<in> set (NewOSSubResourceModelSpec P). cs_Name c = t \<and> fitted P (CommonExecutor_Exec N C sched) c d"
proof (rule fitted_found [OF fitted_add(2) [OF assms(1)]])
  show "find (\<lambda>c. cs_Name c = t) (rev (map (\<lambda>c. pk_AddFlags P (pk_SSHFlags P) (pk_AddFlags P node_getResourceFlags
       (pk_AddExecutor P (CommonExecutor_Exec N C sched) c))) (NewOSSubResourceModelSpec P))) = Some d"
    using assms(2) by (simp add: node_NewResourceModelSpec_def Let_def comp_def RegisterExpModels_lookup split: option.splits)
qed

lemma pod_lookup:
  assumes "pkgs_contract P" "pod_NewResourceModelSpec N C sched H P t = Some d"
  shows "(t = ''pod'' \<and> cs_Actions d = cs_Actions (pod_NewSelfExpModelCommandSpec N H)) \<or>
    (\<exists>c \<in> set (NewOSSubResourceModelSpec P). cs_Name c = t \<and> fitted P (CommonExecutor_Exec N C sched) c d)"
proof -
  let ?f = "pk_AddFlags P (pod_getResourceFlags (cf_OverrideFlag C))"
  let ?os = "map (\<lambda>c. ?f (pk_AddExecutor P (CommonExecutor_Exec N C sched) c)) (NewOSSubResourceModelSpec P)"
  have reg: "pod_NewResourceModelSpec N C sched H P =
    RegisterExpModels Map.empty (?os @ [?f (pod_NewSelfExpModelCommandSpec N H)])"
    by (simp add: pod_NewResourceModelSpec_def Let_def comp_def)
  have name: "cs_Name (?f (pod_NewSelfExpModelCommandSpec N H)) = ''pod''"
    by (simp add: add_flags_sel [OF assms(1)] pod_NewSelfExpModelCommandSpec_def)
  show ?thesis
  proof (cases "t = ''pod''")
    case True
    with assms(2) name have "d = ?f (pod_NewSelfExpModelCommandSpec N H)"
      unfolding reg RegisterExpModels_lookup find_rev_append by simp
    with True show ?thesis by (simp add: add_flags_sel [OF assms(1)])
  next
    case False
    then have "find (\<lambda>c. cs_Name c = t) (rev ?os) = Some d"
      using assms(2) name unfolding reg RegisterExpModels_lookup find_rev_append by (simp split: option.splits)
    from fitted_found [OF fitted_add(1) [OF assms(1)] this] show ?thesis by simp
  qed
qed

lemma container_lookup:
  assumes "pkgs_contract P" "container_NewResourceModelSpec N C sched P t = Some d"
  shows "(t \<in> os_names P \<and> (\<exists>c. fitted P (CommonExecutor_Exec N C sched) c d)) \<or>
    (t \<notin> os_names P \<and> (\<exists>c \<in> set (pk_Container P # getJvmModels C P). cs_Name c = t \<and>
       fitted P (ExecCommandInPodExecutor_Exec N C sched) c d))"
proof -
  let ?f = "pk_AddFlags P (container_getResourceFlags (cf_OverrideFlag C))"
  let ?g = "\<lambda>e c. ?f (pk_AddExecutor P e c)"
  let ?os = "map (?g (CommonExecutor_Exec N C sched)) (NewOSSubResourceModelSpec P)"
  let ?own = "map (?g (ExecCommandInPodExecutor_Exec N C sched)) (pk_Container P # getJvmModels C P)"
  note fit = fitted_add(1) [OF assms(1), of _ _ "container_getResourceFlags (cf_OverrideFlag C)"]
  have reg: "container_NewResourceModelSpec N C sched P = RegisterExpModels Map.empty (?own @ ?os)"
    by (simp add: container_NewResourceModelSpec_def Let_def comp_def)
  show ?thesis
  proof (cases "find (\<lambda>c. cs_Name c = t) (rev ?os)")
    case (Some d')
    with assms(2) have "d' = d" unfolding reg RegisterExpModels_lookup find_rev_append by simp
    with fitted_found [OF fit Some] show ?thesis by blast
  next
    case None
    with assms(2) have "find (\<lambda>c. cs_Name c = t) (rev ?own) = Some d"
      unfolding reg RegisterExpModels_lookup find_rev_append by (simp split: option.splits)
    with fitted_found [OF fit] fitted_not_found [OF fit None] show ?thesis by blast
  qed
qed

text \<open>
  What the registries give: the pod's own actions, an action of an operating system model, which always
  runs through \<open>nsexec\<close>, or one of the container or JVM models, which runs in the pod.
\<close>

definition own_pod_action :: "'w env \<Rightarrow> 'w net \<Rightarrow> 'w exec_fun Action \<Rightarrow> bool" where
  "own_pod_action N H a \<longleftrightarrow> a \<in> {NewDeletePodActionSpec N, NewPodIOActionSpec N H, NewFailPodActionSpec N}"

lemma registry_cases:
  assumes "pkgs_contract P" "registry_of N C sched H P scope t = Some d" "cs_Actions d = Some as" "a \<in> set as"
  shows "(scope = ''pod'' \<and> t = ''pod'' \<and> own_pod_action N H a) \<or>
    (scope \<in> {''node'', ''pod'', ''container''} \<and> t \<in> os_names P \<and> ac_Executor a = CommonExecutor_Exec N C sched) \<or>
    (scope = ''container'' \<and> t \<notin> os_names P \<and> t \<in> cs_Name ` set (pk_Container P # getJvmModels C P) \<and>
       ac_Executor a = ExecCommandInPodExecutor_Exec N C sched)"
proof -
  consider "scope = ''node''" | "scope = ''pod''" | "scope = ''container''"
    using assms(2) by (auto simp: registry_of_def split: if_splits)
  then show ?thesis
  proof cases
    case 1
    with assms node_lookup [OF assms(1), of N C sched t d] show ?thesis
      by (auto simp: registry_of_def dest: fitted_action)
  next
    case 2
    with assms(2) have "pod_NewResourceModelSpec N C sched H P t = Some d" by (simp add: registry_of_def)
    from pod_lookup [OF assms(1) this] show ?thesis
    proof (elim disjE conjE bexE)
      assume t: "t = ''pod''" "cs_Actions d = cs_Actions (pod_NewSelfExpModelCommandSpec N H)"
      then have "own_pod_action N H a"
        using assms(3,4) by (auto simp: pod_NewSelfExpModelCommandSpec_def own_pod_action_def)
      with 2 t show ?thesis by simp
    next
      fix c assume "c \<in> set (NewOSSubResourceModelSpec P)" "cs_Name c = t" "fitted P (CommonExecutor_Exec N C sched) c d"
      with 2 fitted_action [OF _ assms(3,4)] show ?thesis by auto
    qed
  next
    case 3
    with assms(2) have "container_NewResourceModelSpec N C sched P t = Some d" by (simp add: registry_of_def)
    from container_lookup [OF assms(1) this] 3 fitted_action [OF _ assms(3,4)] show ?thesis by blast
  qed
qed

lemma operator_registries_ok:
  assumes "spec_contract (en_Spec N)" "pkgs_contract P"
  shows "registry_ok (registry_of N C sched H P scope)"
  unfolding registry_ok_def
proof (intro allI impI)
  fix t d as a
  assume r: "registry_of N C sched H P scope t = Some d" "cs_Actions d = Some as" "a \<in> set as"
  have "exec_ok (CommonExecutor_Exec N C sched)" "exec_ok (ExecCommandInPodExecutor_Exec N C sched)"
    unfolding CommonExecutor_Exec_def ExecCommandInPodExecutor_Exec_def by (rule Exec_exec_ok [OF assms(1)])+
  with registry_cases [OF assms(2) r] pod_executors_ok [OF assms(1)] show "exec_ok (ac_Executor a)"
    by (auto simp: own_pod_action_def NewDeletePodActionSpec_def NewPodIOActionSpec_def NewFailPodActionSpec_def)
qed

subsection \<open>Properties\<close>

text \<open>C15. Which executor runs an experiment, in the operator as it is put together: an operating system
  model runs through \<open>nsexec\<close> in every scope, the three actions of the target \<open>pod\<close> by their own
  executors, and only container and JVM models by the executor that works inside the pod.\<close>

theorem executor_choice:
  assumes "pkgs_contract P" "GetExpActionModelSpec (registry_of N C sched H P scope) target action = Some a"
  shows "(scope = ''pod'' \<and> target = ''pod'' \<and> own_pod_action N H a) \<or>
    (scope \<in> {''node'', ''pod'', ''container''} \<and> target \<in> os_names P \<and>
       ac_Executor a = CommonExecutor_Exec N C sched) \<or>
    (scope = ''container'' \<and> target \<notin> os_names P \<and> target \<in> cs_Name ` set (pk_Container P # getJvmModels C P) \<and>
       ac_Executor a = ExecCommandInPodExecutor_Exec N C sched)"
  using found_action [OF assms(2)] registry_cases [OF assms(1)] by blast

text \<open>What a status tells of a response: its own status, or, without one, the flag and the error.\<close>

definition tells :: "Response \<Rightarrow> ExperimentStatus \<Rightarrow> bool" where
  "tells r st \<longleftrightarrow> (es_Success st, es_Error st, es_ResStatuses st) =
     (case rp_Result r of
        RExp e \<Rightarrow> (es_Success e, es_Error e, es_ResStatuses e)
      | _ \<Rightarrow> (rp_Success r, if rp_Success r then [] else rp_Err r, Some []))"

lemma response_tells: "createExperimentStatusByResponse r = Some st \<Longrightarrow> tells r st"
  by (auto simp: createExperimentStatusByResponse_def tells_def CreateSuccessExperimentStatus_def
      CreateFailExperimentStatus_def no_exp_status_def split: ResVal.splits if_splits)

lemma created_tells:
  assumes "spec_contract (en_Spec N)" "registry_ok (regs (xs_Scope x))"
    and "NewDispatcherExecutor N regs (xs_Scope x) = Some c"
    and "co_Create c (SetExperimentIdToContext Map.empty n) x w = Some (r, w')"
  shows "\<exists>st. ex_Create (dispatcher N regs) n x w = Some (st, w') \<and> tells r st \<and>
    es_Scope st = xs_Scope x \<and> es_Target st = xs_Target x \<and> es_Action st = xs_Action x"
proof -
  from status_of_response [OF created_status [where regs = regs, OF assms]] obtain st where
    st: "createExperimentStatusByResponse r = Some st" by blast
  with assms(3,4) response_tells [OF st] show ?thesis
    by (simp add: dispatcher_def dispatch_Create_def tells_def)
qed

lemma destroyed_tells:
  assumes "spec_contract (en_Spec N)" "registry_ok (regs (xs_Scope x))"
    and "NewDispatcherExecutor N regs (xs_Scope x) = Some c"
    and "co_Destroy c (SetExperimentIdToContext (sp_SetDestroyFlag (en_Spec N) Map.empty n) n) x old w = Some (r, w')"
    and old: "es_ResStatuses old \<noteq> None" "es_ResStatuses old \<noteq> Some []"
  shows "\<exists>st. ex_Destroy (dispatcher N regs) n x old w = Some (st, w') \<and> tells r st \<and>
    es_Scope st = es_Scope old \<and> es_Target st = es_Target old \<and> es_Action st = es_Action old"
proof -
  from status_of_response [OF destroyed_status [where regs = regs, OF assms(1-4)]] obtain st where
    st: "createExperimentStatusByResponse r = Some st" by blast
  obtain sts where "es_ResStatuses old = Some sts" "sts \<noteq> []" using old by blast
  with assms(3,4) st response_tells [OF st] show ?thesis
    by (simp add: dispatcher_def dispatch_Destroy_def Let_def validate_eq tells_def)
qed

text \<open>C9. The operator answers: for the three scopes, whatever models the other repositories supply, creating
  an experiment and destroying one panic only where the scope controller does; otherwise they have the
  controller's effect and give a status that tells its response, success, error and resource statuses,
  under the names of the experiment or of the stored status. An experiment that reached no resource is
  destroyed without the controller, and counts as destroyed.\<close>

theorem operator_answers:
  assumes "spec_contract (en_Spec N)" "pkgs_contract P" "xs_Scope x \<in> {''node'', ''pod'', ''container''}"
  shows "\<exists>c. NewDispatcherExecutor N (registry_of N C sched H P) (xs_Scope x) = Some c \<and>
    (case co_Create c (SetExperimentIdToContext Map.empty n) x w of
       None \<Rightarrow> ex_Create (operator_executor N C sched H P) n x w = None
     | Some (r, w') \<Rightarrow> \<exists>st. ex_Create (operator_executor N C sched H P) n x w = Some (st, w') \<and> tells r st \<and>
         es_Scope st = xs_Scope x \<and> es_Target st = xs_Target x \<and> es_Action st = xs_Action x) \<and>
    (if es_ResStatuses old = None \<or> es_ResStatuses old = Some []
     then ex_Destroy (operator_executor N C sched H P) n x old w = Some (CreateDestroyedExperimentStatus (Some []), w)
     else case co_Destroy c (SetExperimentIdToContext (sp_SetDestroyFlag (en_Spec N) Map.empty n) n) x old w of
       None \<Rightarrow> ex_Destroy (operator_executor N C sched H P) n x old w = None
     | Some (r, w') \<Rightarrow> \<exists>st. ex_Destroy (operator_executor N C sched H P) n x old w = Some (st, w') \<and> tells r st \<and>
         es_Scope st = es_Scope old \<and> es_Target st = es_Target old \<and> es_Action st = es_Action old)"
proof -
  let ?regs = "registry_of N C sched H P"
  let ?ctx = "SetExperimentIdToContext (sp_SetDestroyFlag (en_Spec N) Map.empty n) n"
  obtain c where c: "NewDispatcherExecutor N ?regs (xs_Scope x) = Some c"
    using assms(3) by (auto simp: dispatcher_controllers)
  note ok = operator_registries_ok [OF assms(1,2)]
  have create: "case co_Create c (SetExperimentIdToContext Map.empty n) x w of
       None \<Rightarrow> ex_Create (operator_executor N C sched H P) n x w = None
     | Some (r, w') \<Rightarrow> \<exists>st. ex_Create (operator_executor N C sched H P) n x w = Some (st, w') \<and> tells r st \<and>
         es_Scope st = xs_Scope x \<and> es_Target st = xs_Target x \<and> es_Action st = xs_Action x"
    using created_tells [OF assms(1) ok c] c
    by (auto simp: operator_executor_def dispatcher_def dispatch_Create_def split: option.splits)
  have destroy: "case co_Destroy c ?ctx x old w of
       None \<Rightarrow> ex_Destroy (operator_executor N C sched H P) n x old w = None
     | Some (r, w') \<Rightarrow> \<exists>st. ex_Destroy (operator_executor N C sched H P) n x old w = Some (st, w') \<and> tells r st \<and>
         es_Scope st = es_Scope old \<and> es_Target st = es_Target old \<and> es_Action st = es_Action old"
    if "es_ResStatuses old \<noteq> None" "es_ResStatuses old \<noteq> Some []"
    using destroyed_tells [OF assms(1) ok c _ that] c that
    by (auto simp: operator_executor_def dispatcher_def dispatch_Destroy_def split: option.splits)
  have none: "ex_Destroy (operator_executor N C sched H P) n x old w = Some (CreateDestroyedExperimentStatus (Some []), w)"
    if "es_ResStatuses old = None \<or> es_ResStatuses old = Some []"
    using that c by (auto simp: operator_executor_def dispatcher_def dispatch_Destroy_def CreateDestroyedStatus_def)
  show ?thesis using c create destroy none by (intro exI [of _ c]) simp
qed

text \<open>What the client is asked for: the deletion of the given pods, one after the other.\<close>

fun delete_pods :: "'w kube \<Rightarrow> Pod list \<Rightarrow> 'w \<Rightarrow> bool list \<times> 'w" where
  "delete_pods K [] w = ([], w)"
| "delete_pods K (p # ps) w =
     (let (err, w1) = k_DeletePod K (pd_Namespace p) (pd_Name p) w; (oks, w2) = delete_pods K ps w1
      in ((err = None) # oks, w2))"

definition runnable :: "'w env \<Rightarrow> Pod \<Rightarrow> bool" where
  "runnable N p \<longleftrightarrow> snd (GetOneAvailableContainerIdFromPod N p) = None"

definition pod_meta :: "Pod \<Rightarrow> ContainerObjectMeta \<Rightarrow> bool" where
  "pod_meta p c \<longleftrightarrow> cm_Namespace c = pd_Namespace p \<and> cm_PodName c = pd_Name p \<and> cm_NodeName c = pd_NodeName p"

lemma metas_of_pods:
  "pod_getContainerMatchedList N pods = Some metas \<Longrightarrow> list_all2 pod_meta (filter (runnable N) pods) metas"
  by (induction pods arbitrary: metas)
    (auto simp: pod_meta_def runnable_def Let_def split: prod.splits Option.bind_splits if_splits)

lemma delete_one_cases:
  assumes "GetExperimentIdFromContext ctx \<noteq> None" "pod_meta p c"
    and "k_DeletePod (en_Kube N) (pd_Namespace p) (pd_Name p) w = (err, w1)"
  shows "\<exists>s. delete_one N ctx c w = Some ((Some s, err = None), w1) \<and> rs_Success s = (err = None) \<and>
    rs_Identifier s = pd_Namespace p @ ''/'' @ pd_NodeName p @ ''/'' @ pd_Name p"
  using assms by (cases err) (auto simp: delete_one_def pod_meta_def Let_def)

lemma delete_loop:
  assumes "GetExperimentIdFromContext ctx \<noteq> None" "list_all2 pod_meta pods metas"
    and "delete_pods (en_Kube N) pods w = (oks, w')"
  shows "\<exists>sts. mapM_w (delete_one N ctx) metas w = Some (zip (map Some sts) oks, w') \<and> length sts = length oks \<and>
    map rs_Success sts = oks \<and>
    map rs_Identifier sts = map (\<lambda>p. pd_Namespace p @ ''/'' @ pd_NodeName p @ ''/'' @ pd_Name p) pods"
  using assms(2,3)
proof (induction pods metas arbitrary: w oks rule: list_all2_induct)
  case Nil
  then show ?case by simp
next
  case (Cons p ps c cs)
  obtain err w1 where d: "k_DeletePod (en_Kube N) (pd_Namespace p) (pd_Name p) w = (err, w1)"
    by (cases "k_DeletePod (en_Kube N) (pd_Namespace p) (pd_Name p) w")
  obtain oks' w2 where r: "delete_pods (en_Kube N) ps w1 = (oks', w2)" by (cases "delete_pods (en_Kube N) ps w1")
  with Cons.prems d have "oks = (err = None) # oks'" "w' = w2" by simp_all
  moreover obtain s where "delete_one N ctx c w = Some ((Some s, err = None), w1)" "rs_Success s = (err = None)"
    "rs_Identifier s = pd_Namespace p @ ''/'' @ pd_NodeName p @ ''/'' @ pd_Name p"
    using delete_one_cases [OF assms(1) Cons.hyps(1) d] by blast
  moreover obtain sts where "mapM_w (delete_one N ctx) cs w1 = Some (zip (map Some sts) oks', w2)"
    "length sts = length oks'" "map rs_Success sts = oks'"
    "map rs_Identifier sts = map (\<lambda>p. pd_Namespace p @ ''/'' @ pd_NodeName p @ ''/'' @ pd_Name p) ps"
    using Cons.IH [of w1 oks'] r calculation(2) by blast
  ultimately show ?case by (intro exI [of _ "s # sts"]) simp
qed

lemma kept_statuses:
  assumes "length sts = length oks"
  shows "List.map_filter fst (zip (map Some sts) oks) = sts" "list_ex snd (zip (map Some sts) oks) = (True \<in> set oks)"
proof -
  show "List.map_filter fst (zip (map Some sts) oks) = sts"
    using assms by (induction sts oks rule: list_induct2) (simp_all add: map_filter_simps)
  show "list_ex snd (zip (map Some sts) oks) = (True \<in> set oks)"
    using assms by (induction sts oks rule: list_induct2) auto
qed

lemma delete_action:
  assumes "pkgs_contract P"
  shows "GetExpActionModelSpec (registry_of N C sched H P ''pod'') ''pod'' ''delete'' = Some (NewDeletePodActionSpec N)"
proof -
  have "cs_Name (pk_AddFlags P fs (pod_NewSelfExpModelCommandSpec N H)) = ''pod''" for fs
    by (simp add: add_flags_sel [OF assms] pod_NewSelfExpModelCommandSpec_def)
  then have "registry_of N C sched H P ''pod'' ''pod'' = Some (pk_AddFlags P
      (pod_getResourceFlags (cf_OverrideFlag C)) (pod_NewSelfExpModelCommandSpec N H))"
    by (simp add: registry_of_def pod_NewResourceModelSpec_def Let_def RegisterExpModels_lookup)
  then show ?thesis
    by (simp add: GetExpActionModelSpec_def add_flags_sel [OF assms] pod_NewSelfExpModelCommandSpec_def
        NewDeletePodActionSpec_def)
qed

text \<open>C17. Deleting pods, from the operator to the client: a pod-pod delete experiment asks for the deletion of
  exactly those selected pods that have a running container, one after the other; its status has one resource
  status per such pod, which names the pod and succeeds as its deletion did, and it succeeds when one of the
  deletions did.\<close>

theorem pod_delete_deletes_selected:
  assumes "spec_contract (en_Spec N)" "pkgs_contract P"
    and x: "xs_Scope x = ''pod''" "xs_Target x = ''pod''" "xs_Action x = ''delete''"
    and sel: "GetMatchedPodResources (en_Oor N) (en_Spec N) (en_Kube N) (en_Labels N) (en_Ord N) (en_Raw N)
      (em_ActionFlags (ExtractExpModelFromExperimentSpec x)) w = Some ((pods, resp), flags, w1)"
    and metas: "pod_getContainerMatchedList N pods \<noteq> None" "filter (runnable N) pods \<noteq> []"
    and del: "delete_pods (en_Kube N) (filter (runnable N) pods) w1 = (oks, w2)"
  shows "\<exists>st sts. ex_Create (operator_executor N C sched H P) n x w = Some (st, w2) \<and>
    es_Success st = (True \<in> set oks) \<and> es_ResStatuses st = Some sts \<and> map rs_Success sts = oks \<and>
    map rs_Identifier sts =
      map (\<lambda>p. pd_Namespace p @ ''/'' @ pd_NodeName p @ ''/'' @ pd_Name p) (filter (runnable N) pods)"
proof -
  let ?S = "en_Spec N"
  obtain ms where ms: "pod_getContainerMatchedList N pods = Some ms" using metas(1) by blast
  have all: "list_all2 pod_meta (filter (runnable N) pods) ms" by (rule metas_of_pods [OF ms])
  with metas(2) have ne: "ms \<noteq> []" by auto
  let ?ctx = "SetContainerObjectMetaListToContext (SetExperimentIdToContext Map.empty n) ms"
  have ctx: "GetExperimentIdFromContext ?ctx = Some n" "\<not> sp_IsDestroy ?S ?ctx"
    "GetContainerObjectMetaListFromContext ?ctx = Some (Inr ms)"
    using spec_contract_destroy [OF assms(1)]
    by (simp_all add: destroy_set_meta_list [OF assms(1)] SetExperimentIdToContext_def)
  obtain sts where loop: "mapM_w (delete_one N ?ctx) ms w1 = Some (zip (map Some sts) oks, w2)"
    and sts: "length sts = length oks" "map rs_Success sts = oks"
      "map rs_Identifier sts =
        map (\<lambda>p. pd_Namespace p @ ''/'' @ pd_NodeName p @ ''/'' @ pd_Name p) (filter (runnable N) pods)"
    using delete_loop [OF _ all del, of ?ctx] ctx(1) by auto
  let ?r = "action_result ?S (zip (map Some sts) oks)"
  have "DeletePodActionExecutor_Exec N n ?ctx m w1 = Some (?r, w2)" for m
    using ctx loop by (simp add: DeletePodActionExecutor_Exec_def base_exec_by_def delete_create_def run_targets_def)
  then have "base_Exec N (registry_of N C sched H P ''pod'') ?ctx
      (ExtractExpModelFromExperimentSpec x\<lparr>em_ActionFlags := flags\<rparr>) w1 = Some (?r, w2)"
    using x ctx delete_action [OF assms(2)] by (simp add: base_Exec_def NewDeletePodActionSpec_def)
  then have "pod_Create N (registry_of N C sched H P ''pod'') (SetExperimentIdToContext Map.empty n) x w = Some (?r, w2)"
    using sel ms ne by (simp add: pod_Create_def Let_def)
  then have "ex_Create (operator_executor N C sched H P) n x w = Some
      ((if True \<in> set oks then CreateSuccessExperimentStatus (Some sts)
        else CreateFailExperimentStatus ''see resStatuses for details'' (Some sts))
        \<lparr>es_Scope := xs_Scope x, es_Target := xs_Target x, es_Action := xs_Action x\<rparr>, w2)"
    using x(1) by (simp add: operator_executor_def dispatcher_def dispatch_Create_def dispatcher_controllers
        pod_Controller_def createExperimentStatusByResponse_def action_result_def Let_def
        spec_contractD [OF assms(1)] kept_statuses [OF sts(1)])
  with sts show ?thesis by simp
qed

subsection \<open>Witnesses\<close>

definition sample_model :: "string \<Rightarrow> 'w exec_fun CommandSpec" where
  "sample_model name = \<lparr>cs_Name = name, cs_Flags = [], cs_Actions = Some [\<lparr>ac_Name = ''delay'', ac_Aliases = [],
     ac_Matchers = [], ac_Flags = [], ac_Programs = [], ac_Executor = (\<lambda>u ctx m w. None)\<rparr>]\<rparr>"

definition sample_pkgs :: "'w exec_fun spec_pkgs" where
  "sample_pkgs = \<lparr>pk_Cpu = sample_model ''cpu'', pk_Network = sample_model ''network'',
     pk_Process = sample_model ''process'', pk_Disk = sample_model ''disk'', pk_Mem = sample_model ''mem'',
     pk_File = sample_model ''file'', pk_Script = sample_model ''script'', pk_Container = sample_model ''container'',
     pk_ParseSpecs = (\<lambda>f. Inl (ErrNew ''no such file'')),
     pk_AddExecutor = (\<lambda>e c. c\<lparr>cs_Actions := map_option (map (\<lambda>a. a\<lparr>ac_Executor := e\<rparr>)) (cs_Actions c)\<rparr>),
     pk_AddFlags = (\<lambda>fs c. c\<lparr>cs_Flags := cs_Flags c @ fs\<rparr>), pk_SSHFlags = [''ssh-host''], pk_JvmSpecPath = []\<rparr>"

lemma sample_pkgs_contract: "pkgs_contract sample_pkgs"
  by (simp add: pkgs_contract_def sample_pkgs_def)

definition silent_net :: "'w net" where
  "silent_net = \<lparr>nt_Marshal = (\<lambda>msg. Inr []), nt_PostCurl = (\<lambda>url body c w. (([], None, 200), w)),
     nt_NewRequest = (\<lambda>url. None), nt_Do = (\<lambda>url w. (Inr (200, Inr []), w))\<rparr>"

lemma executor_choice_witness:
  "\<exists>a. GetExpActionModelSpec (registry_of (tools []) sample_config id silent_net sample_pkgs ''container'') ''network'' ''delay'' = Some a \<and>
    ac_Executor a = CommonExecutor_Exec (tools []) sample_config id"
proof -
  obtain a where a: "GetExpActionModelSpec (registry_of (tools []) sample_config id silent_net sample_pkgs ''container'')
      ''network'' ''delay'' = Some a"
    by (simp add: GetExpActionModelSpec_def registry_of_def container_NewResourceModelSpec_def Let_def
        RegisterExpModels_lookup NewOSSubResourceModelSpec_def sample_pkgs_def sample_model_def)
  have "''network'' \<in> os_names sample_pkgs"
    by (simp add: NewOSSubResourceModelSpec_def sample_pkgs_def sample_model_def)
  with executor_choice [OF sample_pkgs_contract a] a show ?thesis by auto
qed

definition old_c :: ExperimentStatus where
  "old_c = CreateSuccessExperimentStatus (Some [no_status])"

abbreviation tools_operator :: "unit world executor" where
  "tools_operator \<equiv> operator_executor (tools []) sample_config id silent_net sample_pkgs"

lemma pod_controller_c:
  "NewDispatcherExecutor (tools []) (registry_of (tools []) sample_config id silent_net sample_pkgs) ''pod'' =
     Some (pod_Controller (tools []) (registry_of (tools []) sample_config id silent_net sample_pkgs ''pod''))"
  by (simp add: dispatcher_controllers)

lemma destroy_old_c:
  "\<exists>r. co_Destroy (pod_Controller (tools []) (registry_of (tools []) sample_config id silent_net sample_pkgs ''pod''))
     (SetExperimentIdToContext (sp_SetDestroyFlag sample_spec Map.empty ''e'') ''e'') spec_x old_c bare_world =
     Some (r, bare_world) \<and> rp_Result r = RExp (CreateDestroyedExperimentStatus (Some []))"
proof -
  let ?ctx = "SetContainerObjectMetaListToContext
    (SetExperimentIdToContext (sp_SetDestroyFlag sample_spec Map.empty ''e'') ''e'') []"
  have "sp_IsDestroy sample_spec ?ctx"
    using spec_contract_destroy [OF sample_spec_contract]
    by (simp add: destroy_set_meta_list [OF sample_spec_contract] SetExperimentIdToContext_def)
  then show ?thesis
    by (simp add: pod_Controller_def pod_Destroy_def destroy_targets_def base_Exec_def no_status_def old_c_def
        delete_action [OF sample_pkgs_contract] spec_x_def NewDeletePodActionSpec_def DeletePodActionExecutor_Exec_def
        base_exec_by_def delete_destroy_def run_targets_def destroy_result_def spec_contractD [OF sample_spec_contract])
qed

lemma operator_answers_witness:
  "\<exists>st. ex_Destroy tools_operator ''e'' spec_x old_c bare_world = Some (st, bare_world) \<and> es_Success st \<and>
    es_ResStatuses st = Some []"
proof -
  have x: "xs_Scope spec_x = ''pod''" by (simp add: spec_x_def)
  obtain r where r: "co_Destroy (pod_Controller (tools []) (registry_of (tools []) sample_config id silent_net sample_pkgs ''pod''))
     (SetExperimentIdToContext (sp_SetDestroyFlag (en_Spec (tools [])) Map.empty ''e'') ''e'') spec_x old_c bare_world =
     Some (r, bare_world)" "rp_Result r = RExp (CreateDestroyedExperimentStatus (Some []))"
    using destroy_old_c by auto
  show ?thesis
    using operator_answers [where N = "tools []" and P = sample_pkgs and x = spec_x and old = old_c and C = sample_config
        and sched = id and H = silent_net and n = "''e''" and w = bare_world, OF _ sample_pkgs_contract] r
    by (simp add: sample_spec_contract x pod_controller_c)
      (auto simp: old_c_def tells_def CreateSuccessExperimentStatus_def CreateDestroyedExperimentStatus_def no_exp_status_def)
qed

definition spec_c :: ExperimentSpec where
  "spec_c = spec_x\<lparr>xs_Matchers := [\<lparr>fs_Name = ResourceNamesFlag, fs_Value = [''c'']\<rparr>]\<rparr>"

lemma count_c:
  "GetResourceCount id sample_spec 1 [ResourceNamesFlag \<mapsto> ''c'', ResourceNamespaceFlag \<mapsto> ''default''] = (1, sp_Success sample_spec)"
  by (subst GetResourceCount_eval [where c = 2147483647 and p = 100])
    (simp_all add: positive_flag_def flag_defs percent_count_100)

lemma selected_c:
  "GetMatchedPodResources (en_Oor (tools [pod_c])) (en_Spec (tools [pod_c])) (en_Kube (tools [pod_c]))
     (en_Labels (tools [pod_c])) (en_Ord (tools [pod_c])) (en_Raw (tools [pod_c]))
     (em_ActionFlags (ExtractExpModelFromExperimentSpec spec_c)) bare_world =
   Some (([pod_c], sp_Success sample_spec), [ResourceNamesFlag \<mapsto> ''c'', ResourceNamespaceFlag \<mapsto> ''default''], bare_world)"
  using count_c
  by (simp add: GetMatchedPodResources_def DefaultNamespace_def CheckPodFlags_def CheckFlags_def
      pod_resourceFunc_def ExtractExpModelFromExperimentSpec_def spec_c_def spec_x_def flag_defs ParseLabels_def
      quiet_kube_def spec_contractD [OF sample_spec_contract] Let_def has_prefix_def mget_def pod_c_def
      pod_filterByOtherFlags_def slice_to_def)

lemma runnable_c: "runnable (tools [pod_c]) pod_c"
  by (simp add: runnable_def GetOneAvailableContainerIdFromPod_def pod_c_def run_a_def)

lemma pod_c_sel: "pd_Namespace pod_c = ''d''" "pd_NodeName pod_c = ''n''" "pd_Name pod_c = ''c''"
  by (simp_all add: pod_c_def)

lemma pod_delete_deletes_selected_witness:
  "\<exists>st sts. ex_Create (operator_executor (tools [pod_c]) sample_config id silent_net sample_pkgs) ''e'' spec_c bare_world = Some (st, bare_world) \<and>
    es_Success st \<and> es_ResStatuses st = Some sts \<and> map rs_Identifier sts = [''d/n/c'']"
proof -
  have "pod_getContainerMatchedList (tools [pod_c]) [pod_c] \<noteq> None"
    by (simp add: GetOneAvailableContainerIdFromPod_def pod_c_def run_a_def cut_docker_def)
  moreover have "delete_pods (en_Kube (tools [pod_c])) (filter (runnable (tools [pod_c])) [pod_c]) bare_world = ([True], bare_world)"
    using runnable_c by (simp add: quiet_kube_def)
  ultimately have "\<exists>st sts. ex_Create (operator_executor (tools [pod_c]) sample_config id silent_net sample_pkgs) ''e'' spec_c bare_world = Some (st, bare_world) \<and>
    es_Success st = (True \<in> set [True]) \<and> es_ResStatuses st = Some sts \<and> map rs_Success sts = [True] \<and>
    map rs_Identifier sts =
      map (\<lambda>p. pd_Namespace p @ ''/'' @ pd_NodeName p @ ''/'' @ pd_Name p) (filter (runnable (tools [pod_c])) [pod_c])"
    by (intro pod_delete_deletes_selected [OF _ sample_pkgs_contract _ _ _ selected_c])
      (use runnable_c in \<open>simp_all add: sample_spec_contract spec_c_def spec_x_def\<close>)
  then show ?thesis by (auto simp: runnable_c pod_c_sel)
qed

subsection \<open>The specification file (build/spec.go)\<close>

text \<open>
  The build writes the registered models of the three scopes to a file. Converting, merging and writing
  belong to the spec library; \<open>ord scope\<close> is the order in which the map of a scope is visited.
\<close>

definition scope_models :: "('e CommandSpec \<Rightarrow> string \<Rightarrow> 'm) \<Rightarrow> string \<Rightarrow> 'e Registry \<Rightarrow> string list \<Rightarrow> 'm list" where
  "scope_models convert scope reg names = map (\<lambda>n. convert (the (reg n)) scope) names"

definition getModels ::
  "('v world exec_fun CommandSpec \<Rightarrow> string \<Rightarrow> 'm) \<Rightarrow> ('m list \<Rightarrow> 'm) \<Rightarrow> (string \<Rightarrow> string list) \<Rightarrow>
     'v world env \<Rightarrow> config \<Rightarrow> (nat \<Rightarrow> nat) \<Rightarrow> 'v world net \<Rightarrow> 'v world exec_fun spec_pkgs \<Rightarrow> 'm" where
  "getModels convert merge ord N C sched H P =
     merge (scope_models convert ''node'' (node_NewResourceModelSpec N C sched P) (ord ''node'') @
            scope_models convert ''pod'' (pod_NewResourceModelSpec N C sched H P) (ord ''pod'') @
            scope_models convert ''container'' (container_NewResourceModelSpec N C sched P) (ord ''container''))"

text \<open>What the file describes is what the operator runs: the models of every scope, each once.\<close>

lemma spec_file_models:
  assumes "\<And>scope. distinct (ord scope) \<and> set (ord scope) = dom (registry_of N C sched H P scope)"
  shows "\<exists>ms. getModels convert merge ord N C sched H P = merge ms \<and>
    length ms = (\<Sum>s \<leftarrow> [''node'', ''pod'', ''container'']. card (dom (registry_of N C sched H P s))) \<and>
    set ms = {convert c s | c s n. registry_of N C sched H P s n = Some c}"
proof (intro exI conjI)
  let ?ms = "\<lambda>s. scope_models convert s (registry_of N C sched H P s) (ord s)"
  show "getModels convert merge ord N C sched H P = merge (?ms ''node'' @ ?ms ''pod'' @ ?ms ''container'')"
    by (simp add: getModels_def registry_of_def)
  have len: "length (?ms s) = card (dom (registry_of N C sched H P s))" for s
    using assms [of s] distinct_card [of "ord s"] by (simp add: scope_models_def)
  then show "length (?ms ''node'' @ ?ms ''pod'' @ ?ms ''container'') =
      (\<Sum>s \<leftarrow> [''node'', ''pod'', ''container'']. card (dom (registry_of N C sched H P s)))" by simp
  have sets: "set (?ms s) = {convert c s | c n. registry_of N C sched H P s n = Some c}" for s
    using assms [of s] by (auto simp: scope_models_def dom_def image_iff) force+
  have "registry_of N C sched H P s n = Some c \<Longrightarrow> s \<in> {''node'', ''pod'', ''container''}" for s n c
    by (auto simp: registry_of_def split: if_splits)
  then show "set (?ms ''node'' @ ?ms ''pod'' @ ?ms ''container'') =
      {convert c s | c s n. registry_of N C sched H P s n = Some c}"
    unfolding set_append sets by blast
qed

end
