(* ===== verification/Manager.thy ===== *)
theory Manager
  imports Cleanup Daemonset HookServer Registry
begin

section \<open>The start of the operator (cmd/manager/main.go and the initialisation of the packages)\<close>

text \<open>
  The settings are global variables. The initialisation of each package registers its flags, which stores
  their default values; the flags given on the command line are stored by pflag afterwards.
\<close>

record settings =
  se_Config :: config
  se_DaemonsetEnable :: bool
  se_RemoveBladeInterval :: string
  se_Webhook :: webhook
  se_WebhookPort :: int
  se_WebhookEnable :: bool
  se_LogLevel :: string
  se_MaxConcurrentReconciles :: int
  se_QPS :: rat

text \<open>The zero values, with the values of the linker; the name of the override flag is a constant of
  chaosblade-exec-cri.\<close>

definition linked_settings :: "string \<times> string \<Rightarrow> string \<Rightarrow> settings" where
  "linked_settings vp override =
     \<lparr>se_Config = \<lparr>cf_Version = fst vp, cf_Product = snd vp, cf_ToolVersion = [], cf_ImageRepository = [],
        cf_PullPolicy = [], cf_RegionId = [], cf_Environment = [], cf_DaemonsetPodNamespace = [],
        cf_DownloadUrl = [], cf_OverrideFlag = override\<rparr>,
      se_DaemonsetEnable = False, se_RemoveBladeInterval = [],
      se_Webhook = \<lparr>wh_FuseServerPort = 0, wh_SidecarImage = []\<rparr>, se_WebhookPort = 0, se_WebhookEnable = False,
      se_LogLevel = [], se_MaxConcurrentReconciles = 0, se_QPS = 0\<rparr>"

definition chaosblade_init :: "settings \<Rightarrow> settings" where
  "chaosblade_init S = S
     \<lparr>se_Config := (se_Config S)
        \<lparr>cf_ToolVersion := cf_Version (se_Config S), cf_ImageRepository := ''chaosbladeio/chaosblade-tool'',
         cf_PullPolicy := ''IfNotPresent'', cf_DownloadUrl := [], cf_DaemonsetPodNamespace := ''chaosblade''\<rparr>,
      se_DaemonsetEnable := False, se_RemoveBladeInterval := DefaultRemoveBladeInterval\<rparr>"

definition aliyun_init :: "settings \<Rightarrow> settings" where
  "aliyun_init S = S\<lparr>se_Config := (se_Config S)\<lparr>cf_RegionId := [], cf_Environment := []\<rparr>\<rparr>"

definition runtime_init :: "settings \<Rightarrow> settings" where
  "runtime_init S = S\<lparr>se_LogLevel := ''info'', se_MaxConcurrentReconciles := 20, se_QPS := 20\<rparr>"

definition webhook_init :: "settings \<Rightarrow> settings" where
  "webhook_init S = S\<lparr>se_Webhook := \<lparr>wh_FuseServerPort = 65534, wh_SidecarImage = []\<rparr>,
     se_WebhookPort := 9443, se_WebhookEnable := False\<rparr>"

text \<open>
  The packages are initialised after those they import; the linker gives \<open>Version\<close> and \<open>Product\<close>, or both in
  \<open>CombinedVersion\<close>.
\<close>

definition default_settings :: "string \<Rightarrow> string \<times> string \<Rightarrow> string \<Rightarrow> settings" where
  "default_settings CombinedVersion vp override =
     webhook_init (runtime_init (aliyun_init (chaosblade_init
       (linked_settings (version_init CombinedVersion vp) override))))"

subsection \<open>The namespaces of the cache (createManager)\<close>

text \<open>The keys of the map of namespaces, without their duplicates.\<close>

definition cache_namespaces :: "string \<Rightarrow> string list" where
  "cache_namespaces watchNamespace =
     (if CHR '','' \<in> set watchNamespace then remdups (go_split CHR '','' watchNamespace) else [watchNamespace])"

subsection \<open>main\<close>

text \<open>
  The calls that can fail, in their order, each with the text of the fatal exit its error leads to. The
  answers are outside the program.
\<close>

datatype boot_step =
    GetConfig | Become string | WatchNamespace | NewManager "string list" rat | AddToScheme
  | NewController string int | WatchBlades | AddRunnable | AddServer int | RegisterHandler string | StartManager

fun boot :: "(boot_step \<Rightarrow> GoErr option) \<Rightarrow> (boot_step \<times> string) list \<Rightarrow> boot_step list \<times> string option" where
  "boot answer [] = ([], None)"
| "boot answer ((s, msg) # steps) =
     (case answer s of
        Some err \<Rightarrow> ([s], Some msg)
      | None \<Rightarrow> (case boot answer steps of (trace, exit) \<Rightarrow> (s # trace, exit)))"

definition createManager :: "settings \<Rightarrow> string \<Rightarrow> boot_step list" where
  "createManager S watchNamespace = [WatchNamespace, NewManager (cache_namespaces watchNamespace) (se_QPS S)]"

text \<open>\<open>controller.AddToManager\<close> runs the one registered function, \<open>Add\<close> of the blade controller.\<close>

definition add_controller :: "settings \<Rightarrow> boot_step list" where
  "add_controller S = [NewController ''chaosblade-controller'' (se_MaxConcurrentReconciles S), WatchBlades]"

definition Add :: "settings \<Rightarrow> boot_step list" where
  "Add S = add_controller S @ [AddRunnable]"

definition addWebhook :: "settings \<Rightarrow> boot_step list" where
  "addWebhook S = [AddServer (se_WebhookPort S), RegisterHandler ''/mutating-pods'']"

definition addComponentsToManager :: "settings \<Rightarrow> (boot_step \<times> string) list" where
  "addComponentsToManager S =
     [(AddToScheme, ''Add all resources to scheme error'')] @
     map (\<lambda>s. (s, ''Add all controllers to manager error'')) (Add S) @
     (if se_WebhookEnable S then map (\<lambda>s. (s, ''Add webhook to manager error'')) (addWebhook S) else [])"

definition main_steps :: "settings \<Rightarrow> string \<Rightarrow> (boot_step \<times> string) list" where
  "main_steps S watchNamespace =
     [(GetConfig, ''Get apiserver config error''), (Become ''chaosblade-operator-lock'', ''Become leader error'')] @
     map (\<lambda>s. (s, ''Create operator manager error'')) (createManager S watchNamespace) @
     addComponentsToManager S @ [(StartManager, ''Manager exited non-zero'')]"

definition main :: "settings \<Rightarrow> bool \<Rightarrow> string \<Rightarrow> (boot_step \<Rightarrow> GoErr option) \<Rightarrow> boot_step list \<times> string option" where
  "main S showVersion watchNamespace answer =
     (if showVersion then ([], None) else boot answer (main_steps S watchNamespace))"

subsection \<open>Facts\<close>

text \<open>A step is taken only when all before it succeeded.\<close>

lemma boot_prefix:
  assumes "fst (boot answer steps) = us @ s # vs"
  shows "\<forall>u \<in> set us. answer u = None" "\<exists>ws. map fst steps = us @ s # ws"
  using assms
proof (induction steps arbitrary: us)
  case (Cons x steps)
  obtain a msg where x: "x = (a, msg)" by (cases x)
  { case 1
    show ?case
    proof (cases us)
      case (Cons b bs)
      with 1 x have "answer a = None" "fst (boot answer steps) = bs @ s # vs" "b = a"
        by (auto split: option.splits prod.splits)
      with Cons.IH(1) [of bs] Cons show ?thesis by auto
    qed simp }
  { case 2
    show ?case
    proof (cases us)
      case Nil
      with 2 x show ?thesis by (auto split: option.splits prod.splits)
    next
      case (Cons b bs)
      with 2 x have "fst (boot answer steps) = bs @ s # vs" "b = a"
        by (auto split: option.splits prod.splits)
      with Cons.IH(2) [of bs] Cons x show ?thesis by auto
    qed }
qed simp_all

lemma boot_all:
  assumes "map fst steps = us @ [s]" "\<forall>u \<in> set us. answer u = None"
  shows "fst (boot answer steps) = us @ [s]"
  using assms
proof (induction steps arbitrary: us)
  case (Cons x steps)
  obtain a msg where x: "x = (a, msg)" by (cases x)
  show ?case
  proof (cases us)
    case Nil
    with Cons.prems x show ?thesis by (auto split: option.splits)
  next
    case (Cons b bs)
    with Cons.prems x Cons.IH [of bs] show ?thesis by (auto split: prod.splits)
  qed
qed simp

definition before_start :: "settings \<Rightarrow> string \<Rightarrow> boot_step list" where
  "before_start S ns =
     [GetConfig, Become ''chaosblade-operator-lock''] @ createManager S ns @ map fst (addComponentsToManager S)"

lemma before_start_steps:
  "before_start S ns = [GetConfig, Become ''chaosblade-operator-lock''] @ createManager S ns @ [AddToScheme] @
     Add S @ (if se_WebhookEnable S then addWebhook S else [])"
  by (simp add: before_start_def addComponentsToManager_def comp_def)

text \<open>The branch on the comma makes no difference but for the duplicates.\<close>

lemma cache_namespaces_set: "set (cache_namespaces s) = set (go_split CHR '','' s)"
  by (simp add: cache_namespaces_def)

text \<open>The sidecar is told the port its process listens on when nothing is told.\<close>

lemma default_ports: "ff_address fuse_defaults = '':'' @ show_int (wh_FuseServerPort (se_Webhook (default_settings c vp f)))"
  by (simp add: fuse_defaults_def default_settings_def webhook_init_def show_int_def show_nat.simps) code_simp

text \<open>With the default settings the tool has the version of the operator and a known image, for the two products.\<close>

lemma default_image:
  assumes "CHR '','' \<notin> set v"
  shows "image_repo (se_Config (default_settings (v @ '','' @ Community) vp f)) = Some ''chaosbladeio/chaosblade-tool''"
    "cf_ToolVersion (se_Config (default_settings (v @ '','' @ Community) vp f)) = v"
proof -
  have "version_init (v @ '','' @ Community) vp = (v, Community)"
    using assms by (intro version_init_both) (simp_all add: Community_def)
  then show "image_repo (se_Config (default_settings (v @ '','' @ Community) vp f)) = Some ''chaosbladeio/chaosblade-tool''"
    "cf_ToolVersion (se_Config (default_settings (v @ '','' @ Community) vp f)) = v"
    by (simp_all add: default_settings_def webhook_init_def runtime_init_def aliyun_init_def chaosblade_init_def
        linked_settings_def image_repo_products)
qed

subsection \<open>Properties\<close>

text \<open>The manager is started last: only when the operator has become the leader and every component was
  added without an error, and it serves the webhook exactly when that is enabled.\<close>

theorem manager_started_last:
  assumes "StartManager \<in> set (fst (main S showVersion ns answer))"
  shows "\<forall>s \<in> set (before_start S ns). answer s = None"
    "fst (main S showVersion ns answer) = before_start S ns @ [StartManager]"
    "RegisterHandler ''/mutating-pods'' \<in> set (fst (main S showVersion ns answer)) \<longleftrightarrow> se_WebhookEnable S"
proof -
  have b: "fst (main S showVersion ns answer) = fst (boot answer (main_steps S ns))"
    using assms by (cases showVersion) (simp_all add: main_def)
  from assms obtain us vs where t: "fst (boot answer (main_steps S ns)) = us @ StartManager # vs"
    unfolding b by (meson split_list)
  note p = boot_prefix [OF t]
  have steps: "map fst (main_steps S ns) = before_start S ns @ [StartManager]" "StartManager \<notin> set (before_start S ns)"
    by (auto simp: main_steps_def before_start_def addComponentsToManager_def createManager_def Add_def add_controller_def
        addWebhook_def)
  moreover from p(2) steps(1) obtain ws where "before_start S ns @ StartManager # [] = us @ StartManager # ws" by auto
  ultimately have us: "us = before_start S ns" using append_Cons_eq_iff [of StartManager "before_start S ns" "[]" us ws] by simp
  then show ok: "\<forall>s \<in> set (before_start S ns). answer s = None" using p(1) by simp
  show all: "fst (main S showVersion ns answer) = before_start S ns @ [StartManager]"
    using boot_all [of "main_steps S ns" "before_start S ns" StartManager answer] ok steps(1) unfolding b by blast
  show "RegisterHandler ''/mutating-pods'' \<in> set (fst (main S showVersion ns answer)) \<longleftrightarrow> se_WebhookEnable S"
    unfolding all before_start_steps by (simp add: createManager_def Add_def add_controller_def addWebhook_def)
qed

end
