(* ===== verification/Tar.thy ===== *)
theory Tar
  imports Deploy
begin

section \<open>The archive of the copy mode (makeTar and recursiveTar of exec/model/copy.go)\<close>

text \<open>
  A deployment in copy mode streams a tar archive of a file or directory of the operator image to the
  container. The file system of the image is outside the program: it is a record of answers, with the
  operations of the standard library the code calls. \<open>Lstat\<close> does not follow links; the size is the one
  the header of the entry takes (zero for what is not a regular file).
\<close>

datatype FileKind = KDir | KSymlink | KSocket | KFile

record FileInfo =
  fi_Kind :: FileKind
  fi_Size :: nat

record file_system =
  fs_Glob :: "string \<Rightarrow> GoErr + string list"
  fs_Lstat :: "string \<Rightarrow> GoErr + FileInfo"
  fs_ReadDir :: "string \<Rightarrow> GoErr + string list"
  fs_Readlink :: "string \<Rightarrow> GoErr + string"
  fs_Open :: "string \<Rightarrow> GoErr + string"

subsection \<open>The writer of archive/tar\<close>

text \<open>
  The entries written, and how many bytes the last one still misses: the next header is refused until they
  are there, and more bytes than announced are refused as well.
\<close>

datatype entry = EFile string string | ELink string string | EDir string

record tar_writer =
  tw_Entries :: "entry list"
  tw_Missing :: nat

type_synonym tar_result = "GoErr option \<times> tar_writer"

definition WriteHeader :: "entry \<Rightarrow> nat \<Rightarrow> tar_writer \<Rightarrow> tar_result" where
  "WriteHeader e sz tw =
     (if tw_Missing tw > 0 then (Some (ErrNew ''archive/tar: missed writing bytes''), tw)
      else (None, tw\<lparr>tw_Entries := tw_Entries tw @ [e], tw_Missing := sz\<rparr>))"

fun add_content :: "string \<Rightarrow> entry \<Rightarrow> entry" where
  "add_content s (EFile n c) = EFile n (c @ s)"
| "add_content s e = e"

definition Copy :: "string \<Rightarrow> tar_writer \<Rightarrow> tar_result" where
  "Copy content tw =
     (let n = tw_Missing tw;
          es = tw_Entries tw
      in (if length content > n then Some (ErrNew ''archive/tar: write too long'') else None,
          tw\<lparr>tw_Entries := butlast es @ [add_content (take n content) (last es)],
             tw_Missing := n - length content\<rparr>))"

subsection \<open>recursiveTar\<close>

text \<open>
  The recursion goes down the file system and need not end when that has no bottom, so the depth is bounded
  by an argument, and \<open>None\<close> says that it was reached. \<open>recur\<close> is the call for the files of a directory;
  an error ends the walk.
\<close>

type_synonym walk = "string \<Rightarrow> string \<Rightarrow> string \<Rightarrow> string \<Rightarrow> tar_writer \<Rightarrow> tar_result option"

fun tar_files ::
  "(string \<Rightarrow> string \<Rightarrow> tar_writer \<Rightarrow> tar_result option) \<Rightarrow> string \<Rightarrow> string \<Rightarrow> string list \<Rightarrow> tar_writer \<Rightarrow>
     tar_result option" where
  "tar_files recur srcFile destFile [] tw = Some (None, tw)"
| "tar_files recur srcFile destFile (f # fs) tw =
     (case recur (path_join [srcFile, f]) (path_join [destFile, f]) tw of
        None \<Rightarrow> None
      | Some (Some err, tw) \<Rightarrow> Some (Some err, tw)
      | Some (None, tw) \<Rightarrow> tar_files recur srcFile destFile fs tw)"

definition tar_dir ::
  "file_system \<Rightarrow> (string \<Rightarrow> string \<Rightarrow> tar_writer \<Rightarrow> tar_result option) \<Rightarrow> string \<Rightarrow> string \<Rightarrow> string \<Rightarrow>
     tar_writer \<Rightarrow> tar_result option" where
  "tar_dir F recur fpath srcFile destFile tw =
     (case fs_ReadDir F fpath of
        Inl err \<Rightarrow> Some (Some err, tw)
      | Inr files \<Rightarrow>
          (case (if files = [] then WriteHeader (EDir destFile) 0 tw else (None, tw)) of
             (Some err, tw) \<Rightarrow> Some (Some err, tw)
           | (None, tw) \<Rightarrow> tar_files recur srcFile destFile files tw))"

definition tar_link :: "file_system \<Rightarrow> string \<Rightarrow> string \<Rightarrow> tar_writer \<Rightarrow> tar_result" where
  "tar_link F fpath destFile tw =
     (case fs_Readlink F fpath of
        Inl err \<Rightarrow> (Some err, tw)
      | Inr target \<Rightarrow> WriteHeader (ELink destFile target) 0 tw)"

definition tar_file :: "file_system \<Rightarrow> string \<Rightarrow> FileInfo \<Rightarrow> string \<Rightarrow> tar_writer \<Rightarrow> tar_result" where
  "tar_file F fpath stat destFile tw =
     (if fi_Kind stat = KSocket then (Some (ErrNew ''archive/tar: sockets not supported''), tw)
      else (case WriteHeader (EFile destFile []) (fi_Size stat) tw of
          (Some err, tw) \<Rightarrow> (Some err, tw)
        | (None, tw) \<Rightarrow>
            (case fs_Open F fpath of
               Inl err \<Rightarrow> (Some err, tw)
             | Inr content \<Rightarrow> Copy content tw)))"

text \<open>The loop over the matches of the pattern: a directory and a file end the function, a link does not.\<close>

fun tar_paths ::
  "file_system \<Rightarrow> (string \<Rightarrow> string \<Rightarrow> tar_writer \<Rightarrow> tar_result option) \<Rightarrow> string \<Rightarrow> string \<Rightarrow> string list \<Rightarrow>
     tar_writer \<Rightarrow> tar_result option" where
  "tar_paths F recur srcFile destFile [] tw = Some (None, tw)"
| "tar_paths F recur srcFile destFile (fpath # fpaths) tw =
     (case fs_Lstat F fpath of
        Inl err \<Rightarrow> Some (Some err, tw)
      | Inr stat \<Rightarrow>
          (case fi_Kind stat of
             KDir \<Rightarrow> tar_dir F recur fpath srcFile destFile tw
           | KSymlink \<Rightarrow>
               (case tar_link F fpath destFile tw of
                  (Some err, tw) \<Rightarrow> Some (Some err, tw)
                | (None, tw) \<Rightarrow> tar_paths F recur srcFile destFile fpaths tw)
           | _ \<Rightarrow> Some (tar_file F fpath stat destFile tw)))"

fun recursiveTar :: "file_system \<Rightarrow> nat \<Rightarrow> walk" where
  "recursiveTar F 0 srcBase srcFile destBase destFile tw = None"
| "recursiveTar F (Suc depth) srcBase srcFile destBase destFile tw =
     (case fs_Glob F (path_join [srcBase, srcFile]) of
        Inl err \<Rightarrow> Some (Some err, tw)
      | Inr matchedPaths \<Rightarrow>
          tar_paths F (\<lambda>src dest. recursiveTar F depth srcBase src destBase dest) srcFile destFile matchedPaths tw)"

text \<open>The writer is closed whatever happened, and an error of the closing is ignored.\<close>

definition makeTar :: "file_system \<Rightarrow> nat \<Rightarrow> string \<Rightarrow> string \<Rightarrow> (GoErr option \<times> entry list) option" where
  "makeTar F depth srcPath destPath =
     (let srcPath = path_clean srcPath; destPath = path_clean destPath
      in case recursiveTar F depth (path_dir srcPath) (path_base srcPath) (path_dir destPath) (path_base destPath)
                \<lparr>tw_Entries = [], tw_Missing = 0\<rparr> of
           None \<Rightarrow> None
         | Some (err, tw) \<Rightarrow> Some (err, tw_Entries tw))"

subsection \<open>File trees\<close>

text \<open>A finite tree of files, links and directories, whose entries have different plain names.\<close>

datatype ftree = TFile string | TLink string | TDir forest
  and forest = FNil | FCons string ftree forest

fun names :: "forest \<Rightarrow> string list" where
  "names FNil = []"
| "names (FCons n t f) = n # names f"

fun tree_ok :: "ftree \<Rightarrow> bool" and forest_ok :: "forest \<Rightarrow> bool" where
  "tree_ok (TDir f) \<longleftrightarrow> forest_ok f"
| "tree_ok _ \<longleftrightarrow> True"
| "forest_ok FNil \<longleftrightarrow> True"
| "forest_ok (FCons n t f) \<longleftrightarrow> plain_elem n \<and> n \<notin> set (names f) \<and> tree_ok t \<and> forest_ok f"

fun depth_of :: "ftree \<Rightarrow> nat" and depth_of_forest :: "forest \<Rightarrow> nat" where
  "depth_of (TDir f) = Suc (depth_of_forest f)"
| "depth_of _ = 1"
| "depth_of_forest FNil = 0"
| "depth_of_forest (FCons n t f) = max (depth_of t) (depth_of_forest f)"

text \<open>What is at a place of a tree: the content of a file, the target of a link, or an empty directory.\<close>

datatype leaf = LFile string | LLink string | LEmpty

fun leaf_at :: "ftree \<Rightarrow> string list \<Rightarrow> leaf option"
  and leaf_in :: "forest \<Rightarrow> string \<Rightarrow> string list \<Rightarrow> leaf option" where
  "leaf_at (TFile c) ns = (if ns = [] then Some (LFile c) else None)"
| "leaf_at (TLink t) ns = (if ns = [] then Some (LLink t) else None)"
| "leaf_at (TDir f) [] = (if f = FNil then Some LEmpty else None)"
| "leaf_at (TDir f) (n # ns) = leaf_in f n ns"
| "leaf_in FNil n ns = None"
| "leaf_in (FCons m t f) n ns = (if m = n then leaf_at t ns else leaf_in f n ns)"

text \<open>A file system that serves a tree at the rooted path of the given elements.\<close>

fun serves :: "file_system \<Rightarrow> string list \<Rightarrow> ftree \<Rightarrow> bool"
  and serves_all :: "file_system \<Rightarrow> string list \<Rightarrow> forest \<Rightarrow> bool" where
  "serves F es (TFile c) \<longleftrightarrow> fs_Glob F (abs_path es) = Inr [abs_path es] \<and>
     fs_Lstat F (abs_path es) = Inr \<lparr>fi_Kind = KFile, fi_Size = length c\<rparr> \<and> fs_Open F (abs_path es) = Inr c"
| "serves F es (TLink t) \<longleftrightarrow> fs_Glob F (abs_path es) = Inr [abs_path es] \<and>
     (\<exists>n. fs_Lstat F (abs_path es) = Inr \<lparr>fi_Kind = KSymlink, fi_Size = n\<rparr>) \<and> fs_Readlink F (abs_path es) = Inr t"
| "serves F es (TDir f) \<longleftrightarrow> fs_Glob F (abs_path es) = Inr [abs_path es] \<and>
     (\<exists>n. fs_Lstat F (abs_path es) = Inr \<lparr>fi_Kind = KDir, fi_Size = n\<rparr>) \<and>
     fs_ReadDir F (abs_path es) = Inr (names f) \<and> serves_all F es f"
| "serves_all F es FNil \<longleftrightarrow> True"
| "serves_all F es (FCons n t f) \<longleftrightarrow> serves F (es @ [n]) t \<and> serves_all F es f"

text \<open>What the archive should hold: one entry per leaf, in the order of the directories.\<close>

fun entries :: "string list \<Rightarrow> ftree \<Rightarrow> entry list" and entries_of :: "string list \<Rightarrow> forest \<Rightarrow> entry list" where
  "entries d (TFile c) = [EFile (go_join ''/'' d) c]"
| "entries d (TLink t) = [ELink (go_join ''/'' d) t]"
| "entries d (TDir f) = (if f = FNil then [EDir (go_join ''/'' d)] else entries_of d f)"
| "entries_of d FNil = []"
| "entries_of d (FCons n t f) = entries (d @ [n]) t @ entries_of d f"

text \<open>Unpacking: an entry creates its leaf at its name, a later one replaces an earlier one.\<close>

fun unpacked :: "entry \<Rightarrow> string list \<times> leaf" where
  "unpacked (EFile n c) = (go_split CHR ''/'' n, LFile c)"
| "unpacked (ELink n t) = (go_split CHR ''/'' n, LLink t)"
| "unpacked (EDir n) = (go_split CHR ''/'' n, LEmpty)"

definition unpack :: "entry list \<Rightarrow> string list \<Rightarrow> leaf option" where
  "unpack es = map_of (map unpacked (rev es))"

subsection \<open>The walk over a served tree\<close>

lemma write_idle:
  "tw_Missing tw = 0 \<Longrightarrow> WriteHeader e 0 tw = (None, tw\<lparr>tw_Entries := tw_Entries tw @ [e]\<rparr>)"
  by (cases tw) (simp add: WriteHeader_def)

lemma write_file:
  assumes "tw_Missing tw = 0" "fs_Open F p = Inr c"
  shows "tar_file F p \<lparr>fi_Kind = KFile, fi_Size = length c\<rparr> d tw = (None, tw\<lparr>tw_Entries := tw_Entries tw @ [EFile d c]\<rparr>)"
  using assms by (cases tw) (simp add: tar_file_def WriteHeader_def Copy_def)

lemma join_path:
  assumes "list_all plain_elem sb" "sb \<noteq> []" "list_all plain_elem rel" "rel \<noteq> []"
  shows "path_join [abs_path sb, go_join ''/'' rel] = abs_path (sb @ rel)"
  using assms by (cases rel) (auto intro: path_join_subpath)

lemma walk_serves:
  assumes "list_all plain_elem sb" "sb \<noteq> []"
  shows "serves F (sb @ rel) t \<Longrightarrow> tree_ok t \<Longrightarrow> list_all plain_elem rel \<Longrightarrow> rel \<noteq> [] \<Longrightarrow> list_all plain_elem d \<Longrightarrow>
      d \<noteq> [] \<Longrightarrow> depth_of t \<le> k \<Longrightarrow> tw_Missing tw = 0 \<Longrightarrow>
      recursiveTar F k (abs_path sb) (go_join ''/'' rel) db (go_join ''/'' d) tw =
        Some (None, tw\<lparr>tw_Entries := tw_Entries tw @ entries d t\<rparr>)"
    and "serves_all F (sb @ rel) f \<Longrightarrow> forest_ok f \<Longrightarrow> list_all plain_elem rel \<Longrightarrow> rel \<noteq> [] \<Longrightarrow> list_all plain_elem d \<Longrightarrow>
      d \<noteq> [] \<Longrightarrow> depth_of_forest f \<le> k \<Longrightarrow> tw_Missing tw = 0 \<Longrightarrow>
      tar_files (\<lambda>src dest. recursiveTar F k (abs_path sb) src db dest) (go_join ''/'' rel) (go_join ''/'' d) (names f) tw =
        Some (None, tw\<lparr>tw_Entries := tw_Entries tw @ entries_of d f\<rparr>)"
proof (induction t and f arbitrary: rel d k tw and rel d k tw)
  case (TFile c)
  then obtain k' where k: "k = Suc k'" by (cases k) auto
  from TFile k show ?case by (simp add: join_path [OF assms] write_file)
next
  case (TLink l)
  then obtain k' where k: "k = Suc k'" by (cases k) auto
  from TLink k show ?case by (auto simp: join_path [OF assms] tar_link_def write_idle)
next
  case (TDir f)
  then obtain k' where k: "k = Suc k'" "depth_of_forest f \<le> k'" by (cases k) auto
  show ?case
  proof (cases "f = FNil")
    case True
    with TDir.prems k show ?thesis by (auto simp: join_path [OF assms] tar_dir_def write_idle)
  next
    case False
    then have "names f \<noteq> []" by (cases f) simp_all
    with TDir.prems k False show ?thesis by (auto simp: join_path [OF assms] tar_dir_def TDir.IH)
  qed
next
  case FNil
  then show ?case by simp
next
  case (FCons n t f)
  have n: "plain_elem n" using FCons.prems by simp
  have "recursiveTar F k (abs_path sb) (go_join ''/'' (rel @ [n])) db (go_join ''/'' (d @ [n])) tw =
      Some (None, tw\<lparr>tw_Entries := tw_Entries tw @ entries (d @ [n]) t\<rparr>)"
    using FCons.prems n by (intro FCons.IH(1)) simp_all
  with FCons.prems n FCons.IH(2) show ?case by (simp add: path_join_rel)
qed

subsection \<open>Unpacking\<close>

lemma leaf_in_names: "n \<notin> set (names f) \<Longrightarrow> leaf_in f n ns = None"
  by (induction f rule: names.induct) auto

fun forest_at :: "forest \<Rightarrow> string list \<Rightarrow> leaf option" where
  "forest_at f [] = None"
| "forest_at f (n # ns) = leaf_in f n ns"

definition under :: "string list \<Rightarrow> (string list \<Rightarrow> leaf option) \<Rightarrow> string list \<Rightarrow> leaf option" where
  "under d g p = (if take (length d) p = d then g (drop (length d) p) else None)"

lemma under_append [simp]: "under d g (d @ ns) = g ns"
  by (simp add: under_def)

lemma under_snoc:
  "under (d @ [n]) g p = under d (\<lambda>q. case q of [] \<Rightarrow> None | m # ns \<Rightarrow> if m = n then g ns else None) p"
proof (cases "\<exists>q. p = d @ q")
  case True
  then obtain q where "p = d @ q" by blast
  then show ?thesis by (cases q) (auto simp: under_def)
next
  case False
  have "take (length d) p \<noteq> d" using False by (metis append_take_drop_id)
  moreover have "take (Suc (length d)) p \<noteq> d @ [n]" using False by (metis append.assoc append_take_drop_id)
  ultimately show ?thesis by (simp add: under_def)
qed

lemma under_single: "under d (\<lambda>q. if q = [] then Some x else None) p = (if p = d then Some x else None)"
  unfolding under_def by (metis append.right_neutral append_take_drop_id drop_all order_refl take_all)

lemma unpacked_entries:
  shows "tree_ok t \<Longrightarrow> list_all plain_elem d \<Longrightarrow> d \<noteq> [] \<Longrightarrow> map_of (map unpacked (rev (entries d t))) p = under d (leaf_at t) p"
    and "forest_ok f \<Longrightarrow> list_all plain_elem d \<Longrightarrow> d \<noteq> [] \<Longrightarrow> map_of (map unpacked (rev (entries_of d f))) p =
      under d (forest_at f) p"
proof (induction t and f arbitrary: d and d)
  case (TFile c)
  then show ?case using under_single [of d "LFile c" p] by (simp add: go_split_join_slash)
next
  case (TLink l)
  then show ?case using under_single [of d "LLink l" p] by (simp add: go_split_join_slash)
next
  case (TDir f)
  show ?case
  proof (cases "f = FNil")
    case True
    have "leaf_at (TDir FNil) = (\<lambda>q. if q = [] then Some LEmpty else None)"
    proof
      fix q show "leaf_at (TDir FNil) q = (if q = [] then Some LEmpty else None)" by (cases q) simp_all
    qed
    with True TDir.prems show ?thesis using under_single [of d LEmpty p] by (simp add: go_split_join_slash)
  next
    case False
    have "leaf_at (TDir f) = forest_at f"
    proof
      fix q show "leaf_at (TDir f) q = forest_at f q"
        using False by (cases q) simp_all
    qed
    with False TDir show ?thesis by simp
  qed
next
  case FNil
  then show ?case by (cases "drop (length d) p") (simp_all add: under_def)
next
  case (FCons n t f)
  have "map_of (map unpacked (rev (entries_of d (FCons n t f)))) p =
      (map_of (map unpacked (rev (entries (d @ [n]) t))) ++ map_of (map unpacked (rev (entries_of d f)))) p"
    by (simp add: map_of_append)
  also have "\<dots> = (case under d (forest_at f) p of
      None \<Rightarrow> under (d @ [n]) (leaf_at t) p | Some v \<Rightarrow> Some v)"
    using FCons.prems FCons.IH(1) [of "d @ [n]"] FCons.IH(2) [of d] by (simp add: map_add_def cong: option.case_cong)
  also have "\<dots> = under d (forest_at (FCons n t f)) p"
    unfolding under_snoc using FCons.prems(1) leaf_in_names [of n f]
    by (cases "drop (length d) p") (auto simp: under_def split: option.split)
  finally show ?case .
qed

subsection \<open>Properties\<close>

lemma makeTar_serves:
  assumes "list_all plain_elem (sb @ [sf])" "sb \<noteq> []" "list_all plain_elem (db @ [df])" "db \<noteq> []"
    and "tree_ok t" "serves F (sb @ [sf]) t" "depth_of t \<le> k"
  shows "makeTar F k (abs_path (sb @ [sf])) (abs_path (db @ [df])) = Some (None, entries [df] t)"
proof -
  have "recursiveTar F k (abs_path sb) (go_join ''/'' [sf]) (abs_path db) (go_join ''/'' [df])
      \<lparr>tw_Entries = [], tw_Missing = 0\<rparr> =
    Some (None, \<lparr>tw_Entries = [], tw_Missing = 0\<rparr>\<lparr>tw_Entries := [] @ entries [df] t\<rparr>)"
    using walk_serves(1) [of sb F "[sf]" t "[df]" k "\<lparr>tw_Entries = [], tw_Missing = 0\<rparr>" "abs_path db"] assms by simp
  then show ?thesis
    using assms by (simp add: makeTar_def Let_def path_clean_abs path_dir_abs path_base_abs)
qed

text \<open>
  What theory \<open>Deploy\<close> assumes of the sources of the image: the archive of a served tree is not empty, and all
  its entries are at or below the last element of the destination.
\<close>

lemma entries_ne:
  shows "entries d t \<noteq> []" and "f \<noteq> FNil \<Longrightarrow> entries_of d f \<noteq> []"
  by (induction t and f arbitrary: d and d) auto

lemma entries_below:
  shows "list_all plain_elem d \<Longrightarrow> d \<noteq> [] \<Longrightarrow> tree_ok t \<Longrightarrow> e \<in> set (entries d t) \<Longrightarrow> \<exists>ns. fst (unpacked e) = d @ ns"
    and "list_all plain_elem d \<Longrightarrow> d \<noteq> [] \<Longrightarrow> forest_ok f \<Longrightarrow> e \<in> set (entries_of d f) \<Longrightarrow> \<exists>ns. fst (unpacked e) = d @ ns"
proof (induction t and f arbitrary: d and d)
  case (FCons n t f)
  then consider "e \<in> set (entries (d @ [n]) t)" | "e \<in> set (entries_of d f)" by auto
  then show ?case
  proof cases
    case 1
    with FCons.IH(1) [of "d @ [n]"] FCons.prems show ?thesis by auto
  next
    case 2
    with FCons show ?thesis by auto
  qed
qed (auto simp: go_split_join_slash split: if_splits)

lemma archive_in_place:
  assumes "list_all plain_elem (sb @ [sf])" "sb \<noteq> []" "list_all plain_elem (db @ [df])" "db \<noteq> []"
    and "tree_ok t" "serves F (sb @ [sf]) t" "depth_of t \<le> k"
  shows "\<exists>es. makeTar F k (abs_path (sb @ [sf])) (abs_path (db @ [df])) = Some (None, es) \<and> es \<noteq> [] \<and>
    (\<forall>e \<in> set es. \<exists>ns. fst (unpacked e) = df # ns)"
  using makeTar_serves [OF assms] entries_ne(1) [of "[df]" t] entries_below(1) [of "[df]" t] assms(3,5) by auto

text \<open>C19. What is copied arrives: for a finite tree under a rooted path, and any bound on the depth that is
  not below the one of the tree, the archive is made without an error, and unpacking it gives every file with
  its content, every link with its target and every empty directory at the same place under the destination,
  and nothing else.\<close>

theorem archive_roundtrip:
  assumes "list_all plain_elem (sb @ [sf])" "sb \<noteq> []" "list_all plain_elem (db @ [df])" "db \<noteq> []"
    and "tree_ok t" "serves F (sb @ [sf]) t" "depth_of t \<le> k"
  shows "\<exists>es. makeTar F k (abs_path (sb @ [sf])) (abs_path (db @ [df])) = Some (None, es) \<and>
    (\<forall>ns. unpack es (df # ns) = leaf_at t ns) \<and> (\<forall>n ns. n \<noteq> df \<longrightarrow> unpack es (n # ns) = None)"
proof (intro exI conjI allI impI)
  show "makeTar F k (abs_path (sb @ [sf])) (abs_path (db @ [df])) = Some (None, entries [df] t)"
    by (rule makeTar_serves [OF assms])
  have u: "unpack (entries [df] t) p = under [df] (leaf_at t) p" for p
    unfolding unpack_def using assms(3,5) by (intro unpacked_entries(1)) simp_all
  show "unpack (entries [df] t) (df # ns) = leaf_at t ns" for ns
    unfolding u by (simp add: under_def)
  show "unpack (entries [df] t) (n # ns) = None" if "n \<noteq> df" for n ns
    unfolding u using that by (simp add: under_def)
qed

text \<open>A source that does not exist is no error: the archive is empty, and an unpacked empty archive is a
  success of the copy.\<close>

theorem missing_source_no_error:
  assumes "fs_Glob F (path_join [path_dir (path_clean src), path_base (path_clean src)]) = Inr []"
  shows "makeTar F (Suc k) src dest = Some (None, [])"
  using assms by (simp add: makeTar_def Let_def)

subsection \<open>Witnesses\<close>

definition lib_tree :: ftree where
  "lib_tree = TDir (FCons ''a'' (TFile ''x'') (FCons ''e'' (TDir FNil) FNil))"

definition lib_fs :: file_system where
  "lib_fs = \<lparr>fs_Glob = (\<lambda>p. Inr [p]),
     fs_Lstat = (\<lambda>p. Inr (if p = ''/opt/lib/a'' then \<lparr>fi_Kind = KFile, fi_Size = 1\<rparr> else \<lparr>fi_Kind = KDir, fi_Size = 0\<rparr>)),
     fs_ReadDir = (\<lambda>p. Inr (if p = ''/opt/lib'' then [''a'', ''e''] else [])),
     fs_Readlink = (\<lambda>p. Inl (ErrNew ''not a link'')), fs_Open = (\<lambda>p. Inr ''x'')\<rparr>"

lemma archive_roundtrip_witness:
  "\<exists>es. makeTar lib_fs 5 ''/opt/lib'' ''/tmp/lib'' = Some (None, es) \<and>
    unpack es [''lib'', ''a''] = Some (LFile ''x'') \<and> unpack es [''lib'', ''e''] = Some LEmpty"
proof -
  have "serves lib_fs [''opt'', ''lib''] lib_tree"
    by (simp add: lib_fs_def lib_tree_def abs_path_def)
  then have "\<exists>es. makeTar lib_fs 5 (abs_path ([''opt''] @ [''lib''])) (abs_path ([''tmp''] @ [''lib''])) = Some (None, es) \<and>
    (\<forall>ns. unpack es (''lib'' # ns) = leaf_at lib_tree ns) \<and> (\<forall>n ns. n \<noteq> ''lib'' \<longrightarrow> unpack es (n # ns) = None)"
    by (intro archive_roundtrip) (simp_all add: lib_tree_def plain_elem_def)
  then show ?thesis by (auto simp: abs_path_def lib_tree_def)
qed

definition no_fs :: file_system where
  "no_fs = lib_fs\<lparr>fs_Glob := (\<lambda>p. Inr [])\<rparr>"

lemma missing_source_no_error_witness: "makeTar no_fs (Suc 4) ''/opt/lib'' ''/tmp/lib'' = Some (None, [])"
  by (rule missing_source_no_error) (simp add: no_fs_def)

end
