(* ===== verification/Watcher.thy ===== *)
theory Watcher
  imports Lifecycle Deploy Executor "HOL-Library.Word"
begin

section \<open>The watcher of a timeout (checkExperimentStatus of exec/model/executor.go)\<close>

text \<open>
  An experiment with a timeout ends by itself in the blade tool. After the time has passed a goroutine asks
  the tools once a second, for at most thirty seconds; when all say that the experiment is destroyed, it
  marks the blade as Destroyed and, at a later tick, deletes it.
\<close>

subsection \<open>The time to sleep\<close>

text \<open>\<open>strconv.ParseUint(s, 10, 64)\<close>: digits only, and a value below 2 to the 64th.\<close>

definition parse_uint :: "string \<Rightarrow> nat option" where
  "parse_uint s =
     (if s \<noteq> [] \<and> list_all is_digit s \<and> digits_val s < 2 ^ 64 then Some (nat (digits_val s)) else None)"

text \<open>
  \<open>parse\<close> is \<open>time.ParseDuration\<close>, whose error is ignored and whose value is zero then; \<open>oor\<close> is what the
  machine makes of a float that no \<open>uint64\<close> can hold. The result is a \<open>time.Duration\<close> in nanoseconds, a
  signed 64-bit product.
\<close>

definition timeout_of :: "(string \<Rightarrow> GoErr + int) \<Rightarrow> (int \<Rightarrow> int) \<Rightarrow> string \<Rightarrow> 64 word" where
  "timeout_of parse oor tt =
     (case parse_uint tt of
        Some n \<Rightarrow> word_of_nat n
      | None \<Rightarrow>
          let s = duration_seconds (case parse tt of Inl err \<Rightarrow> 0 | Inr d \<Rightarrow> d);
              i = (if s < 0 then \<lceil>s\<rceil> else \<lfloor>s\<rfloor>)
          in if 0 \<le> i \<and> i < 2 ^ 64 then word_of_int i else word_of_int (oor i))"

definition sleep_time :: "64 word \<Rightarrow> int" where
  "sleep_time timeout = sint (timeout * 1000000000)"

subsection \<open>One round of questions\<close>

text \<open>
  Asking the tool of one target; the value of the status in the answer is compared as it is. An answer
  without a result map makes the type assertion panic.
\<close>

definition status_request :: "ExpModel \<Rightarrow> ResourceStatus \<Rightarrow> ExperimentIdentifierInPod \<Rightarrow> ExecRequest" where
  "status_request m status identifier =
     (let meta = ParseIdentifier (rs_Identifier status);
          (podName, podNamespace, containerName) =
            (if ei_ChaosBladePodName identifier \<noteq> []
             then (ei_ChaosBladePodName identifier, ei_ChaosBladeNamespace identifier,
                   ei_ChaosBladeContainerName identifier)
             else (cm_PodName meta, cm_Namespace meta, cm_ContainerName meta))
      in \<lparr>er_PodName = podName, er_PodNamespace = podNamespace, er_ContainerName = containerName,
          er_Command = [getTargetChaosBladeBin m, ''status'', rs_Id status], er_Stdin = None\<rparr>)"

definition ask_tool ::
  "'w env \<Rightarrow> ExpModel \<Rightarrow> ResourceStatus \<Rightarrow> ExperimentIdentifierInPod \<Rightarrow> 'w \<Rightarrow> (bool \<times> 'w) go" where
  "ask_tool N m status identifier w =
     (let S = en_Spec N;
          dec = (\<lambda>content. Some (sp_Decode S content
                   (sp_FailWithFlags S K8sExecFailed [FStr ''pods/exec'', FStr content])));
          (res, w1) = client_Exec (en_Kube N) (status_request m status identifier) False dec dec w
      in do { response \<leftarrow> res;
              if rp_Success response then
                (case rp_Result response of
                   RMap result \<Rightarrow> Some (result ''Status'' = Some DestroyedState, w1)
                 | _ \<Rightarrow> None)
              else Some (False, w1) })"

text \<open>
  The loop: failed targets are passed over, the first target that is not destroyed ends it. The identifiers
  are indexed by the position of the status, so one that is missing panics.
\<close>

fun all_destroyed ::
  "'w env \<Rightarrow> ExpModel \<Rightarrow> ResourceStatus list \<Rightarrow> ExperimentIdentifierInPod list \<Rightarrow> 'w \<Rightarrow> (bool \<times> 'w) go" where
  "all_destroyed N m [] ids w = Some (True, w)"
| "all_destroyed N m (status # statuses) ids w =
     (if \<not> rs_Success status then all_destroyed N m statuses (tl ids) w
      else (case ids of
          [] \<Rightarrow> None
        | identifier # ids' \<Rightarrow>
            do { (ok, w1) \<leftarrow> ask_tool N m status identifier w;
                 if ok then all_destroyed N m statuses ids' w1 else Some (False, w1) }))"

subsection \<open>The ticks\<close>

text \<open>
  \<open>Delete\<close> of the client is an argument of its own. A tick leaves the loop going or stops the ticker; a
  stopped ticker never ticks again, and the loop, which reads its channel, waits for ever.
\<close>

type_synonym 'w delete_call = "string \<Rightarrow> 'w \<Rightarrow> GoErr option \<times> 'w"

datatype watch = Going | Stopped | Ended

definition tick ::
  "'w env \<Rightarrow> 'w api \<Rightarrow> 'w delete_call \<Rightarrow> string \<Rightarrow> ExpModel \<Rightarrow> ResourceStatus list \<Rightarrow>
     ExperimentIdentifierInPod list \<Rightarrow> 'w \<Rightarrow> (watch \<times> 'w) go" where
  "tick N A del experimentId m statuses identifiers w =
     do { (isDestroyed, w1) \<leftarrow> all_destroyed N m statuses identifiers w;
          if \<not> isDestroyed then Some (Going, w1)
          else Some (case ap_Get A experimentId w1 of
             (Inl err, w2) \<Rightarrow> (Going, w2)
           | (Inr cb, w2) \<Rightarrow>
               if cb_Phase cb \<noteq> PhaseDestroyed
               then (Going, snd (ap_StatusUpdate A (cb\<lparr>cb_Phase := PhaseDestroyed\<rparr>) w2))
               else (case del experimentId w2 of
                   (Some err, w3) \<Rightarrow> (Going, w3)
                 | (None, w3) \<Rightarrow> (Stopped, w3))) }"

text \<open>The loop over the ticks that come before the deadline.\<close>

fun watch_ticks ::
  "'w env \<Rightarrow> 'w api \<Rightarrow> 'w delete_call \<Rightarrow> string \<Rightarrow> ExpModel \<Rightarrow> ResourceStatus list \<Rightarrow>
     ExperimentIdentifierInPod list \<Rightarrow> nat \<Rightarrow> 'w \<Rightarrow> (watch \<times> 'w) go" where
  "watch_ticks N A del e m sts ids 0 w = Some (Ended, w)"
| "watch_ticks N A del e m sts ids (Suc n) w =
     do { (r, w1) \<leftarrow> tick N A del e m sts ids w;
          if r = Stopped then Some (Stopped, w1) else watch_ticks N A del e m sts ids n w1 }"

text \<open>
  The function itself starts the goroutine, or not; \<open>None\<close> is a panic of the context. \<open>pass\<close> is what the
  rest of the world does while the goroutine sleeps, \<open>ticks\<close> the number of ticks before the deadline.
\<close>

definition checkExperimentStatus ::
  "'w env \<Rightarrow> 'w api \<Rightarrow> 'w delete_call \<Rightarrow> (string \<Rightarrow> GoErr + int) \<Rightarrow> (int \<Rightarrow> 'w \<Rightarrow> 'w) \<Rightarrow> nat \<Rightarrow>
     Ctx \<Rightarrow> ExpModel \<Rightarrow> ResourceStatus list \<Rightarrow> ExperimentIdentifierInPod list \<Rightarrow> 'w \<Rightarrow> (watch option \<times> 'w) go" where
  "checkExperimentStatus N A del parse pass ticks ctx m statuses identifiers w =
     (let tt = mget (em_ActionFlags m) ''timeout''
      in if \<not> sp_IsDestroy (en_Spec N) ctx \<and> tt \<noteq> [] \<and> statuses \<noteq> [] then
           do { experimentId \<leftarrow> GetExperimentIdFromContext ctx;
                let w1 = pass (sleep_time (timeout_of parse (en_Oor N) tt)) w;
                (r, w2) \<leftarrow> watch_ticks N A del experimentId m statuses identifiers ticks w1;
                Some (Some r, w2) }
         else Some (None, w))"

subsection \<open>Facts\<close>

lemma ask_tool_world:
  assumes "ask_tool N m s d w = Some (ok, w1)"
  shows "w1 = snd (k_Stream (en_Kube N) (status_request m s d) w)"
proof -
  let ?S = "en_Spec N"
  let ?dec = "\<lambda>content. Some (sp_Decode ?S content (sp_FailWithFlags ?S K8sExecFailed [FStr ''pods/exec'', FStr content]))"
  have "w1 = snd (client_Exec (en_Kube N) (status_request m s d) False ?dec ?dec w)"
    using assms unfolding ask_tool_def Let_def
    by (cases "client_Exec (en_Kube N) (status_request m s d) False ?dec ?dec w")
      (auto split: Option.bind_splits if_splits ResVal.splits)
  then show ?thesis by simp
qed

lemma all_destroyed_keeps:
  "all_destroyed N m sts ids w = Some (ok, w1) \<Longrightarrow>
   (\<And>s d u. s \<in> set sts \<Longrightarrow> P u \<Longrightarrow> P (snd (k_Stream (en_Kube N) (status_request m s d) u))) \<Longrightarrow> P w \<Longrightarrow> P w1"
proof (induction sts arbitrary: ids w)
  case Nil
  then show ?case by simp
next
  case (Cons s sts)
  show ?case
  proof (cases "rs_Success s")
    case False
    with Cons show ?thesis by simp
  next
    case True
    with Cons.prems obtain d ds where ids: "ids = d # ds" by (cases ids) auto
    with True Cons.prems obtain b u where a: "ask_tool N m s d w = Some (b, u)" and
      r: "(if b then all_destroyed N m sts ds u else Some (False, u)) = Some (ok, w1)"
      by (auto split: Option.bind_splits)
    have "P u" unfolding ask_tool_world [OF a] by (rule Cons.prems(2) [OF _ Cons.prems(3)]) simp
    with r Cons.IH Cons.prems(2) show ?thesis by (auto split: if_splits)
  qed
qed

lemma all_destroyed_needs:
  assumes "\<And>u u'. ask_tool N m s d u \<noteq> Some (True, u')" "rs_Success s"
  shows "all_destroyed N m sts ids w = Some (ok, w1) \<Longrightarrow> (s, d) \<in> set (zip sts ids) \<Longrightarrow> \<not> ok"
proof (induction sts arbitrary: ids w)
  case Nil
  then show ?case by simp
next
  case (Cons s' sts)
  then obtain d' ds where ids: "ids = d' # ds" by (cases ids) auto
  show ?case
  proof (cases "(s', d') = (s, d)")
    case True
    with Cons.prems ids assms show ?thesis by (auto split: Option.bind_splits if_splits)
  next
    case False
    with Cons ids show ?thesis by (auto split: Option.bind_splits if_splits)
  qed
qed

lemma tick_unconfirmed:
  assumes "tick N A del e m sts ids w = Some (r, w1)" "\<And>u u'. ask_tool N m s d u \<noteq> Some (True, u')"
    and "rs_Success s" "(s, d) \<in> set (zip sts ids)"
  shows "r = Going \<and> all_destroyed N m sts ids w = Some (False, w1)"
proof -
  from assms(1) obtain ok u where a: "all_destroyed N m sts ids w = Some (ok, u)"
    and r: "\<not> ok \<Longrightarrow> (r, w1) = (Going, u)" by (auto simp: tick_def split: Option.bind_splits if_splits)
  have "\<not> ok" by (rule all_destroyed_needs [OF assms(2,3) a assms(4)])
  with a r show ?thesis by simp
qed

subsection \<open>Properties\<close>

text \<open>C13. The watcher does not act on a doubt: as long as the tool of one successful target does not confirm
  that the experiment is destroyed, it asks until the deadline and changes nothing, which is to say that
  whatever the status questions themselves keep is kept.\<close>

theorem watcher_needs_confirmation:
  assumes "watch_ticks N A del e m sts ids n w = Some (r, w1)"
    and "(s, d) \<in> set (zip sts ids)" "rs_Success s" "\<And>u u'. ask_tool N m s d u \<noteq> Some (True, u')"
    and "\<And>s d u. s \<in> set sts \<Longrightarrow> P u \<Longrightarrow> P (snd (k_Stream (en_Kube N) (status_request m s d) u))" "P w"
  shows "r = Ended \<and> P w1"
  using assms(1,6)
proof (induction n arbitrary: w)
  case 0
  then show ?case by simp
next
  case (Suc n)
  then obtain q u where t: "tick N A del e m sts ids w = Some (q, u)"
    and c: "q \<noteq> Stopped \<Longrightarrow> watch_ticks N A del e m sts ids n u = Some (r, w1)"
    by (auto split: Option.bind_splits if_splits)
  have "q = Going" "all_destroyed N m sts ids w = Some (False, u)"
    using tick_unconfirmed [OF t assms(4,3,2)] by simp_all
  moreover from this(2) have "P u" using all_destroyed_keeps [where P = P, OF _ assms(5) Suc.prems(2)] by blast
  ultimately show ?case using Suc.IH c by simp
qed

text \<open>A server that also deletes: a blade that finalizers hold is marked for deletion.\<close>

definition marks_deleted :: "'w delete_call \<Rightarrow> ('w \<Rightarrow> ChaosBlade option) \<Rightarrow> bool" where
  "marks_deleted del obj \<longleftrightarrow>
     (\<forall>w c. obj w = Some c \<longrightarrow> (\<exists>w1 t v. del (cb_Name c) w = (None, w1) \<and>
        obj w1 = (if cb_Finalizers c = [] then None
                  else Some (c\<lparr>cb_ResourceVersion := v, cb_DeletionTimestamp := Some t\<rparr>))))"

lemma confirmed_all:
  assumes "\<And>s d u. (s, d) \<in> set (zip sts ids) \<Longrightarrow> rs_Success s \<Longrightarrow> \<exists>u'. ask_tool N m s d u = Some (True, u') \<and> obj u' = obj u"
    and "length sts \<le> length ids"
  shows "\<exists>w1. all_destroyed N m sts ids w = Some (True, w1) \<and> obj w1 = obj w"
  using assms
proof (induction sts arbitrary: ids w)
  case Nil
  then show ?case by simp
next
  case (Cons s sts)
  then obtain d ds where ids: "ids = d # ds" by (cases ids) auto
  note IH = Cons.IH [of ds]
  have all: "\<exists>w1. all_destroyed N m sts ds u = Some (True, w1) \<and> obj w1 = obj u" for u
    using IH Cons.prems ids by simp
  show ?case
  proof (cases "rs_Success s")
    case False
    with all [of w] ids show ?thesis by simp
  next
    case True
    with Cons.prems(1) [of s d w] ids obtain u where "ask_tool N m s d w = Some (True, u)" "obj u = obj w" by auto
    with all [of u] True ids show ?thesis by simp
  qed
qed

lemma watcher_deletes:
  assumes "quiet_server A obj" "marks_deleted del obj" "obj w = Some c"
    and all: "\<And>u. \<exists>u'. all_destroyed N m sts ids u = Some (True, u') \<and> obj u' = obj u"
    and "cb_Phase c \<noteq> PhaseDestroyed" "cb_Finalizers c \<noteq> []"
  shows "\<exists>w1 t v. watch_ticks N A del (cb_Name c) m sts ids (Suc (Suc n)) w = Some (Stopped, w1) \<and>
    obj w1 = Some (c\<lparr>cb_ResourceVersion := v, cb_Phase := PhaseDestroyed, cb_DeletionTimestamp := Some t\<rparr>)"
proof -
  obtain u where u: "all_destroyed N m sts ids w = Some (True, u)" "obj u = Some c" using all assms(3) by metis
  obtain u1 where u1: "ap_Get A (cb_Name c) u = (Inr c, u1)" "obj u1 = Some c"
    using assms(1) u(2) unfolding quiet_server_def by blast
  let ?w1 = "snd (ap_StatusUpdate A (c\<lparr>cb_Phase := PhaseDestroyed\<rparr>) u1)"
  have same: "c\<lparr>cb_ExpStatuses := cb_ExpStatuses c, cb_Phase := PhaseDestroyed\<rparr> = c\<lparr>cb_Phase := PhaseDestroyed\<rparr>"
    by simp
  obtain v where w1: "obj ?w1 = Some (c\<lparr>cb_ResourceVersion := v, cb_Phase := PhaseDestroyed\<rparr>)"
    using quiet_status [OF assms(1) u1(2), of PhaseDestroyed "cb_ExpStatuses c"] same by auto
  have t1: "tick N A del (cb_Name c) m sts ids w = Some (Going, ?w1)"
    using u u1 assms(5) by (simp add: tick_def)
  let ?d = "c\<lparr>cb_ResourceVersion := v, cb_Phase := PhaseDestroyed\<rparr>"
  obtain x where x: "all_destroyed N m sts ids ?w1 = Some (True, x)" "obj x = Some ?d" using all w1 by metis
  have nd: "cb_Name ?d = cb_Name c" by simp
  obtain x1 where x1: "ap_Get A (cb_Name c) x = (Inr ?d, x1)" "obj x1 = Some ?d"
    using assms(1) x(2) nd unfolding quiet_server_def by metis
  obtain w2 t v2 where w2: "del (cb_Name c) x1 = (None, w2)"
    "obj w2 = Some (?d\<lparr>cb_ResourceVersion := v2, cb_DeletionTimestamp := Some t\<rparr>)"
    using assms(2) x1(2) nd assms(6) unfolding marks_deleted_def by fastforce
  have "tick N A del (cb_Name c) m sts ids ?w1 = Some (Stopped, w2)"
    using x x1 w2(1) by (simp add: tick_def)
  with t1 w2(2) show ?thesis by (intro exI [of _ w2] exI [of _ t] exI [of _ v2]) simp
qed

text \<open>The reconciliation of a deleted blade in phase Destroyed reads it and writes it, and that is all.\<close>

lemma destroyed_released:
  assumes "quiet_server A obj" "obj w = Some f" "cb_Phase f = PhaseDestroyed" "cb_DeletionTimestamp f \<noteq> None"
    and "cb_Experiments f \<noteq> []" "cb_Finalizers f = [chaosbladeFinalizer]"
  shows "\<exists>g. Reconcile A E unm (cb_Name f) w = Some (snd (ap_Update A g (snd (ap_Get A (cb_Name f) w)))) \<and>
    obj (snd (ap_Update A g (snd (ap_Get A (cb_Name f) w)))) = None"
proof -
  obtain y where y: "ap_Get A (cb_Name f) w = (Inr f, y)" "obj y = Some f"
    using assms(1,2) unfolding quiet_server_def by blast
  let ?g = "f\<lparr>cb_Finalizers := removeAll chaosbladeFinalizer (cb_Finalizers f)\<rparr>"
  have "cb_ResourceVersion ?g = cb_ResourceVersion f" by simp
  then obtain z g' v where z: "ap_Update A ?g y = ((None, g'), z)" "obj z = stored (main_write f ?g v)"
    using assms(1) y(2) unfolding quiet_server_def by blast
  have "Reconcile A E unm (cb_Name f) w = Some z"
    using y(1) z(1) assms(3,5,6) by (simp add: Reconcile_def reconcile_object_def reconcile_destroyed_def remove_distinct)
  moreover have "obj z = None" using z(2) assms(4,6) by (simp add: stored_def one_store_def main_write_def)
  ultimately show ?thesis using y(1) z(1) by (intro exI [of _ ?g]) simp
qed

text \<open>What the calls of the watcher keep, its ticks keep.\<close>

lemma ticks_keep:
  assumes "\<And>s d u. s \<in> set sts \<Longrightarrow> P u \<Longrightarrow> P (snd (k_Stream (en_Kube N) (status_request m s d) u))"
    and "\<And>e u. P u \<Longrightarrow> P (snd (ap_Get A e u))"
    and "\<And>cb u. P u \<Longrightarrow> P (snd (ap_StatusUpdate A cb u))" "\<And>e u. P u \<Longrightarrow> P (snd (del e u))"
  shows "watch_ticks N A del e m sts ids n w = Some (r, w1) \<Longrightarrow> P w \<Longrightarrow> P w1"
proof (induction n arbitrary: w)
  case 0
  then show ?case by simp
next
  case (Suc n)
  then obtain q u where t: "tick N A del e m sts ids w = Some (q, u)"
    and c: "q \<noteq> Stopped \<Longrightarrow> watch_ticks N A del e m sts ids n u = Some (r, w1)" "q = Stopped \<Longrightarrow> w1 = u"
    by (auto split: Option.bind_splits if_splits)
  from t obtain b x where a: "all_destroyed N m sts ids w = Some (b, x)"
    by (auto simp: tick_def split: Option.bind_splits)
  have x: "P x" using all_destroyed_keeps [where P = P, OF a assms(1) Suc.prems(2)] by blast
  with assms(2-4) have "P (snd (ap_Get A e x))" "P (snd (ap_StatusUpdate A cb (snd (ap_Get A e x))))"
    "P (snd (del e (snd (ap_Get A e x))))" for cb by blast+
  with t a x have "P u"
    by (auto simp: tick_def split: if_splits sum.splits option.splits prod.splits)
  with c Suc.IH show ?case by (cases "q = Stopped") auto
qed

text \<open>C11. An experiment that ended by itself leaves no blade behind: when all tools confirm, and the server
  answers and is otherwise quiet, the first tick marks the blade as Destroyed, the second one deletes it, and
  the next reconciliation takes the finalizer, so that the blade is gone; no destroy is executed. The goroutine,
  whose ticker is stopped but whose loop goes on, waits for ever, however late the deadline is.\<close>

theorem ended_experiment_vanishes:
  assumes "quiet_server A obj" "marks_deleted del obj" "obj w = Some c"
    and "\<And>s d u. (s, d) \<in> set (zip sts ids) \<Longrightarrow> rs_Success s \<Longrightarrow> \<exists>u'. ask_tool N m s d u = Some (True, u') \<and> obj u' = obj u"
    and "length sts \<le> length ids"
    and "cb_Experiments c \<noteq> []" "cb_Phase c \<noteq> PhaseDestroyed" "cb_Finalizers c = [chaosbladeFinalizer]"
  shows "\<exists>w1 w2. watch_ticks N A del (cb_Name c) m sts ids (Suc (Suc n)) w = Some (Stopped, w1) \<and>
    Reconcile A E unm (cb_Name c) w1 = Some w2 \<and> obj w2 = None"
proof -
  note all = confirmed_all [where obj = obj and N = N and m = m, OF assms(4,5)]
  have "cb_Finalizers c \<noteq> []" by (simp add: assms(8))
  from watcher_deletes [OF assms(1-3) all assms(7) this, of n] obtain w1 t v where
    w1: "watch_ticks N A del (cb_Name c) m sts ids (Suc (Suc n)) w = Some (Stopped, w1)"
    "obj w1 = Some (c\<lparr>cb_ResourceVersion := v, cb_Phase := PhaseDestroyed, cb_DeletionTimestamp := Some t\<rparr>)" by blast
  from destroyed_released [OF assms(1) w1(2), of E unm] w1(1) assms(6,8) show ?thesis by auto
qed

text \<open>The uids of the experiments a blade has in its status: what its destroy would be told to end.\<close>

definition blade_uids :: "ChaosBlade \<Rightarrow> string set" where
  "blade_uids c = {rs_Id st | st es sts. cb_ExpStatuses c = Some es \<and> sts \<in> set es \<and>
     st \<in> set (case es_ResStatuses sts of None \<Rightarrow> [] | Some rss \<Rightarrow> rss)}"

text \<open>C37. A watcher does not know whose blade it drops: it was started for some statuses, finds the blade by
  name, and compares nothing else. When the tools confirm that those old targets are destroyed, because an
  edit of the spec has replaced the experiments or because the blade is another one of the same name, a
  running blade is marked Destroyed, deleted and released; and each experiment that the status of this blade
  records under a uid the watcher was not started for goes on when it ran, because nobody asks for its destroy:
  all that reaches the tools is the question for the status of the old uids, which ends no other experiment.\<close>

theorem stale_watcher_drops_blade:
  assumes "quiet_server A obj" "marks_deleted del obj" "obj w = Some c"
    and "\<And>s d u. (s, d) \<in> set (zip old ids) \<Longrightarrow> rs_Success s \<Longrightarrow> \<exists>u'. ask_tool N m s d u = Some (True, u') \<and> obj u' = obj u"
    and "length old \<le> length ids"
    and "cb_Experiments c \<noteq> []" "cb_Phase c = PhaseRunning" "cb_Finalizers c = [chaosbladeFinalizer]"
    and "\<And>uid s d u. rs_Id s \<noteq> uid \<Longrightarrow> runs uid u \<Longrightarrow> runs uid (snd (k_Stream (en_Kube N) (status_request m s d) u))"
    and "\<And>uid e u. runs uid u \<Longrightarrow> runs uid (snd (ap_Get A e u))"
    and "\<And>uid cb u. runs uid u \<Longrightarrow> runs uid (snd (ap_StatusUpdate A cb u))"
    and "\<And>uid cb u. runs uid u \<Longrightarrow> runs uid (snd (ap_Update A cb u))"
    and "\<And>uid e u. runs uid u \<Longrightarrow> runs uid (snd (del e u))"
  shows "\<exists>w1 w2. watch_ticks N A del (cb_Name c) m old ids (Suc (Suc n)) w = Some (Stopped, w1) \<and>
    Reconcile A E unm (cb_Name c) w1 = Some w2 \<and> obj w2 = None \<and>
    (\<forall>uid \<in> blade_uids c - rs_Id ` set old. runs uid w \<longrightarrow> runs uid w2)"
proof -
  note all = confirmed_all [where obj = obj and N = N and m = m, OF assms(4,5)]
  have c: "cb_Finalizers c \<noteq> []" "cb_Phase c \<noteq> PhaseDestroyed" by (simp_all add: assms(7,8))
  from watcher_deletes [OF assms(1-3) all c(2,1), of n] obtain w1 t v where
    w1: "watch_ticks N A del (cb_Name c) m old ids (Suc (Suc n)) w = Some (Stopped, w1)"
    "obj w1 = Some (c\<lparr>cb_ResourceVersion := v, cb_Phase := PhaseDestroyed, cb_DeletionTimestamp := Some t\<rparr>)" by blast
  from destroyed_released [OF assms(1) w1(2), of E unm] assms(6,8) obtain g where
    g: "Reconcile A E unm (cb_Name c) w1 = Some (snd (ap_Update A g (snd (ap_Get A (cb_Name c) w1))))"
    "obj (snd (ap_Update A g (snd (ap_Get A (cb_Name c) w1)))) = None" by auto
  have "runs uid (snd (ap_Update A g (snd (ap_Get A (cb_Name c) w1))))"
    if "uid \<notin> rs_Id ` set old" "runs uid w" for uid
  proof -
    have "rs_Id s \<noteq> uid" if "s \<in> set old" for s using \<open>uid \<notin> rs_Id ` set old\<close> that by blast
    with assms(9) have "runs uid w1"
      using ticks_keep [where P = "runs uid", OF _ assms(10,11,13) w1(1) that(2)] by blast
    then show ?thesis using assms(10,12) by blast
  qed
  with w1(1) g show ?thesis by blast
qed

text \<open>C32. The timeout is exact up to 9223372036 seconds; beyond, the 64-bit product wraps around and the
  watcher sleeps another time than asked for.\<close>

theorem timeout_exact_iff:
  assumes "parse_uint tt = Some t"
  shows "sleep_time (timeout_of parse oor tt) = int t * 1000000000 \<longleftrightarrow> t \<le> 9223372036"
proof -
  have "timeout_of parse oor tt * 1000000000 = word_of_int (int t * 1000000000)"
    using assms by (simp add: timeout_of_def)
  then have "sleep_time (timeout_of parse oor tt) = signed_take_bit 63 (int t * 1000000000)"
    using sint_sbintrunc' [of "int t * 1000000000", where 'a = 64] by (simp only: sleep_time_def) simp
  moreover have "signed_take_bit 63 (int t * 1000000000) = int t * 1000000000 \<longleftrightarrow> t \<le> 9223372036"
    by (subst signed_take_bit_int_eq_self_iff) auto
  ultimately show ?thesis by simp
qed

subsection \<open>Witnesses\<close>

lemma timeout_exact_iff_witness:
  "sleep_time (timeout_of (\<lambda>s. Inr 0) id ''60'') = 60000000000 \<and>
   sleep_time (timeout_of (\<lambda>s. Inr 0) id ''9223372037'') \<noteq> 9223372037000000000"
  using timeout_exact_iff [of "''60''" 60 "\<lambda>s. Inr 0" id] timeout_exact_iff [of "''9223372037''" 9223372037 "\<lambda>s. Inr 0" id]
  by (simp add: parse_uint_def is_digit_def digits_val_def)

text \<open>A tool that confirms, on a world that is the blade, and one that does not.\<close>

definition status_spec :: spec_lib where
  "status_spec = sample_spec\<lparr>sp_Decode := (\<lambda>s d. if s = ''gone'' then
     \<lparr>rp_Code = 200, rp_Success = True, rp_Err = [], rp_Result = RMap [''Status'' \<mapsto> DestroyedState]\<rparr> else d)\<rparr>"

definition status_env :: "string \<Rightarrow> 'w env" where
  "status_env answer = (sample_env [])\<lparr>en_Spec := status_spec,
     en_Kube := (quiet_kube [])\<lparr>k_Stream := (\<lambda>r w. (\<lparr>sr_Out = answer, sr_Err = [], sr_Error = None\<rparr>, w))\<rparr>\<rparr>"

definition one_ident :: ExperimentIdentifierInPod where
  "one_ident = \<lparr>ei_Meta = no_meta, ei_Command = [], ei_Error = [], ei_Code = 0, ei_ChaosBladePodName = ''t'',
     ei_ChaosBladeNamespace = ''d'', ei_ChaosBladeContainerName = ''c''\<rparr>"

definition one_status :: ResourceStatus where
  "one_status = no_status\<lparr>rs_Id := ''7'', rs_Success := True\<rparr>"

lemma gone_trim: "trim_space ''gone'' = ''gone''" by code_simp
lemma busy_trim: "trim_space ''busy'' = ''busy''" by code_simp

lemma status_answers:
  "ask_tool (status_env ''gone'') m s d w = Some (True, w)" "ask_tool (status_env ''busy'') m s d w = Some (False, w)"
  by (simp_all add: ask_tool_def client_Exec_def status_env_def status_spec_def gone_trim busy_trim sample_spec_def Let_def)

definition mark_deleted :: "ChaosBlade option delete_call" where
  "mark_deleted e w = (None, case w of None \<Rightarrow> None
     | Some c \<Rightarrow> if cb_Finalizers c = [] then None else Some (c\<lparr>cb_DeletionTimestamp := Some 0\<rparr>))"

lemma mark_deleted_marks: "marks_deleted mark_deleted id"
  unfolding marks_deleted_def
proof (intro allI impI)
  fix w :: "ChaosBlade option" and c :: ChaosBlade
  assume "id w = Some c"
  then show "\<exists>w1 t v. mark_deleted (cb_Name c) w = (None, w1) \<and> id w1 = (if cb_Finalizers c = [] then None
      else Some (c\<lparr>cb_ResourceVersion := v, cb_DeletionTimestamp := Some t\<rparr>))"
    by (intro exI [of _ "if cb_Finalizers c = [] then None else Some (c\<lparr>cb_DeletionTimestamp := Some 0\<rparr>)"]
        exI [of _ 0] exI [of _ "cb_ResourceVersion c"]) (simp add: mark_deleted_def)
qed

abbreviation model_c :: ExpModel where "model_c \<equiv> ExtractExpModelFromExperimentSpec spec_x"

lemma busy_ticks:
  "watch_ticks (status_env ''busy'') one_api mark_deleted ''a'' model_c [one_status] [one_ident] n (Some blade_a) =
     Some (Ended, Some blade_a)"
  by (induction n) (simp_all add: tick_def status_answers one_status_def)

lemma watcher_needs_confirmation_witness:
  "\<exists>r w1. watch_ticks (status_env ''busy'') one_api mark_deleted ''a'' model_c [one_status] [one_ident] 30 (Some blade_a) =
     Some (r, w1) \<and> r = Ended \<and> w1 = Some blade_a"
proof -
  note w = busy_ticks [of 30]
  have "Ended = Ended \<and> Some blade_a = Some blade_a"
    by (rule watcher_needs_confirmation [OF w, where s = one_status and d = one_ident and P = "\<lambda>u. u = Some blade_a"])
      (simp_all add: status_answers one_status_def, simp add: status_env_def)
  with w show ?thesis by blast
qed

lemma ended_experiment_vanishes_witness:
  "\<exists>w1 w2. watch_ticks (status_env ''gone'') one_api mark_deleted ''a'' model_c [one_status] [one_ident] (Suc (Suc 28)) (Some blade_a) =
      Some (Stopped, w1) \<and>
    Reconcile one_api (flat_executor True) (unary_unm []) ''a'' w1 = Some w2 \<and> w2 = None"
proof -
  have "\<exists>w1 w2. watch_ticks (status_env ''gone'') one_api mark_deleted (cb_Name blade_a) model_c [one_status] [one_ident] (Suc (Suc 28)) (Some blade_a) =
      Some (Stopped, w1) \<and>
    Reconcile one_api (flat_executor True) (unary_unm []) (cb_Name blade_a) w1 = Some w2 \<and> id w2 = None"
    by (rule ended_experiment_vanishes [OF one_api_quiet mark_deleted_marks])
      (simp_all add: status_answers blade_a_def spec_a_def spec_b_def)
  then show ?thesis by (simp add: blade_a_def)
qed

text \<open>A world that is the blade, and the names of the experiments that run.\<close>

definition beside :: "('a \<Rightarrow> 'r \<times> 'a) \<Rightarrow> 'a \<times> 'x \<Rightarrow> 'r \<times> ('a \<times> 'x)" where
  "beside f = (\<lambda>(w, x). case f w of (r, w1) \<Rightarrow> (r, w1, x))"

definition pair_api :: "(ChaosBlade option \<times> string list) api" where
  "pair_api = \<lparr>ap_Get = (\<lambda>n. beside (ap_Get one_api n)), ap_Update = (\<lambda>cb. beside (ap_Update one_api cb)),
     ap_StatusUpdate = (\<lambda>cb. beside (ap_StatusUpdate one_api cb)), ap_List = beside (ap_List one_api),
     ap_ClearFinalizers = (\<lambda>n. beside (ap_ClearFinalizers one_api n))\<rparr>"

lemma beside_simps: "fst (beside f p) = fst (f (fst p))" "snd (beside f p) = (snd (f (fst p)), snd p)"
  by (simp_all add: beside_def split: prod.splits)

lemma beside_eq: "f (fst p) = (r, w1) \<Longrightarrow> beside f p = (r, w1, snd p)"
  by (simp add: beside_def split_beta)

lemma pair_api_quiet: "quiet_server pair_api fst"
  unfolding quiet_server_def
proof (intro conjI allI impI)
  note one = one_api_quiet [unfolded quiet_server_def id_def]
  note one_get = one [THEN conjunct1, rule_format]
  note one_update = one [THEN conjunct2, THEN conjunct1, rule_format]
  note one_status_update = one [THEN conjunct2, THEN conjunct2, rule_format]
  fix p :: "ChaosBlade option \<times> string list" and c cb :: ChaosBlade
  assume c: "fst p = Some c"
  then obtain w1 where "ap_Get one_api (cb_Name c) (fst p) = (Inr c, w1)" "w1 = Some c"
    using one_get [of "fst p" c] by auto
  then show "\<exists>w1. ap_Get pair_api (cb_Name c) p = (Inr c, w1) \<and> fst w1 = Some c"
    by (simp add: pair_api_def beside_eq)
  assume v: "cb_ResourceVersion cb = cb_ResourceVersion c"
  obtain cb' w1 x where "ap_Update one_api cb (fst p) = ((None, cb'), w1)" "w1 = stored (main_write c cb x)"
    using one_update [of "fst p" c cb] c v by auto
  then show "\<exists>cb' w1 x. ap_Update pair_api cb p = ((None, cb'), w1) \<and> fst w1 = stored (main_write c cb x)"
    by (auto simp: pair_api_def beside_eq)
  obtain cb'' w2 y where "ap_StatusUpdate one_api cb (fst p) = ((None, cb''), w2)" "w2 = Some (status_write c cb y)"
    using one_status_update [of "fst p" c cb] c v by auto
  then show "\<exists>cb' w1 x. ap_StatusUpdate pair_api cb p = ((None, cb'), w1) \<and> fst w1 = Some (status_write c cb x)"
    by (auto simp: pair_api_def beside_eq)
qed

lemma pair_marks: "marks_deleted (\<lambda>e. beside (mark_deleted e)) (fst :: ChaosBlade option \<times> string list \<Rightarrow> _)"
  unfolding marks_deleted_def
proof (intro allI impI)
  fix p :: "ChaosBlade option \<times> string list" and c :: ChaosBlade
  assume "fst p = Some c"
  then obtain w1 t v where "mark_deleted (cb_Name c) (fst p) = (None, w1)" "w1 = (if cb_Finalizers c = [] then None
      else Some (c\<lparr>cb_ResourceVersion := v, cb_DeletionTimestamp := Some t\<rparr>))"
    using mark_deleted_marks unfolding marks_deleted_def id_def by blast
  then show "\<exists>w1 t v. beside (mark_deleted (cb_Name c)) p = (None, w1) \<and> fst w1 = (if cb_Finalizers c = [] then None
      else Some (c\<lparr>cb_ResourceVersion := v, cb_DeletionTimestamp := Some t\<rparr>))"
    by (intro exI [of _ "(w1, snd p)"] exI [of _ t] exI [of _ v]) (simp add: beside_eq)
qed

text \<open>A tool on which every command but a status question ends all experiments, and a blade whose present
  experiment is not the one the watcher was started for.\<close>

definition frail_env :: "(ChaosBlade option \<times> string list) env" where
  "frail_env = (status_env ''gone'')\<lparr>en_Kube := (quiet_kube [])\<lparr>k_Stream := (\<lambda>r (w, x).
     (\<lparr>sr_Out = ''gone'', sr_Err = [], sr_Error = None\<rparr>, w, if er_Command r ! 1 = ''status'' then x else []))\<rparr>\<rparr>"

definition blade_new :: ChaosBlade where
  "blade_new = blade_a\<lparr>cb_ExpStatuses := Some [no_exp_status\<lparr>es_ResStatuses := Some [no_status\<lparr>rs_Id := ''new''\<rparr>]\<rparr>]\<rparr>"

lemma frail_answers: "ask_tool frail_env m s d w = Some (True, w)"
  by (cases w) (simp add: ask_tool_def client_Exec_def frail_env_def status_env_def status_spec_def gone_trim
      status_request_def Let_def split_beta)

lemma stale_watcher_drops_blade_witness:
  "\<exists>w1 w2. watch_ticks frail_env pair_api (\<lambda>e. beside (mark_deleted e)) ''a'' model_c [one_status] [one_ident]
       (Suc (Suc 28)) (Some blade_new, [''new'']) = Some (Stopped, w1) \<and>
    Reconcile pair_api (flat_executor True) (unary_unm []) ''a'' w1 = Some w2 \<and> fst w2 = None \<and>
    ''new'' \<in> set (snd w2)"
proof -
  have a: "cb_Name blade_new = ''a''" by (simp add: blade_new_def blade_a_def)
  have "''new'' \<in> blade_uids blade_new" by (simp add: blade_uids_def blade_new_def)
  then have u: "''new'' \<in> blade_uids blade_new - rs_Id ` set [one_status]" by (simp add: one_status_def)
  have "\<exists>w1 w2. watch_ticks frail_env pair_api (\<lambda>e. beside (mark_deleted e)) (cb_Name blade_new) model_c [one_status]
       [one_ident] (Suc (Suc 28)) (Some blade_new, [''new'']) = Some (Stopped, w1) \<and>
    Reconcile pair_api (flat_executor True) (unary_unm []) (cb_Name blade_new) w1 = Some w2 \<and> fst w2 = None \<and>
    (\<forall>uid \<in> blade_uids blade_new - rs_Id ` set [one_status].
       uid \<in> set (snd (Some blade_new, [''new''])) \<longrightarrow> uid \<in> set (snd w2))"
    by (rule stale_watcher_drops_blade [OF pair_api_quiet pair_marks, where runs = "\<lambda>uid u. uid \<in> set (snd u)"])
      (simp_all add: frail_answers blade_new_def blade_a_def spec_a_def spec_b_def pair_api_def beside_simps,
        simp add: frail_env_def status_env_def status_request_def split_beta Let_def)
  with u show ?thesis unfolding a by fastforce
qed

end
