(* ===== verification/System.thy ===== *)
theory System
  imports Cleanup Watcher
begin

section \<open>Reconciler, watcher and clean-up on one blade\<close>

text \<open>
  Three parts of the operator write to a blade: the reconciler, the watchers of timeouts, and the
  periodic clean-up. They run at the same time, so each is in the environment of the others. Here the
  moves of all of them, and of the users, make up the rely of each; what every part guarantees is a
  move of the same machine, so the history of the blade is one of the machine whatever the
  interleaving of their calls.
\<close>

subsection \<open>The moves of all\<close>

text \<open>
  A watcher marks the state it has read as Destroyed, whatever its phase. The clean-up patches by name and
  without a version: the state whose finalizers it takes need not be the one it has seen, in phase Destroying
  and deleted, which is somewhere in the history. (How long that one had waited is not part of the move; the
  clock of the clean-up is in theory Cleanup.)
\<close>

inductive system_step :: rely where
  by_user: "user_move o1 o2 \<Longrightarrow> system_step (o1 # h) o2"
| by_reconciler: "operator_move any_answer c c' \<Longrightarrow> system_step (Some c # h) (stored c')"
| by_watcher: "cb_Phase c \<noteq> PhaseDestroyed \<Longrightarrow> same_main c c' \<Longrightarrow>
    status_of c' = (PhaseDestroyed, cb_ExpStatuses c) \<Longrightarrow> system_step (Some c # h) (stored c')"
| by_cleanup: "Some d \<in> set (Some c # h) \<Longrightarrow> cb_Phase d = PhaseDestroying \<Longrightarrow> cb_DeletionTimestamp d \<noteq> None \<Longrightarrow>
    cb_Finalizers c' = [] \<Longrightarrow> cb_DeletionTimestamp c' = cb_DeletionTimestamp c \<Longrightarrow>
    cb_Experiments c' = cb_Experiments c \<Longrightarrow> status_of c' = status_of c \<Longrightarrow>
    system_step (Some c # h) (stored c')"

definition system_history :: "blade_history \<Rightarrow> bool" where
  "system_history h \<longleftrightarrow> grows system_step [None] h"

lemma system_history_step: "system_history h \<Longrightarrow> system_step h ob \<Longrightarrow> system_history (ob # h)"
  unfolding system_history_def by (rule grows_step)

interpretation whole: operated_history system_step system_history any_answer
  by unfold_locales (auto intro: system_history_step by_reconciler)

lemma lifecycle_system: "lifecycle any_answer h \<Longrightarrow> system_history h"
proof (induction rule: lifecycle.induct)
  case empty
  then show ?case by (simp add: system_history_def grows_same)
qed (auto intro: system_history_step by_user by_reconciler)

subsection \<open>The contracts of the other calls\<close>

text \<open>
  A question to a tool and a deletion are acts of the environment for the blade. A list shows states the
  blade has or had. A patch of the finalizers is done to the state of that moment.
\<close>

definition stream_rely :: "rely \<Rightarrow> 'w kube \<Rightarrow> ('w \<Rightarrow> bool) \<Rightarrow> ('w \<Rightarrow> blade_history) \<Rightarrow> bool" where
  "stream_rely M K ok hist \<longleftrightarrow>
     (\<forall>req w. ok w \<longrightarrow> ok (snd (k_Stream K req w)) \<and> grows M (hist w) (hist (snd (k_Stream K req w))))"

definition delete_rely :: "rely \<Rightarrow> 'w delete_call \<Rightarrow> string \<Rightarrow> ('w \<Rightarrow> bool) \<Rightarrow> ('w \<Rightarrow> blade_history) \<Rightarrow> bool" where
  "delete_rely M del n ok hist \<longleftrightarrow>
     (\<forall>w. ok w \<longrightarrow> ok (snd (del n w)) \<and> grows M (hist w) (hist (snd (del n w))))"

definition list_rely :: "rely \<Rightarrow> 'w api \<Rightarrow> string \<Rightarrow> ('w \<Rightarrow> bool) \<Rightarrow> ('w \<Rightarrow> blade_history) \<Rightarrow> bool" where
  "list_rely M A n ok hist \<longleftrightarrow>
     (\<forall>w e items w'. ok w \<longrightarrow> ap_List A w = ((e, items), w') \<longrightarrow> ok w' \<and> grows M (hist w) (hist w') \<and>
        (\<forall>cb \<in> set items. cb_Name cb = n \<longrightarrow> (\<exists>c. Some c \<in> set (hist w') \<and> read_of c cb)))"

definition clear_rely :: "rely \<Rightarrow> 'w api \<Rightarrow> string \<Rightarrow> ('w \<Rightarrow> bool) \<Rightarrow> ('w \<Rightarrow> blade_history) \<Rightarrow> bool" where
  "clear_rely M A n ok hist \<longleftrightarrow>
     (\<forall>w m e w'. ok w \<longrightarrow> ap_ClearFinalizers A m w = (e, w') \<longrightarrow> ok w' \<and>
        (if m = n \<and> e = None then
           \<exists>c h v. grows M (hist w) (Some c # h) \<and>
             grows M (stored (c\<lparr>cb_ResourceVersion := v, cb_Finalizers := []\<rparr>) # Some c # h) (hist w')
         else grows M (hist w) (hist w')))"

subsection \<open>The watcher and the clean-up keep the history\<close>

lemma tick_keeps:
  assumes S: "server_rely system_step A n ok hist" "stream_rely system_step (en_Kube N) ok hist"
      "delete_rely system_step del n ok hist"
    and w: "good system_history ok hist w" and t: "tick N A del n m sts ids w = Some (r, w')"
  shows "good system_history ok hist w'"
proof -
  let ?P = "good system_history ok hist"
  from t obtain d w1 where a: "all_destroyed N m sts ids w = Some (d, w1)"
    by (auto simp: tick_def split: Option.bind_splits)
  have "?P (snd (k_Stream (en_Kube N) req u))" if "?P u" for req u
    using S(2) that unfolding stream_rely_def good_def by (auto intro: whole.grows_keeps)
  then have w1: "?P w1" using all_destroyed_keeps [where P = ?P, OF a _ w] by blast
  obtain g w2 where g: "ap_Get A n w1 = (g, w2)" by (metis prod.collapse)
  have w2: "?P w2" and obj: "\<And>cb. g = Inr cb \<Longrightarrow> cb_Name cb = n \<and> (\<exists>c. Some c \<in> set (hist w2) \<and> read_of c cb)"
    using get_okD [of system_step "ap_Get A" n ok hist w1 g w2] S(1) w1 g
    by (auto simp: server_rely_def good_def intro: whole.grows_keeps)
  have del: "?P (snd (del n w2))"
    using S(3) w2 unfolding delete_rely_def good_def by (auto intro: whole.grows_keeps)
  have upd: "?P (snd (ap_StatusUpdate A (cb\<lparr>cb_Phase := PhaseDestroyed\<rparr>) w2))"
    if cb: "g = Inr cb" "cb_Phase cb \<noteq> PhaseDestroyed" for cb
  proof -
    from obj cb obtain c where c: "Some c \<in> set (hist w2)" "read_of c cb" "cb_Name cb = n" by blast
    have mv: "system_step (Some c # h) (stored (status_write c (cb\<lparr>cb_Phase := PhaseDestroyed\<rparr>) v))" for v h
      using cb(2) by (intro by_watcher) (simp_all add: read_ofD [OF c(2)])
    obtain e cb' w3 where u: "ap_StatusUpdate A (cb\<lparr>cb_Phase := PhaseDestroyed\<rparr>) w2 = ((e, cb'), w3)"
      by (metis prod.collapse)
    have "ok w3 \<and> system_history (hist w3)"
      using whole.put_keeps [of ok hist "ap_StatusUpdate A" status_write n w2
          "cb\<lparr>cb_Phase := PhaseDestroyed\<rparr>" e cb' w3 c] S(1) w2 c u mv
      by (simp add: server_rely_def good_def read_ofD [OF c(2)] system_history_step)
    with u show ?thesis by (simp add: good_def)
  qed
  from t a g w1 w2 del upd show ?thesis
    by (auto simp: tick_def split: if_splits sum.splits option.splits prod.splits)
qed

text \<open>What the clean-up has seen is in the history, and stays there.\<close>

lemma clear_keeps:
  assumes C: "clear_rely system_step A n ok hist" and w: "good system_history ok hist w"
    and d: "m = n \<Longrightarrow> \<exists>d. Some d \<in> set (hist w) \<and> cb_Phase d = PhaseDestroying \<and> cb_DeletionTimestamp d \<noteq> None"
    and c: "ap_ClearFinalizers A m w = (e, w')"
  shows "good system_history ok hist w' \<and> set (hist w) \<subseteq> set (hist w')"
proof (cases "m = n \<and> e = None")
  case False
  with C w c have "ok w'" "grows system_step (hist w) (hist w')"
    unfolding clear_rely_def good_def by metis+
  with w show ?thesis by (auto simp: good_def grows_set intro: whole.grows_keeps dest: grows_set)
next
  case True
  with C w c obtain b h v where b: "grows system_step (hist w) (Some b # h)"
    "grows system_step (stored (b\<lparr>cb_ResourceVersion := v, cb_Finalizers := []\<rparr>) # Some b # h) (hist w')"
    and ok: "ok w'" unfolding clear_rely_def good_def by metis
  from d True obtain d where d: "Some d \<in> set (hist w)" "cb_Phase d = PhaseDestroying" "cb_DeletionTimestamp d \<noteq> None"
    by blast
  have "system_step (Some b # h) (stored (b\<lparr>cb_ResourceVersion := v, cb_Finalizers := []\<rparr>))"
    using d grows_set [OF b(1)] by (intro by_cleanup [of d]) (auto simp: status_of_def)
  then have "system_history (stored (b\<lparr>cb_ResourceVersion := v, cb_Finalizers := []\<rparr>) # Some b # h)"
    using whole.grows_keeps [OF b(1)] w by (auto simp: good_def intro: system_history_step)
  then have "system_history (hist w')" by (rule whole.grows_keeps [OF b(2)])
  with ok grows_set [OF b(1)] grows_set [OF b(2)] show ?thesis by (auto simp: good_def)
qed

lemma cleanup_items_keeps:
  assumes C: "clear_rely system_step A n ok hist"
  shows "good system_history ok hist w \<Longrightarrow>
    (\<And>cb. cb \<in> set items \<Longrightarrow> cb_Name cb = n \<Longrightarrow> \<exists>c. Some c \<in> set (hist w) \<and> read_of c cb) \<Longrightarrow>
    good system_history ok hist (cleanup_items A now d items w)"
proof (induction items arbitrary: w)
  case Nil
  then show ?case by simp
next
  case (Cons b items)
  let ?w = "if overdue (now w) d b then snd (ap_ClearFinalizers A (cb_Name b) w) else w"
  have "good system_history ok hist ?w \<and> set (hist w) \<subseteq> set (hist ?w)"
  proof (cases "overdue (now w) d b")
    case True
    then have "cb_Phase b = PhaseDestroying" "cb_DeletionTimestamp b \<noteq> None"
      by (auto simp: overdue_def split: option.splits)
    then have "\<exists>d. Some d \<in> set (hist w) \<and> cb_Phase d = PhaseDestroying \<and> cb_DeletionTimestamp d \<noteq> None"
      if "cb_Name b = n" using Cons.prems(2) [of b] that by (auto simp: read_ofD)
    with True show ?thesis
      using clear_keeps [OF C Cons.prems(1), of "cb_Name b"] by (simp add: prod_eq_iff)
  qed (use Cons.prems(1) in simp)
  with Cons.prems(2) have "good system_history ok hist (cleanup_items A now d items ?w)"
    by (intro Cons.IH) (auto, blast)
  then show ?case by simp
qed

lemma cleanup_keeps:
  assumes "list_rely system_step A n ok hist" "clear_rely system_step A n ok hist"
    and w: "good system_history ok hist w"
  shows "good system_history ok hist (periodicallyCleanUpBlade A now d w)"
proof -
  obtain e items w1 where l: "ap_List A w = ((e, items), w1)" by (cases "ap_List A w") auto
  with assms(1) w have "ok w1" "grows system_step (hist w) (hist w1)"
    and items: "\<And>cb. cb \<in> set items \<Longrightarrow> cb_Name cb = n \<Longrightarrow> \<exists>c. Some c \<in> set (hist w1) \<and> read_of c cb"
    unfolding list_rely_def good_def by blast+
  then have "good system_history ok hist w1" using w by (auto simp: good_def intro: whole.grows_keeps)
  from cleanup_items_keeps [OF assms(2) this items] l show ?thesis by (simp add: periodicallyCleanUpBlade_def)
qed

subsection \<open>Reachable worlds\<close>

text \<open>
  From a world in which the blade does not exist, anybody acts, a reconciliation runs, a watcher of
  any experiment that was started for the blade ticks, and the clean-up passes. Between any two calls
  of each of them the contracts let all the others act.
\<close>

inductive system_reach ::
  "'w api \<Rightarrow> 'w executor \<Rightarrow> (string \<Rightarrow> GoErr + ExperimentSpec list) \<Rightarrow> 'w env \<Rightarrow> 'w delete_call \<Rightarrow> ('w \<Rightarrow> int) \<Rightarrow>
     string \<Rightarrow> ('w \<Rightarrow> bool) \<Rightarrow> ('w \<Rightarrow> blade_history) \<Rightarrow> 'w \<Rightarrow> bool"
  for A E unm N del now n ok hist where
  s_begins: "ok w \<Longrightarrow> hist w = [None] \<Longrightarrow> system_reach A E unm N del now n ok hist w"
| s_acts: "system_reach A E unm N del now n ok hist w \<Longrightarrow> ok w' \<Longrightarrow> grows system_step (hist w) (hist w') \<Longrightarrow>
    system_reach A E unm N del now n ok hist w'"
| s_reconciles: "system_reach A E unm N del now n ok hist w \<Longrightarrow> Reconcile A E unm n w = Some w' \<Longrightarrow>
    system_reach A E unm N del now n ok hist w'"
| s_ticks: "system_reach A E unm N del now n ok hist w \<Longrightarrow> tick N A del n m sts ids w = Some (r, w') \<Longrightarrow>
    system_reach A E unm N del now n ok hist w'"
| s_cleans: "system_reach A E unm N del now n ok hist w \<Longrightarrow>
    system_reach A E unm N del now n ok hist (periodicallyCleanUpBlade A now d w)"

definition system_contract ::
  "'w api \<Rightarrow> 'w executor \<Rightarrow> 'w env \<Rightarrow> 'w delete_call \<Rightarrow> string \<Rightarrow> ('w \<Rightarrow> bool) \<Rightarrow> ('w \<Rightarrow> blade_history) \<Rightarrow> bool" where
  "system_contract A E N del n ok hist \<longleftrightarrow> server_rely system_step A n ok hist \<and> executor_rely system_step E ok hist \<and>
     stream_rely system_step (en_Kube N) ok hist \<and> delete_rely system_step del n ok hist \<and>
     list_rely system_step A n ok hist \<and> clear_rely system_step A n ok hist"

lemma system_reach_good:
  assumes "system_contract A E N del n ok hist" "system_reach A E unm N del now n ok hist w"
  shows "good system_history ok hist w"
  using assms(2)
proof induction
  case (s_begins w)
  then show ?case by (simp add: good_def system_history_def grows_same)
next
  case (s_acts w w')
  then show ?case by (auto simp: good_def intro: whole.grows_keeps)
next
  case (s_reconciles w w')
  from assms(1) have "server_rely system_step A n ok hist" "executor_rely system_step E ok hist"
    by (simp_all add: system_contract_def)
  from whole.Reconcile_refines [OF this s_reconciles(3) answered_any s_reconciles(2)] show ?case .
next
  case (s_ticks w m sts ids r w')
  from assms(1) have "server_rely system_step A n ok hist" "stream_rely system_step (en_Kube N) ok hist"
    "delete_rely system_step del n ok hist" by (simp_all add: system_contract_def)
  from tick_keeps [OF this s_ticks(3,2)] show ?case .
next
  case (s_cleans w d)
  from assms(1) have "list_rely system_step A n ok hist" "clear_rely system_step A n ok hist"
    by (simp_all add: system_contract_def)
  from cleanup_keeps [OF this s_cleans(2)] show ?case .
qed

subsection \<open>Invariants of the whole machine\<close>

lemma system_history_induct [consumes 1, case_names start step]:
  assumes "system_history h" "Q [None]"
    and "\<And>h ob. system_history h \<Longrightarrow> Q h \<Longrightarrow> system_step h ob \<Longrightarrow> Q (ob # h)"
  shows "Q h"
  using assms(1) unfolding system_history_def
proof (induction "[None] :: blade_history" h rule: grows.induct)
  case grows_same
  then show ?case by (rule assms(2))
next
  case (grows_step h' o2)
  then show ?case by (intro assms(3)) (simp_all add: system_history_def)
qed

lemma system_history_ConsD:
  assumes "system_history (ob # h)" "h \<noteq> []"
  shows "system_history h \<and> system_step h ob"
  using assms unfolding system_history_def by (auto elim: grows.cases)

lemma system_history_tl: "system_history (xs @ h) \<Longrightarrow> h \<noteq> [] \<Longrightarrow> system_history h"
proof (induction xs)
  case (Cons x xs)
  then have "system_history (xs @ h)" using system_history_ConsD [of x "xs @ h"] by simp
  with Cons show ?case by simp
qed simp

text \<open>A blade that is marked for deletion stays so as long as it is there.\<close>

lemma step_deleted:
  assumes "system_step (Some c # h) (Some c')" "cb_DeletionTimestamp c \<noteq> None"
  shows "cb_DeletionTimestamp c' \<noteq> None"
  using assms(1)
proof (cases rule: system_step.cases)
  case by_user
  with assms(2) show ?thesis by (auto elim!: user_edit)
next
  case (by_reconciler b)
  then have "b = c'" "operator_move any_answer c b" by (auto simp: stored_def one_store_def split: if_splits)
  with assms(2) show ?thesis by (auto elim!: operator_move.cases simp: same_main_def)
next
  case (by_watcher b)
  then show ?thesis using assms(2) by (auto simp: stored_def one_store_def same_main_def split: if_splits)
next
  case (by_cleanup d b)
  then show ?thesis using assms(2) by (auto simp: stored_def one_store_def split: if_splits)
qed

lemma deleted_stays:
  "system_history (Some c # h1 @ Some d # h2) \<Longrightarrow> None \<notin> set h1 \<Longrightarrow> cb_DeletionTimestamp d \<noteq> None \<Longrightarrow>
    cb_DeletionTimestamp c \<noteq> None"
proof (induction h1 arbitrary: c)
  case Nil
  then show ?case using system_history_ConsD [of "Some c"] step_deleted by fastforce
next
  case (Cons ob h1)
  then obtain b where ob: "ob = Some b" by (cases ob) auto
  with Cons.prems have "system_history (Some b # h1 @ Some d # h2)" "system_step (Some b # h1 @ Some d # h2) (Some c)"
    using system_history_ConsD [of "Some c" "Some b # h1 @ Some d # h2"] by simp_all
  with Cons ob step_deleted show ?case by auto
qed

lemma initial_no_statuses:
  "system_history h \<Longrightarrow> Some c \<in> set h \<Longrightarrow> cb_Phase c = PhaseInitial \<Longrightarrow> cb_ExpStatuses c = None"
proof (induction arbitrary: c rule: system_history_induct)
  case start
  then show ?case by simp
next
  case (step h ob)
  show ?case
  proof (cases "Some c \<in> set h")
    case True
    with step show ?thesis by blast
  next
    case False
    with step.prems have "ob = Some c" by simp
    with step.hyps(2) step.IH step.prems(2) show ?thesis
      by (auto elim!: system_step.cases user_move.cases operator_move.cases
          simp: stored_def one_store_def status_of_def split: if_splits)
  qed
qed

text \<open>A state before the last creation was a blade in phase Destroying that awaited its deletion.\<close>

definition waiting_before :: "blade_history \<Rightarrow> bool" where
  "waiting_before h \<longleftrightarrow> (\<exists>d h1 h2. h = h1 @ None # h2 \<and> Some d \<in> set h2 \<and> cb_Phase d = PhaseDestroying \<and>
     cb_DeletionTimestamp d \<noteq> None)"

lemma waiting_before_Cons: "waiting_before h \<Longrightarrow> waiting_before (ob # h)"
  unfolding waiting_before_def by (metis append_Cons)

lemma known_phase:
  "system_history h \<Longrightarrow> Some c \<in> set h \<Longrightarrow> live (cb_Phase c) \<or> cb_Phase c = PhaseInitial \<or> cb_Phase c = PhaseDestroyed"
proof (induction arbitrary: c rule: system_history_induct)
  case start
  then show ?case by simp
next
  case (step h ob)
  show ?case
  proof (cases "Some c \<in> set h")
    case True
    with step show ?thesis by blast
  next
    case False
    with step.prems have ob: "ob = Some c" by simp
    from step.hyps(2) show ?thesis
    proof (cases rule: system_step.cases)
      case (by_user o1 h0)
      with ob have "user_move o1 (Some c)" by simp
      then show ?thesis
      proof (cases rule: user_move.cases)
        case create
        then show ?thesis by simp
      next
        case (edit b)
        with by_user step.IH [of b] show ?thesis by simp
      qed
    next
      case (by_reconciler b b' h0)
      with step.IH [of b] ob have "b' = c" "operator_move any_answer b c" "live (cb_Phase b) \<or> cb_Phase b = PhaseInitial \<or> cb_Phase b = PhaseDestroyed"
        by (auto simp: stored_def one_store_def split: if_splits)
      from this(2,3) this(1) show ?thesis
        by (cases rule: operator_move.cases) (auto simp: status_of_def live_def split: if_splits)
    next
      case (by_watcher b b' h0)
      with ob show ?thesis by (auto simp: stored_def one_store_def status_of_def split: if_splits)
    next
      case (by_cleanup d b h0 b')
      with step.IH [of b] ob show ?thesis by (auto simp: stored_def one_store_def status_of_def split: if_splits)
    qed
  qed
qed

lemma operator_guard:
  assumes "operator_move any_answer c c'" "live (cb_Phase c')" "cb_Phase c = PhaseInitial \<Longrightarrow> cb_ExpStatuses c = None"
    and "live (cb_Phase c) \<or> cb_Phase c = PhaseInitial \<or> cb_Phase c = PhaseDestroyed"
  shows "armed c' \<or> (live (cb_Phase c) \<and> armed c' = armed c)"
  using assms(1)
  by (cases rule: operator_move.cases)
    (use assms(2-4) in \<open>auto simp: status_of_def same_main_armed split: if_splits\<close>)

lemma guard_step:
  assumes h: "system_history h" and s: "system_step h (Some c')" and l: "live (cb_Phase c')"
    and IH: "\<And>c t. h = Some c # t \<Longrightarrow> live (cb_Phase c) \<Longrightarrow> armed c \<or> waiting_before t"
  shows "armed c' \<or> waiting_before h"
  using s
proof (cases rule: system_step.cases)
  case (by_user o1 t)
  then show ?thesis using l IH waiting_before_Cons by (auto elim!: user_move.cases)
next
  case (by_reconciler c b t)
  then have b: "b = c'" by (auto simp: stored_def one_store_def split: if_splits)
  have "armed c' \<or> live (cb_Phase c) \<and> armed c' = armed c"
    using by_reconciler b l initial_no_statuses [OF h, of c] known_phase [OF h, of c]
    by (intro operator_guard) auto
  with IH [OF by_reconciler(1)] by_reconciler(1) waiting_before_Cons show ?thesis by blast
next
  case (by_watcher c b t)
  with l show ?thesis by (auto simp: stored_def one_store_def status_of_def split: if_splits)
next
  case (by_cleanup d c t b)
  then have b: "b = c'" "cb_DeletionTimestamp c = None" by (auto simp: stored_def one_store_def split: if_splits)
  with by_cleanup have "Some d \<in> set t" by auto
  then obtain h1 h2 where t: "t = h1 @ Some d # h2" by (meson split_list)
  have "None \<in> set h1" using deleted_stays [of c h1 d h2] h b(2) by_cleanup t by auto
  then obtain a b' where "h1 = a @ None # b'" by (meson split_list)
  then have "t = a @ None # (b' @ Some d # h2)" using t by simp
  with by_cleanup have "waiting_before t" unfolding waiting_before_def by (metis in_set_conv_decomp)
  with by_cleanup waiting_before_Cons show ?thesis by blast
qed

lemma guarded:
  "system_history (Some c # t) \<Longrightarrow> live (cb_Phase c) \<Longrightarrow> armed c \<or> waiting_before t"
proof (induction t arbitrary: c)
  case Nil
  then show ?case unfolding system_history_def by (auto elim: grows.cases)
next
  case (Cons ob t)
  from system_history_ConsD [OF Cons.prems(1)] have h: "system_history (ob # t)" "system_step (ob # t) (Some c)" by simp_all
  from guard_step [OF h Cons.prems(2)] Cons.IH h(1) show ?case by auto
qed

text \<open>A state of the blade that waited for the clean-up is one of its present life, or of an earlier one.\<close>

definition waiting_now :: "blade_history \<Rightarrow> bool" where
  "waiting_now h \<longleftrightarrow> (\<exists>d h1 h2. h = h1 @ Some d # h2 \<and> None \<notin> set h1 \<and> cb_Phase d = PhaseDestroying \<and>
     cb_DeletionTimestamp d \<noteq> None)"

lemma waited:
  assumes "Some d \<in> set (Some c # t)" "cb_Phase d = PhaseDestroying" "cb_DeletionTimestamp d \<noteq> None"
  shows "waiting_now (Some c # t) \<or> waiting_before t"
proof -
  obtain h1 h2 where h: "Some c # t = h1 @ Some d # h2" using assms(1) by (meson split_list)
  show ?thesis
  proof (cases "None \<in> set h1")
    case False
    with h assms(2,3) show ?thesis unfolding waiting_now_def by blast
  next
    case True
    then obtain a b where "h1 = a @ None # b" by (meson split_list)
    with h have "Some c # t = a @ None # (b @ Some d # h2)" by simp
    moreover from this obtain a' where "a = Some c # a'" by (cases a) auto
    ultimately have "t = a' @ None # (b @ Some d # h2)" by simp
    with assms(2,3) have "waiting_before t" unfolding waiting_before_def by (metis in_set_conv_decomp)
    then show ?thesis by blast
  qed
qed

lemma vanished:
  assumes "system_history (None # Some c # t)"
  shows "cb_Phase c = PhaseInitial \<or> cb_Phase c = PhaseDestroyed \<or>
    (cb_DeletionTimestamp c \<noteq> None \<and> waiting_now (Some c # t)) \<or> waiting_before t"
proof -
  from system_history_ConsD [OF assms] have h: "system_history (Some c # t)" and s: "system_step (Some c # t) None"
    by simp_all
  have p: "cb_Phase c = PhaseInitial \<or> cb_Phase c = PhaseDestroyed \<or> waiting_before t" if "\<not> armed c"
    using known_phase [OF h, of c] guarded [OF h] that by auto
  show ?thesis
    using s
  proof (cases rule: system_step.cases)
    case by_user
    then show ?thesis using p by (auto elim!: user_vanish)
  next
    case (by_reconciler b)
    then show ?thesis using gone_step [of _ c b] p by auto
  next
    case (by_watcher b)
    then have "\<not> armed c" using gone_step by (auto simp: stored_def one_store_def armed_def same_main_def split: if_splits)
    then show ?thesis using p by blast
  next
    case (by_cleanup d b)
    then have "cb_DeletionTimestamp c \<noteq> None" by (auto simp: stored_def one_store_def split: if_splits)
    with by_cleanup waited [of d c t] show ?thesis by blast
  qed
qed

subsection \<open>Properties\<close>

text \<open>The operator as a whole refines the machine of all moves: with the reconciler, the watchers and the
  clean-up writing to one blade and users acting, in any interleaving of their calls that the contracts
  of the server allow, each stored state follows from the history before it by a move of one of them.\<close>

theorem whole_operator_refines:
  assumes "system_contract A E N del n ok hist" "system_reach A E unm N del now n ok hist w"
  shows "grows system_step [None] (hist w)"
  using system_reach_good [OF assms] by (simp add: good_def system_history_def)

text \<open>C5. What is left of the guard: with all writers, a blade in a phase in which experiments may run carries
  the finalizer, unless before its creation there was a blade of the same name that was deleted and in phase
  Destroying (the clean-up patches by name, and may have seen that one). And a blade that vanished was last in
  phase Initial or Destroyed, or it was itself deleted and had been in phase Destroying since its creation (then
  the clean-up may take it), or again there was such a blade of its name before. Nothing is said here of how
  long such a blade had waited: see \<open>cleanup_not_early\<close>.\<close>

theorem whole_operator_guard:
  assumes "system_contract A E N del n ok hist" "system_reach A E unm N del now n ok hist w"
  shows "(\<forall>xs c t. hist w = xs @ Some c # t \<longrightarrow> live (cb_Phase c) \<longrightarrow>
       contains (cb_Finalizers c) chaosbladeFinalizer \<or>
       (\<exists>d h1 h2. t = h1 @ None # h2 \<and> Some d \<in> set h2 \<and> cb_Phase d = PhaseDestroying \<and>
          cb_DeletionTimestamp d \<noteq> None)) \<and>
    (\<forall>xs c t. hist w = xs @ None # Some c # t \<longrightarrow>
       cb_Phase c = PhaseInitial \<or> cb_Phase c = PhaseDestroyed \<or>
       (cb_DeletionTimestamp c \<noteq> None \<and> (\<exists>d h1 h2. Some c # t = h1 @ Some d # h2 \<and> None \<notin> set h1 \<and>
          cb_Phase d = PhaseDestroying \<and> cb_DeletionTimestamp d \<noteq> None)) \<or>
       (\<exists>d h1 h2. t = h1 @ None # h2 \<and> Some d \<in> set h2 \<and> cb_Phase d = PhaseDestroying \<and>
          cb_DeletionTimestamp d \<noteq> None))"
proof (intro conjI allI impI)
  have h: "system_history (hist w)" using system_reach_good [OF assms] by (simp add: good_def)
  show "contains (cb_Finalizers c) chaosbladeFinalizer \<or>
       (\<exists>d h1 h2. t = h1 @ None # h2 \<and> Some d \<in> set h2 \<and> cb_Phase d = PhaseDestroying \<and>
          cb_DeletionTimestamp d \<noteq> None)" if "hist w = xs @ Some c # t" "live (cb_Phase c)" for xs c t
    using guarded [of c t] system_history_tl [of xs "Some c # t"] h that
    by (simp add: armed_def waiting_before_def)
  show "cb_Phase c = PhaseInitial \<or> cb_Phase c = PhaseDestroyed \<or>
       (cb_DeletionTimestamp c \<noteq> None \<and> (\<exists>d h1 h2. Some c # t = h1 @ Some d # h2 \<and> None \<notin> set h1 \<and>
          cb_Phase d = PhaseDestroying \<and> cb_DeletionTimestamp d \<noteq> None)) \<or>
       (\<exists>d h1 h2. t = h1 @ None # h2 \<and> Some d \<in> set h2 \<and> cb_Phase d = PhaseDestroying \<and>
          cb_DeletionTimestamp d \<noteq> None)"
    if "hist w = xs @ None # Some c # t" for xs c t
  proof -
    have "system_history (None # Some c # t)" using system_history_tl [of xs "None # Some c # t"] h that by simp
    from vanished [OF this] show ?thesis unfolding waiting_before_def waiting_now_def .
  qed
qed

text \<open>C38. The clean-up does not look at what it patches: when its list shows an overdue blade, and since then a
  blade of the same name was created, then the pass takes the finalizers of that blade, whatever its phase
  and though nobody deletes it; and when it is deleted later, the server drops it at once, without the
  reconciler, so that its experiments stay.\<close>

theorem cleanup_frees_recreated:
  assumes "clears_by_name A obj now" "marks_deleted del obj"
    and "ap_List A w = ((e, items), w1)" "b \<in> set items"
    and "cb_Phase b = PhaseDestroying" "cb_DeletionTimestamp b = Some t"
    and "0 \<le> d" "d + 1000000000 < 2 ^ 63" "t + d + 1000000000 \<le> now w1"
    and "obj w1 = Some c" "cb_Name c = cb_Name b" "cb_DeletionTimestamp c = None"
  shows "\<exists>v w2. obj (periodicallyCleanUpBlade A now d w) = Some (c\<lparr>cb_ResourceVersion := v, cb_Finalizers := []\<rparr>) \<and>
    del (cb_Name c) (periodicallyCleanUpBlade A now d w) = (None, w2) \<and> obj w2 = None"
proof -
  let ?u = "periodicallyCleanUpBlade A now d w"
  have u: "?u = cleanup_items A now d items w1" by (simp add: periodicallyCleanUpBlade_def assms(3))
  from items_freed [OF assms(1,5-8,10,12), of items] assms(4,9,11) obtain v where
    v: "obj ?u = Some (c\<lparr>cb_ResourceVersion := v, cb_Finalizers := []\<rparr>)" by (auto simp: u)
  with assms(2) have "\<exists>w2. del (cb_Name c) ?u = (None, w2) \<and> obj w2 = None"
    unfolding marks_deleted_def by fastforce
  with v show ?thesis by blast
qed

subsection \<open>A server and its runs\<close>

text \<open>
  The server of the life cycle, which now also lists, clears finalizers by name and marks for deletion. In the
  first run the experiment ends by itself: the watcher marks the blade, deletes it, and the reconciler lets it
  go. In the second one a destroy fails, and the clean-up lets it go.
\<close>

definition sys_clear :: "string \<Rightarrow> blade_history \<Rightarrow> GoErr option \<times> blade_history" where
  "sys_clear m h =
     (case h of
        Some c # _ \<Rightarrow>
          if cb_Name c = m
          then (None, stored (c\<lparr>cb_ResourceVersion := log_version h, cb_Finalizers := []\<rparr>) # h)
          else (Some (ErrApi True ''not found''), h)
      | _ \<Rightarrow> (Some (ErrApi True ''not found''), h))"

definition sys_api :: "blade_history api" where
  "sys_api = log_api\<lparr>ap_List := (\<lambda>h. ((None, case h of Some c # _ \<Rightarrow> [c] | _ \<Rightarrow> []), h)),
     ap_ClearFinalizers := sys_clear\<rparr>"

definition sys_delete :: "blade_history delete_call" where
  "sys_delete m h =
     (case h of
        Some c # _ \<Rightarrow>
          if cb_Name c \<noteq> m then (Some (ErrApi True ''not found''), h)
          else if cb_DeletionTimestamp c \<noteq> None then (None, h)
          else (None, stored (c\<lparr>cb_ResourceVersion := log_version h, cb_DeletionTimestamp := Some 0\<rparr>) # h)
      | _ \<Rightarrow> (Some (ErrApi True ''not found''), h))"

lemma sys_api_rely: "server_rely M sys_api n (log_ok n) id"
  using log_api_rely [of M n] by (simp add: server_rely_def sys_api_def)

lemma sys_list: "list_rely M sys_api n (log_ok n) id"
  by (auto simp: list_rely_def sys_api_def read_of_def split: list.splits option.splits)

lemma sys_clears: "clear_rely M sys_api n (log_ok n) id"
  unfolding clear_rely_def
proof (intro allI impI)
  fix h :: blade_history and m e h'
  assume h: "log_ok n h" "ap_ClearFinalizers sys_api m h = (e, h')"
  show "log_ok n h' \<and> (if m = n \<and> e = None then
      \<exists>c t v. grows M (id h) (Some c # t) \<and>
        grows M (stored (c\<lparr>cb_ResourceVersion := v, cb_Finalizers := []\<rparr>) # Some c # t) (id h')
      else grows M (id h) (id h'))"
  proof (cases "\<exists>c t. h = Some c # t \<and> m = n")
    case True
    then obtain c t where c: "h = Some c # t" "m = n" by blast
    with h have e: "e = None" "h' = stored (c\<lparr>cb_ResourceVersion := log_version h, cb_Finalizers := []\<rparr>) # h"
      by (auto simp: sys_api_def sys_clear_def)
    have "log_ok n h'" using c h(1) by (simp add: e stored_def one_store_def)
    moreover have "grows M (id h) (Some c # t)" using c by auto
    moreover have "grows M (stored (c\<lparr>cb_ResourceVersion := log_version h, cb_Finalizers := []\<rparr>) # Some c # t) (id h')"
      using c e by auto
    ultimately show ?thesis using c e(1) by auto
  next
    case False
    with h have "h' = h" "\<not> (m = n \<and> e = None)"
      by (auto simp: sys_api_def sys_clear_def split: list.splits option.splits if_splits)
    with h(1) show ?thesis by auto
  qed
qed

lemma sys_deletes: "delete_rely system_step sys_delete n (log_ok n) id"
  unfolding delete_rely_def
proof (intro allI impI)
  fix h :: blade_history
  assume h: "log_ok n h"
  show "log_ok n (snd (sys_delete n h)) \<and> grows system_step (id h) (id (snd (sys_delete n h)))"
  proof (cases "\<exists>c t. h = Some c # t \<and> cb_DeletionTimestamp c = None")
    case False
    then have "snd (sys_delete n h) = h"
      by (auto simp: sys_delete_def split: list.splits option.splits)
    with h show ?thesis by auto
  next
    case True
    then obtain c t where c: "h = Some c # t" "cb_DeletionTimestamp c = None" by blast
    let ?c = "c\<lparr>cb_ResourceVersion := log_version h, cb_DeletionTimestamp := Some 0\<rparr>"
    have d: "snd (sys_delete n h) = stored ?c # h" using c h by (simp add: sys_delete_def)
    have "user_move (Some c) (stored ?c)"
      using c(2) by (auto simp: stored_def one_store_def armed_def intro: user_move.intros)
    with c(1) have "grows system_step h (stored ?c # h)" by (auto intro!: grows_step [OF grows_same] by_user)
    with c h d show ?thesis by (simp add: stored_def one_store_def)
  qed
qed

lemma sys_streams: "stream_rely M (en_Kube (status_env answer)) ok hist"
  by (auto simp: stream_rely_def status_env_def)

lemma sys_contract:
  "system_contract sys_api (flat_executor b) (status_env answer) sys_delete n (log_ok n) id"
  by (simp add: system_contract_def sys_api_rely flat_executor_rely sys_streams sys_deletes sys_list sys_clears)

lemma sys_fields:
  "ap_Get sys_api = ap_Get log_api" "ap_Update sys_api = ap_Update log_api"
  "ap_StatusUpdate sys_api = ap_StatusUpdate log_api"
  by (simp_all add: sys_api_def)

lemma sys_finalize: "finalizeChaosBlade sys_api = finalizeChaosBlade log_api"
  by (simp add: fun_eq_iff finalizeChaosBlade_def sys_fields)

lemma sys_object: "reconcile_object sys_api E unm cb w = reconcile_object log_api E unm cb w"
  unfolding reconcile_object_def reconcile_destroyed_def reconcile_initial_def reconcile_create_def
    reconcile_update_def sys_finalize sys_fields by (rule HOL.refl)

lemma sys_reconcile: "Reconcile sys_api E unm n w = Reconcile log_api E unm n w"
  unfolding Reconcile_def sys_fields sys_object by (rule HOL.refl)

text \<open>What was reached without the watcher and the clean-up is reached.\<close>

abbreviation sys_run :: "bool \<Rightarrow> (blade_history \<Rightarrow> int) \<Rightarrow> blade_history \<Rightarrow> bool" where
  "sys_run b now \<equiv> system_reach sys_api (flat_executor b) (unary_unm []) (status_env ''gone'') sys_delete now ''b''
     (log_ok ''b'') id"

lemma users_system: "users h h' \<Longrightarrow> grows system_step h h'"
proof (induction rule: grows.induct)
  case (grows_step h h' o2)
  then show ?case by (cases h') (auto intro!: grows.grows_step by_user)
qed (rule grows_same)

lemma reach_system:
  "reach log_api (flat_executor b) (unary_unm []) ''b'' (log_ok ''b'') id h \<Longrightarrow> sys_run b now h"
proof (induction rule: reach.induct)
  case (begins w)
  then show ?case by (rule s_begins)
next
  case (acts w w')
  then show ?case by (blast intro: s_acts users_system)
next
  case (reconciles w w')
  then show ?case by (auto intro: s_reconciles simp: sys_reconcile)
qed

definition blade_b_ended :: ChaosBlade where
  "blade_b_ended = blade_b_runs\<lparr>cb_ResourceVersion := ''xxxxx'', cb_Phase := PhaseDestroyed\<rparr>"

definition blade_b_ended_deleted :: ChaosBlade where
  "blade_b_ended_deleted = blade_b_ended\<lparr>cb_ResourceVersion := ''xxxxxx'', cb_DeletionTimestamp := Some 0\<rparr>"

lemma ended_run:
  "sys_run b now (None # Some blade_b_ended_deleted # Some blade_b_ended #
     [Some blade_b_runs, Some blade_b_ready, Some blade_b_armed, Some blade_b, None])"
proof -
  let ?h = "[Some blade_b_runs, Some blade_b_ready, Some blade_b_armed, Some blade_b, None]"
  have 0: "sys_run b now ?h" by (rule reach_system [OF blade_b_reached])
  have "tick (status_env ''gone'') sys_api sys_delete ''b'' model_c [one_status] [one_ident] ?h =
      Some (Going, Some blade_b_ended # ?h)"
    by (simp add: tick_def status_answers one_status_def sys_fields log_api_def log_write_def status_write_def
        blade_b_defs blade_b_ended_def stored_def one_store_def log_version_def)
  from s_ticks [OF 0 this] have 1: "sys_run b now (Some blade_b_ended # ?h)" .
  have "tick (status_env ''gone'') sys_api sys_delete ''b'' model_c [one_status] [one_ident] (Some blade_b_ended # ?h) =
      Some (Stopped, Some blade_b_ended_deleted # Some blade_b_ended # ?h)"
    by (simp add: tick_def status_answers one_status_def sys_fields log_api_def sys_delete_def
        blade_b_defs blade_b_ended_def blade_b_ended_deleted_def stored_def one_store_def log_version_def)
  from s_ticks [OF 1 this] have 2: "sys_run b now (Some blade_b_ended_deleted # Some blade_b_ended # ?h)" .
  have "Reconcile sys_api (flat_executor b) (unary_unm []) ''b'' (Some blade_b_ended_deleted # Some blade_b_ended # ?h) =
      Some (None # Some blade_b_ended_deleted # Some blade_b_ended # ?h)"
    unfolding sys_reconcile
    by (simp add: Reconcile_def log_api_def reconcile_object_def reconcile_destroyed_def remove_distinct
        blade_b_defs blade_b_ended_def blade_b_ended_deleted_def spec_a_def log_write_def main_write_def stored_def one_store_def
        log_version_def)
  from s_reconciles [OF 2 this] show ?thesis .
qed

definition blade_b_stuck :: ChaosBlade where
  "blade_b_stuck = blade_b_deleted\<lparr>cb_ResourceVersion := ''xxxxxx'', cb_Phase := PhaseDestroying,
     cb_ExpStatuses := Some [CreateFailExperimentStatus ''failed'' (Some [])]\<rparr>"

lemma stuck_run:
  "sys_run False (\<lambda>_. 1000000000) (None # Some blade_b_stuck # Some blade_b_deleted #
     [Some blade_b_runs, Some blade_b_ready, Some blade_b_armed, Some blade_b, None])"
proof -
  let ?h = "[Some blade_b_runs, Some blade_b_ready, Some blade_b_armed, Some blade_b, None]"
  let ?now = "\<lambda>_ :: blade_history. 1000000000"
  have "grows system_step ?h (Some blade_b_deleted # ?h)"
    by (rule grows_step [OF grows_same], rule by_user, rule user_move.edit)
      (auto simp: blade_b_deleted_def blade_b_defs armed_def)
  then have 1: "sys_run False ?now (Some blade_b_deleted # ?h)"
    by (intro s_acts [OF reach_system [OF blade_b_reached]])
      (simp_all add: blade_b_deleted_def blade_b_defs log_version_def)
  have "Reconcile sys_api (flat_executor False) (unary_unm []) ''b'' (Some blade_b_deleted # ?h) =
      Some (Some blade_b_stuck # Some blade_b_deleted # ?h)"
    unfolding sys_reconcile
    by (simp add: Reconcile_def log_api_def blade_b_defs reconcile_object_def finalizeChaosBlade_def
        blade_b_deleted_def blade_b_stuck_def destroy_step_def flat_executor_def spec_a_def
        log_write_def status_write_def stored_def one_store_def log_version_def CreateFailExperimentStatus_def)
  from s_reconciles [OF 1 this] have 2: "sys_run False ?now (Some blade_b_stuck # Some blade_b_deleted # ?h)" .
  have "overdue 1000000000 0 blade_b_stuck"
    by (rule overdue_late [where t = 0]) (simp_all add: blade_b_stuck_def blade_b_deleted_def)
  then have "periodicallyCleanUpBlade sys_api ?now 0 (Some blade_b_stuck # Some blade_b_deleted # ?h) =
      None # Some blade_b_stuck # Some blade_b_deleted # ?h"
    by (simp add: periodicallyCleanUpBlade_def sys_api_def sys_clear_def blade_b_stuck_def blade_b_deleted_def
        blade_b_defs stored_def one_store_def)
  with s_cleans [OF 2, of 0] show ?thesis by simp
qed

lemma whole_operator_refines_witness:
  "grows system_step [None] (None # Some blade_b_ended_deleted # Some blade_b_ended #
     [Some blade_b_runs, Some blade_b_ready, Some blade_b_armed, Some blade_b, None])"
  using whole_operator_refines [OF sys_contract ended_run [of True "\<lambda>_. 0"]] by simp

lemma whole_operator_guard_witness:
  "cb_DeletionTimestamp blade_b_stuck \<noteq> None \<and>
    (\<exists>d h1 h2. Some blade_b_stuck # Some blade_b_deleted #
       [Some blade_b_runs, Some blade_b_ready, Some blade_b_armed, Some blade_b, None] = h1 @ Some d # h2 \<and>
     None \<notin> set h1 \<and> cb_Phase d = PhaseDestroying \<and> cb_DeletionTimestamp d \<noteq> None)"
proof -
  let ?t = "Some blade_b_deleted # [Some blade_b_runs, Some blade_b_ready, Some blade_b_armed, Some blade_b, None]"
  have "\<not> (\<exists>d h1 h2. ?t = h1 @ None # h2 \<and> Some d \<in> set h2 \<and> cb_Phase d = PhaseDestroying \<and>
      cb_DeletionTimestamp d \<noteq> None)"
    by (auto simp: Cons_eq_append_conv)
  moreover have "cb_Phase blade_b_stuck \<noteq> PhaseInitial" "cb_Phase blade_b_stuck \<noteq> PhaseDestroyed"
    by (simp_all add: blade_b_stuck_def)
  ultimately show ?thesis
    using whole_operator_guard [OF sys_contract stuck_run, THEN conjunct2, rule_format,
        where xs = "[]" and c = blade_b_stuck and t = ?t, simplified append_Nil id_apply, OF refl]
    by blast
qed

text \<open>
  A server whose list still shows the deleted blade, while the stored one is its successor, which runs.
\<close>

definition blade_a_old :: ChaosBlade where
  "blade_a_old = blade_a\<lparr>cb_Phase := PhaseDestroying, cb_DeletionTimestamp := Some 0\<rparr>"

definition late_api :: "ChaosBlade option api" where
  "late_api = one_api\<lparr>ap_List := (\<lambda>w. ((None, [blade_a_old]), w)),
     ap_ClearFinalizers := (\<lambda>n w. (None, case w of
        Some c \<Rightarrow> if n = cb_Name c then stored (c\<lparr>cb_Finalizers := []\<rparr>) else Some c | None \<Rightarrow> None))\<rparr>"

lemma late_api_clears: "clears_by_name late_api id (\<lambda>_. 1000000000)"
proof -
  have "\<exists>v. stored (c\<lparr>cb_Finalizers := []\<rparr>) = stored (c\<lparr>cb_ResourceVersion := v, cb_Finalizers := []\<rparr>)" for c
    by (intro exI [of _ "cb_ResourceVersion c"]) simp
  then show ?thesis by (simp add: clears_by_name_def late_api_def split: option.splits)
qed

lemma cleanup_frees_recreated_witness:
  "\<exists>v w2. periodicallyCleanUpBlade late_api (\<lambda>_. 1000000000) 0 (Some blade_a) =
      Some (blade_a\<lparr>cb_ResourceVersion := v, cb_Finalizers := []\<rparr>) \<and>
    mark_deleted ''a'' (periodicallyCleanUpBlade late_api (\<lambda>_. 1000000000) 0 (Some blade_a)) = (None, w2) \<and> w2 = None"
proof -
  have l: "ap_List late_api (Some blade_a) = ((None, [blade_a_old]), Some blade_a)" by (simp add: late_api_def)
  show ?thesis
    using cleanup_frees_recreated [OF late_api_clears mark_deleted_marks l, of blade_a_old 0 0 blade_a]
    by (simp add: blade_a_old_def blade_a_def)
qed

end
