(* ===== verification/Assembly.thy ===== *)
theory Assembly
  imports Registry System
begin

section \<open>The assembled operator on one blade\<close>

text \<open>
  The reconciler relies on its executor to leave the blade to the others. Here the executor is the one of
  the operator: the dispatcher over the scope controllers and the registered executors, down to the calls
  of the client, of the streams into containers and of the fault server. What all these calls keep, every
  create and destroy keeps, under every schedule of its goroutines; with that the machine of theory
  \<open>System\<close> is refined by the operator as it is put together.
\<close>

subsection \<open>Calls and what they keep\<close>

definition keeps :: "('w \<Rightarrow> bool) \<Rightarrow> ('w \<Rightarrow> 'r \<times> 'w) \<Rightarrow> bool" where
  "keeps P f \<longleftrightarrow> (\<forall>w. P w \<longrightarrow> P (snd (f w)))"

definition keeps_go :: "('w \<Rightarrow> bool) \<Rightarrow> ('w \<Rightarrow> ('r \<times> 'w) go) \<Rightarrow> bool" where
  "keeps_go P f \<longleftrightarrow> (\<forall>w r w'. P w \<longrightarrow> f w = Some (r, w') \<longrightarrow> P w')"

definition kube_keeps :: "('w \<Rightarrow> bool) \<Rightarrow> 'w kube \<Rightarrow> bool" where
  "kube_keeps P K \<longleftrightarrow>
     (\<forall>ns n. keeps P (k_GetPod K ns n)) \<and> (\<forall>n. keeps P (k_GetNode K n)) \<and>
     (\<forall>ns s. keeps P (k_ListPods K ns s)) \<and> (\<forall>s. keeps P (k_ListNodes K s)) \<and>
     (\<forall>p. keeps P (k_UpdatePod K p)) \<and> (\<forall>ns n. keeps P (k_DeletePod K ns n)) \<and>
     (\<forall>r. keeps P (k_Stream K r))"

definition net_keeps :: "('w \<Rightarrow> bool) \<Rightarrow> 'w net \<Rightarrow> bool" where
  "net_keeps P H \<longleftrightarrow> (\<forall>u b c. keeps P (nt_PostCurl H u b c)) \<and> (\<forall>u. keeps P (nt_Do H u))"

definition exec_keeps :: "('w \<Rightarrow> bool) \<Rightarrow> 'w exec_fun \<Rightarrow> bool" where
  "exec_keeps P ex \<longleftrightarrow> (\<forall>u ctx m. keeps_go P (ex u ctx m))"

lemma keptD: "P (snd x) \<Longrightarrow> x = (r, w') \<Longrightarrow> P w'"
  by simp

lemma keepsD: "keeps P f \<Longrightarrow> f w = (r, w') \<Longrightarrow> P w \<Longrightarrow> P w'"
  unfolding keeps_def by (metis snd_conv)

lemma keeps_goD: "keeps_go P f \<Longrightarrow> f w = Some (r, w') \<Longrightarrow> P w \<Longrightarrow> P w'"
  unfolding keeps_go_def by blast

lemma kube_keepsD:
  assumes "kube_keeps P K"
  shows "k_GetPod K ns n w = (r, w') \<Longrightarrow> P w \<Longrightarrow> P w'"
    and "k_GetNode K n w = (r2, w') \<Longrightarrow> P w \<Longrightarrow> P w'"
    and "k_ListPods K ns s w = (r3, w') \<Longrightarrow> P w \<Longrightarrow> P w'"
    and "k_ListNodes K s w = (r4, w') \<Longrightarrow> P w \<Longrightarrow> P w'"
    and "k_UpdatePod K p w = (r5, w') \<Longrightarrow> P w \<Longrightarrow> P w'"
    and "k_DeletePod K ns n w = (r6, w') \<Longrightarrow> P w \<Longrightarrow> P w'"
    and "P w \<Longrightarrow> P (snd (k_Stream K req w))"
  using assms unfolding kube_keeps_def keeps_def by (metis snd_conv)+

lemma net_keepsD:
  assumes "net_keeps P H"
  shows "nt_PostCurl H u b c w = (r, w') \<Longrightarrow> P w \<Longrightarrow> P w'" and "nt_Do H u w = (r2, w') \<Longrightarrow> P w \<Longrightarrow> P w'"
  using assms unfolding net_keeps_def keeps_def by (metis snd_conv)+

lemma kube_keeps_snd:
  assumes "kube_keeps P K" "P w"
  shows "P (snd (k_GetPod K ns n w))" "P (snd (k_GetNode K n w))" "P (snd (k_ListPods K ns s w))"
    "P (snd (k_ListNodes K s w))" "P (snd (k_UpdatePod K p w))" "P (snd (k_DeletePod K ns n w))"
    "P (snd (k_Stream K req w))"
  using assms by (simp_all add: kube_keeps_def keeps_def)

lemma net_keeps_snd:
  assumes "net_keeps P H" "P w"
  shows "P (snd (nt_PostCurl H u b c w))" "P (snd (nt_Do H u w))"
  using assms by (simp_all add: net_keeps_def keeps_def)

subsection \<open>Selection and controllers\<close>

lemma pods_by_name_keeps:
  assumes "kube_keeps P K"
  shows "P w \<Longrightarrow> P (snd (pods_by_name K L ns reqs names w))"
proof (induction names arbitrary: w)
  case (Cons n names)
  obtain r u where g: "k_GetPod K ns n w = (r, u)" by (cases "k_GetPod K ns n w")
  with kube_keepsD(1) [OF assms g] Cons have "P (snd (pods_by_name K L ns reqs names u))" by blast
  with g show ?case by (simp add: split_beta split: sum.splits)
qed simp

lemma nodes_by_name_keeps:
  assumes "kube_keeps P K"
  shows "P w \<Longrightarrow> P (snd (nodes_by_name K L reqs names w))"
proof (induction names arbitrary: w)
  case (Cons n names)
  obtain r u where g: "k_GetNode K n w = (r, u)" by (cases "k_GetNode K n w")
  with kube_keepsD(2) [OF assms g] Cons have "P (snd (nodes_by_name K L reqs names u))" by blast
  with g show ?case by (simp add: split_beta split: sum.splits)
qed simp

lemma resourceFunc_keeps:
  assumes "kube_keeps P K" "P w"
  shows "P (snd (pod_resourceFunc S K L ord m w))" "P (snd (node_resourceFunc S K L ord m w))"
proof -
  show "P (snd (pod_resourceFunc S K L ord m w))"
    using assms pods_by_name_keeps [OF assms, of L _ _ _] kube_keepsD(3) [OF assms(1)]
    by (auto simp: pod_resourceFunc_def Let_def split_beta split: sum.splits)
      (metis prod.collapse)+
  show "P (snd (node_resourceFunc S K L ord m w))"
    using assms nodes_by_name_keeps [OF assms, of L _ _] kube_keepsD(4) [OF assms(1)]
    by (auto simp: node_resourceFunc_def Let_def split_beta split: sum.splits)
      (metis prod.collapse)+
qed

lemma matched_pods_keep:
  assumes "kube_keeps P K" "P w" "GetMatchedPodResources oor S K L ord raw m w = Some (r, flags, w')"
  shows "P w'"
  using assms(3) resourceFunc_keeps(1) [OF assms(1,2)] assms(2)
  by (auto simp: GetMatchedPodResources_def Let_def split_beta split: if_splits Option.bind_splits)

lemma matched_nodes_keep:
  assumes "kube_keeps P K" "P w" "getMatchedNodeResources oor S K L ord m w = Some (r, w')"
  shows "P w'"
  using assms(3) resourceFunc_keeps(2) [OF assms(1,2)] assms(2)
  by (auto simp: getMatchedNodeResources_def Let_def split_beta split: if_splits Option.bind_splits)

definition registry_keeps :: "('w \<Rightarrow> bool) \<Rightarrow> 'w exec_fun Registry \<Rightarrow> bool" where
  "registry_keeps P reg \<longleftrightarrow> (\<forall>t n a. GetExpActionModelSpec reg t n = Some a \<longrightarrow> exec_keeps P (ac_Executor a))"

lemma base_Exec_keeps:
  assumes "registry_keeps P reg" "base_Exec N reg ctx m w = Some (r, w')" "P w"
  shows "P w'"
  using assms(2,3) assms(1)
  by (auto simp: base_Exec_def registry_keeps_def exec_keeps_def keeps_go_def Let_def
      split: Option.bind_splits option.splits)

text \<open>Creating and destroying in each of the three scopes.\<close>

lemma controllers_keep:
  assumes K: "kube_keeps P (en_Kube N)" and R: "registry_keeps P reg" and "P w"
  shows "pod_Create N reg ctx x w = Some (r, w') \<Longrightarrow> P w'"
    and "node_Create N reg ctx x w = Some (r, w') \<Longrightarrow> P w'"
    and "container_Create N reg ctx x w = Some (r, w') \<Longrightarrow> P w'"
    and "pod_Destroy N reg ctx x old w = Some (r, w') \<Longrightarrow> P w'"
    and "node_Destroy N reg ctx x old w = Some (r, w') \<Longrightarrow> P w'"
    and "container_Destroy N reg ctx x old w = Some (r, w') \<Longrightarrow> P w'"
proof -
  note B = base_Exec_keeps [OF R] and M = matched_pods_keep [OF K assms(3)] matched_nodes_keep [OF K assms(3)]
  show "pod_Create N reg ctx x w = Some (r, w') \<Longrightarrow> P w'"
    by (auto simp: pod_Create_def Let_def split: Option.bind_splits if_splits dest!: M B)
  show "node_Create N reg ctx x w = Some (r, w') \<Longrightarrow> P w'"
    by (auto simp: node_Create_def Let_def split: Option.bind_splits if_splits dest!: M B)
  show "container_Create N reg ctx x w = Some (r, w') \<Longrightarrow> P w'"
    using assms(3) by (auto simp: container_Create_def Let_def split: Option.bind_splits if_splits dest!: M B)
  show "pod_Destroy N reg ctx x old w = Some (r, w') \<Longrightarrow> P w'"
    "node_Destroy N reg ctx x old w = Some (r, w') \<Longrightarrow> P w'"
    "container_Destroy N reg ctx x old w = Some (r, w') \<Longrightarrow> P w'"
    using assms(3) B
    by (auto simp: pod_Destroy_def node_Destroy_def container_Destroy_def
        split: Option.bind_splits if_splits option.splits)
qed

lemma dispatcher_keeps:
  assumes "kube_keeps P (en_Kube N)" "\<And>s. registry_keeps P (regs s)" "P w"
  shows "ex_Create (dispatcher N regs) n x w = Some (st, w') \<Longrightarrow> P w'"
    and "ex_Destroy (dispatcher N regs) n x old w = Some (st, w') \<Longrightarrow> P w'"
proof -
  note C = controllers_keep [OF assms(1) assms(2) assms(3)]
  show "ex_Create (dispatcher N regs) n x w = Some (st, w') \<Longrightarrow> P w'"
    using assms(3) C by (auto simp: dispatcher_def dispatch_Create_def dispatcher_controllers pod_Controller_def
        node_Controller_def container_Controller_def split: Option.bind_splits if_splits)
  show "ex_Destroy (dispatcher N regs) n x old w = Some (st, w') \<Longrightarrow> P w'"
    using assms(3) C by (auto simp: dispatcher_def dispatch_Destroy_def dispatcher_controllers pod_Controller_def
        node_Controller_def container_Controller_def Let_def split: Option.bind_splits if_splits)
qed

subsection \<open>The executors of the pod's own actions\<close>

lemma run_targets_keeps:
  assumes "\<And>c u r u'. P u \<Longrightarrow> body c u = Some (r, u') \<Longrightarrow> P u'"
    and "run_targets none body result ctx w = Some (r, w')" "P w"
  shows "P w'"
  using assms(2,3)
  by (auto simp: run_targets_def split: Option.bind_splits sum.splits
      intro: mapM_w_inv [where P = P] assms(1))

lemma net_calls_keep:
  assumes "net_keeps P H" "P w"
  shows "P (snd (InjectFault H addr msg w))" "P (snd (Revoke H addr w))"
  using net_keeps_snd [OF assms] assms(2)
  by (simp_all add: InjectFault_def Revoke_def Let_def split_beta split: sum.splits option.splits)

text \<open>A target body never panics but in the deletion, which needs the id of the experiment.\<close>

lemma pod_bodies_keep:
  assumes K: "kube_keeps P (en_Kube N)" and "P u"
  shows "delete_one N ctx c u = Some (r, u') \<Longrightarrow> P u'"
    and "fail_one N c u = Some (r, u') \<Longrightarrow> P u'"
    and "unfail_one N c u = Some (r, u') \<Longrightarrow> P u'"
    and "net_keeps P H \<Longrightarrow> io_one N H flags c u = Some (r, u') \<Longrightarrow> P u'"
    and "net_keeps P H \<Longrightarrow> unio_one N H c u = Some (r, u') \<Longrightarrow> P u'"
proof -
  note S = kube_keeps_snd [OF K]
  let ?w = "snd (k_GetPod (en_Kube N) (cm_Namespace c) (cm_PodName c) u)"
  have w: "P ?w" by (rule S(1) [OF assms(2)])
  show "delete_one N ctx c u = Some (r, u') \<Longrightarrow> P u'"
    using S(6) [OF assms(2)]
    by (auto simp: delete_one_def Let_def split_beta split: option.splits Option.bind_splits)
  have "fail_one N c u = Some (r, u') \<Longrightarrow> u' = ?w \<or> (\<exists>p. u' = snd (k_UpdatePod (en_Kube N) p ?w))"
    by (auto simp: fail_one_def failPod_def Let_def split_beta split: if_splits option.splits sum.splits)
  then show "fail_one N c u = Some (r, u') \<Longrightarrow> P u'" using w S(5) [OF w] by auto
  have "unfail_one N c u = Some (r, u') \<Longrightarrow> u' = ?w \<or> (\<exists>ns n. u' = snd (k_DeletePod (en_Kube N) ns n ?w))"
    by (auto simp: unfail_one_def split_beta split: sum.splits)
  then show "unfail_one N c u = Some (r, u') \<Longrightarrow> P u'" using w S(6) [OF w] by auto
  have "io_one N H flags c u = Some (r, u') \<Longrightarrow> u' = ?w \<or> (\<exists>a msg. u' = snd (InjectFault H a msg ?w))"
    by (auto simp: io_one_def Let_def split_beta split: if_splits sum.splits option.splits)
  then show "net_keeps P H \<Longrightarrow> io_one N H flags c u = Some (r, u') \<Longrightarrow> P u'"
    using w net_calls_keep(1) [where P = P, OF _ w] by auto
  have "unio_one N H c u = Some (r, u') \<Longrightarrow> u' = ?w \<or> (\<exists>a. u' = snd (Revoke H a ?w))"
    by (auto simp: unio_one_def Let_def split_beta split: if_splits sum.splits option.splits)
  then show "net_keeps P H \<Longrightarrow> unio_one N H c u = Some (r, u') \<Longrightarrow> P u'"
    using w net_calls_keep(2) [where P = P, OF _ w] by auto
qed

lemma own_actions_keep:
  assumes K: "kube_keeps P (en_Kube N)" and H: "net_keeps P H"
  shows "exec_keeps P (DeletePodActionExecutor_Exec N)" "exec_keeps P (FailPodActionExecutor_Exec N)"
    "exec_keeps P (PodIOActionExecutor_Exec N H)"
proof -
  note B = pod_bodies_keep [OF K] and R = run_targets_keeps [where P = P]
  have "delete_create N u ctx m w = Some (r, w') \<Longrightarrow> P w \<Longrightarrow> P w'" for u ctx m w r w'
    unfolding delete_create_def by (rule R [OF B(1)])
  moreover have "delete_destroy N u ctx m w = Some (r, w') \<Longrightarrow> P w \<Longrightarrow> P w'" for u ctx m w r w'
    unfolding delete_destroy_def by (rule R) (auto simp: undelete_one_def)
  ultimately show "exec_keeps P (DeletePodActionExecutor_Exec N)"
    by (auto simp: exec_keeps_def keeps_go_def DeletePodActionExecutor_Exec_def base_exec_by_def)
  have "fail_create N u ctx m w = Some (r, w') \<Longrightarrow> P w \<Longrightarrow> P w'" for u ctx m w r w'
    by (auto simp: fail_create_def split: Option.bind_splits intro: R [OF B(2)])
  moreover have "fail_destroy N u ctx m w = Some (r, w') \<Longrightarrow> P w \<Longrightarrow> P w'" for u ctx m w r w'
    by (auto simp: fail_destroy_def split: Option.bind_splits intro: R [OF B(3)])
  ultimately show "exec_keeps P (FailPodActionExecutor_Exec N)"
    by (auto simp: exec_keeps_def keeps_go_def FailPodActionExecutor_Exec_def base_exec_by_def)
  have "io_create N H u ctx m w = Some (r, w') \<Longrightarrow> P w \<Longrightarrow> P w'" for u ctx m w r w'
    by (auto simp: io_create_def Let_def split: Option.bind_splits intro: R [OF B(4) [OF _ H]])
  moreover have "io_destroy N H u ctx m w = Some (r, w') \<Longrightarrow> P w \<Longrightarrow> P w'" for u ctx m w r w'
    by (auto simp: io_destroy_def split: Option.bind_splits intro: R [OF B(5) [OF _ H]])
  ultimately show "exec_keeps P (PodIOActionExecutor_Exec N H)"
    by (auto simp: exec_keeps_def keeps_go_def PodIOActionExecutor_Exec_def base_exec_by_def)
qed

subsection \<open>The executors of commands\<close>

text \<open>
  The cache of the tool pods is a variable of the operator, so what is kept must not depend on it.
\<close>

definition names_free :: "('v world \<Rightarrow> bool) \<Rightarrow> bool" where
  "names_free P \<longleftrightarrow> (\<forall>w f. P w \<longrightarrow> P (w\<lparr>wd_Names := f\<rparr>))"

lemma daemonset_name_keeps:
  assumes "kube_keeps P (en_Kube N)" "names_free P" "P w"
  shows "P (snd (GetChaosBladeDaemonsetPodName N C n w))"
proof -
  note S = kube_keeps_snd [OF assms(1)]
  have "P (snd (refreshChaosBladeDaemonsetPodNames N C u))" if "P u" for u
    using S(3) [OF that] assms(2)
    by (simp add: refreshChaosBladeDaemonsetPodNames_def names_free_def split_beta split: sum.splits)
  then have "P (snd (case refreshChaosBladeDaemonsetPodNames N C u of
      (Some err, w1) \<Rightarrow> (Inl err, w1) | (None, w1) \<Rightarrow> (Inr (mget (wd_Names w1) n), w1)))" if "P u" for u
    using that by (simp add: split_beta split: option.splits)
  then show ?thesis
    using assms(3) S(1) [OF assms(3)]
    by (simp add: GetChaosBladeDaemonsetPodName_def Let_def split_beta split: sum.splits)
qed

text \<open>The loops over targets, by the interface of the loops: what each body keeps, the loop keeps.\<close>

lemma for_targets_keeps:
  assumes "\<And>obj u. P u \<Longrightarrow> P (snd (f obj u))"
  shows "P w \<Longrightarrow> P (snd (for_targets f objs w))"
proof (induction objs arbitrary: w)
  case (Cons obj objs)
  from assms [OF Cons.prems] have "P (snd (f obj w))" .
  with Cons.IH [OF this] show ?case by (simp add: split_beta split: sum.splits option.splits)
qed simp

lemma idents_keep:
  assumes K: "kube_keeps P (en_Kube N)" and F: "names_free P" and "P w"
  shows "(\<And>u. P u \<Longrightarrow> P (snd (command obj u))) \<Longrightarrow> P (snd (in_tool_pod N C command obj w))"
    and "P (snd (in_target N C m ov cmd obj w))"
    and "P (snd (docker_destroy_command N c net obj w))"
    and "P (snd (nsexec_identifier N C m c destroy obj w))"
proof -
  note S = kube_keeps_snd [OF K] and D = daemonset_name_keeps [OF K F]
  show tool: "P (snd (in_tool_pod N C command obj w))" if "\<And>u. P u \<Longrightarrow> P (snd (command obj u))" for command
    using that D [OF assms(3)] by (simp add: in_tool_pod_def split_beta split: sum.splits option.splits)
  have "stable (en_Kube N) (deploy_target obj) P" using S(7) by (simp add: stable_def)
  from deployChaosBlade_frame [OF this assms(3)] show "P (snd (in_target N C m ov cmd obj w))"
    by (simp add: in_target_def Let_def split_beta)
  show "P (snd (docker_destroy_command N c net obj w))"
    using S(1) [OF assms(3)] assms(3)
    by (simp add: docker_destroy_command_def getNewContainerIdByPod_def split_beta split: sum.splits)
  show "P (snd (nsexec_identifier N C m c destroy obj w))"
    using assms(3) tool by (simp add: nsexec_identifier_def split: sum.splits)
qed

lemma generated_keep:
  assumes K: "kube_keeps P (en_Kube N)" and F: "names_free P" and "P w"
  shows "P (snd (getNodeExperimentIdentifiers N C m objs ms d w))"
    and "P (snd (generateDestroyCommands N C m objs ms w))"
    and "P (snd (generateCreateCommands N C m objs ms w))"
    and "getDockerExperimentIdentifiers N C m objs ms d net w = Some (r, w') \<Longrightarrow> P w'"
    and "getCriExperimentIdentifiers N C m objs ms d net w = Some (r, w') \<Longrightarrow> P w'"
    and "P (snd (nsexec_identifiers N C m objs ms d w))"
proof -
  note I = idents_keep [OF K F]
  have loop: "P (snd (for_targets (in_tool_pod N C command) objs w))"
    if "\<And>obj u. P u \<Longrightarrow> P (snd (command obj u))" for command
    by (rule for_targets_keeps [OF I(1) [OF _ that] assms(3)])
  show node: "P (snd (getNodeExperimentIdentifiers N C m objs ms d w))"
    by (simp add: getNodeExperimentIdentifiers_def generateDestroyNodeCommands_def
        generateCreateNodeCommands_def loop)
  show "P (snd (generateDestroyCommands N C m objs ms w))" "P (snd (generateCreateCommands N C m objs ms w))"
    by (simp_all add: generateDestroyCommands_def generateCreateCommands_def Let_def
        for_targets_keeps [where P = P, OF I(2) assms(3)])
  show "P w'" if r: "getDockerExperimentIdentifiers N C m objs ms d net w = Some (r, w')"
  proof -
    from r obtain k where e: "(if d then generateDestroyDockerCommands N C m objs k net w
        else generateCreateDockerCommands N C m objs k w) = (r, w')"
      by (auto simp: getDockerExperimentIdentifiers_def split: Option.bind_splits)
    have "P (snd (r, w'))" unfolding e [symmetric]
      by (simp add: generateDestroyDockerCommands_def generateCreateDockerCommands_def Let_def loop loop [OF I(3)])
    then show ?thesis by simp
  qed
  show "P w'" if r: "getCriExperimentIdentifiers N C m objs ms d net w = Some (r, w')"
  proof -
    from r obtain k where e: "(if d then generateDestroyCriCommands N C m objs k w
        else generateCreateCriCommands N C m objs k w) = (r, w')"
      by (auto simp: getCriExperimentIdentifiers_def split: Option.bind_splits)
    have "P (snd (r, w'))" unfolding e [symmetric]
      by (simp add: generateDestroyCriCommands_def generateCreateCriCommands_def Let_def loop)
    then show ?thesis by simp
  qed
  show "P (snd (nsexec_identifiers N C m objs ms d w))"
    by (simp add: nsexec_identifiers_def node Let_def for_targets_keeps [where P = P, OF I(4) assms(3)])
qed

definition ids_keep :: "('w \<Rightarrow> bool) \<Rightarrow> 'w get_ids \<Rightarrow> bool" where
  "ids_keep P getIds \<longleftrightarrow> (\<forall>ctx m. keeps_go P (getIds ctx m))"

lemma getIds_keep:
  assumes K: "kube_keeps P (en_Kube N)" and F: "names_free P"
  shows "ids_keep P (getExperimentIdentifiers N C)" "ids_keep P (getExperimentIdentifiersWithNsexec N C)"
proof -
  note G = generated_keep [OF K F]
  have ids: "identifiers_for N C m objs ms d w = Some (r, w') \<Longrightarrow> P w \<Longrightarrow> P w'" for m objs ms d w r w'
    by (auto simp: identifiers_for_def split: if_splits Option.bind_splits
        dest: keptD [where P = P, OF G(1)] keptD [where P = P, OF G(2)] keptD [where P = P, OF G(3)] G(4) G(5))
  then show "ids_keep P (getExperimentIdentifiers N C)"
    unfolding ids_keep_def keeps_go_def getExperimentIdentifiers_def Let_def
    by (auto split: Option.bind_splits sum.splits)
  show "ids_keep P (getExperimentIdentifiersWithNsexec N C)"
    unfolding ids_keep_def keeps_go_def getExperimentIdentifiersWithNsexec_def Let_def
    by (auto split: Option.bind_splits sum.splits dest: keptD [where P = P, OF G(6)])
qed

text \<open>The pool: what every action of every goroutine keeps, every schedule keeps.\<close>

lemma execCommands_keep:
  assumes "kube_keeps P (en_Kube N)" "P w" "execCommands N b rs d w = Some (r, w')"
  shows "P w'"
proof -
  have "\<exists>req. w' = snd (k_Stream (en_Kube N) req w)"
    using assms(3)
    by (auto simp: execCommands_def Let_def split_beta split: Option.bind_splits if_splits)
  with kube_keeps_snd(7) [OF assms(1,2)] show ?thesis by auto
qed

lemma closure_keeps:
  assumes K: "kube_keeps P (en_Kube N)" and "P (sh_World s)"
    and r: "execCommandInPod N b m ids i t s = Some r"
  shows "P (sh_World (snd r))"
proof (cases t)
  case TStart
  have "P (snd (check_target N m (ids ! i) (sh_World s)))"
    using assms(2) kube_keeps_snd(1) [OF K assms(2)]
    by (simp add: check_target_def Let_def split_beta split: sum.splits)
  with r TStart show ?thesis by (auto simp: run_simps split: if_splits)
next
  case (TExec rs)
  with r show ?thesis by (auto simp: run_simps split: if_splits dest: execCommands_keep [OF K assms(2)])
qed (use r assms(2) in \<open>auto simp: run_simps\<close>)

lemma Exec_keeps:
  assumes K: "kube_keeps P (en_Kube N)" and ids: "ids_keep P getIds"
  shows "exec_keeps P (Exec N getIds sched)"
  unfolding exec_keeps_def keeps_go_def
proof (intro allI impI)
  fix u ctx m w r w'
  assume "P w" and e: "Exec N getIds sched u ctx m w = Some (r, w')"
  from e obtain g w1 where g: "getIds ctx m w = Some (g, w1)"
    by (auto simp: Exec_def split: Option.bind_splits)
  have w1: "P w1" using ids g \<open>P w\<close> unfolding ids_keep_def by (auto intro: keeps_goD)
  show "P w'"
  proof (cases g)
    case (Inl err)
    with e g w1 show ?thesis by (auto simp: Exec_def split: Option.bind_splits)
  next
    case (Inr objs)
    with e g obtain sh where sh: "ParallelizeExec (\<lambda>i. TStart) (execCommandInPod N (sp_IsDestroy (en_Spec N) ctx) m objs)
        3 sched (length objs) \<lparr>sh_Statuses = [], sh_Success = True, sh_World = w1\<rparr> = Some sh" "w' = sh_World sh"
      by (auto simp: Exec_def split: Option.bind_splits)
    from pods.parallelize_final [OF sh(1)] obtain p where p: "po_Shared p = sh"
      "pool_reach (\<lambda>i. TStart) (execCommandInPod N (sp_IsDestroy (en_Spec N) ctx) m objs)
         (pool_init (length objs) \<lparr>sh_Statuses = [], sh_Success = True, sh_World = w1\<rparr>) p" by blast
    from p(2) have "P (sh_World (po_Shared p))"
      by (rule pool_shared_inv [where I = "\<lambda>s. P (sh_World s)"])
        (use w1 closure_keeps [OF K] in \<open>auto simp: pool_init_def Let_def\<close>)
    with p(1) sh(2) show ?thesis by simp
  qed
qed

subsection \<open>The whole executor\<close>

lemma registries_keep:
  assumes "kube_keeps P (en_Kube N)" "names_free P" "net_keeps P H" "pkgs_contract pkgs"
  shows "registry_keeps P (registry_of N C sched H pkgs scope)"
  unfolding registry_keeps_def
proof (intro allI impI)
  fix t n a assume a: "GetExpActionModelSpec (registry_of N C sched H pkgs scope) t n = Some a"
  from found_action [OF a] obtain c as where c: "registry_of N C sched H pkgs scope t = Some c"
    "cs_Actions c = Some as" "a \<in> set as" by blast
  have "exec_keeps P (CommonExecutor_Exec N C sched)" "exec_keeps P (ExecCommandInPodExecutor_Exec N C sched)"
    using getIds_keep [OF assms(1,2)]
    by (simp_all add: CommonExecutor_Exec_def ExecCommandInPodExecutor_Exec_def Exec_keeps [OF assms(1)])
  with registry_cases [OF assms(4) c] own_actions_keep [OF assms(1,3)] show "exec_keeps P (ac_Executor a)"
    by (auto simp: own_pod_action_def NewDeletePodActionSpec_def NewFailPodActionSpec_def NewPodIOActionSpec_def)
qed

lemma operator_keeps:
  assumes "kube_keeps P (en_Kube N)" "names_free P" "net_keeps P H" "pkgs_contract pkgs" "P w"
  shows "ex_Create (operator_executor N C sched H pkgs) n x w = Some (st, w') \<Longrightarrow> P w'"
    and "ex_Destroy (operator_executor N C sched H pkgs) n x old w = Some (st, w') \<Longrightarrow> P w'"
  using dispatcher_keeps [where regs = "registry_of N C sched H pkgs", OF assms(1) registries_keep [OF assms(1-4)] assms(5)]
  unfolding operator_executor_def by blast+

subsection \<open>The contract of the parts\<close>

text \<open>
  What remains to be assumed is said of the calls alone: a call of the client, of a stream or of the fault
  server leaves the blade to the moves of the others, and the cache of the tool pods is no part of what
  the server stores.
\<close>

definition kube_rely :: "rely \<Rightarrow> 'w kube \<Rightarrow> ('w \<Rightarrow> bool) \<Rightarrow> ('w \<Rightarrow> blade_history) \<Rightarrow> bool" where
  "kube_rely M K ok hist \<longleftrightarrow> (\<forall>v. kube_keeps (calm M ok hist v) K)"

definition net_rely :: "rely \<Rightarrow> 'w net \<Rightarrow> ('w \<Rightarrow> bool) \<Rightarrow> ('w \<Rightarrow> blade_history) \<Rightarrow> bool" where
  "net_rely M H ok hist \<longleftrightarrow> (\<forall>v. net_keeps (calm M ok hist v) H)"

definition beside_names :: "('v world \<Rightarrow> bool) \<Rightarrow> ('v world \<Rightarrow> blade_history) \<Rightarrow> bool" where
  "beside_names ok hist \<longleftrightarrow>
     (\<forall>w f. ok (w\<lparr>wd_Names := f\<rparr>) = ok w \<and> hist (w\<lparr>wd_Names := f\<rparr>) = hist w)"

definition assembled_contract ::
  "'v world api \<Rightarrow> 'v world env \<Rightarrow> 'v world net \<Rightarrow> 'v world delete_call \<Rightarrow> string \<Rightarrow> ('v world \<Rightarrow> bool) \<Rightarrow>
     ('v world \<Rightarrow> blade_history) \<Rightarrow> bool" where
  "assembled_contract A N H del n ok hist \<longleftrightarrow> server_rely system_step A n ok hist \<and>
     kube_rely system_step (en_Kube N) ok hist \<and> net_rely system_step H ok hist \<and>
     delete_rely system_step del n ok hist \<and> list_rely system_step A n ok hist \<and>
     clear_rely system_step A n ok hist \<and> beside_names ok hist"

lemma beside_names_free: "beside_names ok hist \<Longrightarrow> names_free (calm M ok hist v)"
  by (simp add: beside_names_def names_free_def calm_def)

lemma operator_executor_rely:
  assumes "kube_rely M (en_Kube N) ok hist" "net_rely M H ok hist" "beside_names ok hist" "pkgs_contract pkgs"
  shows "executor_rely M (operator_executor N C sched H pkgs) ok hist"
proof -
  have K: "kube_keeps (calm M ok hist v) (en_Kube N)" "net_keeps (calm M ok hist v) H" for v
    using assms(1,2) by (simp_all add: kube_rely_def net_rely_def)
  show ?thesis
    using operator_keeps [OF K(1) beside_names_free [OF assms(3)] K(2) assms(4) calm_refl]
    unfolding executor_rely_def calm_def by blast
qed

lemma kube_stream_rely: "kube_rely M K ok hist \<Longrightarrow> stream_rely M K ok hist"
  using kube_keeps_snd(7) [where P = "calm M ok hist w" and w = w for w, OF _ calm_refl]
  unfolding kube_rely_def stream_rely_def calm_def by blast

text \<open>The goroutines of each call run as they will: another schedule at every call.\<close>

definition runs_operator ::
  "'v world executor \<Rightarrow> 'v world env \<Rightarrow> config \<Rightarrow> 'v world net \<Rightarrow> 'v world exec_fun spec_pkgs \<Rightarrow> bool" where
  "runs_operator E N C H pkgs \<longleftrightarrow>
     (\<forall>n x w. \<exists>sched. ex_Create E n x w = ex_Create (operator_executor N C sched H pkgs) n x w) \<and>
     (\<forall>n x old w. \<exists>sched. ex_Destroy E n x old w = ex_Destroy (operator_executor N C sched H pkgs) n x old w)"

lemma assembled_system:
  assumes C: "assembled_contract A N H del n ok hist" and P: "pkgs_contract pkgs"
    and R: "runs_operator E N C H pkgs"
  shows "system_contract A E N del n ok hist"
proof -
  have E: "executor_rely system_step (operator_executor N C sched H pkgs) ok hist" for sched
    using C P by (simp add: assembled_contract_def operator_executor_rely)
  have "executor_rely system_step E ok hist"
    using R E unfolding executor_rely_def runs_operator_def by metis
  with C kube_stream_rely [of system_step "en_Kube N" ok hist] show ?thesis
    by (simp add: assembled_contract_def system_contract_def)
qed

subsection \<open>The property\<close>

text \<open>C2. The operator as it is assembled refines the machine of all moves: with the reconciler over the dispatcher,
  the scope controllers, the registered models and their executors, whose goroutines run under any schedules,
  and with the watchers, the clean-up and the users, every stored state of a blade follows from the history
  before it by a move of one of them, provided only that each single call to the outside leaves the blade
  to such moves.\<close>

theorem assembled_operator_refines:
  assumes "assembled_contract A N H del n ok hist" "pkgs_contract pkgs" "runs_operator E N C H pkgs"
    and "system_reach A E unm N del now n ok hist w"
  shows "grows system_step [None] (hist w)"
  using system_reach_good [OF assembled_system [OF assms(1-3)] assms(4)]
  by (simp add: good_def system_history_def)

subsection \<open>A run\<close>

text \<open>
  The server of theory \<open>System\<close> beside the cache of the tool pods. The cluster has no pods, so the experiment
  cannot be created; the user deletes the blade, and with nothing to destroy the reconciler lets it go.
\<close>

definition beside_call :: "('v \<Rightarrow> 'r \<times> 'v) \<Rightarrow> 'v world \<Rightarrow> 'r \<times> 'v world" where
  "beside_call f w = (fst (f (wd_Ext w)), w\<lparr>wd_Ext := snd (f (wd_Ext w))\<rparr>)"

definition world_api :: "blade_history world api" where
  "world_api = \<lparr>ap_Get = (\<lambda>n. beside_call (ap_Get sys_api n)), ap_Update = (\<lambda>cb. beside_call (ap_Update sys_api cb)),
     ap_StatusUpdate = (\<lambda>cb. beside_call (ap_StatusUpdate sys_api cb)), ap_List = beside_call (ap_List sys_api),
     ap_ClearFinalizers = (\<lambda>n. beside_call (ap_ClearFinalizers sys_api n))\<rparr>"

definition world_delete :: "blade_history world delete_call" where
  "world_delete n = beside_call (sys_delete n)"

lemma beside_call_eq: "beside_call f w = (r, w') \<Longrightarrow> f (wd_Ext w) = (r, wd_Ext w')"
  by (auto simp: beside_call_def)

lemma beside_get:
  assumes "get_ok M g n ok hist"
  shows "get_ok M (\<lambda>n. beside_call (g n)) n (\<lambda>w. ok (wd_Ext w)) (\<lambda>w. hist (wd_Ext w))"
  unfolding get_ok_def by (intro allI impI, drule beside_call_eq) (use assms in \<open>simp add: get_ok_def\<close>)

lemma beside_put:
  assumes "put_ok M p f n ok hist"
  shows "put_ok M (\<lambda>cb. beside_call (p cb)) f n (\<lambda>w. ok (wd_Ext w)) (\<lambda>w. hist (wd_Ext w))"
proof -
  have "write_ok M (\<lambda>w. hist (wd_Ext w)) f cb w r w' = write_ok M hist f cb (wd_Ext w) r (wd_Ext w')" for cb w r w'
    by (simp add: write_ok_def split_beta)
  with assms show ?thesis unfolding put_ok_def by (blast dest: beside_call_eq)
qed

lemma world_api_rely: "server_rely M world_api n (\<lambda>w. log_ok n (wd_Ext w)) wd_Ext"
  using sys_api_rely [of M n] beside_get [of M "ap_Get sys_api" n "log_ok n" id]
    beside_put [of M _ _ n "log_ok n" id]
  by (simp add: server_rely_def world_api_def versions_ok_def)

lemma world_list: "list_rely M world_api n (\<lambda>w. log_ok n (wd_Ext w)) wd_Ext"
  unfolding list_rely_def
  by (intro allI impI, simp add: world_api_def, drule beside_call_eq)
    (use sys_list [of M n] in \<open>simp add: list_rely_def\<close>)

lemma world_clear: "clear_rely M world_api n (\<lambda>w. log_ok n (wd_Ext w)) wd_Ext"
  unfolding clear_rely_def
  by (intro allI impI, simp only: world_api_def api.simps, drule beside_call_eq)
    (rule sys_clears [of M n, unfolded clear_rely_def id_def, rule_format])

lemma world_deletes: "delete_rely system_step world_delete n (\<lambda>w. log_ok n (wd_Ext w)) wd_Ext"
  using sys_deletes [of n] by (simp add: delete_rely_def world_delete_def beside_call_def)

lemma quiet_rely: "kube_rely M (quiet_kube pods) ok hist" "net_rely M silent_net ok hist"
  by (simp_all add: kube_rely_def kube_keeps_def net_rely_def net_keeps_def keeps_def quiet_kube_def silent_net_def)

lemma world_contract:
  "assembled_contract world_api (sample_env pods) silent_net world_delete n (\<lambda>w. log_ok n (wd_Ext w)) wd_Ext"
  by (simp add: assembled_contract_def world_api_rely world_list world_clear world_deletes quiet_rely
      beside_names_def sample_env_def)

abbreviation beside_h :: "blade_history \<Rightarrow> blade_history world" where
  "beside_h h \<equiv> \<lparr>wd_Names = Map.empty, wd_Ext = h\<rparr>"

lemma world_reconcile:
  "ap_Get world_api n (beside_h h) = (fst (ap_Get log_api n h), beside_h (snd (ap_Get log_api n h)))"
  "ap_Update world_api cb (beside_h h) = (fst (log_write main_write cb h), beside_h (snd (log_write main_write cb h)))"
  "ap_StatusUpdate world_api cb (beside_h h) = (fst (log_write status_write cb h), beside_h (snd (log_write status_write cb h)))"
  by (simp_all add: world_api_def beside_call_def sys_api_def log_api_def)

definition no_pod_status :: ExperimentStatus where
  "no_pod_status = (CreateFailExperimentStatus (sp_Msg sample_spec ContainerInContextNotFound) (Some []))
     \<lparr>es_Scope := ''pod'', es_Target := ''pod'', es_Action := ''delete''\<rparr>"

lemma no_pods_created:
  "ex_Create (operator_executor (sample_env []) sample_config sched silent_net sample_pkgs) ''b'' spec_a w =
     Some (no_pod_status, w)"
  by (simp add: operator_executor_def dispatcher_def dispatch_Create_def dispatcher_controllers pod_Controller_def spec_a_def
      pod_Create_def SetExperimentIdToContext_def sample_env_def GetMatchedPodResources_def DefaultNamespace_def CheckPodFlags_def CheckFlags_def
      pod_resourceFunc_def ExtractExpModelFromExperimentSpec_def flag_defs ParseLabels_def
      quiet_kube_def spec_contractD [OF sample_spec_contract] Let_def has_prefix_def mget_def
      createExperimentStatusByResponse_def no_pod_status_def)

lemma no_pods_destroyed:
  "ex_Destroy (operator_executor (sample_env []) sample_config sched silent_net sample_pkgs) ''b'' spec_a no_pod_status w =
     Some (CreateDestroyedStatus no_pod_status, w)"
  by (simp add: operator_executor_def dispatcher_def dispatch_Destroy_def dispatcher_controllers spec_a_def
      no_pod_status_def CreateFailExperimentStatus_def)

abbreviation pod_operator :: "blade_history world executor" where
  "pod_operator \<equiv> operator_executor (sample_env []) sample_config id silent_net sample_pkgs"

abbreviation world_run :: "blade_history \<Rightarrow> bool" where
  "world_run h \<equiv> system_reach world_api pod_operator (unary_unm []) (sample_env []) world_delete (\<lambda>_. 0) ''b''
     (\<lambda>w. log_ok ''b'' (wd_Ext w)) wd_Ext (beside_h h)"

definition blade_b_failed :: ChaosBlade where
  "blade_b_failed = blade_b_ready\<lparr>cb_ResourceVersion := ''xxxx'', cb_Phase := PhaseError,
     cb_ExpStatuses := Some [no_pod_status]\<rparr>"

definition blade_b_dropped :: ChaosBlade where
  "blade_b_dropped = blade_b_failed\<lparr>cb_ResourceVersion := ''xxxxx'', cb_DeletionTimestamp := Some 0\<rparr>"

definition blade_b_undone :: ChaosBlade where
  "blade_b_undone = blade_b_dropped\<lparr>cb_ResourceVersion := ''xxxxxx'', cb_Phase := PhaseDestroyed,
     cb_ExpStatuses := Some [CreateDestroyedStatus no_pod_status]\<rparr>"

lemmas blade_run_defs = blade_b_defs blade_b_failed_def blade_b_dropped_def blade_b_undone_def

lemma world_run_start: "world_run [Some blade_b_ready, Some blade_b_armed, Some blade_b, None]"
proof -
  have 0: "world_run [None]" by (rule s_begins) simp_all
  have 1: "world_run [Some blade_b, None]"
    by (rule s_acts [OF 0])
      (auto simp: blade_b_def log_version_def intro!: grows_step [OF grows_same] by_user user_move.create)
  have "Reconcile world_api pod_operator (unary_unm []) ''b'' (beside_h [Some blade_b, None]) =
      Some (beside_h [Some blade_b_armed, Some blade_b, None])"
    by (simp add: Reconcile_def world_reconcile log_api_def blade_b_defs reconcile_object_def reconcile_initial_def
        spec_a_def log_write_def main_write_def stored_def one_store_def log_version_def)
  from s_reconciles [OF 1 this] have 2: "world_run [Some blade_b_armed, Some blade_b, None]" .
  have "Reconcile world_api pod_operator (unary_unm []) ''b'' (beside_h [Some blade_b_armed, Some blade_b, None]) =
      Some (beside_h [Some blade_b_ready, Some blade_b_armed, Some blade_b, None])"
    by (simp add: Reconcile_def world_reconcile log_api_def blade_b_defs reconcile_object_def reconcile_initial_def
        spec_a_def log_write_def status_write_def stored_def one_store_def log_version_def)
  from s_reconciles [OF 2 this] show ?thesis .
qed

lemma world_run_create:
  "world_run [Some blade_b_failed, Some blade_b_ready, Some blade_b_armed, Some blade_b, None]"
proof -
  have "Reconcile world_api pod_operator (unary_unm []) ''b'' (beside_h [Some blade_b_ready, Some blade_b_armed, Some blade_b, None]) =
      Some (beside_h [Some blade_b_failed, Some blade_b_ready, Some blade_b_armed, Some blade_b, None])"
    by (simp add: Reconcile_def world_reconcile log_api_def blade_b_defs blade_b_failed_def reconcile_object_def
        reconcile_create_def no_pods_created log_write_def status_write_def stored_def one_store_def log_version_def)
      (simp add: no_pod_status_def CreateFailExperimentStatus_def)
  from s_reconciles [OF world_run_start this] show ?thesis .
qed

lemma world_run_gone:
  "world_run [None, Some blade_b_undone, Some blade_b_dropped, Some blade_b_failed, Some blade_b_ready, Some blade_b_armed,
     Some blade_b, None]"
proof -
  let ?h = "[Some blade_b_failed, Some blade_b_ready, Some blade_b_armed, Some blade_b, None]"
  have "grows system_step ?h (Some blade_b_dropped # ?h)"
    by (rule grows_step [OF grows_same], rule by_user, rule user_move.edit) (auto simp: blade_run_defs armed_def)
  then have 1: "world_run (Some blade_b_dropped # ?h)"
    by (intro s_acts [OF world_run_create]) (simp_all add: blade_run_defs log_version_def)
  have ok: "es_Success (CreateDestroyedStatus no_pod_status)"
    by (simp add: CreateDestroyedStatus_def CreateDestroyedExperimentStatus_def)
  have "Reconcile world_api pod_operator (unary_unm []) ''b'' (beside_h (Some blade_b_dropped # ?h)) =
      Some (beside_h (Some blade_b_undone # Some blade_b_dropped # ?h))"
    by (simp add: Reconcile_def world_reconcile log_api_def blade_run_defs reconcile_object_def finalizeChaosBlade_def
        destroy_step_def no_pods_destroyed ok log_write_def status_write_def stored_def one_store_def log_version_def)
  from s_reconciles [OF 1 this] have 2: "world_run (Some blade_b_undone # Some blade_b_dropped # ?h)" .
  have "Reconcile world_api pod_operator (unary_unm []) ''b'' (beside_h (Some blade_b_undone # Some blade_b_dropped # ?h)) =
      Some (beside_h (None # Some blade_b_undone # Some blade_b_dropped # ?h))"
    by (simp add: Reconcile_def world_reconcile log_api_def blade_run_defs reconcile_object_def reconcile_destroyed_def
        remove_distinct spec_a_def log_write_def main_write_def stored_def one_store_def log_version_def)
  from s_reconciles [OF 2 this] show ?thesis .
qed

lemma runs_itself: "runs_operator (operator_executor N C sched H pkgs) N C H pkgs"
  by (auto simp: runs_operator_def)

lemma assembled_operator_refines_witness:
  "grows system_step [None] [None, Some blade_b_undone, Some blade_b_dropped, Some blade_b_failed, Some blade_b_ready,
     Some blade_b_armed, Some blade_b, None]"
  using assembled_operator_refines [OF world_contract sample_pkgs_contract runs_itself world_run_gone] by simp

end
