(* ===== verification/Examples.thy ===== *)
theory Examples
  imports Selection
begin

section \<open>The help texts of the actions\<close>

text \<open>
  Each scope gives the actions it registers a description and an example (\<open>addActionExamples\<close> in
  \<open>exec/node/node.go\<close>, \<open>exec/pod/pod.go\<close> and \<open>exec/container/container.go\<close>). The texts are written out, one
  definition for each case of the switch on the Go type of the action; an action of another type, of a package
  that is not read here, has its own example rewritten. The examples are commands that users copy: the
  lemmas say what the rewriting makes of a command of the basic tool.
\<close>

subsection \<open>Texts and actions\<close>

definition text_lines :: "string list \<Rightarrow> string" where
  "text_lines = go_join [CHR 0x0A]"

record help_text =
  ht_LongDesc :: string
  ht_Example :: string

text \<open>The Go types of the switches, and any other one.\<close>

datatype action_type =
  FullLoadActionCommand
  | DelayActionSpec
  | DropActionSpec
  | DnsActionSpec
  | LossActionSpec
  | DuplicateActionSpec
  | CorruptActionSpec
  | ReorderActionSpec
  | OccupyActionSpec
  | KillProcessActionCommandSpec
  | StopProcessActionCommandSpec
  | FillActionSpec
  | BurnActionSpec
  | MemLoadActionCommand
  | FileAppendActionSpec
  | FileAddActionSpec
  | FileChmodActionSpec
  | FileDeleteActionSpec
  | FileMoveActionSpec
  | ScriptDelayActionCommand
  | ScriptExitActionCommand
  | RemoveActionCommand
  | OtherAction

record action_spec =
  as_Name :: string
  as_Type :: action_type
  as_Help :: help_text

text \<open>The category that the actions on pods and their containers carry (\<open>category.go\<close>).\<close>

definition CategorySystemContainer :: string where
  "CategorySystemContainer = ''system_container''"

subsection \<open>The texts of exec/node/node.go\<close>

definition node_FullLoadActionCommand :: "help_text \<Rightarrow> help_text" where
  "node_FullLoadActionCommand h = h\<lparr>ht_LongDesc := ''The CPU load experiment scenario for k8s node'',
     ht_Example := text_lines
     [''# Create a CPU full load experiment in the node'',
      ''## using SSH channel '',
      ''blade create k8s node-cpu load --channel ssh --ssh-host 192.168.1.100 --ssh-user root'',
      ''## using DaemonSet'',
      ''blade create k8s node-cpu load --names izbp1a4jchbdwkwi5hk7ekz --kubeconfig ~/.kube/config --timeout 30'',
      [],
      ''#Specifies two random kernel's full load in the node'',
      ''## using SSH channel '',
      ''blade create k8s node-cpu load --cpu-percent 60 --cpu-count 2 --channel ssh --ssh-host 192.168.1.100 --ssh-user root'',
      ''## using DaemonSet'',
      ''blade create k8s node-cpu load --cpu-percent 60 --cpu-count 2 --names izbp1a4jchbdwkwi5hk7ekz --kubeconfig ~/.kube/config --timeout 30'',
      [],
      ''# Specifies that the kernel is full load with index 0, 3, and that the kernel's index starts at 0'',
      ''## using SSH channel '',
      ''blade create k8s node-cpu load --cpu-list 0,3 --channel ssh --ssh-host 192.168.1.100 --ssh-user root'',
      ''## using DaemonSet'',
      ''blade create k8s node-cpu load --cpu-list 0,3 --names izbp1a4jchbdwkwi5hk7ekz --kubeconfig ~/.kube/config --timeout 30'',
      [],
      ''# Specify the kernel full load of indexes 1-3'',
      ''## using SSH channel'',
      ''blade create k8s node-cpu load --cpu-list 1-3 --channel ssh --ssh-host 192.168.1.100 --ssh-user root'',
      ''## using DaemonSet'',
      ''blade create k8s node-cpu load --cpu-list 1-3 --names izbp1a4jchbdwkwi5hk7ekz --kubeconfig ~/.kube/config --timeout 30'',
      [],
      ''# Specified percentage load in the node'',
      ''## using SSH channel'',
      ''blade create k8s node-cpu load --cpu-percent 60 --channel ssh --ssh-host 192.168.1.100 --ssh-user root'',
      ''## using DaemonSet'',
      ''blade create k8s node-cpu load --cpu-percent 60 --names izbp1a4jchbdwkwi5hk7ekz --kubeconfig ~/.kube/config --timeout 30'']\<rparr>"

definition node_DelayActionSpec :: "help_text \<Rightarrow> help_text" where
  "node_DelayActionSpec h = h\<lparr>ht_LongDesc := text_lines
     ['' The network delay experiment scenario for k8s node.'',
      ''!!! Using DaemonSet may result in failure to use the kubernetes API for destroy experiment.'',
      ''!!! Please use caution, add a timeout parameter for automatic destroy, or use the SSH channel.'',
      []],
     ht_Example := text_lines
     [''# Access to native 8080 and 8081 ports is delayed by 3 seconds, and the delay time fluctuates by 1 second'',
      ''## using SSH channel'',
      ''blade create k8s node-network delay --time 3000 --offset 1000 --interface eth0 --local-port 8080,8081 --channel ssh --ssh-host 192.168.1.100 --ssh-user root'',
      ''## using DaemonSet'',
      ''blade create k8s node-network delay --time 3000 --offset 1000 --interface eth0 --names izbp1a4jchbdwkwi5hk7ekz --kubeconfig ~/.kube/config --timeout 30'',
      [],
      ''# Local access to external 14.215.177.39 machine (ping www.baidu.com obtained IP) port 80 delay of 3 seconds'',
      ''## using SSH channel'',
      ''blade create k8s node-network delay --time 3000 --interface eth0 --remote-port 80 --destination-ip 14.215.177.39 --channel ssh --ssh-host 192.168.1.100 --ssh-user root'',
      ''## using DaemonSet'',
      ''blade create k8s node-network delay --time 3000 --interface eth0 --remote-port 80 --destination-ip 14.215.177.39 --names izbp1a4jchbdwkwi5hk7ekz --kubeconfig ~/.kube/config --timeout 30'',
      [],
      ''# Do a 5 second delay for the entire network card eth0, excluding ports 22 and 8000 to 8080'',
      ''## using SSH channel'',
      ''blade create k8s node-network delay --time 5000 --interface eth0 --exclude-port 22,8000-8080 --channel ssh --ssh-host 192.168.1.100 --ssh-user root'',
      ''## using DaemonSet'',
      ''blade create k8s node-network delay --time 5000 --interface eth0 --exclude-port 22,8000-8080 --names izbp1a4jchbdwkwi5hk7ekz --kubeconfig ~/.kube/config --timeout 30'']\<rparr>"

definition node_DropActionSpec :: "help_text \<Rightarrow> help_text" where
  "node_DropActionSpec h = h\<lparr>ht_LongDesc := text_lines
     [''!!! Using DaemonSet may result in failure to use the kubernetes API for destroy experiment.'',
      ''!!! Please use caution, add a timeout parameter for automatic destroy, or use the SSH channel.''],
     ht_Example := text_lines
     [''# Experimental scenario of network shielding'',
      ''## using SSH channel'',
      ''blade create k8s node-network drop --source-port 80 --network-traffic in --channel ssh --ssh-host 192.168.1.100 --ssh-user root'',
      ''## using DaemonSet'',
      ''blade create k8s node-network drop --source-port 80 --network-traffic in --names izbp1a4jchbdwkwi5hk7ekz --kubeconfig ~/.kube/config --timeout 30'']\<rparr>"

definition node_DnsActionSpec :: "help_text \<Rightarrow> help_text" where
  "node_DnsActionSpec h = h\<lparr>ht_LongDesc := text_lines
     [[],
      ''!!! Using DaemonSet may result in failure to use the kubernetes API for destroy experiment.'',
      ''!!! Please use caution, add a timeout parameter for automatic destroy, or use the SSH channel.''],
     ht_Example := text_lines
     [''# The domain name www.baidu.com is not accessible'',
      ''## using SSH channel'',
      ''blade create k8s node-network dns --domain www.baidu.com --ip 10.0.0.0 --channel ssh --ssh-host 192.168.1.100 --ssh-user root'',
      ''## using DaemonSet'',
      ''blade create k8s node-network dns --domain www.baidu.com --ip 10.0.0.0 --channel ssh --names izbp1a4jchbdwkwi5hk7ekz --kubeconfig ~/.kube/config --timeout 30'']\<rparr>"

definition node_LossActionSpec :: "help_text \<Rightarrow> help_text" where
  "node_LossActionSpec h = h\<lparr>ht_LongDesc := text_lines
     [[],
      ''!!! Using DaemonSet may result in failure to use the kubernetes API for destroy experiment.'',
      ''!!! Please use caution, add a timeout parameter for automatic destroy, or use the SSH channel.''],
     ht_Example := text_lines
     [''# Access to native 8080 and 8081 ports lost 70% of packets'',
      ''## using SSH channel'',
      ''blade create k8s node-network loss --percent 70 --interface eth0 --local-port 8080,8081 --channel ssh --ssh-host 192.168.1.100 --ssh-user root'',
      ''## using DaemonSet'',
      ''blade create k8s node-network loss --percent 70 --interface eth0 --local-port 8080,8081 --names izbp1a4jchbdwkwi5hk7ekz --kubeconfig ~/.kube/config --timeout 30'',
      [],
      ''# The machine accesses external 14.215.177.39 machine (ping www.baidu.com) 80 port packet loss rate 100%'',
      ''## using SSH channel'',
      ''blade create k8s node-network loss --percent 100 --interface eth0 --remote-port 80 --destination-ip 14.215.177.39 --channel ssh --ssh-host 192.168.1.100 --ssh-user root'',
      ''## using DaemonSet'',
      ''blade create k8s node-network loss --percent 100 --interface eth0 --remote-port 80 --destination-ip 14.215.177.39 --names izbp1a4jchbdwkwi5hk7ekz --kubeconfig ~/.kube/config --timeout 30'',
      [],
      ''# Do 60% packet loss for the entire network card Eth0, excluding ports 22 and 8000 to 8080'',
      ''## using SSH channel'',
      ''blade create k8s node-network loss --percent 60 --interface eth0 --exclude-port 22,8000-8080 --channel ssh --ssh-host 192.168.1.100 --ssh-user root'',
      ''## using DaemonSet'',
      ''blade create k8s node-network loss --percent 60 --interface eth0 --exclude-port 22,8000-8080 --names izbp1a4jchbdwkwi5hk7ekz --kubeconfig ~/.kube/config --timeout 30'',
      [],
      ''# Realize the whole network card is not accessible, not accessible time 20 seconds. After executing the following command, the current network is disconnected and restored in 20 seconds. Remember!! Don't forget -timeout parameter'',
      ''## using SSH channel'',
      ''blade create k8s node-network loss --percent 100 --interface eth0 --timeout 20 --channel ssh --ssh-host 192.168.1.100 --ssh-user root'',
      ''## using DaemonSet'',
      ''blade create k8s node-network loss --percent 100 --interface eth0 --timeout 20 --names izbp1a4jchbdwkwi5hk7ekz --kubeconfig ~/.kube/config'']\<rparr>"

definition node_DuplicateActionSpec :: "help_text \<Rightarrow> help_text" where
  "node_DuplicateActionSpec h = h\<lparr>ht_LongDesc := text_lines
     [[],
      ''!!! Using DaemonSet may result in failure to use the kubernetes API for destroy experiment.'',
      ''!!! Please use caution, add a timeout parameter for automatic destroy, or use the SSH channel.''],
     ht_Example := text_lines
     [''# Specify the network card eth0 and repeat the packet by 10%'',
      ''## using SSH channel'',
      ''blade create k8s node-network duplicate --percent=10 --interface=eth0 --channel ssh --ssh-host 192.168.1.100 --ssh-user root'',
      ''## using DaemonSet'',
      ''blade create k8s node-network duplicate --percent=10 --interface=eth0 --names izbp1a4jchbdwkwi5hk7ekz --kubeconfig ~/.kube/config --timeout 30'']\<rparr>"

definition node_CorruptActionSpec :: "help_text \<Rightarrow> help_text" where
  "node_CorruptActionSpec h = h\<lparr>ht_LongDesc := text_lines
     [[],
      ''!!! Using DaemonSet may result in failure to use the kubernetes API for destroy experiment.'',
      ''!!! Please use caution, add a timeout parameter for automatic destroy, or use the SSH channel.''],
     ht_Example := text_lines
     [''# Access to the specified IP request packet is corrupted, 80% of the time'',
      ''## using SSH channel'',
      ''blade create k8s node-network corrupt --percent 80 --destination-ip 180.101.49.12 --interface eth0 --channel ssh --ssh-host 192.168.1.100 --ssh-user root'',
      ''## using DaemonSet'',
      ''blade create k8s node-network corrupt --percent 80 --destination-ip 180.101.49.12 --interface eth0 --names izbp1a4jchbdwkwi5hk7ekz --kubeconfig ~/.kube/config --timeout 30'']\<rparr>"

definition node_ReorderActionSpec :: "help_text \<Rightarrow> help_text" where
  "node_ReorderActionSpec h = h\<lparr>ht_LongDesc := text_lines
     [[],
      ''!!! Using DaemonSet may result in failure to use the kubernetes API for destroy experiment.'',
      ''!!! Please use caution, add a timeout parameter for automatic destroy, or use the SSH channel.''],
     ht_Example := text_lines
     [''# Access the specified IP request packet disorder'',
      ''## using SSH channel'',
      ''blade create k8s node-network reorder --correlation 80 --percent 50 --gap 2 --time 500 --interface eth0 --destination-ip 180.101.49.12 --channel ssh --ssh-host 192.168.1.100 --ssh-user root'',
      ''## using DaemonSet'',
      ''blade create k8s node-network reorder --correlation 80 --percent 50 --gap 2 --time 500 --interface eth0 --destination-ip 180.101.49.12 --names izbp1a4jchbdwkwi5hk7ekz --kubeconfig ~/.kube/config --timeout 30'']\<rparr>"

definition node_OccupyActionSpec :: "help_text \<Rightarrow> help_text" where
  "node_OccupyActionSpec h = h\<lparr>ht_LongDesc := text_lines
     [[],
      ''!!! Using DaemonSet may result in failure to use the kubernetes API for destroy experiment.'',
      ''!!! Please use caution, add a timeout parameter for automatic destroy, or use the SSH channel.''],
     ht_Example := text_lines
     [''#Specify port 8080 occupancy'',
      ''## using SSH channel'',
      ''blade create k8s node-network occupy --port 8080 --force --channel ssh --ssh-host 192.168.1.100 --ssh-user root'',
      ''## using DaemonSet'',
      ''blade create k8s node-network occupy --port 8080 --force --names izbp1a4jchbdwkwi5hk7ekz --kubeconfig ~/.kube/config --timeout 30'',
      [],
      ''# The machine accesses external 14.215.177.39 machine (ping www.baidu.com) 80 port packet loss rate 100%'',
      ''## using SSH channel'',
      ''blade create k8s node-network loss --percent 100 --interface eth0 --remote-port 80 --destination-ip 14.215.177.39 --channel ssh --ssh-host 192.168.1.100 --ssh-user root'',
      ''## using DaemonSet'',
      ''blade create k8s node-network loss --percent 100 --interface eth0 --remote-port 80 --destination-ip 14.215.177.39 --names izbp1a4jchbdwkwi5hk7ekz --kubeconfig ~/.kube/config --timeout 30'']\<rparr>"

definition node_KillProcessActionCommandSpec :: "help_text \<Rightarrow> help_text" where
  "node_KillProcessActionCommandSpec h = h\<lparr>ht_LongDesc := ''The process scenario in container is the same as the basic resource process scenario'',
     ht_Example := text_lines
     [[],
      ''# Kill the nginx process in the node'',
      ''## using SSH channel'',
      ''blade create k8s node-process kill --process nginx --channel ssh --ssh-host 192.168.1.100 --ssh-user root'',
      ''## using DaemonSet'',
      ''blade create k8s node-process kill --process nginx --names izbp1a4jchbdwkwi5hk7ekz --kubeconfig ~/.kube/config --timeout 30'',
      [],
      ''# Specifies the signal and local port to kill the process in the node'',
      ''## using SSH channel'',
      ''blade create k8s node-process kill --local-port 8080 --signal 15 --channel ssh --ssh-host 192.168.1.100 --ssh-user root'',
      ''## using DaemonSet'',
      ''blade create k8s node-process kill --local-port 8080 --signal 15 --names izbp1a4jchbdwkwi5hk7ekz --kubeconfig ~/.kube/config --timeout 30'']\<rparr>"

definition node_StopProcessActionCommandSpec :: "help_text \<Rightarrow> help_text" where
  "node_StopProcessActionCommandSpec h = h\<lparr>ht_LongDesc := ''The process scenario in container is the same as the basic resource process scenario'',
     ht_Example := text_lines
     [[],
      ''# Pause the process that contains the \"nginx\" keyword in the node'',
      ''## using SSH channel'',
      ''blade create k8s node-process stop --process nginx --channel ssh --ssh-host 192.168.1.100 --ssh-user root'',
      ''## using DaemonSet'',
      ''blade create k8s node-process stop --process nginx --names izbp1a4jchbdwkwi5hk7ekz --kubeconfig ~/.kube/config --timeout 30'',
      [],
      ''# Pause the Java process in the node'',
      ''## using SSH channel'',
      ''blade create k8s node-process stop --process-cmd java --channel ssh --ssh-host 192.168.1.100 --ssh-user root'',
      ''## using DaemonSet'',
      ''blade create k8s node-process stop --process-cmd java --names izbp1a4jchbdwkwi5hk7ekz --kubeconfig ~/.kube/config --timeout 30'']\<rparr>"

definition node_FillActionSpec :: "help_text \<Rightarrow> help_text" where
  "node_FillActionSpec h = h\<lparr>ht_LongDesc := ''The disk fill scenario experiment in the node'',
     ht_Example := text_lines
     [[],
      ''# Fill the /home directory with 40G of disk space in the node'',
      ''## using SSH channel'',
      ''blade create k8s node-disk fill --path /home --size 40000 --channel ssh --ssh-host 192.168.1.100 --ssh-user root'',
      ''## using DaemonSet'',
      ''blade create k8s node-disk fill --path /home --size 40000 --names izbp1a4jchbdwkwi5hk7ekz --kubeconfig ~/.kube/config --timeout 30'',
      [],
      ''# Fill the /home directory with 80% of the disk space in the node and retains the file handle that populates the disk'',
      ''## using SSH channel'',
      ''blade create k8s node-disk fill --path /home --percent 80 --retain-handle --channel ssh --ssh-host 192.168.1.100 --ssh-user root'',
      ''## using DaemonSet'',
      ''blade create k8s node-disk fill --path /home --percent 80 --retain-handle --names izbp1a4jchbdwkwi5hk7ekz --kubeconfig ~/.kube/config --timeout 30'',
      [],
      ''# Perform a fixed-size experimental scenario in the node'',
      ''## using SSH channel'',
      ''blade c k8s node-disk fill --path /home --reserve 1024 --channel ssh --ssh-host 192.168.1.100 --ssh-user root'',
      ''## using DaemonSet'',
      ''blade c k8s node-disk fill --path /home --reserve 1024 --names izbp1a4jchbdwkwi5hk7ekz --kubeconfig ~/.kube/config --timeout 30'']\<rparr>"

definition node_BurnActionSpec :: "help_text \<Rightarrow> help_text" where
  "node_BurnActionSpec h = h\<lparr>ht_LongDesc := ''Disk read and write IO load experiment in the node'',
     ht_Example := text_lines
     [''# The data of rkB/s, wkB/s and % Util were mainly observed. Perform disk read IO high-load scenarios'',
      ''## using SSH channel'',
      ''blade create k8s node-disk burn --read --path /home --channel ssh --ssh-host 192.168.1.100 --ssh-user root'',
      ''## using DaemonSet'',
      ''blade create k8s node-disk burn --read --path /home --names izbp1a4jchbdwkwi5hk7ekz --kubeconfig ~/.kube/config --timeout 30'',
      [],
      ''# Perform disk write IO high-load scenarios'',
      ''## using SSH channel'',
      ''blade create k8s node-disk burn --write --path /home --channel ssh --ssh-host 192.168.1.100 --ssh-user root8'',
      ''## using DaemonSet'',
      ''blade create k8s node-disk burn --write --path /home --names izbp1a4jchbdwkwi5hk7ekz --kubeconfig ~/.kube/config --timeout 30'',
      [],
      ''# Read and write IO load scenarios are performed at the same time. Path is not specified. The default is'',
      ''## using SSH channel'',
      ''blade create k8s node-disk burn --read --write --channel ssh --ssh-host 192.168.1.100 --ssh-user root'',
      ''## using DaemonSet'',
      ''blade create k8s node-disk burn --read --write --names izbp1a4jchbdwkwi5hk7ekz --kubeconfig ~/.kube/config --timeout 30'']\<rparr>"

definition node_MemLoadActionCommand :: "help_text \<Rightarrow> help_text" where
  "node_MemLoadActionCommand h = h\<lparr>ht_LongDesc := ''The memory fill experiment scenario in container'',
     ht_Example := text_lines
     [''# The execution memory footprint is 50%'',
      ''## using SSH channel'',
      ''blade create k8s node-mem load --mode ram --mem-percent 50 --channel ssh --ssh-host 192.168.1.100 --ssh-user root'',
      ''## using DaemonSet'',
      ''blade create k8s node-mem load --mode ram --mem-percent 50 --names izbp1a4jchbdwkwi5hk7ekz --kubeconfig ~/.kube/config --timeout 30'',
      [],
      ''# The execution memory footprint is 50%, cache model'',
      ''## using SSH channel'',
      ''blade create k8s node-mem load --mode cache --mem-percent 50 --channel ssh --ssh-host 192.168.1.100 --ssh-user root'',
      ''## using DaemonSet'',
      ''blade create k8s node-mem load --mode cache --mem-percent 50 --names izbp1a4jchbdwkwi5hk7ekz --kubeconfig ~/.kube/config --timeout 30'',
      [],
      ''# The execution memory footprint is 50%, usage contains buffer/cache'',
      ''## using SSH channel'',
      ''blade create k8s node-mem load --mode ram --mem-percent 50 --include-buffer-cache --channel ssh --ssh-host 192.168.1.100 --ssh-user root'',
      ''## using DaemonSet'',
      ''blade create k8s node-mem load --mode ram --mem-percent 50 --include-buffer-cache --names izbp1a4jchbdwkwi5hk7ekz --kubeconfig ~/.kube/config --timeout 30'',
      [],
      ''# The execution memory footprint is 50% for 200 seconds'',
      ''## using SSH channel'',
      ''blade create k8s node-mem load --mode ram --mem-percent 50 --timeout 200 --channel ssh --ssh-host 192.168.1.100 --ssh-user root'',
      ''## using DaemonSet'',
      ''blade create k8s node-mem load --mode ram --mem-percent 50 --timeout 200 --names izbp1a4jchbdwkwi5hk7ekz --kubeconfig ~/.kube/config'',
      [],
      ''# 200M memory is reserved'',
      ''## using SSH channel'',
      ''blade create k8s node-mem load --mode ram --reserve 200 --rate 100 --channel ssh --ssh-host 192.168.1.100 --ssh-user root'',
      ''## using DaemonSet'',
      ''blade create k8s node-mem load --mode ram --reserve 200 --rate 100 --names izbp1a4jchbdwkwi5hk7ekz --kubeconfig ~/.kube/config --timeout 30'']\<rparr>"

definition node_FileAppendActionSpec :: "help_text \<Rightarrow> help_text" where
  "node_FileAppendActionSpec h = h\<lparr>ht_LongDesc := ''The file append experiment scenario in container'',
     ht_Example := text_lines
     [''# Appends the content \"HELLO WORLD\" to the /home/logs/nginx.log file'',
      ''blade create k8s node-file append --filepath=/home/logs/nginx.log --content=\"HELL WORLD\" --names nginx-app --container-ids f1de335b4eeaf --kubeconfig ~/.kube/config --namespace default'',
      ''# Appends the content \"HELLO WORLD\" to the /home/logs/nginx.log file, interval 10 seconds'',
      ''blade create k8s node-file append --filepath=/home/logs/nginx.log --content=\"HELL WORLD\" --interval 10 --names nginx-app --container-ids f1de335b4eeaf --kubeconfig ~/.kube/config --namespace default'',
      [],
      ''# Appends the content \"HELLO WORLD\" to the /home/logs/nginx.log file, enable base64 encoding'',
      ''blade create k8s node-file append --filepath=/home/logs/nginx.log --content=SEVMTE8gV09STEQ= --names nginx-app --container-ids f1de335b4eeaf --kubeconfig ~/.kube/config --namespace default'',
      [],
      ''# mock interface timeout exception'',
      ''blade create k8s node-file append --filepath=/home/logs/nginx.log --content=\"@'' @ ''{DATE:+%Y-%m-%d %H:%M:%S} ERROR invoke getUser timeout [@'' @ ''{RANDOM:100-200}]ms abc  mock exception\" --names nginx-app --container-ids f1de335b4eeaf --kubeconfig ~/.kube/config --namespace default'',
      []]\<rparr>"

definition node_FileAddActionSpec :: "help_text \<Rightarrow> help_text" where
  "node_FileAddActionSpec h = h\<lparr>ht_LongDesc := ''The file add experiment scenario in container'',
     ht_Example := text_lines
     [''# Create a file named nginx.log in the /home directory'',
      ''blade create k8s node-file add --filepath /home/nginx.log --names nginx-app --container-ids f1de335b4eeaf --kubeconfig ~/.kube/config --namespace default'',
      [],
      ''# Create a file named nginx.log in the /home directory with the contents of HELLO WORLD'',
      ''blade create k8s node-file add --filepath /home/nginx.log --content \"HELLO WORLD\" --names nginx-app --container-ids f1de335b4eeaf --kubeconfig ~/.kube/config --namespace default'',
      [],
      ''# Create a file named nginx.log in the /temp directory and automatically create directories that don't exist'',
      ''blade create k8s node-file add --filepath /temp/nginx.log --auto-create-dir --names nginx-app --container-ids f1de335b4eeaf --kubeconfig ~/.kube/config --namespace default'',
      [],
      ''# Create a directory named /nginx in the /temp directory and automatically create directories that don't exist'',
      ''blade create k8s node-file add --directory --filepath /temp/nginx --auto-create-dir --names nginx-app --container-ids f1de335b4eeaf --kubeconfig ~/.kube/config --namespace default'',
      []]\<rparr>"

definition node_FileChmodActionSpec :: "help_text \<Rightarrow> help_text" where
  "node_FileChmodActionSpec h = h\<lparr>ht_LongDesc := ''The file permission modification scenario in container'',
     ht_Example := text_lines
     [''# Modify /home/logs/nginx.log file permissions to 777'',
      ''blade create k8s node-file chmod --filepath /home/logs/nginx.log --mark=777 --names nginx-app --container-ids f1de335b4eeaf --kubeconfig ~/.kube/config --namespace default'',
      []]\<rparr>"

definition node_FileDeleteActionSpec :: "help_text \<Rightarrow> help_text" where
  "node_FileDeleteActionSpec h = h\<lparr>ht_LongDesc := ''The file delete scenario in container'',
     ht_Example := text_lines
     [''# Delete the file /home/logs/nginx.log'',
      ''blade create k8s node-file delete --filepath /home/logs/nginx.log --names nginx-app --container-ids f1de335b4eeaf --kubeconfig ~/.kube/config --namespace default'',
      [],
      ''# Force delete the file /home/logs/nginx.log unrecoverable'',
      ''blade create k8s node-file delete --filepath /home/logs/nginx.log --force --names nginx-app --container-ids f1de335b4eeaf --kubeconfig ~/.kube/config --namespace default'',
      []]\<rparr>"

definition node_FileMoveActionSpec :: "help_text \<Rightarrow> help_text" where
  "node_FileMoveActionSpec h = h\<lparr>ht_Example := ''The file move scenario in container''\<rparr>\<lparr>ht_Example := text_lines
     [''# Move the file /home/logs/nginx.log to /tmp'',
      ''blade create k8s node-file move --filepath /home/logs/nginx.log --target /tmp --names nginx-app --container-ids f1de335b4eeaf --kubeconfig ~/.kube/config --namespace default'',
      [],
      ''# Force Move the file /home/logs/nginx.log to /temp'',
      ''blade create k8s node-file move --filepath /home/logs/nginx.log --target /tmp --force --names nginx-app --container-ids f1de335b4eeaf --kubeconfig ~/.kube/config --namespace default'',
      [],
      ''# Move the file /home/logs/nginx.log to /temp/ and automatically create directories that don't exist'',
      ''blade create k8s node-file move --filepath /home/logs/nginx.log --target /temp --auto-create-dir --names nginx-app --container-ids f1de335b4eeaf --kubeconfig ~/.kube/config --namespace default'',
      []]\<rparr>"

definition node_ScriptDelayActionCommand :: "help_text \<Rightarrow> help_text" where
  "node_ScriptDelayActionCommand h = h\<lparr>ht_Example := text_lines
     [[],
      ''# Add commands to the script \"start0() { sleep 10.000000 ...}\"'',
      ''## using SSH channel'',
      ''blade create k8s node-script delay --time 10000 --file test.sh --function-name start0 --channel ssh --ssh-host 192.168.1.100 --ssh-user root'',
      ''## using DaemonSet'',
      ''blade create k8s node-script delay --time 10000 --file test.sh --function-name start0 --names izbp1a4jchbdwkwi5hk7ekz --kubeconfig ~/.kube/config --timeout 30'']\<rparr>"

definition node_ScriptExitActionCommand :: "help_text \<Rightarrow> help_text" where
  "node_ScriptExitActionCommand h = h\<lparr>ht_Example := text_lines
     [[],
      ''# Add commands to the script \"start0() { echo this-is-error-message; exit 1; ... }\"'',
      ''## using SSH channel'',
      ''blade create k8s node-script exit --exit-code 1 --exit-message this-is-error-message --file test.sh --function-name start0 --channel ssh --ssh-host 192.168.1.100 --ssh-user root'',
      ''## using DaemonSet'',
      ''blade create k8s node-script exit --exit-code 1 --exit-message this-is-error-message --file test.sh --function-name start0 --names izbp1a4jchbdwkwi5hk7ekz --kubeconfig ~/.kube/config --timeout 30'']\<rparr>"

definition node_default_help :: "string \<Rightarrow> string \<Rightarrow> help_text \<Rightarrow> help_text" where
  "node_default_help name action h =
     (let suffix = '' --names nginx-app --channel ssh --ssh-host 192.168.1.100 --ssh-user root'';
          e1 = replace_all (''blade create '' @ name @ '' '' @ action)
            (''blade create k8s node-'' @ name @ '' '' @ action @ suffix) (ht_Example h);
          e2 = replace_all (''blade c '' @ name @ '' '' @ action)
            (''blade c k8s node-'' @ name @ '' '' @ action @ suffix) e1
      in h\<lparr>ht_Example := e2\<rparr>)"

definition node_action_help :: "string \<Rightarrow> string \<Rightarrow> action_type \<Rightarrow> help_text \<Rightarrow> help_text" where
  "node_action_help name action ty h =
     (case ty of
        FullLoadActionCommand \<Rightarrow> node_FullLoadActionCommand h
      | DelayActionSpec \<Rightarrow> node_DelayActionSpec h
      | DropActionSpec \<Rightarrow> node_DropActionSpec h
      | DnsActionSpec \<Rightarrow> node_DnsActionSpec h
      | LossActionSpec \<Rightarrow> node_LossActionSpec h
      | DuplicateActionSpec \<Rightarrow> node_DuplicateActionSpec h
      | CorruptActionSpec \<Rightarrow> node_CorruptActionSpec h
      | ReorderActionSpec \<Rightarrow> node_ReorderActionSpec h
      | OccupyActionSpec \<Rightarrow> node_OccupyActionSpec h
      | KillProcessActionCommandSpec \<Rightarrow> node_KillProcessActionCommandSpec h
      | StopProcessActionCommandSpec \<Rightarrow> node_StopProcessActionCommandSpec h
      | FillActionSpec \<Rightarrow> node_FillActionSpec h
      | BurnActionSpec \<Rightarrow> node_BurnActionSpec h
      | MemLoadActionCommand \<Rightarrow> node_MemLoadActionCommand h
      | FileAppendActionSpec \<Rightarrow> node_FileAppendActionSpec h
      | FileAddActionSpec \<Rightarrow> node_FileAddActionSpec h
      | FileChmodActionSpec \<Rightarrow> node_FileChmodActionSpec h
      | FileDeleteActionSpec \<Rightarrow> node_FileDeleteActionSpec h
      | FileMoveActionSpec \<Rightarrow> node_FileMoveActionSpec h
      | ScriptDelayActionCommand \<Rightarrow> node_ScriptDelayActionCommand h
      | ScriptExitActionCommand \<Rightarrow> node_ScriptExitActionCommand h
      | _ \<Rightarrow> node_default_help name action h)"

definition node_addActionExamples :: "(string \<times> action_spec list) list \<Rightarrow> (string \<times> action_spec list) list" where
  "node_addActionExamples = map (\<lambda>(name, actions). (name, map (\<lambda>a.
     a\<lparr>as_Help := node_action_help name (as_Name a) (as_Type a) (as_Help a)\<rparr>) actions))"

subsection \<open>The texts of exec/pod/pod.go\<close>

definition pod_FillActionSpec :: "help_text \<Rightarrow> help_text" where
  "pod_FillActionSpec h = h\<lparr>ht_LongDesc := ''The disk fill scenario experiment in the pod'',
     ht_Example := text_lines
     [[],
      ''# Fill the /home directory with 40G of disk space in the pod'',
      ''blade create k8s pod-disk fill --path /home --size 40000 --names nginx-app --kubeconfig ~/.kube/config --namespace default'',
      [],
      ''# Fill the /home directory with 80% of the disk space in the pod and retains the file handle that populates the disk'',
      ''blade create k8s pod-disk fill --path /home --percent 80 --retain-handle --names nginx-app --kubeconfig ~/.kube/config --namespace default'',
      [],
      ''# Perform a fixed-size experimental scenario in the pod'',
      ''blade c k8s pod-disk fill --path /home --reserve 1024 --names nginx-app --kubeconfig ~/.kube/config --namespace default'',
      []]\<rparr>"

definition pod_BurnActionSpec :: "help_text \<Rightarrow> help_text" where
  "pod_BurnActionSpec h = h\<lparr>ht_LongDesc := ''Disk read and write IO load experiment in the pod'',
     ht_Example := text_lines
     [''# The data of rkB/s, wkB/s and % Util were mainly observed. Perform disk read IO high-load scenarios'',
      ''blade create k8s pod-disk burn --read --path /home --names nginx-app --kubeconfig ~/.kube/config --namespace default'',
      [],
      ''# Perform disk write IO high-load scenarios'',
      ''blade create k8s pod-disk burn --write --path /home --names nginx-app --kubeconfig ~/.kube/config --namespace default8'',
      [],
      ''# Read and write IO load scenarios are performed at the same time. Path is not specified. The default is /'',
      ''blade create k8s pod-disk burn --read --write --names nginx-app --kubeconfig ~/.kube/config --namespace default'']\<rparr>"

definition pod_MemLoadActionCommand :: "help_text \<Rightarrow> help_text" where
  "pod_MemLoadActionCommand h = h\<lparr>ht_LongDesc := ''The memory fill experiment scenario in the pod'',
     ht_Example := text_lines
     [''# The execution memory footprint is 50%'',
      ''blade create k8s pod-mem load --mode ram --mem-percent 50 --names nginx-app --kubeconfig ~/.kube/config --namespace default'',
      [],
      ''# The execution memory footprint is 50%, cache model'',
      ''blade create k8s pod-mem load --mode cache --mem-percent 50 --names nginx-app --kubeconfig ~/.kube/config --namespace default'',
      [],
      ''# The execution memory footprint is 50%, usage contains buffer/cache'',
      ''blade create k8s pod-mem load --mode ram --mem-percent 50 --include-buffer-cache --names nginx-app --kubeconfig ~/.kube/config --namespace default'',
      [],
      ''# The execution memory footprint is 50% for 200 seconds'',
      ''blade create k8s pod-mem load --mode ram --mem-percent 50 --timeout 200 --names nginx-app --kubeconfig ~/.kube/config --namespace default'',
      [],
      ''# 200M memory is reserved'',
      ''blade create k8s pod-mem load --mode ram --reserve 200 --rate 100 --names nginx-app --kubeconfig ~/.kube/config --namespace default'']\<rparr>"

definition pod_FileAppendActionSpec :: "help_text \<Rightarrow> help_text" where
  "pod_FileAppendActionSpec h = h\<lparr>ht_LongDesc := ''The file append experiment scenario in the pod'',
     ht_Example := text_lines
     [''# Appends the content \"HELLO WORLD\" to the /home/logs/nginx.log file'',
      ''blade create k8s pod-file append --filepath=/home/logs/nginx.log --content=\"HELL WORLD\" --names nginx-app --kubeconfig ~/.kube/config --namespace default'',
      [],
      ''# Appends the content \"HELLO WORLD\" to the /home/logs/nginx.log file, interval 10 seconds'',
      ''blade create k8s pod-file append --filepath=/home/logs/nginx.log --content=\"HELL WORLD\" --interval 10 --names nginx-app --kubeconfig ~/.kube/config --namespace default'',
      [],
      ''# Appends the content \"HELLO WORLD\" to the /home/logs/nginx.log file, enable base64 encoding'',
      ''blade create k8s pod-file append --filepath=/home/logs/nginx.log --content=SEVMTE8gV09STEQ= --names nginx-app --kubeconfig ~/.kube/config --namespace default'',
      [],
      ''# mock interface timeout exception'',
      ''blade create k8s pod-file append --filepath=/home/logs/nginx.log --content=\"@'' @ ''{DATE:+%Y-%m-%d %H:%M:%S} ERROR invoke getUser timeout [@'' @ ''{RANDOM:100-200}]ms abc  mock exception\" --names nginx-app --kubeconfig ~/.kube/config --namespace default'',
      []]\<rparr>"

definition pod_FileAddActionSpec :: "help_text \<Rightarrow> help_text" where
  "pod_FileAddActionSpec h = h\<lparr>ht_LongDesc := ''The file add experiment scenario in the pod'',
     ht_Example := text_lines
     [''# Create a file named nginx.log in the /home directory'',
      ''blade create k8s pod-file add --filepath /home/nginx.log --names nginx-app --kubeconfig ~/.kube/config --namespace default'',
      [],
      ''# Create a file named nginx.log in the /home directory with the contents of HELLO WORLD'',
      ''blade create k8s pod-file add --filepath /home/nginx.log --content \"HELLO WORLD\" --names nginx-app --kubeconfig ~/.kube/config --namespace default'',
      [],
      ''# Create a file named nginx.log in the /temp directory and automatically create directories that don't exist'',
      ''blade create k8s pod-file add --filepath /temp/nginx.log --auto-create-dir --names nginx-app --kubeconfig ~/.kube/config --namespace default'',
      [],
      ''# Create a directory named /nginx in the /temp directory and automatically create directories that don't exist'',
      ''blade create k8s pod-file add --directory --filepath /temp/nginx --auto-create-dir --names nginx-app --kubeconfig ~/.kube/config --namespace default'',
      []]\<rparr>"

definition pod_FileChmodActionSpec :: "help_text \<Rightarrow> help_text" where
  "pod_FileChmodActionSpec h = h\<lparr>ht_LongDesc := ''The file permission modification scenario in the pod'',
     ht_Example := text_lines
     [''# Modify /home/logs/nginx.log file permissions to 777'',
      ''blade create k8s pod-file chmod --filepath /home/logs/nginx.log --mark=777 --names nginx-app --kubeconfig ~/.kube/config --namespace default'',
      []]\<rparr>"

definition pod_FileDeleteActionSpec :: "help_text \<Rightarrow> help_text" where
  "pod_FileDeleteActionSpec h = h\<lparr>ht_LongDesc := ''The file delete scenario in the pod'',
     ht_Example := text_lines
     [''# Delete the file /home/logs/nginx.log'',
      ''blade create k8s pod-file delete --filepath /home/logs/nginx.log --names nginx-app --kubeconfig ~/.kube/config --namespace default'',
      [],
      ''# Force delete the file /home/logs/nginx.log unrecoverable'',
      ''blade create k8s pod-file delete --filepath /home/logs/nginx.log --force --names nginx-app --kubeconfig ~/.kube/config --namespace default'',
      []]\<rparr>"

definition pod_FileMoveActionSpec :: "help_text \<Rightarrow> help_text" where
  "pod_FileMoveActionSpec h = h\<lparr>ht_Example := ''The file move scenario in the pod''\<rparr>\<lparr>ht_Example := text_lines
     [''# Move the file /home/logs/nginx.log to /tmp'',
      ''blade create k8s pod-file move --filepath /home/logs/nginx.log --target /tmp --names nginx-app --kubeconfig ~/.kube/config --namespace default'',
      [],
      ''# Force Move the file /home/logs/nginx.log to /temp'',
      ''blade create k8s pod-file move --filepath /home/logs/nginx.log --target /tmp --force --names nginx-app --kubeconfig ~/.kube/config --namespace default'',
      [],
      ''# Move the file /home/logs/nginx.log to /temp/ and automatically create directories that don't exist'',
      ''blade create k8s pod-file move --filepath /home/logs/nginx.log --target /temp --auto-create-dir --names nginx-app --kubeconfig ~/.kube/config --namespace default'',
      []]\<rparr>"

definition pod_DelayActionSpec :: "help_text \<Rightarrow> help_text" where
  "pod_DelayActionSpec h = h\<lparr>ht_Example := text_lines
     [''# Access to native 8080 and 8081 ports is delayed by 3 seconds, and the delay time fluctuates by 1 second'',
      ''blade create k8s pod-network delay --time 3000 --offset 1000 --interface eth0 --local-port 8080,8081 --names nginx-app --kubeconfig ~/.kube/config --namespace default'',
      [],
      ''# Local access to external 14.215.177.39 machine (ping www.baidu.com obtained IP) port 80 delay of 3 seconds'',
      ''blade create k8s pod-network delay --time 3000 --interface eth0 --remote-port 80 --destination-ip 14.215.177.39 --names nginx-app --kubeconfig ~/.kube/config --namespace default'',
      [],
      ''# Do a 5 second delay for the entire network card eth0, excluding ports 22 and 8000 to 8080'',
      ''blade create k8s pod-network delay --time 5000 --interface eth0 --exclude-port 22,8000-8080 --names nginx-app --kubeconfig ~/.kube/config --namespace default'']\<rparr>"

definition pod_DropActionSpec :: "help_text \<Rightarrow> help_text" where
  "pod_DropActionSpec h = h\<lparr>ht_Example := text_lines
     [''# Experimental scenario of network shielding'',
      ''blade create k8s pod-network drop --names nginx-app --kubeconfig ~/.kube/config --namespace default'']\<rparr>"

definition pod_DnsActionSpec :: "help_text \<Rightarrow> help_text" where
  "pod_DnsActionSpec h = h\<lparr>ht_Example := text_lines
     [''# The domain name www.baidu.com is not accessible'',
      ''blade create k8s pod-network dns --domain www.baidu.com --ip 10.0.0.0 --names nginx-app --kubeconfig ~/.kube/config --namespace default'']\<rparr>"

definition pod_LossActionSpec :: "help_text \<Rightarrow> help_text" where
  "pod_LossActionSpec h = h\<lparr>ht_Example := text_lines
     [''# Access to native 8080 and 8081 ports lost 70% of packets'',
      ''blade create k8s pod-network loss --percent 70 --interface eth0 --local-port 8080,8081 --names nginx-app --kubeconfig ~/.kube/config --namespace default'',
      [],
      ''# The machine accesses external 14.215.177.39 machine (ping www.baidu.com) 80 port packet loss rate 100%'',
      ''blade create k8s pod-network loss --percent 100 --interface eth0 --remote-port 80 --destination-ip 14.215.177.39 --names nginx-app --kubeconfig ~/.kube/config --namespace default'',
      [],
      ''# Do 60% packet loss for the entire network card Eth0, excluding ports 22 and 8000 to 8080'',
      ''blade create k8s pod-network loss --percent 60 --interface eth0 --exclude-port 22,8000-8080 --names nginx-app --kubeconfig ~/.kube/config --namespace default'',
      [],
      ''# Realize the whole network card is not accessible, not accessible time 20 seconds. After executing the following command, the current network is disconnected and restored in 20 seconds. Remember!! Don't forget -timeout parameter'',
      ''blade create k8s pod-network loss --percent 100 --interface eth0 --timeout 20 --names nginx-app --kubeconfig ~/.kube/config --namespace default'']\<rparr>"

definition pod_DuplicateActionSpec :: "help_text \<Rightarrow> help_text" where
  "pod_DuplicateActionSpec h = h\<lparr>ht_Example := text_lines
     [''# Specify the network card eth0 and repeat the packet by 10%'',
      ''blade create k8s pod-network duplicate --percent=10 --interface=eth0 --names nginx-app --kubeconfig ~/.kube/config --namespace default'']\<rparr>"

definition pod_CorruptActionSpec :: "help_text \<Rightarrow> help_text" where
  "pod_CorruptActionSpec h = h\<lparr>ht_Example := text_lines
     [''# Access to the specified IP request packet is corrupted, 80% of the time'',
      ''blade create k8s pod-network corrupt --percent 80 --destination-ip 180.101.49.12 --interface eth0 --names nginx-app --kubeconfig ~/.kube/config --namespace default'']\<rparr>"

definition pod_ReorderActionSpec :: "help_text \<Rightarrow> help_text" where
  "pod_ReorderActionSpec h = h\<lparr>ht_Example := text_lines
     [''# Access the specified IP request packet disorder'',
      ''blade create k8s pod-network reorder --correlation 80 --percent 50 --gap 2 --time 500 --interface eth0 --destination-ip 180.101.49.12 --names nginx-app --kubeconfig ~/.kube/config --namespace default'']\<rparr>"

definition pod_OccupyActionSpec :: "help_text \<Rightarrow> help_text" where
  "pod_OccupyActionSpec h = h\<lparr>ht_Example := text_lines
     [''#Specify port 8080 occupancy'',
      ''blade create k8s pod-network occupy --port 8080 --force --names nginx-app --kubeconfig ~/.kube/config --namespace default'',
      [],
      ''# The machine accesses external 14.215.177.39 machine (ping www.baidu.com) 80 port packet loss rate 100%'',
      ''blade create k8s pod-network loss --percent 100 --interface eth0 --remote-port 80 --destination-ip 14.215.177.39 --names nginx-app --kubeconfig ~/.kube/config --namespace default'']\<rparr>"

definition pod_FullLoadActionCommand :: "help_text \<Rightarrow> help_text" where
  "pod_FullLoadActionCommand h = h\<lparr>ht_Example := text_lines
     [[],
      ''# Create a CPU full load experiment'',
      ''blade create k8s pod-cpu load --names nginx-app --kubeconfig ~/.kube/config --namespace default'',
      [],
      ''#Specifies two random kernel's full load'',
      ''blade create k8s pod-cpu load --names nginx-app --kubeconfig ~/.kube/config --namespace default --cpu-percent 60 --cpu-count 2'',
      [],
      ''# Specifies that the kernel is full load with index 0, 3, and that the kernel's index starts at 0'',
      ''blade create k8s pod-cpu load --names nginx-app --kubeconfig ~/.kube/config --namespace default --cpu-list 0,3'',
      [],
      ''# Specify the kernel full load of indexes 1-3'',
      ''blade create k8s pod-cpu load --names nginx-app --kubeconfig ~/.kube/config --namespace default --cpu-list 1-3'',
      [],
      ''# Specified percentage load'',
      ''blade create k8s pod-cpu load --names nginx-app --kubeconfig ~/.kube/config --namespace default --cpu-percent 60'']\<rparr>"

definition pod_ScriptDelayActionCommand :: "help_text \<Rightarrow> help_text" where
  "pod_ScriptDelayActionCommand h = h\<lparr>ht_Example := text_lines
     [[],
      ''# Add commands to the script \"start0() { sleep 10.000000 ...}\"'',
      ''blade create k8s pod-script delay --time 10000 --file test.sh --function-name start0 --names nginx-app --kubeconfig ~/.kube/config --namespace default'']\<rparr>"

definition pod_ScriptExitActionCommand :: "help_text \<Rightarrow> help_text" where
  "pod_ScriptExitActionCommand h = h\<lparr>ht_Example := text_lines
     [[],
      ''# Add commands to the script \"start0() { echo this-is-error-message; exit 1; ... }\"'',
      ''blade create k8s pod-script exit --exit-code 1 --exit-message this-is-error-message --file test.sh --function-name start0 --names nginx-app --kubeconfig ~/.kube/config --namespace default'']\<rparr>"

definition pod_default_help :: "string \<Rightarrow> string \<Rightarrow> help_text \<Rightarrow> help_text" where
  "pod_default_help name action h =
     (let suffix = '' --names nginx-app --kubeconfig ~/.kube/config --namespace default'';
          e1 = replace_all (''blade create '' @ name @ '' '' @ action)
            (''blade create k8s pod-'' @ name @ '' '' @ action @ suffix) (ht_Example h);
          e2 = replace_all (''blade c '' @ name @ '' '' @ action)
            (''blade c k8s pod-'' @ name @ '' '' @ action @ suffix) e1
      in h\<lparr>ht_Example := e2\<rparr>)"

definition pod_action_help :: "string \<Rightarrow> string \<Rightarrow> action_type \<Rightarrow> help_text \<Rightarrow> help_text" where
  "pod_action_help name action ty h =
     (case ty of
        FillActionSpec \<Rightarrow> pod_FillActionSpec h
      | BurnActionSpec \<Rightarrow> pod_BurnActionSpec h
      | MemLoadActionCommand \<Rightarrow> pod_MemLoadActionCommand h
      | FileAppendActionSpec \<Rightarrow> pod_FileAppendActionSpec h
      | FileAddActionSpec \<Rightarrow> pod_FileAddActionSpec h
      | FileChmodActionSpec \<Rightarrow> pod_FileChmodActionSpec h
      | FileDeleteActionSpec \<Rightarrow> pod_FileDeleteActionSpec h
      | FileMoveActionSpec \<Rightarrow> pod_FileMoveActionSpec h
      | DelayActionSpec \<Rightarrow> pod_DelayActionSpec h
      | DropActionSpec \<Rightarrow> pod_DropActionSpec h
      | DnsActionSpec \<Rightarrow> pod_DnsActionSpec h
      | LossActionSpec \<Rightarrow> pod_LossActionSpec h
      | DuplicateActionSpec \<Rightarrow> pod_DuplicateActionSpec h
      | CorruptActionSpec \<Rightarrow> pod_CorruptActionSpec h
      | ReorderActionSpec \<Rightarrow> pod_ReorderActionSpec h
      | OccupyActionSpec \<Rightarrow> pod_OccupyActionSpec h
      | FullLoadActionCommand \<Rightarrow> pod_FullLoadActionCommand h
      | ScriptDelayActionCommand \<Rightarrow> pod_ScriptDelayActionCommand h
      | ScriptExitActionCommand \<Rightarrow> pod_ScriptExitActionCommand h
      | _ \<Rightarrow> pod_default_help name action h)"

definition pod_addActionExamples :: "(string \<times> action_spec list) list \<Rightarrow> (string \<times> action_spec list) list" where
  "pod_addActionExamples = map (\<lambda>(name, actions). (name, map (\<lambda>a.
     a\<lparr>as_Help := pod_action_help name (as_Name a) (as_Type a) (as_Help a)\<rparr>) actions))"

subsection \<open>The texts of exec/container/container.go\<close>

definition container_KillProcessActionCommandSpec :: "help_text \<Rightarrow> help_text" where
  "container_KillProcessActionCommandSpec h = h\<lparr>ht_LongDesc := ''The process scenario in container is the same as the basic resource process scenario'',
     ht_Example := text_lines
     [[],
      ''# Kill the nginx process in the container'',
      ''blade create k8s container-process kill --process nginx --names nginx-app --container-ids f1de335b4eeaf --kubeconfig ~/.kube/config --namespace default'',
      [],
      ''# Use blade CLI'',
      ''# Specifies the signal and local port to kill the process in the container'',
      ''blade create k8s container-process kill --local-port 8080 --signal 15 --names nginx-app --container-ids f1de335b4eeaf --kubeconfig ~/.kube/config --namespace default'']\<rparr>"

definition container_StopProcessActionCommandSpec :: "help_text \<Rightarrow> help_text" where
  "container_StopProcessActionCommandSpec h = h\<lparr>ht_LongDesc := ''The process scenario in container is the same as the basic resource process scenario'',
     ht_Example := text_lines
     [[],
      ''# Pause the process that contains the \"nginx\" keyword in the container'',
      ''blade create k8s container-process stop --process nginx --names nginx-app --container-ids f1de335b4eeaf --kubeconfig ~/.kube/config --namespace default'',
      [],
      ''# Pause the Java process in the container'',
      ''blade create k8s container-process stop --process-cmd java --names nginx-app --container-ids f1de335b4eeaf --kubeconfig ~/.kube/config --namespace default'']\<rparr>"

definition container_FullLoadActionCommand :: "help_text \<Rightarrow> help_text" where
  "container_FullLoadActionCommand h = h\<lparr>ht_LongDesc := ''The CPU load experiment scenario in container is the same as the CPU scenario of basic resources'',
     ht_Example := text_lines
     [[],
      ''# Create a CPU full load experiment in the container'',
      ''blade create k8s container-cpu load --names nginx-app --container-ids f1de335b4eeaf --kubeconfig ~/.kube/config --namespace default'',
      [],
      ''#Specifies two random kernel's full load in the container'',
      ''blade create k8s container-cpu load --cpu-percent 60 --cpu-count 2 --names nginx-app --container-ids f1de335b4eeaf --kubeconfig ~/.kube/config --namespace default'',
      [],
      ''# Specifies that the kernel is full load with index 0, 3, and that the kernel's index starts at 0'',
      ''blade create k8s container-cpu load --cpu-list 0,3 --names nginx-app --container-ids f1de335b4eeaf --kubeconfig ~/.kube/config --namespace default'',
      [],
      ''# Specify the kernel full load of indexes 1-3'',
      ''blade create k8s container-cpu load --cpu-list 1-3 --names nginx-app --container-ids f1de335b4eeaf --kubeconfig ~/.kube/config --namespace default'',
      [],
      ''# Specified percentage load in the container'',
      ''blade create k8s container-cpu load --cpu-percent 60 --names nginx-app --container-ids f1de335b4eeaf --kubeconfig ~/.kube/config --namespace default'']\<rparr>"

definition container_FillActionSpec :: "help_text \<Rightarrow> help_text" where
  "container_FillActionSpec h = h\<lparr>ht_LongDesc := ''The disk fill scenario experiment in the container'',
     ht_Example := text_lines
     [[],
      ''# Fill the /home directory with 40G of disk space in the container'',
      ''blade create k8s container-disk fill --path /home --size 40000 --names nginx-app --container-ids f1de335b4eeaf --kubeconfig ~/.kube/config --namespace default'',
      [],
      ''# Fill the /home directory with 80% of the disk space in the container and retains the file handle that populates the disk'',
      ''blade create k8s container-disk fill --path /home --percent 80 --retain-handle --names nginx-app --container-ids f1de335b4eeaf --kubeconfig ~/.kube/config --namespace default'',
      [],
      ''# Perform a fixed-size experimental scenario in the container'',
      ''blade c k8s container-disk fill --path /home --reserve 1024 --names nginx-app --container-ids f1de335b4eeaf --kubeconfig ~/.kube/config --namespace default'',
      []]\<rparr>"

definition container_BurnActionSpec :: "help_text \<Rightarrow> help_text" where
  "container_BurnActionSpec h = h\<lparr>ht_LongDesc := ''Disk read and write IO load experiment in the container'',
     ht_Example := text_lines
     [''# The data of rkB/s, wkB/s and % Util were mainly observed. Perform disk read IO high-load scenarios'',
      ''blade create k8s container-disk burn --read --path /home --names nginx-app --container-ids f1de335b4eeaf --kubeconfig ~/.kube/config --namespace default'',
      [],
      ''# Perform disk write IO high-load scenarios'',
      ''blade create k8s container-disk burn --write --path /home --names nginx-app --container-ids f1de335b4eeaf --kubeconfig ~/.kube/config --namespace default8'',
      [],
      ''# Read and write IO load scenarios are performed at the same time. Path is not specified. The default is /'',
      ''blade create k8s container-disk burn --read --write --names nginx-app --container-ids f1de335b4eeaf --kubeconfig ~/.kube/config --namespace default'']\<rparr>"

definition container_MemLoadActionCommand :: "help_text \<Rightarrow> help_text" where
  "container_MemLoadActionCommand h = h\<lparr>ht_LongDesc := ''The memory fill experiment scenario in container'',
     ht_Example := text_lines
     [''# The execution memory footprint is 50%'',
      ''blade create k8s container-mem load --mode ram --mem-percent 50 --names nginx-app --container-ids f1de335b4eeaf --kubeconfig ~/.kube/config --namespace default'',
      [],
      ''# The execution memory footprint is 50%, cache model'',
      ''blade create k8s container-mem load --mode cache --mem-percent 50 --names nginx-app --container-ids f1de335b4eeaf --kubeconfig ~/.kube/config --namespace default'',
      [],
      ''# The execution memory footprint is 50%, usage contains buffer/cache'',
      ''blade create k8s container-mem load --mode ram --mem-percent 50 --include-buffer-cache --names nginx-app --container-ids f1de335b4eeaf --kubeconfig ~/.kube/config --namespace default'',
      [],
      ''# The execution memory footprint is 50% for 200 seconds'',
      ''blade create k8s container-mem load --mode ram --mem-percent 50 --timeout 200 --names nginx-app --container-ids f1de335b4eeaf --kubeconfig ~/.kube/config --namespace default'',
      [],
      ''# 200M memory is reserved'',
      ''blade create k8s container-mem load --mode ram --reserve 200 --rate 100 --names nginx-app --container-ids f1de335b4eeaf --kubeconfig ~/.kube/config --namespace default'']\<rparr>"

definition container_FileAppendActionSpec :: "help_text \<Rightarrow> help_text" where
  "container_FileAppendActionSpec h = h\<lparr>ht_LongDesc := ''The file append experiment scenario in container'',
     ht_Example := text_lines
     [''# Appends the content \"HELLO WORLD\" to the /home/logs/nginx.log file'',
      ''blade create k8s container-file append --filepath=/home/logs/nginx.log --content=\"HELL WORLD\" --names nginx-app --container-ids f1de335b4eeaf --kubeconfig ~/.kube/config --namespace default'',
      [],
      ''# Appends the content \"HELLO WORLD\" to the /home/logs/nginx.log file, interval 10 seconds'',
      ''blade create k8s container-file append --filepath=/home/logs/nginx.log --content=\"HELL WORLD\" --interval 10 --names nginx-app --container-ids f1de335b4eeaf --kubeconfig ~/.kube/config --namespace default'',
      [],
      ''# Appends the content \"HELLO WORLD\" to the /home/logs/nginx.log file, enable base64 encoding'',
      ''blade create k8s container-file append --filepath=/home/logs/nginx.log --content=SEVMTE8gV09STEQ= --names nginx-app --container-ids f1de335b4eeaf --kubeconfig ~/.kube/config --namespace default'',
      [],
      ''# mock interface timeout exception'',
      ''blade create k8s container-file append --filepath=/home/logs/nginx.log --content=\"@'' @ ''{DATE:+%Y-%m-%d %H:%M:%S} ERROR invoke getUser timeout [@'' @ ''{RANDOM:100-200}]ms abc  mock exception\" --names nginx-app --container-ids f1de335b4eeaf --kubeconfig ~/.kube/config --namespace default'',
      []]\<rparr>"

definition container_FileAddActionSpec :: "help_text \<Rightarrow> help_text" where
  "container_FileAddActionSpec h = h\<lparr>ht_LongDesc := ''The file add experiment scenario in container'',
     ht_Example := text_lines
     [''# Create a file named nginx.log in the /home directory'',
      ''blade create k8s container-file add --filepath /home/nginx.log --names nginx-app --container-ids f1de335b4eeaf --kubeconfig ~/.kube/config --namespace default'',
      [],
      ''# Create a file named nginx.log in the /home directory with the contents of HELLO WORLD'',
      ''blade create k8s container-file add --filepath /home/nginx.log --content \"HELLO WORLD\" --names nginx-app --container-ids f1de335b4eeaf --kubeconfig ~/.kube/config --namespace default'',
      [],
      ''# Create a file named nginx.log in the /temp directory and automatically create directories that don't exist'',
      ''blade create k8s container-file add --filepath /temp/nginx.log --auto-create-dir --names nginx-app --container-ids f1de335b4eeaf --kubeconfig ~/.kube/config --namespace default'',
      [],
      ''# Create a directory named /nginx in the /temp directory and automatically create directories that don't exist'',
      ''blade create k8s container-file add --directory --filepath /temp/nginx --auto-create-dir --names nginx-app --container-ids f1de335b4eeaf --kubeconfig ~/.kube/config --namespace default'',
      []]\<rparr>"

definition container_FileChmodActionSpec :: "help_text \<Rightarrow> help_text" where
  "container_FileChmodActionSpec h = h\<lparr>ht_LongDesc := ''The file permission modification scenario in container'',
     ht_Example := text_lines
     [''# Modify /home/logs/nginx.log file permissions to 777'',
      ''blade create k8s container-file chmod --filepath /home/logs/nginx.log --mark=777 --names nginx-app --container-ids f1de335b4eeaf --kubeconfig ~/.kube/config --namespace default'',
      []]\<rparr>"

definition container_FileDeleteActionSpec :: "help_text \<Rightarrow> help_text" where
  "container_FileDeleteActionSpec h = h\<lparr>ht_LongDesc := ''The file delete scenario in container'',
     ht_Example := text_lines
     [''# Delete the file /home/logs/nginx.log'',
      ''blade create k8s container-file delete --filepath /home/logs/nginx.log --names nginx-app --container-ids f1de335b4eeaf --kubeconfig ~/.kube/config --namespace default'',
      [],
      ''# Force delete the file /home/logs/nginx.log unrecoverable'',
      ''blade create k8s container-file delete --filepath /home/logs/nginx.log --force --names nginx-app --container-ids f1de335b4eeaf --kubeconfig ~/.kube/config --namespace default'',
      []]\<rparr>"

definition container_FileMoveActionSpec :: "help_text \<Rightarrow> help_text" where
  "container_FileMoveActionSpec h = h\<lparr>ht_Example := ''The file move scenario in container''\<rparr>\<lparr>ht_Example := text_lines
     [''# Move the file /home/logs/nginx.log to /tmp'',
      ''blade create k8s container-file delete --filepath /home/logs/nginx.log --target /tmp --names nginx-app --container-ids f1de335b4eeaf --kubeconfig ~/.kube/config --namespace default'',
      [],
      ''# Force Move the file /home/logs/nginx.log to /temp'',
      ''blade create k8s container-file delete --filepath /home/logs/nginx.log --target /tmp --force --names nginx-app --container-ids f1de335b4eeaf --kubeconfig ~/.kube/config --namespace default'',
      [],
      ''# Move the file /home/logs/nginx.log to /temp/ and automatically create directories that don't exist'',
      ''blade create k8s container-file delete --filepath /home/logs/nginx.log --target /temp --auto-create-dir --names nginx-app --container-ids f1de335b4eeaf --kubeconfig ~/.kube/config --namespace default'',
      []]\<rparr>"

definition container_DelayActionSpec :: "help_text \<Rightarrow> help_text" where
  "container_DelayActionSpec h = h\<lparr>ht_Example := text_lines
     [''# Access to native 8080 and 8081 ports is delayed by 3 seconds, and the delay time fluctuates by 1 second'',
      ''blade create k8s container-network delay --time 3000 --offset 1000 --interface eth0 --local-port 8080,8081 --names nginx-app --container-ids f1de335b4eeaf --kubeconfig ~/.kube/config --namespace default'',
      [],
      ''# Local access to external 14.215.177.39 machine (ping www.baidu.com obtained IP) port 80 delay of 3 seconds'',
      ''blade create k8s container-network delay --time 3000 --interface eth0 --remote-port 80 --destination-ip 14.215.177.39 --names nginx-app --container-ids f1de335b4eeaf --kubeconfig ~/.kube/config --namespace default'',
      [],
      ''# Do a 5 second delay for the entire network card eth0, excluding ports 22 and 8000 to 8080'',
      ''blade create k8s container-network delay --time 5000 --interface eth0 --exclude-port 22,8000-8080 --names nginx-app --container-ids f1de335b4eeaf --kubeconfig ~/.kube/config --namespace default'']\<rparr>"

definition container_DropActionSpec :: "help_text \<Rightarrow> help_text" where
  "container_DropActionSpec h = h\<lparr>ht_Example := text_lines
     [''# Experimental scenario of network shielding'',
      ''blade create k8s container-network drop --source-port 80 --network-traffic in --names nginx-app --container-ids f1de335b4eeaf --kubeconfig ~/.kube/config --namespace default'']\<rparr>"

definition container_DnsActionSpec :: "help_text \<Rightarrow> help_text" where
  "container_DnsActionSpec h = h\<lparr>ht_Example := text_lines
     [''# The domain name www.baidu.com is not accessible'',
      ''blade create k8s container-network dns --domain www.baidu.com --ip 10.0.0.0 --names nginx-app --container-ids f1de335b4eeaf --kubeconfig ~/.kube/config --namespace default'']\<rparr>"

definition container_LossActionSpec :: "help_text \<Rightarrow> help_text" where
  "container_LossActionSpec h = h\<lparr>ht_Example := text_lines
     [''# Access to native 8080 and 8081 ports lost 70% of packets'',
      ''blade create k8s container-network loss --percent 70 --interface eth0 --local-port 8080,8081 --names nginx-app --container-ids f1de335b4eeaf --kubeconfig ~/.kube/config --namespace default'',
      [],
      ''# The machine accesses external 14.215.177.39 machine (ping www.baidu.com) 80 port packet loss rate 100%'',
      ''blade create k8s container-network loss --percent 100 --interface eth0 --remote-port 80 --destination-ip 14.215.177.39 --names nginx-app --container-ids f1de335b4eeaf --kubeconfig ~/.kube/config --namespace default'',
      [],
      ''# Do 60% packet loss for the entire network card Eth0, excluding ports 22 and 8000 to 8080'',
      ''blade create k8s container-network loss --percent 60 --interface eth0 --exclude-port 22,8000-8080 --names nginx-app --container-ids f1de335b4eeaf --kubeconfig ~/.kube/config --namespace default'',
      [],
      ''# Realize the whole network card is not accessible, not accessible time 20 seconds. After executing the following command, the current network is disconnected and restored in 20 seconds. Remember!! Don't forget -timeout parameter'',
      ''blade create k8s container-network loss --percent 100 --interface eth0 --timeout 20 --names nginx-app --container-ids f1de335b4eeaf --kubeconfig ~/.kube/config --namespace default'']\<rparr>"

definition container_DuplicateActionSpec :: "help_text \<Rightarrow> help_text" where
  "container_DuplicateActionSpec h = h\<lparr>ht_Example := text_lines
     [''# Specify the network card eth0 and repeat the packet by 10%'',
      ''blade create k8s container-network duplicate --percent=10 --interface=eth0 --names nginx-app --container-ids f1de335b4eeaf --kubeconfig ~/.kube/config --namespace default'']\<rparr>"

definition container_CorruptActionSpec :: "help_text \<Rightarrow> help_text" where
  "container_CorruptActionSpec h = h\<lparr>ht_Example := text_lines
     [''# Access to the specified IP request packet is corrupted, 80% of the time'',
      ''blade create k8s container-network corrupt --percent 80 --destination-ip 180.101.49.12 --interface eth0 --names nginx-app --container-ids f1de335b4eeaf --kubeconfig ~/.kube/config --namespace default'']\<rparr>"

definition container_ReorderActionSpec :: "help_text \<Rightarrow> help_text" where
  "container_ReorderActionSpec h = h\<lparr>ht_Example := text_lines
     [''# Access the specified IP request packet disorder'',
      ''blade create k8s container-network reorder --correlation 80 --percent 50 --gap 2 --time 500 --interface eth0 --destination-ip 180.101.49.12 --names nginx-app --container-ids f1de335b4eeaf --kubeconfig ~/.kube/config --namespace default'']\<rparr>"

definition container_OccupyActionSpec :: "help_text \<Rightarrow> help_text" where
  "container_OccupyActionSpec h = h\<lparr>ht_Example := text_lines
     [''#Specify port 8080 occupancy'',
      ''blade create k8s container-network occupy --port 8080 --force --names nginx-app --container-ids f1de335b4eeaf --kubeconfig ~/.kube/config --namespace default'',
      [],
      ''# The machine accesses external 14.215.177.39 machine (ping www.baidu.com) 80 port packet loss rate 100%'',
      ''blade create k8s container-network loss --percent 100 --interface eth0 --remote-port 80 --destination-ip 14.215.177.39 --names nginx-app --container-ids f1de335b4eeaf --kubeconfig ~/.kube/config --namespace default'']\<rparr>"

definition container_ScriptDelayActionCommand :: "help_text \<Rightarrow> help_text" where
  "container_ScriptDelayActionCommand h = h\<lparr>ht_Example := text_lines
     [[],
      ''# Add commands to the script \"start0() { sleep 10.000000 ...}\"'',
      ''blade create k8s container-script delay --time 10000 --file test.sh --function-name start0 --names nginx-app --container-ids f1de335b4eeaf --kubeconfig ~/.kube/config --namespace default'']\<rparr>"

definition container_ScriptExitActionCommand :: "help_text \<Rightarrow> help_text" where
  "container_ScriptExitActionCommand h = h\<lparr>ht_Example := text_lines
     [[],
      ''# Add commands to the script \"start0() { echo this-is-error-message; exit 1; ... }\"'',
      ''blade create k8s container-script exit --exit-code 1 --exit-message this-is-error-message --file test.sh --function-name start0 --names nginx-app --container-ids f1de335b4eeaf --kubeconfig ~/.kube/config --namespace default'']\<rparr>"

definition container_RemoveActionCommand :: "help_text \<Rightarrow> help_text" where
  "container_RemoveActionCommand h = h\<lparr>ht_Example := text_lines
     [[],
      ''# Remove container in pod'',
      ''blade create k8s container-container remove --names cart-redis-77 --container-names cart-redis --namespace default --kubeconfig ~/.kube/config'']\<rparr>"

definition container_default_help :: "string \<Rightarrow> string \<Rightarrow> help_text \<Rightarrow> help_text" where
  "container_default_help name action h =
     (let suffix = '' --names nginx-app --container-ids f1de335b4eeaf --kubeconfig ~/.kube/config --namespace default'';
          e1 = replace_all (''blade create '' @ name @ '' '' @ action)
            (''blade create k8s container-'' @ name @ '' '' @ action @ suffix) (ht_Example h);
          e2 = replace_all (''blade c '' @ name @ '' '' @ action)
            (''blade c k8s container-'' @ name @ '' '' @ action @ suffix) e1;
          e3 = replace_all (''blade create docker '' @ name @ '' '' @ action)
            (''blade create k8s container-'' @ name @ '' '' @ action @ suffix) e2
      in h\<lparr>ht_Example := e3\<rparr>)"

definition container_action_help :: "string \<Rightarrow> string \<Rightarrow> action_type \<Rightarrow> help_text \<Rightarrow> help_text" where
  "container_action_help name action ty h =
     (case ty of
        KillProcessActionCommandSpec \<Rightarrow> container_KillProcessActionCommandSpec h
      | StopProcessActionCommandSpec \<Rightarrow> container_StopProcessActionCommandSpec h
      | FullLoadActionCommand \<Rightarrow> container_FullLoadActionCommand h
      | FillActionSpec \<Rightarrow> container_FillActionSpec h
      | BurnActionSpec \<Rightarrow> container_BurnActionSpec h
      | MemLoadActionCommand \<Rightarrow> container_MemLoadActionCommand h
      | FileAppendActionSpec \<Rightarrow> container_FileAppendActionSpec h
      | FileAddActionSpec \<Rightarrow> container_FileAddActionSpec h
      | FileChmodActionSpec \<Rightarrow> container_FileChmodActionSpec h
      | FileDeleteActionSpec \<Rightarrow> container_FileDeleteActionSpec h
      | FileMoveActionSpec \<Rightarrow> container_FileMoveActionSpec h
      | DelayActionSpec \<Rightarrow> container_DelayActionSpec h
      | DropActionSpec \<Rightarrow> container_DropActionSpec h
      | DnsActionSpec \<Rightarrow> container_DnsActionSpec h
      | LossActionSpec \<Rightarrow> container_LossActionSpec h
      | DuplicateActionSpec \<Rightarrow> container_DuplicateActionSpec h
      | CorruptActionSpec \<Rightarrow> container_CorruptActionSpec h
      | ReorderActionSpec \<Rightarrow> container_ReorderActionSpec h
      | OccupyActionSpec \<Rightarrow> container_OccupyActionSpec h
      | ScriptDelayActionCommand \<Rightarrow> container_ScriptDelayActionCommand h
      | ScriptExitActionCommand \<Rightarrow> container_ScriptExitActionCommand h
      | RemoveActionCommand \<Rightarrow> container_RemoveActionCommand h
      | _ \<Rightarrow> container_default_help name action h)"

definition container_addActionExamples :: "(string \<times> action_spec list) list \<Rightarrow> (string \<times> action_spec list) list" where
  "container_addActionExamples = map (\<lambda>(name, actions). (name, map (\<lambda>a.
     a\<lparr>as_Help := container_action_help name (as_Name a) (as_Type a) (as_Help a)\<rparr>) actions))"

subsection \<open>Other actions\<close>

text \<open>
  An example that is one command of the basic tool comes out as the command of the scope, with the flags that
  pick its resources put before its own. The replacements after the first one find nothing in the new text.
\<close>

fun no_bl :: "string \<Rightarrow> bool" where
  "no_bl (x # y # s) \<longleftrightarrow> \<not> (x = CHR ''b'' \<and> y = CHR ''l'') \<and> no_bl (y # s)"
| "no_bl s \<longleftrightarrow> True"

lemma no_bl_append: "CHR ''b'' \<notin> set u \<Longrightarrow> no_bl (u @ v) \<longleftrightarrow> no_bl v"
proof (induction u)
  case (Cons x u)
  then show ?case by (cases "u @ v") auto
qed simp

lemma no_bl_Cons: "x \<noteq> CHR ''b'' \<Longrightarrow> no_bl (x # v) \<longleftrightarrow> no_bl v"
  by (cases v) auto

lemma no_bl_free: "CHR ''b'' \<notin> set u \<Longrightarrow> no_bl u"
  using no_bl_append [of u "[]"] by simp

lemma replace_all_no_bl: "no_bl s \<Longrightarrow> replace_all (CHR ''b'' # CHR ''l'' # old) new s = s"
  by (induction s rule: no_bl.induct) (auto simp: replace_all.simps(2) has_prefix_def)

lemma replace_all_command:
  assumes "CHR ''b'' \<notin> set (name @ action @ rest)"
  shows "replace_all (''blade create '' @ name @ '' '' @ action) new (''blade create '' @ name @ '' '' @ action @ rest) = new @ rest"
  using replace_all_prefix [of "''blade create '' @ name @ '' '' @ action" new rest] assms
    replace_all_id [of "CHR ''b''" rest] by simp

text \<open>What starts as a command of the cluster is not one of the host.\<close>

lemma replace_all_cluster:
  assumes "no_bl s"
  shows "replace_all (''blade c '' @ old) new (''blade create k8s '' @ s) = ''blade create k8s '' @ s"
    "replace_all (''blade create docker '' @ old) new (''blade create k8s '' @ s) = ''blade create k8s '' @ s"
proof -
  have "no_bl (''lade create k8s '' @ s)" using assms by (subst no_bl_append) simp_all
  then have "replace_all (CHR ''b'' # CHR ''l'' # x) new (''lade create k8s '' @ s) = ''lade create k8s '' @ s" for x
    by (rule replace_all_no_bl)
  then show "replace_all (''blade c '' @ old) new (''blade create k8s '' @ s) = ''blade create k8s '' @ s"
    "replace_all (''blade create docker '' @ old) new (''blade create k8s '' @ s) = ''blade create k8s '' @ s"
    by (simp_all add: replace_all.simps(2) has_prefix_def)
qed

lemma node_default_command:
  assumes "CHR ''b'' \<notin> set (name @ action @ rest)"
  shows "ht_Example (node_default_help name action (h\<lparr>ht_Example := ''blade create '' @ name @ '' '' @ action @ rest\<rparr>)) =
    ''blade create k8s node-'' @ name @ '' '' @ action @
      '' --names nginx-app --channel ssh --ssh-host 192.168.1.100 --ssh-user root'' @ rest"
proof -
  let ?s = "''node-'' @ name @ '' '' @ action @
    '' --names nginx-app --channel ssh --ssh-host 192.168.1.100 --ssh-user root'' @ rest"
  have "no_bl ?s" using assms by (simp add: no_bl_append no_bl_Cons no_bl_free)
  then show ?thesis
    using replace_all_command [OF assms] replace_all_cluster [of ?s]
    by (simp add: node_default_help_def Let_def)
qed

lemma pod_default_command:
  assumes "CHR ''b'' \<notin> set (name @ action @ rest)"
  shows "ht_Example (pod_default_help name action (h\<lparr>ht_Example := ''blade create '' @ name @ '' '' @ action @ rest\<rparr>)) =
    ''blade create k8s pod-'' @ name @ '' '' @ action @
      '' --names nginx-app --kubeconfig ~/.kube/config --namespace default'' @ rest"
proof -
  let ?s = "''pod-'' @ name @ '' '' @ action @
    '' --names nginx-app --kubeconfig ~/.kube/config --namespace default'' @ rest"
  have "no_bl ?s" using assms by (simp add: no_bl_append no_bl_Cons no_bl_free)
  then show ?thesis
    using replace_all_command [OF assms] replace_all_cluster [of ?s]
    by (simp add: pod_default_help_def Let_def)
qed

lemma container_default_command:
  assumes "CHR ''b'' \<notin> set (name @ action @ rest)"
  shows "ht_Example (container_default_help name action (h\<lparr>ht_Example := ''blade create '' @ name @ '' '' @ action @ rest\<rparr>)) =
    ''blade create k8s container-'' @ name @ '' '' @ action @
      '' --names nginx-app --container-ids f1de335b4eeaf --kubeconfig ~/.kube/config --namespace default'' @ rest"
proof -
  let ?s = "''container-'' @ name @ '' '' @ action @
    '' --names nginx-app --container-ids f1de335b4eeaf --kubeconfig ~/.kube/config --namespace default'' @ rest"
  have "no_bl ?s" using assms by (simp add: no_bl_append no_bl_Cons no_bl_free)
  then show ?thesis
    using replace_all_command [OF assms] replace_all_cluster [of ?s]
    by (simp add: container_default_help_def Let_def)
qed

subsection \<open>A stray digit\<close>

text \<open>
  One command of the disk scenarios of pods and of containers addresses a namespace \<open>default8\<close>, unlike all the
  others.
\<close>

definition command_lines :: "string \<Rightarrow> string list" where
  "command_lines t = filter (\<lambda>l. has_prefix l ''blade c'') (go_split (CHR 0x0A) t)"

lemma burn_example_stray:
  "''--namespace default8'' \<in> (\<lambda>l. drop (length l - 20) l) ` set (command_lines (ht_Example (pod_BurnActionSpec h)))"
  "''--namespace default8'' \<in> (\<lambda>l. drop (length l - 20) l) ` set (command_lines (ht_Example (container_BurnActionSpec h)))"
  by (cases h, simp only: pod_BurnActionSpec_def help_text.update_convs help_text.select_convs, code_simp,
      cases h, simp only: container_BurnActionSpec_def help_text.update_convs help_text.select_convs, code_simp)

end
