(* ===== verification/Spec2Isabelle.thy ===== *)
theory Spec2Isabelle
  imports Manager Tar Assembly Examples
begin

text \<open>
  A verification development for chaosblade-operator, the Kubernetes operator of ChaosBlade. All paths
  below are under \<open>src/\<close>.

  The program. A user writes a custom resource, a blade (\<open>pkg/apis/chaosblade/v1alpha1/types.go\<close>), that names
  experiments by scope, target and action. The reconciler (\<open>pkg/controller/chaosblade\<close>) takes the blade through
  its phases: it waits for its own finalizer, has each experiment created, stores the statuses, destroys and
  creates again when the spec is edited, and destroys everything before it gives the finalizer up. It does so
  through one executor, the dispatcher (\<open>exec/controller.go\<close>), which chooses a scope controller (\<open>exec/node\<close>,
  \<open>exec/pod\<close>, \<open>exec/container\<close>) by the scope. The scope controller selects resources (\<open>exec/model/filter*.go\<close>),
  puts the metadata of their containers into a context and looks the action up in the registry of its scope
  (\<open>exec/model/model.go\<close>). The action's executor either talks to the API server or to a sidecar itself
  (\<open>exec/pod\<close>: delete, fail, IO), or computes a command line for each target (\<open>exec/model/executor*.go\<close>) and runs
  all of them in a pool of goroutines, in the target container after the blade tool was copied there or in the
  tool pod of its node. The IO action needs a sidecar with a fault-injecting file system (\<open>pkg/hookfs\<close>,
  \<open>cmd/hookfs\<close>), which a webhook (\<open>pkg/webhook\<close>) puts into pods that ask for it. A watcher ends blades whose
  experiments ended by their timeout, and a periodic clean-up releases blades that are stuck.

  Theories and sources.
  \<^item> \<open>Prelude\<close>, \<open>GoStrings\<close>, \<open>GoPath\<close>, \<open>GoFloat\<close>: what the code uses of the Go language and its library. A run
    that may panic is an option (\<open>go\<close>), \<open>None\<close> being the panic; \<open>strings\<close>, \<open>strconv\<close>, \<open>path\<close> and the float64
    arithmetic of percentages and seconds are written out, with rounding to nearest even.
  \<^item> \<open>Types\<close>, \<open>Identifier\<close>: the custom resource, statuses, errors and the context (\<open>types.go\<close>,
    \<open>exec/model/context.go\<close>), and the textual identifier of a target with its parser.
  \<^item> \<open>K8s\<close>, \<open>Client\<close>: the fields of pods and nodes the program reads, the client as a record of functions over
    a world, and \<open>Client.Exec\<close> (\<open>channel/client.go\<close>).
  \<^item> \<open>Flags\<close>, \<open>ResourceCount\<close>, \<open>Selection\<close>: the flags and the registry (\<open>exec/model/model.go\<close>), and how many and
    which pods and nodes are selected (\<open>exec/model/controller.go\<close>, \<open>filter.go\<close>, \<open>filter_pod.go\<close>,
    \<open>exec/node/filter.go\<close>).
  \<^item> \<open>Controllers\<close>, \<open>Dispatch\<close>, \<open>Registry\<close>: create and destroy of the three scopes (\<open>exec/*/controller.go\<close>), the
    dispatcher (\<open>exec/controller.go\<close>), and the operator as it is put together, with the models and executors each
    scope registers (\<open>exec/node/node.go\<close>, \<open>exec/pod/pod.go\<close>, \<open>exec/container/*.go\<close>, \<open>exec/model/osexp.go\<close>).
  \<^item> \<open>Reconcile\<close>, \<open>Cleanup\<close>: the reconciler with its predicates (\<open>controller.go\<close>, \<open>predicate.go\<close>), and the
    clean-up loop.
  \<^item> \<open>Histories\<close>, \<open>Lifecycle\<close>, \<open>System\<close>: what is stored for a blade over time, with the rely of each writer on the
    moves of the others; the abstract life that the reconciler refines when only users interfere; and the
    machine of all writers, reconciler, watchers and clean-up, that the operator as a whole refines.
  \<^item> \<open>Assembly\<close>: the operator as it is put together on one blade. What every single call to the outside keeps,
    each action of each executor keeps, and with it the whole; so the rely of the reconciler on its executor
    holds of the executor of the code.
  \<^item> \<open>Parallelizer\<close>, \<open>Executor\<close>, \<open>Commands\<close>: the pool (\<open>parallelizer.go\<close>), the execution of identifiers
    (\<open>executor_copy.go\<close>, \<open>executor.go\<close>), and the identifiers and commands of both executors (with
    \<open>executor_nsexec.go\<close>).
  \<^item> \<open>Deploy\<close>, \<open>Tar\<close>, \<open>Watcher\<close>, \<open>Daemonset\<close>: the deployment of the tool into a container (\<open>deploy.go\<close>,
    \<open>copy.go\<close>, \<open>download.go\<close>, \<open>executor_copy.go\<close>), the archive it streams (\<open>copy.go\<close>), the watcher of a timeout
    (\<open>executor.go\<close>), and the daemon set of the tool (\<open>daemonset.go\<close>).
  \<^item> \<open>PodActions\<close>, \<open>HookFs\<close>, \<open>HookServer\<close>, \<open>Mutator\<close>: the executors of delete, fail and IO (\<open>exec/pod\<close>), the
    fault table with its server, client and hooks (\<open>pkg/hookfs\<close>), the process of the sidecar
    (\<open>cmd/hookfs/main.go\<close>), and the webhook (\<open>pkg/webhook/pod/mutator.go\<close>).
  \<^item> \<open>Examples\<close>: the descriptions and examples that the scopes give to their actions (\<open>addActionExamples\<close>).
  \<^item> \<open>Version\<close>, \<open>Manager\<close>: version, product and settings (\<open>version\<close>, \<open>pkg/runtime\<close>) and the start of the
    operator (\<open>cmd/manager/main.go\<close>).

  State. The world is a type parameter \<open>'w\<close> (the API server, the kubelets, the network, the file systems); each
  call of a client returns the world after it, and the properties assume of it what is documented, as a named
  predicate: \<open>server_contract\<close> (optimistic locking and finalizers), \<open>quiet_server\<close>, \<open>spec_contract\<close> and
  \<open>pkgs_contract\<close> (the spec library), \<open>label_contract\<close>, \<open>delivers_to\<close>, \<open>shows_and_clears\<close>, \<open>keeps_sets\<close>
  (a name that is taken stays with the daemon set that has it), \<open>container_laws\<close> (what the commands that check, make,
  unpack and fetch files do, for the files \<open>img\<close> of the operator's image), \<open>create_answers\<close> (a created
  experiment answers with its uid),
  \<open>system_contract\<close> (the server for all writers at once), \<open>assembled_contract\<close> (the same of the calls alone, with
  \<open>kube_rely\<close> and \<open>net_rely\<close>), \<open>settled\<close>. Each property with such a premise has a witness in which the parameter is a concrete function. The
  variables of the program that outlive a call are in the model: the cache of tool pods is the field \<open>wd_Names\<close>
  of the world of theory \<open>Commands\<close>, the fault table is the state of the server in \<open>HookFs\<close>, the statuses that
  the goroutines share are the record the pool works on.
\<close>

text \<open>
  What the lemmas show.
  \<^item> Blades: the history of a stored object under stale reads, interfering users and a lossy server is one of
    the abstract life cycle; a live blade carries the finalizer; create is called only on armed, undeleted
    blades; Destroyed means that the executor was asked to destroy each experiment and answered with
    successes, when the statuses match the experiments; deletions complete; an edited
    spec has its old experiments destroyed; blades that are stuck or whose experiments ended by themselves
    vanish. With the watchers, the clean-up and the executors of the code in the picture, each stored state still
    follows by a move of one of the writers, and a live blade is guarded unless before its creation one of its
    name was deleted and in phase Destroying; the clean-up frees no name before a listed blade of it is overdue. The
    exceptions found are stated as theorems, too: a deletion with other statuses than experiments destroys
    nothing, two quick edits panic, a watcher of old statuses drops the blade of new ones, and the clean-up
    takes the finalizers of a blade that only shares the name of the overdue one.
  \<^item> Experiments: what is selected, that each target is reported on exactly once or the experiment refused, under
    every schedule of the goroutines, that no interleaving goes on for ever and all goroutines leave, when its
    result is a success, that commands run in
    the tool pod of the target's own node, that destroy reaches the targets that were created, and which executor
    the assembled operator runs. The exceptions: a lost failure, statuses in another order than the targets,
    and the destroy of a docker network experiment, which may drop a container without a report.
  \<^item> Deployment: a success leaves all files in the container that the image of the operator has (in copy mode; a
    missing source is a success as well) or that come as they are (in download mode), touches no other container,
    and the archive unpacks to the tree it was made of, in the directory the command names.
  \<^item> Faults: the answer of every hook after any requests (recoveries leave the faults of open and chmod, the hook
    of a release drops its error), the IO action's fault strikes below its path, the
    process the webhook starts is the one the IO action talks to, with the paths the application uses.
  \<^item> Numbers: the percentage of a float64 product is the nearest count, the timeout wraps around beyond
    9223372036 seconds, ports, delays and error numbers are kept at 32 bits.

  Interfaces. The locale \<open>scope_controller\<close> is what the dispatcher relies on of the three scopes, \<open>deploy_mode\<close>
  what the deployment relies on of the copy and the download mode, \<open>work_task\<close> what the pool needs of its work,
  \<open>target_loop\<close>, \<open>total_loop\<close> and \<open>guarded_loop\<close> what the loops over targets share, \<open>fault_store\<close> the contract
  of the fault table, \<open>guarded_history\<close> what the writers of a blade need of the moves of the others and
  \<open>operated_history\<close> what the reconciler needs besides (for the machine of \<open>Lifecycle\<close> and the one of \<open>System\<close>),
  \<open>finalizer_set\<close> the one of the list of finalizers, \<open>identifier_codec\<close> the one of printing
  and parsing identifiers. Each is interpreted on the definitions of the code.

  Bounds and fuel. A piece of work of the pool takes at most four actions (\<open>execCommandInPod\<close>), which bounds every
  run. The pool has no infinite interleaving, and \<open>ParallelizeExec\<close> gives a result only when all goroutines have
  left: its fuel is enough for that under every schedule, so that only a panic gives none. The archive walks down a file system that
  need not be finite, so it takes a bound on the depth; any bound not below the depth of the tree gives the result.
  The watcher and the clean-up take the number of their ticks; their properties name how many are needed. All
  other functions are total.

  Time. The goroutines of one execution interleave at the level of atomic actions. Reconciliations of one blade do
  not run at the same time (the work queue of controller-runtime sees to it); what others do in between is in the
  interference that \<open>server_contract\<close> allows. It is users only in \<open>Lifecycle\<close>, whose properties speak of blades that
  the watcher and the clean-up leave alone (its moves carry the answers of the executor), and everybody in \<open>System\<close>, whose contract lets all parts act between
  any two calls of each.

  Not modelled.
  \<^item> Texts: the titles of the models of the scopes, and log messages.
  \<^item> Transport: making the clients and the SPDY stream (\<open>channel/client.go\<close>), listening on ports, and a stream that
    ends before the archive does. An error while the archive is made is only logged by the code; the model has
    the archive and the error side by side and does not connect them.
  \<^item> Registration: schemes, deep copies and lists of functions (\<open>pkg/apis\<close>, \<open>pkg/controller\<close>), and the parser of
    command lines of the operator (pflag); the flags of the sidecar are parsed in the model.
  \<^item> The conversion and the writing of the specification file (\<open>build/spec.go\<close>); which models it gets is in
    \<open>Registry\<close>.
  \<^item> Concurrent reconciliations of different blades that write the cache of tool pods at once.
\<close>

end
